(* ===== verification/Prelude.thy ===== *)
theory Prelude
  imports Main "HOL-Library.Word" "HOL-Library.AList" "HOL-Library.State_Monad"
begin

text \<open>
  Shared material of the development: Go's maps, the byte-string functions of Go's standard
  library that the operator calls, signed 64-bit arithmetic, HTTP and JSON values, and the
  call log through which every model of code that talks to the Kubernetes API is written.
  Go strings are byte strings, so \<^typ>\<open>string\<close> (a list of 8-bit characters) is used as it is.
\<close>

named_theorems gomap_simps
  \<comment> \<open>look-up laws of Go maps\<close>
named_theorems log_rules
  \<comment> \<open>composition rules for assertions over call logs\<close>

section \<open>Go maps\<close>

text \<open>
  A Go map is an association list without duplicate keys: looking a missing key up gives
  nothing, assignment replaces or adds an entry, \<^verbatim>\<open>delete\<close> removes one, and \<^verbatim>\<open>range\<close> visits
  the entries in some order (here: the order of the list).
\<close>

type_synonym ('k, 'v) gomap = "('k \<times> 'v) list"

abbreviation mget :: "('k, 'v) gomap \<Rightarrow> 'k \<Rightarrow> 'v option" where
  "mget m k \<equiv> map_of m k"

definition mput :: "'k \<Rightarrow> 'v \<Rightarrow> ('k, 'v) gomap \<Rightarrow> ('k, 'v) gomap" where
  "mput k v m = AList.update k v m"

definition mdel :: "'k \<Rightarrow> ('k, 'v) gomap \<Rightarrow> ('k, 'v) gomap" where
  "mdel k m = AList.delete k m"

definition mget_zero :: "'v \<Rightarrow> ('k, 'v) gomap \<Rightarrow> 'k \<Rightarrow> 'v" where
  "mget_zero z m k = (case mget m k of None \<Rightarrow> z | Some v \<Rightarrow> v)"

lemma mget_mput [simp, gomap_simps]: "mget (mput k v m) k' = (if k' = k then Some v else mget m k')"
  by (simp add: mput_def update_conv)

lemma mget_mdel [simp, gomap_simps]: "mget (mdel k m) k' = (if k' = k then None else mget m k')"
  by (simp add: mdel_def delete_conv)

lemma mget_zero_mput [simp, gomap_simps]:
  "mget_zero z (mput k v m) k' = (if k' = k then v else mget_zero z m k')"
  by (simp add: mget_zero_def)

lemma mget_zero_mdel [simp, gomap_simps]:
  "mget_zero z (mdel k m) k' = (if k' = k then z else mget_zero z m k')"
  by (simp add: mget_zero_def)

lemma mget_zero_empty [simp]: "mget_zero z [] k = z"
  by (simp add: mget_zero_def)

lemma mget_in_keys: "mget m k = Some v \<Longrightarrow> k \<in> fst ` set m"
  by (metis domI dom_map_of_conv_image_fst)

lemma mget_not_in_keys: "k \<notin> fst ` set m \<Longrightarrow> mget m k = None"
  by (simp add: map_of_eq_None_iff)

lemma mput_Nil [simp]: "mput k v [] = [(k, v)]"
  by (simp add: mput_def)

lemma mput_Cons [simp]:
  "mput k v ((k', v') # m) = (if k' = k then (k, v) # m else (k', v') # mput k v m)"
  by (simp add: mput_def)

lemma mdel_Nil [simp]: "mdel k [] = []"
  by (simp add: mdel_def)

lemma mdel_Cons [simp]:
  "mdel k ((k', v') # m) = (if k' = k then mdel k m else (k', v') # mdel k m)"
  by (simp add: mdel_def)

locale map_interface =
  fixes get :: "'m \<Rightarrow> 'k \<Rightarrow> 'v option"
    and put :: "'k \<Rightarrow> 'v \<Rightarrow> 'm \<Rightarrow> 'm"
    and del :: "'k \<Rightarrow> 'm \<Rightarrow> 'm"
  assumes get_put: "get (put k v m) k' = (if k' = k then Some v else get m k')"
    and get_del: "get (del k m) k' = (if k' = k then None else get m k')"
begin

lemma del_after_put: "get (del k (put k v m)) = get (del k m)"
  by (rule ext) (simp add: get_put get_del)

lemma put_put_same: "get (put k v (put k w m)) = get (put k v m)"
  by (rule ext) (simp add: get_put)

lemma del_absent: "get m k = None \<Longrightarrow> get (del k m) = get m"
  by (rule ext) (simp add: get_del)

end

interpretation go_map: map_interface "map_of" mput mdel
  by unfold_locales auto

section \<open>Lists\<close>

lemma nth_update_in: "j < length xs \<Longrightarrow> xs[i := x] ! j = (if i = j then x else xs ! j)"
  by (cases "i = j") auto

lemma split_snoc:
  "l @ [e] = l1 @ x # l2 \<longleftrightarrow> (l2 = [] \<and> l1 = l \<and> x = e) \<or> (\<exists>l3. l2 = l3 @ [e] \<and> l = l1 @ x # l3)"
  by (cases l2 rule: rev_cases) auto

lemma fold_inv: "(\<And>x s. x \<in> set xs \<Longrightarrow> P s \<Longrightarrow> P (f x s)) \<Longrightarrow> P s \<Longrightarrow> P (fold f xs s)"
  by (induction xs arbitrary: s) auto

section \<open>Go strings\<close>

fun HasPrefix :: "string \<Rightarrow> string \<Rightarrow> bool" where
  "HasPrefix s [] = True"
| "HasPrefix [] (p # ps) = False"
| "HasPrefix (c # cs) (p # ps) = (c = p \<and> HasPrefix cs ps)"

definition HasSuffix :: "string \<Rightarrow> string \<Rightarrow> bool" where
  "HasSuffix s p = HasPrefix (rev s) (rev p)"

definition TrimPrefix :: "string \<Rightarrow> string \<Rightarrow> string" where
  "TrimPrefix s p = (if HasPrefix s p then drop (length p) s else s)"

definition TrimSuffix :: "string \<Rightarrow> string \<Rightarrow> string" where
  "TrimSuffix s p = (if HasSuffix s p then take (length s - length p) s else s)"

text \<open>\<^verbatim>\<open>strings.Split\<close> with a one-byte separator; the result is never empty.\<close>

fun split_on :: "char \<Rightarrow> string \<Rightarrow> string list" where
  "split_on sep [] = [[]]"
| "split_on sep (c # cs) =
     (if c = sep then [] # split_on sep cs
      else (case split_on sep cs of [] \<Rightarrow> [[c]] | w # ws \<Rightarrow> (c # w) # ws))"

fun join_with :: "char \<Rightarrow> string list \<Rightarrow> string" where
  "join_with sep [] = []"
| "join_with sep [w] = w"
| "join_with sep (w # v # ws) = w @ sep # join_with sep (v # ws)"

definition trim_right_byte :: "char \<Rightarrow> string \<Rightarrow> string" where
  "trim_right_byte c s = rev (dropWhile (\<lambda>x. x = c) (rev s))"

definition trim_byte :: "char \<Rightarrow> string \<Rightarrow> string" where
  "trim_byte c s = trim_right_byte c (dropWhile (\<lambda>x. x = c) s)"

definition ContainsAny :: "string \<Rightarrow> string \<Rightarrow> bool" where
  "ContainsAny s chars = list_ex (\<lambda>c. c \<in> set chars) s"

fun Contains :: "string \<Rightarrow> string \<Rightarrow> bool" where
  "Contains [] needle = (needle = [])"
| "Contains (c # cs) needle = (HasPrefix (c # cs) needle \<or> Contains cs needle)"

text \<open>
  The text behind the last occurrence of a byte, and whether there is one
  (\<^verbatim>\<open>strings.LastIndex\<close> followed by slicing).
\<close>

definition after_last :: "char \<Rightarrow> string \<Rightarrow> string option" where
  "after_last c s = (if c \<in> set s then Some (rev (takeWhile (\<lambda>x. x \<noteq> c) (rev s))) else None)"

lemma HasPrefix_append [simp]: "HasPrefix (p @ s) p"
  by (induction p) auto

lemma HasPrefix_iff: "HasPrefix s p \<longleftrightarrow> (\<exists>t. s = p @ t)"
  by (induction s p rule: HasPrefix.induct) auto

lemma HasPrefix_refl [simp]: "HasPrefix s s"
  using HasPrefix_append [of s "[]"] by simp

lemma TrimPrefix_append [simp]: "TrimPrefix (p @ s) p = s"
  by (simp add: TrimPrefix_def)

lemma split_on_nonempty [simp]: "split_on sep s \<noteq> []"
  by (induction s) (auto split: list.splits)

lemma split_on_no_sep: "w \<in> set (split_on sep s) \<Longrightarrow> sep \<notin> set w"
proof (induction s arbitrary: w)
  case Nil
  then show ?case by simp
next
  case (Cons c cs)
  then show ?case
    by (cases "split_on sep cs") (auto split: if_splits)
qed

lemma split_on_free: "sep \<notin> set s \<Longrightarrow> split_on sep s = [s]"
  by (induction s) auto

lemma split_on_append_sep: "sep \<notin> set w \<Longrightarrow> split_on sep (w @ sep # s) = w # split_on sep s"
  by (induction w) auto

lemma length_split_on: "length (split_on sep s) = Suc (count_list s sep)"
  by (induction s) (auto split: list.splits)

lemma set_join_with: "set (join_with sep ws) \<subseteq> insert sep (\<Union> (set ` set ws))"
  by (induction sep ws rule: join_with.induct) auto

lemma join_split: "join_with sep (split_on sep s) = s"
proof (induction s)
  case Nil
  then show ?case by simp
next
  case (Cons c cs)
  obtain w ws where ws: "split_on sep cs = w # ws"
    by (cases "split_on sep cs") auto
  with Cons show ?case
    by (cases ws) auto
qed

lemma split_join:
  "ws \<noteq> [] \<Longrightarrow> (\<And>w. w \<in> set ws \<Longrightarrow> sep \<notin> set w) \<Longrightarrow> split_on sep (join_with sep ws) = ws"
proof (induction ws rule: join_with.induct)
  case (1 sep)
  then show ?case by simp
next
  case (2 sep w)
  then show ?case by (simp add: split_on_free)
next
  case (3 sep w v ws)
  then show ?case by (simp add: split_on_append_sep)
qed

text \<open>
  \<^verbatim>\<open>strings.TrimSpace\<close> removes the code points of Unicode's White\_Space property, given here by
  their UTF-8 encodings.
\<close>

definition space_encodings :: "string list" where
  "space_encodings = map (map char_of)
    ([[9], [10], [11], [12], [13], [32], [0xC2, 0x85], [0xC2, 0xA0], [0xE1, 0x9A, 0x80],
      [0xE2, 0x80, 0xA8], [0xE2, 0x80, 0xA9], [0xE2, 0x80, 0xAF], [0xE2, 0x81, 0x9F],
      [0xE3, 0x80, 0x80 :: nat]] @ map (\<lambda>b. [0xE2, 0x80, b]) [0x80..<0x8B])"

fun drop_space :: "nat \<Rightarrow> string list \<Rightarrow> string \<Rightarrow> string" where
  "drop_space 0 encs s = s"
| "drop_space (Suc n) encs s =
     (case find (HasPrefix s) encs of
        None \<Rightarrow> s
      | Some e \<Rightarrow> drop_space n encs (drop (length e) s))"

text \<open>Each round removes at least one byte, so as many rounds as bytes are enough.\<close>

definition TrimSpace :: "string \<Rightarrow> string" where
  "TrimSpace s =
     (let t = drop_space (length s) space_encodings s
      in rev (drop_space (length t) (map rev space_encodings) (rev t)))"

text \<open>Visible ASCII characters neither start nor end a space.\<close>

definition visible :: "char \<Rightarrow> bool" where
  "visible c = (let n = of_char c :: nat in 33 \<le> n \<and> n < 127)"

lemma space_encodings_visible:
  "e \<in> set space_encodings \<Longrightarrow> e \<noteq> [] \<and> \<not> visible (hd e) \<and> \<not> visible (last e)"
  by (auto simp: space_encodings_def visible_def)

lemma drop_space_visible:
  assumes "\<And>e. e \<in> set encs \<Longrightarrow> e \<noteq> [] \<and> \<not> visible (hd e)" and "visible c"
  shows "drop_space n encs (c # s) = c # s"
proof -
  have "\<not> HasPrefix (c # s) e" if "e \<in> set encs" for e
    using assms(1) [OF that] assms(2) by (cases e) auto
  then have "find (HasPrefix (c # s)) encs = None"
    by (simp add: find_None_iff)
  then show ?thesis by (cases n) auto
qed


lemma TrimSpace_Nil [simp]: "TrimSpace [] = []"
  by (simp add: TrimSpace_def)

lemma TrimSpace_visible:
  assumes "s \<noteq> []" "visible (hd s)" "visible (last s)"
  shows "TrimSpace s = s"
proof -
  obtain c cs where s: "s = c # cs" using assms(1) by (cases s) auto
  have left: "drop_space (length s) space_encodings s = s"
    unfolding s by (rule drop_space_visible) (use s assms space_encodings_visible in auto)
  obtain d ds where r: "rev s = d # ds" using assms(1) by (cases "rev s") auto
  then have "visible d" using assms by (metis hd_rev list.sel(1))
  then have "drop_space (length s) (map rev space_encodings) (rev s) = rev s"
    unfolding r by (rule drop_space_visible [rotated])
      (auto dest!: space_encodings_visible simp: hd_rev)
  then show ?thesis by (simp add: TrimSpace_def left)
qed

lemma drop_space_suffix: "\<exists>p. s = p @ drop_space n encs s"
proof (induction n encs s rule: drop_space.induct)
  case (1 encs s)
  show ?case by simp
next
  case (2 n encs s)
  show ?case
  proof (cases "find (HasPrefix s) encs")
    case None
    then show ?thesis by simp
  next
    case (Some e)
    with "2.IH" obtain p where p: "drop (length e) s = p @ drop_space n encs (drop (length e) s)"
      by blast
    have "s = (take (length e) s @ p) @ drop_space n encs (drop (length e) s)"
      by (metis append.assoc append_take_drop_id p)
    then have "\<exists>q. s = q @ drop_space n encs (drop (length e) s)" ..
    with Some show ?thesis by simp
  qed
qed

lemma drop_space_length: "length (drop_space n encs s) \<le> length s"
  using drop_space_suffix [of s n encs] by (metis length_append le_add2)

lemma TrimSpace_infix: "\<exists>p q. s = p @ TrimSpace s @ q"
proof -
  let ?t = "drop_space (length s) space_encodings s"
  let ?u = "drop_space (length ?t) (map rev space_encodings) (rev ?t)"
  obtain p where p: "s = p @ ?t" using drop_space_suffix by blast
  obtain q where "rev ?t = q @ ?u" using drop_space_suffix by blast
  then have "?t = rev ?u @ rev q" by (metis rev_append rev_rev_ident)
  with p have "s = p @ rev ?u @ rev q" by simp
  then show ?thesis by (auto simp: TrimSpace_def Let_def)
qed

lemma TrimSpace_length: "length (TrimSpace s) \<le> length s"
proof -
  obtain p q where "s = p @ TrimSpace s @ q" using TrimSpace_infix by blast
  then have "length s = length (p @ TrimSpace s @ q)" by simp
  then show ?thesis by simp
qed

text \<open>
  ASCII lower case, with the three non-ASCII code points whose lower or folded case is an
  ASCII letter: the Kelvin sign, the long s and the capital I with a dot above.
\<close>

definition ascii_lower :: "char \<Rightarrow> char" where
  "ascii_lower c =
     (let n = of_char c :: nat in if 65 \<le> n \<and> n \<le> 90 then char_of (n + 32) else c)"

fun fold_bytes :: "(nat list \<times> char) list \<Rightarrow> string \<Rightarrow> string" where
  "fold_bytes tab [] = []"
| "fold_bytes tab (a # b # c # cs) =
     (case map_of tab (map of_char [a, b, c]) of
        Some l \<Rightarrow> l # fold_bytes tab cs
      | None \<Rightarrow>
         (case map_of tab (map of_char [a, b]) of
            Some l \<Rightarrow> l # fold_bytes tab (c # cs)
          | None \<Rightarrow> ascii_lower a # fold_bytes tab (b # c # cs)))"
| "fold_bytes tab [a, b] =
     (case map_of tab (map of_char [a, b]) of
        Some l \<Rightarrow> [l]
      | None \<Rightarrow> [ascii_lower a, ascii_lower b])"
| "fold_bytes tab [a] = [ascii_lower a]"

definition EqualFold :: "string \<Rightarrow> string \<Rightarrow> bool" where
  "EqualFold s t =
     (let tab = [([0xE2, 0x84, 0xAA], CHR ''k''), ([0xC5, 0xBF], CHR ''s'')]
      in fold_bytes tab s = fold_bytes tab t)"

definition ToLower :: "string \<Rightarrow> string" where
  "ToLower s = fold_bytes [([0xE2, 0x84, 0xAA], CHR ''k''), ([0xC4, 0xB0], CHR ''i'')] s"

section \<open>Signed 64-bit integers\<close>

definition int64 :: "int \<Rightarrow> int" where
  "int64 n = (n + 2 ^ 63) mod 2 ^ 64 - 2 ^ 63"

lemma int64_id: "- (2 ^ 63) \<le> n \<Longrightarrow> n < 2 ^ 63 \<Longrightarrow> int64 n = n"
  by (simp add: int64_def)

lemma int64_bounds: "- (2 ^ 63) \<le> int64 n" "int64 n < 2 ^ 63"
proof -
  have "0 \<le> (n + 2 ^ 63) mod 2 ^ 64" "(n + 2 ^ 63) mod 2 ^ 64 < (2 ^ 64 :: int)"
    by simp_all
  then show "- (2 ^ 63) \<le> int64 n" "int64 n < 2 ^ 63"
    by (simp_all add: int64_def)
qed

text \<open>\<^verbatim>\<open>strconv.Atoi\<close>: an optional sign and at least one digit, in the range of an \<^verbatim>\<open>int\<close>.\<close>

definition digit_value :: "char \<Rightarrow> nat option" where
  "digit_value c =
     (let n = of_char c :: nat in if 48 \<le> n \<and> n \<le> 57 then Some (n - 48) else None)"

fun digits_value :: "nat \<Rightarrow> string \<Rightarrow> nat option" where
  "digits_value acc [] = Some acc"
| "digits_value acc (c # cs) =
     (case digit_value c of None \<Rightarrow> None | Some d \<Rightarrow> digits_value (acc * 10 + d) cs)"

definition Atoi :: "string \<Rightarrow> int option" where
  "Atoi s =
     (let (neg, ds) = (case s of
          [] \<Rightarrow> (False, [])
        | c # cs \<Rightarrow> (if c = CHR ''-'' then (True, cs) else if c = CHR ''+'' then (False, cs)
                     else (False, s)))
      in if ds = [] then None
         else (case digits_value 0 ds of
           None \<Rightarrow> None
         | Some n \<Rightarrow>
            (let v = (if neg then - int n else int n)
             in if - (2 ^ 63) \<le> v \<and> v < 2 ^ 63 then Some v else None)))"

lemma Atoi_range: "Atoi s = Some v \<Longrightarrow> - (2 ^ 63) \<le> v \<and> v < 2 ^ 63"
  by (auto simp: Atoi_def Let_def split: if_splits option.splits prod.splits)

text \<open>\<^verbatim>\<open>strconv.Itoa\<close>.\<close>

fun decimal :: "nat \<Rightarrow> string" where
  "decimal n = (if n < 10 then [char_of (48 + n)] else decimal (n div 10) @ [char_of (48 + n mod 10)])"

declare decimal.simps [simp del]

definition Itoa :: "int \<Rightarrow> string" where
  "Itoa n = (if n < 0 then CHR ''-'' # decimal (nat (- n)) else decimal (nat n))"

lemma digits_value_digits: "digits_value acc s = Some n \<Longrightarrow> c \<in> set s \<Longrightarrow> digit_value c \<noteq> None"
  by (induction acc s rule: digits_value.induct) (auto split: option.splits)

lemma digit_value_char [simp]: "d < 10 \<Longrightarrow> digit_value (char_of (48 + d)) = Some d"
  by (simp add: digit_value_def of_char_of)

lemma digits_value_append:
  "digits_value acc (xs @ ys) =
     (case digits_value acc xs of None \<Rightarrow> None | Some v \<Rightarrow> digits_value v ys)"
  by (induction xs arbitrary: acc) (auto split: option.splits)

lemma digits_value_decimal: "digits_value 0 (decimal n) = Some n"
proof (induction n rule: decimal.induct)
  case (1 n)
  show ?case
    by (subst decimal.simps) (use 1 in \<open>auto simp: digits_value_append\<close>)
qed

lemma decimal_nonempty: "decimal n \<noteq> []"
  by (subst decimal.simps) auto

lemma decimal_hd_digit: "digit_value (hd (decimal n)) \<noteq> None"
proof (induction n rule: decimal.induct)
  case (1 n)
  show ?case
    by (subst decimal.simps) (use 1 in \<open>auto simp: decimal_nonempty\<close>)
qed

lemma Atoi_Itoa: "- (2 ^ 63) \<le> n \<Longrightarrow> n < 2 ^ 63 \<Longrightarrow> Atoi (Itoa n) = Some n"
proof -
  assume range: "- (2 ^ 63) \<le> n" "n < 2 ^ 63"
  obtain c cs where d: "decimal (nat n) = c # cs"
    using decimal_nonempty by (cases "decimal (nat n)") auto
  then have "c \<noteq> CHR ''-''" "c \<noteq> CHR ''+''"
    using decimal_hd_digit [of "nat n"] by (auto simp: digit_value_def)
  with range d show ?thesis
    using digits_value_decimal [of "nat n"] digits_value_decimal [of "nat (- n)"]
    by (auto simp: Atoi_def Itoa_def decimal_nonempty)
qed

section \<open>HTTP and JSON values\<close>

datatype json =
    JString string
  | JInt int
  | JBool bool
  | JArray "json list"
  | JObject "(string \<times> json) list"

abbreviation StatusOK :: nat where "StatusOK \<equiv> 200"
abbreviation StatusAccepted :: nat where "StatusAccepted \<equiv> 202"
abbreviation StatusBadRequest :: nat where "StatusBadRequest \<equiv> 400"
abbreviation StatusUnauthorized :: nat where "StatusUnauthorized \<equiv> 401"
abbreviation StatusForbidden :: nat where "StatusForbidden \<equiv> 403"
abbreviation StatusNotFound :: nat where "StatusNotFound \<equiv> 404"
abbreviation StatusConflict :: nat where "StatusConflict \<equiv> 409"
abbreviation StatusGone :: nat where "StatusGone \<equiv> 410"
abbreviation StatusUnprocessableEntity :: nat where "StatusUnprocessableEntity \<equiv> 422"
abbreviation StatusTooManyRequests :: nat where "StatusTooManyRequests \<equiv> 429"
abbreviation StatusInternalServerError :: nat where "StatusInternalServerError \<equiv> 500"
abbreviation StatusBadGateway :: nat where "StatusBadGateway \<equiv> 502"
abbreviation StatusServiceUnavailable :: nat where "StatusServiceUnavailable \<equiv> 503"
abbreviation StatusGatewayTimeout :: nat where "StatusGatewayTimeout \<equiv> 504"

datatype ctx_error = Canceled | DeadlineExceeded

section \<open>Calls to the outside and their log\<close>

text \<open>
  Code that talks to an external service is a state transformer over the log of the calls made
  so far and the answers they got. The service itself is a parameter: a function from the log
  and the next call to the answer, so that it may depend on everything that happened before.
\<close>

type_synonym ('c, 'r) log = "('c \<times> 'r) list"
type_synonym ('c, 'r) service = "('c, 'r) log \<Rightarrow> 'c \<Rightarrow> 'r"

definition call :: "('c, 'r) service \<Rightarrow> 'c \<Rightarrow> (('c, 'r) log, 'r) state" where
  "call env c = State (\<lambda>l. (env l c, l @ [(c, env l c)]))"

text \<open>
  \<open>ensures m P\<close>: from every log, running \<open>m\<close> appends calls so that \<open>P\<close> holds of the log at the
  start, the result and the log at the end.
\<close>

definition ensures :: "('l, 'a) state \<Rightarrow> ('l \<Rightarrow> 'a \<Rightarrow> 'l \<Rightarrow> bool) \<Rightarrow> bool" where
  "ensures m P \<longleftrightarrow> (\<forall>l. P l (fst (run_state m l)) (snd (run_state m l)))"

lemma run_call [simp]: "run_state (call env c) l = (env l c, l @ [(c, env l c)])"
  by (simp add: call_def)

lemma run_bind [simp]:
  "run_state (State_Monad.bind m f) l = (case run_state m l of (x, l') \<Rightarrow> run_state (f x) l')"
  by (simp add: State_Monad.bind_def)

lemma run_return [simp]: "run_state (State_Monad.return x) l = (x, l)"
  by (simp add: State_Monad.return_def)

section \<open>Codecs\<close>

text \<open>An encoding that a decoder undoes on the valid values, and two of them one after the other.\<close>

locale coding =
  fixes encode :: "'a \<Rightarrow> 'b"
    and decode :: "'b \<Rightarrow> 'a option"
    and valid :: "'a \<Rightarrow> bool"
  assumes decode_encode: "valid x \<Longrightarrow> decode (encode x) = Some x"
begin

lemma encode_inj: "valid x \<Longrightarrow> valid y \<Longrightarrow> encode x = encode y \<longleftrightarrow> x = y"
  by (metis decode_encode option.inject)

lemma encode_inj_on: "inj_on encode {x. valid x}"
  by (rule inj_onI) (simp only: mem_Collect_eq encode_inj)

end

locale coding_chain = inner: coding encode decode valid + outer: coding encode' decode' valid'
  for encode :: "'a \<Rightarrow> 'b" and decode valid and encode' :: "'b \<Rightarrow> 'c" and decode' valid' +
  assumes fits: "valid x \<Longrightarrow> valid' (encode x)"

sublocale coding_chain \<subseteq> chain: coding "\<lambda>x. encode' (encode x)" "\<lambda>y. Option.bind (decode' y) decode" valid
  by unfold_locales (simp add: inner.decode_encode outer.decode_encode fits)

interpretation slash_path: coding "join_with (CHR ''/'')" "\<lambda>s. Some (split_on (CHR ''/'') s)"
    "\<lambda>ws. ws \<noteq> [] \<and> list_all (\<lambda>w. CHR ''/'' \<notin> set w) ws"
  by unfold_locales (simp add: split_join list_all_iff)

section \<open>Runs of event systems\<close>

inductive run :: "('s \<Rightarrow> 'e \<Rightarrow> 's \<Rightarrow> bool) \<Rightarrow> 's \<Rightarrow> 'e list \<Rightarrow> 's \<Rightarrow> bool" for step where
  run_Nil: "run step s [] s"
| run_snoc: "run step s es t \<Longrightarrow> step t e u \<Longrightarrow> run step s (es @ [e]) u"

inductive_cases run_NilE: "run step s [] t"

locale event_invariant =
  fixes step :: "'s \<Rightarrow> 'e \<Rightarrow> 's \<Rightarrow> bool"
    and inv :: "'s \<Rightarrow> bool"
  assumes step_inv: "inv s \<Longrightarrow> step s e t \<Longrightarrow> inv t"
begin

lemma run_inv: "run step s es t \<Longrightarrow> inv s \<Longrightarrow> inv t"
  by (induction rule: run.induct) (auto intro: step_inv)

text \<open>A relation between states that every step from a state of the invariant respects.\<close>

lemma run_relates:
  assumes "run step s es t" and "inv s"
    and refl: "R s s"
    and trans: "\<And>u e v. R s u \<Longrightarrow> inv u \<Longrightarrow> e \<in> set es \<Longrightarrow> step u e v \<Longrightarrow> R s v"
  shows "R s t"
  using assms
proof (induction rule: run.induct)
  case (run_Nil s)
  then show ?case by simp
next
  case (run_snoc s es t e u)
  have "R s t"
    by (rule run_snoc.IH) (use run_snoc.prems in auto)
  moreover have "inv t"
    using run_inv [OF run_snoc.hyps(1)] run_snoc.prems(1) .
  ultimately show ?case
    using run_snoc.prems(3) [of t e u] run_snoc.hyps(2) by simp
qed

end

lemma run_Cons: "step s e t \<Longrightarrow> run step t es u \<Longrightarrow> run step s (e # es) u"
proof (rotate_tac, induction rule: run.induct)
  case (run_Nil u)
  then show ?case using run.run_snoc [OF run.run_Nil] by fastforce
next
  case (run_snoc t es u f v)
  then show ?case using run.run_snoc [of step s "e # es" u f v] by simp
qed

text \<open>
  A system that is bound to end: once it is doomed it stays so, each ending event uses up a part of
  what is left, and while something is left an ending event can happen.
\<close>

locale event_progress = event_invariant +
  fixes ends :: "'e \<Rightarrow> bool"
    and left :: "'s \<Rightarrow> nat"
    and doomed :: "'s \<Rightarrow> bool"
  assumes doomed_step: "doomed s \<Longrightarrow> step s e t \<Longrightarrow> doomed t"
    and ends_step: "inv s \<Longrightarrow> step s e t \<Longrightarrow> ends e \<Longrightarrow> left t < left s"
    and progress: "inv s \<Longrightarrow> doomed s \<Longrightarrow> 0 < left s \<Longrightarrow> \<exists>e t. step s e t \<and> ends e"
begin

lemma doomed_run: "run step s es t \<Longrightarrow> doomed s \<Longrightarrow> doomed t"
  by (induction rule: run.induct) (auto intro: doomed_step)

lemma ends_run: "run step s es t \<Longrightarrow> inv s \<Longrightarrow> list_all ends es \<Longrightarrow> length es + left t \<le> left s"
proof (induction rule: run.induct)
  case (run_Nil s)
  then show ?case by simp
next
  case (run_snoc s es t e u)
  then have "left u < left t" using ends_step run_inv by simp
  with run_snoc show ?case by simp
qed

lemma stuck_ended:
  assumes "run step s es t" "inv s" "doomed s" "\<nexists>e u. step t e u \<and> ends e"
  shows "left t = 0"
  using progress [OF run_inv [OF assms(1,2)] doomed_run [OF assms(1,3)]] assms(4) by auto

lemma can_end: "inv s \<Longrightarrow> doomed s \<Longrightarrow> \<exists>es t. run step s es t \<and> list_all ends es \<and> left t = 0"
proof (induction "left s" arbitrary: s rule: less_induct)
  case less
  show ?case
  proof (cases "left s = 0")
    case True
    then show ?thesis using run_Nil [of step s] by fastforce
  next
    case False
    then obtain e t where e: "step s e t" "ends e" using progress [OF less.prems] by auto
    obtain es u where "run step t es u" "list_all ends es" "left u = 0"
      using less.hyps [OF ends_step [OF less.prems(1) e]] step_inv [OF less.prems(1) e(1)] doomed_step [OF less.prems(2) e(1)]
      by blast
    with e run_Cons [of step s e t es u] show ?thesis by (intro exI [of _ "e # es"] exI [of _ u]) simp
  qed
qed

end

end
