(* ===== verification/Control.thy ===== *)
theory Control
  imports Prelude
begin

text \<open>
  The control registry of the Desktop Gateway (\<^verbatim>\<open>internal/desktopgateway/control.go\<close>): the
  exclusive input lease of a desktop, its power quarantine, the takeover of an agent lease by
  the human owner and the draining of the registry at shutdown. Each critical section of the
  code is one function; the interleavings of goroutines are the step relation at the end.
  Pointers are addresses: a controller is an index into the list of controllers allocated so
  far, a power operation and a takeover reservation carry a number of their own. Contexts and
  timers are inputs: what \<^verbatim>\<open>ctx.Err()\<close> answers, and how the wait for a revocation ended.
\<close>

section \<open>Data\<close>

datatype actorKind = actorHuman | actorAgent

datatype control_error =
    errControlBusy
  | errControlBlocked
  | errPowerBusy
  | errPowerRecoveryRequired
  | errRevocationTimed
  | errContext ctx_error

datatype powerOutcome = powerSucceeded | powerRejected | powerUnknown

record controller =
  actor :: actorKind
  generation :: "64 word"
  ctxDone :: bool
  doneClosed :: bool
  ttl :: int
  lastTouch :: int

record powerOperation =
  opRef :: nat
  opAction :: string
  priorBlocked :: bool

record controlRegistry =
  heap :: "controller list"
  active :: "(string, nat) gomap"
  generations :: "(string, 64 word) gomap"
  controlBlocked :: "(string, bool) gomap"
  powerOps :: "(string, powerOperation) gomap"
  takeovers :: "(string, nat) gomap"
  draining :: bool
  nextRef :: nat

abbreviation blocked :: "controlRegistry \<Rightarrow> string \<Rightarrow> bool" where
  "blocked r d \<equiv> mget_zero False (controlBlocked r) d"

abbreviation gen :: "controlRegistry \<Rightarrow> string \<Rightarrow> 64 word" where
  "gen r d \<equiv> mget_zero 0 (generations r) d"

definition newControlRegistry :: controlRegistry where
  "newControlRegistry =
     \<lparr>heap = [], active = [], generations = [], controlBlocked = [], powerOps = [],
      takeovers = [], draining = False, nextRef = 0\<rparr>"

section \<open>Operations\<close>

definition cancel :: "nat \<Rightarrow> controlRegistry \<Rightarrow> controlRegistry" where
  "cancel c r = r\<lparr>heap := (heap r)[c := (heap r ! c)\<lparr>ctxDone := True\<rparr>]\<rparr>"

definition closeDone :: "nat \<Rightarrow> controlRegistry \<Rightarrow> controlRegistry" where
  "closeDone c r = r\<lparr>heap := (heap r)[c := (heap r ! c)\<lparr>doneClosed := True\<rparr>]\<rparr>"

definition grantLocked :: "string \<Rightarrow> actorKind \<Rightarrow> controlRegistry \<Rightarrow> nat \<times> controlRegistry" where
  "grantLocked d a r =
     (let g = gen r d + 1;
          c = length (heap r);
          granted = \<lparr>actor = a, generation = g, ctxDone = False, doneClosed = False,
                     ttl = 0, lastTouch = 0\<rparr>
      in (c, r\<lparr>heap := heap r @ [granted], generations := mput d g (generations r),
               active := mput d c (active r)\<rparr>))"

text \<open>
  The first critical section of \<^verbatim>\<open>acquire\<close> refuses, grants, or reserves the desktop and cancels
  the incumbent, whose end the caller then waits for without the lock.
\<close>

datatype acquire_outcome =
    Refused control_error
  | Granted nat
  | AwaitRevocation nat nat

definition acquireBegin ::
  "ctx_error option \<Rightarrow> string \<Rightarrow> actorKind \<Rightarrow> bool \<Rightarrow> controlRegistry
     \<Rightarrow> acquire_outcome \<times> controlRegistry" where
  "acquireBegin ctxErr d a takeover r =
     (case ctxErr of
        Some e \<Rightarrow> (Refused (errContext e), r)
      | None \<Rightarrow>
          if draining r then (Refused errControlBlocked, r)
          else if blocked r d then (Refused errControlBlocked, r)
          else if mget (takeovers r) d \<noteq> None then (Refused errControlBusy, r)
          else (case mget (active r) d of
             None \<Rightarrow> (case grantLocked d a r of (c, r') \<Rightarrow> (Granted c, r'))
           | Some current \<Rightarrow>
               if \<not> (takeover \<and> a = actorHuman \<and> actor (heap r ! current) = actorAgent)
               then (Refused errControlBusy, r)
               else (AwaitRevocation (nextRef r) current,
                     cancel current
                       (r\<lparr>takeovers := mput d (nextRef r) (takeovers r),
                          nextRef := Suc (nextRef r)\<rparr>))))"

text \<open>
  The second critical section. \<open>waitErr\<close> is what the \<^verbatim>\<open>select\<close> left behind: nothing when the
  incumbent's \<^verbatim>\<open>done\<close> channel closed, the revocation timeout, or the caller's context error.
\<close>

definition acquireResume ::
  "control_error option \<Rightarrow> ctx_error option \<Rightarrow> string \<Rightarrow> actorKind \<Rightarrow> nat \<Rightarrow> controlRegistry
     \<Rightarrow> (control_error + nat) \<times> controlRegistry" where
  "acquireResume waitErr ctxErr d a reservation r =
     (if mget (takeovers r) d \<noteq> Some reservation then (Inl errControlBusy, r)
      else
        let waitErr' = (if waitErr = None then map_option errContext ctxErr else waitErr);
            r' = r\<lparr>takeovers := mdel d (takeovers r)\<rparr>
        in (case waitErr' of
              Some e \<Rightarrow> (Inl e, r')
            | None \<Rightarrow>
                if blocked r d then (Inl errControlBlocked, r')
                else if mget (active r) d \<noteq> None then (Inl errControlBusy, r')
                else (case grantLocked d a r' of (c, r'') \<Rightarrow> (Inr c, r''))))"

text \<open>
  The whole of \<^verbatim>\<open>acquire\<close>: \<open>others\<close> is what the other goroutines do to the registry while the
  caller waits, together with how the wait ended.
\<close>

definition acquire ::
  "ctx_error option \<Rightarrow> (nat \<Rightarrow> controlRegistry \<Rightarrow> control_error option \<times> controlRegistry)
     \<Rightarrow> ctx_error option \<Rightarrow> string \<Rightarrow> actorKind \<Rightarrow> bool \<Rightarrow> controlRegistry
     \<Rightarrow> (control_error + nat) \<times> controlRegistry" where
  "acquire ctxErr others ctxErr' d a takeover r =
     (case acquireBegin ctxErr d a takeover r of
        (Refused e, r') \<Rightarrow> (Inl e, r')
      | (Granted c, r') \<Rightarrow> (Inr c, r')
      | (AwaitRevocation reservation previous, r') \<Rightarrow>
          (case others previous r' of
             (waitErr, r'') \<Rightarrow> acquireResume waitErr ctxErr' d a reservation r''))"

definition acquireAgent ::
  "string \<Rightarrow> int \<Rightarrow> int \<Rightarrow> controlRegistry \<Rightarrow> (control_error + nat) \<times> controlRegistry" where
  "acquireAgent d leaseTtl now r =
     (if draining r \<or> blocked r d then (Inl errControlBlocked, r)
      else if mget (takeovers r) d \<noteq> None \<or> mget (active r) d \<noteq> None then (Inl errControlBusy, r)
      else (case grantLocked d actorAgent r of
              (c, r') \<Rightarrow>
                (Inr c, r'\<lparr>heap := (heap r')[c := (heap r' ! c)\<lparr>ttl := leaseTtl, lastTouch := now\<rparr>]\<rparr>)))"

text \<open>
  \<^verbatim>\<open>release\<close> removes the lease under the lock and closes the \<^verbatim>\<open>done\<close> channel after unlocking.
\<close>

definition releaseLocked :: "string \<Rightarrow> nat \<Rightarrow> controlRegistry \<Rightarrow> controlRegistry" where
  "releaseLocked d c r =
     (if mget (active r) d = Some c then r\<lparr>active := mdel d (active r)\<rparr> else r)"

definition release :: "string \<Rightarrow> nat \<Rightarrow> controlRegistry \<Rightarrow> controlRegistry" where
  "release d c r = closeDone c (releaseLocked d c r)"

text \<open>
  The poll interval of \<^verbatim>\<open>expireLoop\<close> and one round of it: \<open>ticked\<close> says whether the ticker or the
  lease context woke it; the result is whether the loop goes on.
\<close>

abbreviation seconds :: int where "seconds \<equiv> 1000000000"

definition expireInterval :: "int \<Rightarrow> int" where
  "expireInterval leaseTtl =
     (let interval = sgn leaseTtl * (\<bar>leaseTtl\<bar> div 4);
          interval' = (if 5 * seconds < interval then 5 * seconds else interval)
      in if interval' \<le> 0 then seconds else interval')"

definition expireRound ::
  "bool \<Rightarrow> int \<Rightarrow> string \<Rightarrow> nat \<Rightarrow> controlRegistry \<Rightarrow> bool \<times> controlRegistry" where
  "expireRound ticked now d c r =
     (if \<not> ticked then (if ctxDone (heap r ! c) then (False, release d c r) else (True, r))
      else if ttl (heap r ! c) < now - lastTouch (heap r ! c) then (False, release d c r)
      else (True, r))"

definition touchAgent :: "string \<Rightarrow> int \<Rightarrow> controlRegistry \<Rightarrow> controlRegistry" where
  "touchAgent d now r =
     (case mget (active r) d of
        None \<Rightarrow> r
      | Some c \<Rightarrow>
          if actor (heap r ! c) = actorAgent \<and> 0 < ttl (heap r ! c)
          then r\<lparr>heap := (heap r)[c := (heap r ! c)\<lparr>lastTouch := now\<rparr>]\<rparr>
          else r)"

definition releaseAgentOwner :: "string \<Rightarrow> controlRegistry \<Rightarrow> bool \<times> controlRegistry" where
  "releaseAgentOwner d r =
     (case mget (active r) d of
        None \<Rightarrow> (False, r)
      | Some c \<Rightarrow>
          if actor (heap r ! c) \<noteq> actorAgent then (False, r)
          else (True, release d c r))"

definition beginPower ::
  "string \<Rightarrow> string \<Rightarrow> controlRegistry \<Rightarrow> (control_error + powerOperation) \<times> controlRegistry" where
  "beginPower d act r =
     (if draining r then (Inl errControlBlocked, r)
      else if mget (active r) d \<noteq> None then (Inl errControlBusy, r)
      else if mget (takeovers r) d \<noteq> None then (Inl errControlBusy, r)
      else if mget (powerOps r) d \<noteq> None then (Inl errPowerBusy, r)
      else if blocked r d \<and> act \<noteq> ''start'' then (Inl errPowerRecoveryRequired, r)
      else
        let operation = \<lparr>opRef = nextRef r, opAction = act, priorBlocked = blocked r d\<rparr>
        in (Inr operation,
            r\<lparr>nextRef := Suc (nextRef r), powerOps := mput d operation (powerOps r),
              controlBlocked := mput d True (controlBlocked r)\<rparr>))"

text \<open>The comparison of operation pointers is the comparison of their numbers.\<close>

definition finishPower ::
  "string \<Rightarrow> powerOperation \<Rightarrow> powerOutcome \<Rightarrow> controlRegistry \<Rightarrow> controlRegistry" where
  "finishPower d operation outcome r =
     (if map_option opRef (mget (powerOps r) d) \<noteq> Some (opRef operation) then r
      else
        let r' = r\<lparr>powerOps := mdel d (powerOps r)\<rparr>
        in if draining r then r'\<lparr>controlBlocked := mput d True (controlBlocked r)\<rparr>
           else if outcome = powerSucceeded then
             (if opAction operation = ''start''
              then r'\<lparr>controlBlocked := mdel d (controlBlocked r)\<rparr> else r')
           else if outcome = powerUnknown then r'
           else if priorBlocked operation then r'\<lparr>controlBlocked := mput d True (controlBlocked r)\<rparr>
           else r'\<lparr>controlBlocked := mdel d (controlBlocked r)\<rparr>)"

text \<open>
  The critical section of \<^verbatim>\<open>revokeAll\<close>: its three loops over the registry's maps. It also
  returns the controllers that the code then waits for.
\<close>

definition block :: "string \<Rightarrow> controlRegistry \<Rightarrow> controlRegistry" where
  "block d r = r\<lparr>controlBlocked := mput d True (controlBlocked r)\<rparr>"

definition unreserve :: "string \<Rightarrow> controlRegistry \<Rightarrow> controlRegistry" where
  "unreserve d r = (block d r)\<lparr>takeovers := mdel d (takeovers r)\<rparr>"

definition revokeAll :: "controlRegistry \<Rightarrow> nat list \<times> controlRegistry" where
  "revokeAll r =
     (let r1 = r\<lparr>draining := True\<rparr>;
          r2 = fold (\<lambda>(d, c) s. cancel c (block d s)) (active r) r1;
          r3 = fold (\<lambda>(d, _) s. unreserve d s) (takeovers r) r2;
          r4 = fold (\<lambda>(d, _) s. block d s) (powerOps r) r3
      in (map snd (active r), r4))"

definition status :: "string \<Rightarrow> controlRegistry \<Rightarrow> actorKind option \<times> 64 word \<times> bool" where
  "status d r =
     (case mget (active r) d of
        None \<Rightarrow> (None, gen r d, False)
      | Some c \<Rightarrow> (Some (actor (heap r ! c)), generation (heap r ! c), True))"

definition powerStatus :: "string \<Rightarrow> controlRegistry \<Rightarrow> bool \<times> bool \<times> string" where
  "powerStatus d r =
     (case mget (powerOps r) d of
        None \<Rightarrow> (blocked r d, False, '''')
      | Some operation \<Rightarrow> (blocked r d, True, opAction operation))"

end
