(* ===== verification/Control_Steps.thy ===== *)
theory Control_Steps
  imports Control
begin

text \<open>
  The interleavings of the goroutines that share one control registry, as a step relation over
  the critical sections of \<^verbatim>\<open>Control\<close>, and the invariants of every reachable state: at most one
  unreleased lease per desktop, no lease during a power operation, no reservation after the
  registry started draining, generations that count the grants.
\<close>

section \<open>The system and its steps\<close>

text \<open>
  Beside the registry, the state records what the goroutines hold: the desktop each controller
  was granted for, the callers of \<^verbatim>\<open>acquire\<close> that wait for a revocation (desktop, actor,
  reservation, incumbent), the controllers that left the registry and whose \<^verbatim>\<open>done\<close> channel is
  still to be closed, and the power operations being dispatched.
\<close>

record sys =
  reg :: controlRegistry
  home :: "string list"
  waiters :: "(string \<times> actorKind \<times> nat \<times> nat) set"
  releasing :: "nat set"
  dispatching :: "(string \<times> powerOperation) set"

definition boot :: sys where
  "boot = \<lparr>reg = newControlRegistry, home = [], waiters = {}, releasing = {}, dispatching = {}\<rparr>"

datatype event =
    EAcquire string actorKind bool
  | EResume string
  | EAcquireAgent string
  | ETouch string
  | ERelease string nat
  | ECloseDone nat
  | ECancel nat
  | EBeginPower string string
  | EFinishPower string powerOperation powerOutcome
  | ERevokeAll

inductive step :: "sys \<Rightarrow> event \<Rightarrow> sys \<Rightarrow> bool" where
  acquire_refused:
    "acquireBegin e d a t (reg s) = (Refused x, r) \<Longrightarrow> step s (EAcquire d a t) (s\<lparr>reg := r\<rparr>)"
| acquire_granted:
    "acquireBegin e d a t (reg s) = (Granted c, r) \<Longrightarrow>
     step s (EAcquire d a t) (s\<lparr>reg := r, home := home s @ [d]\<rparr>)"
| acquire_wait:
    "acquireBegin e d a t (reg s) = (AwaitRevocation k p, r) \<Longrightarrow>
     step s (EAcquire d a t) (s\<lparr>reg := r, waiters := insert (d, a, k, p) (waiters s)\<rparr>)"
| resume_refused:
    "(d, a, k, p) \<in> waiters s \<Longrightarrow> w \<noteq> None \<or> doneClosed (heap (reg s) ! p) \<Longrightarrow>
     acquireResume w e d a k (reg s) = (Inl x, r) \<Longrightarrow>
     step s (EResume d) (s\<lparr>reg := r, waiters := waiters s - {(d, a, k, p)}\<rparr>)"
| resume_granted:
    "(d, a, k, p) \<in> waiters s \<Longrightarrow> w \<noteq> None \<or> doneClosed (heap (reg s) ! p) \<Longrightarrow>
     acquireResume w e d a k (reg s) = (Inr c, r) \<Longrightarrow>
     step s (EResume d)
       (s\<lparr>reg := r, home := home s @ [d], waiters := waiters s - {(d, a, k, p)}\<rparr>)"
| agent_refused:
    "acquireAgent d l n (reg s) = (Inl x, r) \<Longrightarrow> step s (EAcquireAgent d) (s\<lparr>reg := r\<rparr>)"
| agent_granted:
    "acquireAgent d l n (reg s) = (Inr c, r) \<Longrightarrow>
     step s (EAcquireAgent d) (s\<lparr>reg := r, home := home s @ [d]\<rparr>)"
| touch:
    "step s (ETouch d) (s\<lparr>reg := touchAgent d n (reg s)\<rparr>)"
| release_lock:
    "c < length (home s) \<Longrightarrow> home s ! c = d \<Longrightarrow>
     step s (ERelease d c) (s\<lparr>reg := releaseLocked d c (reg s), releasing := insert c (releasing s)\<rparr>)"
| close_done:
    "c \<in> releasing s \<Longrightarrow>
     step s (ECloseDone c) (s\<lparr>reg := closeDone c (reg s), releasing := releasing s - {c}\<rparr>)"
| cancel_ctx:
    "c < length (home s) \<Longrightarrow> step s (ECancel c) (s\<lparr>reg := cancel c (reg s)\<rparr>)"
| power_refused:
    "beginPower d act (reg s) = (Inl x, r) \<Longrightarrow> step s (EBeginPower d act) (s\<lparr>reg := r\<rparr>)"
| power_begin:
    "beginPower d act (reg s) = (Inr operation, r) \<Longrightarrow>
     step s (EBeginPower d act) (s\<lparr>reg := r, dispatching := insert (d, operation) (dispatching s)\<rparr>)"
| power_finish:
    "(d, operation) \<in> dispatching s \<Longrightarrow>
     step s (EFinishPower d operation out)
       (s\<lparr>reg := finishPower d operation out (reg s),
          dispatching := dispatching s - {(d, operation)}\<rparr>)"
| revoke:
    "revokeAll (reg s) = (cs, r) \<Longrightarrow> step s ERevokeAll (s\<lparr>reg := r\<rparr>)"

abbreviation reachable :: "event list \<Rightarrow> sys \<Rightarrow> bool" where
  "reachable es s \<equiv> run step boot es s"

section \<open>What each critical section does\<close>

lemma cancel_simps [simp]:
  "active (cancel c r) = active r" "generations (cancel c r) = generations r"
  "controlBlocked (cancel c r) = controlBlocked r" "powerOps (cancel c r) = powerOps r"
  "takeovers (cancel c r) = takeovers r" "draining (cancel c r) = draining r"
  "nextRef (cancel c r) = nextRef r" "length (heap (cancel c r)) = length (heap r)"
  by (simp_all add: cancel_def)

lemma cancel_heap [simp]:
  "c' < length (heap r) \<Longrightarrow> doneClosed (heap (cancel c r) ! c') = doneClosed (heap r ! c')"
  "c' < length (heap r) \<Longrightarrow> generation (heap (cancel c r) ! c') = generation (heap r ! c')"
  "c' < length (heap r) \<Longrightarrow> actor (heap (cancel c r) ! c') = actor (heap r ! c')"
  by (auto simp: cancel_def nth_update_in)

lemma closeDone_simps [simp]:
  "active (closeDone c r) = active r" "generations (closeDone c r) = generations r"
  "controlBlocked (closeDone c r) = controlBlocked r" "powerOps (closeDone c r) = powerOps r"
  "takeovers (closeDone c r) = takeovers r" "draining (closeDone c r) = draining r"
  "nextRef (closeDone c r) = nextRef r" "length (heap (closeDone c r)) = length (heap r)"
  by (simp_all add: closeDone_def)

lemma closeDone_heap [simp]:
  "c' < length (heap r) \<Longrightarrow>
     doneClosed (heap (closeDone c r) ! c') = (c' = c \<or> doneClosed (heap r ! c'))"
  "c' < length (heap r) \<Longrightarrow> generation (heap (closeDone c r) ! c') = generation (heap r ! c')"
  by (auto simp: closeDone_def nth_update_in)

lemma touchAgent_simps [simp]:
  "active (touchAgent d n r) = active r" "generations (touchAgent d n r) = generations r"
  "controlBlocked (touchAgent d n r) = controlBlocked r" "powerOps (touchAgent d n r) = powerOps r"
  "takeovers (touchAgent d n r) = takeovers r" "draining (touchAgent d n r) = draining r"
  "nextRef (touchAgent d n r) = nextRef r" "length (heap (touchAgent d n r)) = length (heap r)"
  by (simp_all add: touchAgent_def split: option.splits)

lemma touchAgent_heap [simp]:
  "c < length (heap r) \<Longrightarrow> doneClosed (heap (touchAgent d n r) ! c) = doneClosed (heap r ! c)"
  "c < length (heap r) \<Longrightarrow> generation (heap (touchAgent d n r) ! c) = generation (heap r ! c)"
  by (auto simp: touchAgent_def nth_update_in split: option.splits)

lemma releaseLocked_simps [simp]:
  "heap (releaseLocked d c r) = heap r" "generations (releaseLocked d c r) = generations r"
  "controlBlocked (releaseLocked d c r) = controlBlocked r"
  "powerOps (releaseLocked d c r) = powerOps r" "takeovers (releaseLocked d c r) = takeovers r"
  "draining (releaseLocked d c r) = draining r" "nextRef (releaseLocked d c r) = nextRef r"
  "mget (active (releaseLocked d c r)) d' =
     (if d' = d \<and> mget (active r) d = Some c then None else mget (active r) d')"
  by (simp_all add: releaseLocked_def)

text \<open>
  A grant by any of the three entry points: the registry gains one controller at a fresh
  address, and it becomes the active one of a desktop that had none, was not blocked and
  carried no reservation afterwards.
\<close>

definition grants :: "controlRegistry \<Rightarrow> string \<Rightarrow> nat \<Rightarrow> controlRegistry \<Rightarrow> bool" where
  "grants r d c r' \<longleftrightarrow>
     c = length (heap r) \<and> \<not> blocked r d \<and> mget (active r) d = None \<and>
     (\<exists>x. heap r' = heap r @ [x] \<and> generation x = gen r d + 1 \<and> \<not> doneClosed x) \<and>
     generations r' = mput d (gen r d + 1) (generations r) \<and>
     active r' = mput d c (active r) \<and> controlBlocked r' = controlBlocked r \<and>
     powerOps r' = powerOps r \<and> draining r' = draining r \<and> nextRef r' = nextRef r"

lemma acquireBegin_Granted:
  assumes "acquireBegin e d a t r = (Granted c, r')"
  shows "grants r d c r' \<and> \<not> draining r \<and> mget (takeovers r) d = None \<and> takeovers r' = takeovers r
    \<and> actor (heap r' ! c) = a"
  using assms
  by (auto simp: acquireBegin_def grantLocked_def grants_def Let_def
      split: option.splits if_splits)

lemma acquireBegin_AwaitRevocation:
  assumes "acquireBegin e d a t r = (AwaitRevocation k p, r')"
  shows "\<not> draining r \<and> \<not> blocked r d \<and> mget (takeovers r) d = None \<and> mget (active r) d = Some p
    \<and> a = actorHuman \<and> t \<and> actor (heap r ! p) = actorAgent \<and> k = nextRef r
    \<and> r' = cancel p (r\<lparr>takeovers := mput d k (takeovers r), nextRef := Suc k\<rparr>)"
  using assms
  by (auto simp: acquireBegin_def grantLocked_def Let_def split: option.splits if_splits)

lemma acquireBegin_Refused:
  assumes "acquireBegin e d a t r = (Refused x, r')"
  shows "r' = r"
  using assms
  by (auto simp: acquireBegin_def grantLocked_def Let_def split: option.splits if_splits)

lemma acquireResume_Inr:
  assumes "acquireResume w e d a k r = (Inr c, r')"
  shows "grants r d c r' \<and> w = None \<and> mget (takeovers r) d = Some k
    \<and> takeovers r' = mdel d (takeovers r) \<and> actor (heap r' ! c) = a"
  using assms
  by (auto simp: acquireResume_def grantLocked_def grants_def Let_def
      split: option.splits if_splits)

lemma acquireResume_Inl:
  assumes "acquireResume w e d a k r = (Inl x, r')"
  shows "r' = (if mget (takeovers r) d = Some k then r\<lparr>takeovers := mdel d (takeovers r)\<rparr> else r)"
  using assms
  by (auto simp: acquireResume_def grantLocked_def Let_def split: option.splits if_splits)

lemma acquireAgent_Inr:
  assumes "acquireAgent d l n r = (Inr c, r')"
  shows "grants r d c r' \<and> \<not> draining r \<and> mget (takeovers r) d = None \<and> takeovers r' = takeovers r
    \<and> actor (heap r' ! c) = actorAgent \<and> ttl (heap r' ! c) = l \<and> lastTouch (heap r' ! c) = n"
  using assms
  by (auto simp: acquireAgent_def grantLocked_def grants_def Let_def split: if_splits)

lemma acquireAgent_Inl: "acquireAgent d l n r = (Inl x, r') \<Longrightarrow> r' = r"
  by (auto simp: acquireAgent_def grantLocked_def Let_def split: if_splits)

lemma beginPower_Inl: "beginPower d act r = (Inl x, r') \<Longrightarrow> r' = r"
  by (auto simp: beginPower_def Let_def split: if_splits)

lemma beginPower_Inr:
  assumes "beginPower d act r = (Inr operation, r')"
  shows "\<not> draining r \<and> mget (active r) d = None \<and> mget (takeovers r) d = None
    \<and> mget (powerOps r) d = None \<and> (act = ''start'' \<or> \<not> blocked r d)
    \<and> operation = \<lparr>opRef = nextRef r, opAction = act, priorBlocked = blocked r d\<rparr>
    \<and> r' = r\<lparr>nextRef := Suc (nextRef r), powerOps := mput d operation (powerOps r),
             controlBlocked := mput d True (controlBlocked r)\<rparr>"
  using assms by (auto simp: beginPower_def Let_def split: if_splits)

lemma finishPower_simps [simp]:
  "heap (finishPower d p out r) = heap r" "active (finishPower d p out r) = active r"
  "generations (finishPower d p out r) = generations r"
  "takeovers (finishPower d p out r) = takeovers r"
  "draining (finishPower d p out r) = draining r" "nextRef (finishPower d p out r) = nextRef r"
  by (simp_all add: finishPower_def Let_def)

lemma finishPower_powerOps [simp]:
  "mget (powerOps (finishPower d p out r)) d' =
     (if d' = d \<and> map_option opRef (mget (powerOps r) d) = Some (opRef p) then None
      else mget (powerOps r) d')"
  by (auto simp: finishPower_def Let_def)

lemma finishPower_blocked_other:
  "d' \<noteq> d \<Longrightarrow> blocked (finishPower d p out r) d' = blocked r d'"
  by (simp add: finishPower_def Let_def)

lemma finishPower_blocked_stale:
  "map_option opRef (mget (powerOps r) d) \<noteq> Some (opRef p) \<Longrightarrow> finishPower d p out r = r"
  by (simp add: finishPower_def)

subsection \<open>Draining\<close>

lemma block_simps [simp]:
  "heap (block d r) = heap r" "active (block d r) = active r"
  "generations (block d r) = generations r" "powerOps (block d r) = powerOps r"
  "takeovers (block d r) = takeovers r" "draining (block d r) = draining r"
  "nextRef (block d r) = nextRef r" "blocked (block d r) d' = (d' = d \<or> blocked r d')"
  by (simp_all add: block_def)

lemma revoke_active_loop:
  fixes r :: controlRegistry
  defines "f \<equiv> \<lambda>xs r. fold (\<lambda>(d, c) s. cancel c (block d s)) xs r"
  shows "active (f xs r) = active r" "generations (f xs r) = generations r"
    "powerOps (f xs r) = powerOps r" "takeovers (f xs r) = takeovers r"
    "draining (f xs r) = draining r" "nextRef (f xs r) = nextRef r"
    "length (heap (f xs r)) = length (heap r)"
    "blocked (f xs r) d' = (d' \<in> fst ` set xs \<or> blocked r d')"
  unfolding f_def by (induction xs arbitrary: r) auto

lemma revoke_active_loop_heap:
  "c < length (heap r) \<Longrightarrow>
     doneClosed (heap (fold (\<lambda>(d, c) s. cancel c (block d s)) xs r) ! c) = doneClosed (heap r ! c)"
  "c < length (heap r) \<Longrightarrow>
     generation (heap (fold (\<lambda>(d, c) s. cancel c (block d s)) xs r) ! c) = generation (heap r ! c)"
  by (induction xs arbitrary: r) auto

lemma unreserve_simps [simp]:
  "heap (unreserve d r) = heap r" "active (unreserve d r) = active r"
  "generations (unreserve d r) = generations r" "powerOps (unreserve d r) = powerOps r"
  "takeovers (unreserve d r) = mdel d (takeovers r)" "draining (unreserve d r) = draining r"
  "nextRef (unreserve d r) = nextRef r" "blocked (unreserve d r) d' = (d' = d \<or> blocked r d')"
  by (simp_all add: unreserve_def)

lemma revoke_takeover_loop:
  fixes r :: controlRegistry
  defines "f \<equiv> \<lambda>xs r. fold (\<lambda>(d, _) s. unreserve d s) xs r"
  shows "heap (f xs r) = heap r" "active (f xs r) = active r" "generations (f xs r) = generations r"
    "powerOps (f xs r) = powerOps r" "draining (f xs r) = draining r" "nextRef (f xs r) = nextRef r"
    "blocked (f xs r) d' = (d' \<in> fst ` set xs \<or> blocked r d')"
    "mget (takeovers (f xs r)) d' = (if d' \<in> fst ` set xs then None else mget (takeovers r) d')"
  unfolding f_def by (induction xs arbitrary: r) auto

lemma revoke_power_loop:
  fixes r :: controlRegistry
  defines "f \<equiv> \<lambda>xs r. fold (\<lambda>(d, _) s. block d s) xs r"
  shows "heap (f xs r) = heap r" "active (f xs r) = active r" "generations (f xs r) = generations r"
    "powerOps (f xs r) = powerOps r" "draining (f xs r) = draining r" "nextRef (f xs r) = nextRef r"
    "takeovers (f xs r) = takeovers r"
    "blocked (f xs r) d' = (d' \<in> fst ` set xs \<or> blocked r d')"
  unfolding f_def by (induction xs arbitrary: r) auto

lemmas revoke_loops =
  revoke_active_loop revoke_active_loop_heap revoke_takeover_loop revoke_power_loop

lemma revokeAll_effect:
  assumes "revokeAll r = (cs, r')"
  shows "cs = map snd (active r)" "active r' = active r" "generations r' = generations r"
    "powerOps r' = powerOps r" "draining r'" "nextRef r' = nextRef r"
    "length (heap r') = length (heap r)" "mget (takeovers r') d = None"
    "blocked r' d = (blocked r d \<or> d \<in> fst ` set (active r)
       \<or> d \<in> fst ` set (powerOps r) \<or> d \<in> fst ` set (takeovers r))"
    "c < length (heap r) \<Longrightarrow> doneClosed (heap r' ! c) = doneClosed (heap r ! c)"
    "c < length (heap r) \<Longrightarrow> generation (heap r' ! c) = generation (heap r ! c)"
proof -
  have cs: "cs = map snd (active r)"
    and r': "r' = fold (\<lambda>(d, _) s. block d s) (powerOps r)
      (fold (\<lambda>(d, _) s. unreserve d s) (takeovers r)
        (fold (\<lambda>(d, c) s. cancel c (block d s)) (active r) (r\<lparr>draining := True\<rparr>)))"
    using assms by (simp_all add: revokeAll_def Let_def)
  show "cs = map snd (active r)" by (rule cs)
  show "active r' = active r" "generations r' = generations r" "powerOps r' = powerOps r"
    "draining r'" "nextRef r' = nextRef r" "length (heap r') = length (heap r)"
    by (simp_all add: r' revoke_loops)
  show "mget (takeovers r') d = None"
    by (simp add: r' revoke_loops mget_not_in_keys)
  show "blocked r' d = (blocked r d \<or> d \<in> fst ` set (active r)
       \<or> d \<in> fst ` set (powerOps r) \<or> d \<in> fst ` set (takeovers r))"
    unfolding r' revoke_loops by auto
  show "doneClosed (heap r' ! c) = doneClosed (heap r ! c)"
    "generation (heap r' ! c) = generation (heap r ! c)" if "c < length (heap r)"
    using that by (simp_all add: r' revoke_loops)
qed

section \<open>Invariants\<close>

definition lease_inv :: "sys \<Rightarrow> bool" where
  "lease_inv s \<longleftrightarrow>
     length (home s) = length (heap (reg s)) \<and> releasing s \<subseteq> {..<length (home s)} \<and>
     (\<forall>d c. mget (active (reg s)) d = Some c \<longrightarrow>
        c < length (home s) \<and> home s ! c = d \<and> \<not> doneClosed (heap (reg s) ! c) \<and> c \<notin> releasing s) \<and>
     (\<forall>c < length (home s). \<not> doneClosed (heap (reg s) ! c) \<longrightarrow> c \<notin> releasing s \<longrightarrow>
        mget (active (reg s)) (home s ! c) = Some c)"

definition power_inv :: "sys \<Rightarrow> bool" where
  "power_inv s \<longleftrightarrow>
     (\<forall>d p. mget (powerOps (reg s)) d = Some p \<longrightarrow>
        blocked (reg s) d \<and> mget (active (reg s)) d = None \<and> mget (takeovers (reg s)) d = None \<and>
        (d, p) \<in> dispatching s) \<and>
     (\<forall>d p. (d, p) \<in> dispatching s \<longrightarrow> opRef p < nextRef (reg s)) \<and>
     (\<forall>d p d' p'. (d, p) \<in> dispatching s \<longrightarrow> (d', p') \<in> dispatching s \<longrightarrow>
        opRef p = opRef p' \<longrightarrow> d' = d \<and> p' = p)"

definition takeover_inv :: "sys \<Rightarrow> bool" where
  "takeover_inv s \<longleftrightarrow>
     (draining (reg s) \<longrightarrow> (\<forall>d. mget (takeovers (reg s)) d = None)) \<and>
     (\<forall>d k. mget (takeovers (reg s)) d = Some k \<longrightarrow> (\<exists>a p. (d, a, k, p) \<in> waiters s)) \<and>
     (\<forall>d a k p. (d, a, k, p) \<in> waiters s \<longrightarrow>
        k < nextRef (reg s) \<and> a = actorHuman \<and>
        (\<not> draining (reg s) \<longrightarrow> mget (takeovers (reg s)) d = Some k)) \<and>
     (\<forall>d a k p d' a' p'. (d, a, k, p) \<in> waiters s \<longrightarrow> (d', a', k, p') \<in> waiters s \<longrightarrow>
        d' = d \<and> a' = a \<and> p' = p)"

definition generation_inv :: "sys \<Rightarrow> bool" where
  "generation_inv s \<longleftrightarrow>
     length (home s) = length (heap (reg s)) \<and>
     (\<forall>d. gen (reg s) d = of_nat (count_list (home s) d)) \<and>
     (\<forall>d c. mget (active (reg s)) d = Some c \<longrightarrow>
        c < length (home s) \<and> generation (heap (reg s) ! c) = gen (reg s) d) \<and>
     (\<forall>c < length (home s).
        generation (heap (reg s) ! c) = of_nat (count_list (take (Suc c) (home s)) (home s ! c)))"

lemmas step_effects =
  acquireBegin_Refused acquireBegin_Granted acquireBegin_AwaitRevocation
  acquireResume_Inl acquireResume_Inr acquireAgent_Inl acquireAgent_Inr
  beginPower_Inl beginPower_Inr

lemma lease_inv_boot: "lease_inv boot"
  by (simp add: lease_inv_def boot_def newControlRegistry_def)

lemma lease_invI:
  assumes "length (home s) = length (heap (reg s))" "releasing s \<subseteq> {..<length (home s)}"
    and "\<And>d c. mget (active (reg s)) d = Some c \<Longrightarrow>
      c < length (home s) \<and> home s ! c = d \<and> \<not> doneClosed (heap (reg s) ! c) \<and> c \<notin> releasing s"
    and "\<And>c. c < length (home s) \<Longrightarrow> \<not> doneClosed (heap (reg s) ! c) \<Longrightarrow> c \<notin> releasing s \<Longrightarrow>
      mget (active (reg s)) (home s ! c) = Some c"
  shows "lease_inv s"
  using assms by (simp add: lease_inv_def)

lemma lease_invD:
  assumes "lease_inv s"
  shows "length (heap (reg s)) = length (home s)"
    and "c \<in> releasing s \<Longrightarrow> c < length (home s)"
    and "mget (active (reg s)) d = Some c \<Longrightarrow>
      c < length (home s) \<and> home s ! c = d \<and> \<not> doneClosed (heap (reg s) ! c) \<and> c \<notin> releasing s"
    and "c < length (home s) \<Longrightarrow> \<not> doneClosed (heap (reg s) ! c) \<Longrightarrow> c \<notin> releasing s \<Longrightarrow>
      mget (active (reg s)) (home s ! c) = Some c"
  using assms by (auto simp: lease_inv_def)

lemma lease_inv_grant:
  assumes inv: "lease_inv s" and g: "grants (reg s) d c r"
  shows "lease_inv (s\<lparr>reg := r, home := home s @ [d], waiters := w\<rparr>)"
proof -
  note D = lease_invD [OF inv]
  from g obtain x where heap: "heap r = heap (reg s) @ [x]" "\<not> doneClosed x"
    and act: "active r = mput d (length (home s)) (active (reg s))"
    and none: "mget (active (reg s)) d = None"
    by (auto simp: grants_def D(1))
  show ?thesis
  proof (rule lease_invI, goal_cases)
    case 1
    show ?case by (simp add: heap D(1))
  next
    case 2
    show ?case using D(2) by (auto intro: less_SucI)
  next
    case (3 d' c')
    show ?case
    proof (cases "d' = d")
      case True
      with 3 show ?thesis using D(2) by (auto simp: act heap nth_append D(1))
    next
      case False
      with 3 have "mget (active (reg s)) d' = Some c'" by (simp add: act)
      from D(3) [OF this] show ?thesis by (simp add: heap nth_append D(1))
    qed
  next
    case (4 c')
    show ?case
    proof (cases "c' = length (home s)")
      case True
      then show ?thesis by (simp add: act)
    next
      case False
      with 4 have c': "c' < length (home s)" by simp
      with 4 have "mget (active (reg s)) (home s ! c') = Some c'"
        by (intro D(4)) (simp_all add: heap nth_append D(1))
      with c' none show ?thesis by (auto simp: act nth_append)
    qed
  qed
qed

lemma lease_inv_frame:
  assumes "lease_inv s" and "home t = home s" "releasing t = releasing s"
    and "active (reg t) = active (reg s)" "length (heap (reg t)) = length (heap (reg s))"
    and "\<And>c. c < length (heap (reg s)) \<Longrightarrow> doneClosed (heap (reg t) ! c) = doneClosed (heap (reg s) ! c)"
  shows "lease_inv t"
  using assms(2-) lease_invD [OF assms(1)] by (intro lease_invI) auto

lemma lease_inv_release:
  assumes inv: "lease_inv s" and c: "c < length (home s)" "home s ! c = d"
  shows "lease_inv (s\<lparr>reg := releaseLocked d c (reg s), releasing := insert c (releasing s)\<rparr>)"
proof (rule lease_invI, goal_cases)
  case (3 d' c')
  then have "mget (active (reg s)) d' = Some c'" "c' \<noteq> c"
    using lease_invD(3) [OF inv] c by (auto split: if_splits)
  then show ?case using lease_invD(3) [OF inv] by auto
next
  case (4 c')
  then have "mget (active (reg s)) (home s ! c') = Some c'"
    using lease_invD(4) [OF inv] by simp
  with 4 show ?case by auto
qed (use lease_invD [OF inv] c in auto)

lemma lease_inv_closeDone:
  assumes inv: "lease_inv s" and c: "c \<in> releasing s"
  shows "lease_inv (s\<lparr>reg := closeDone c (reg s), releasing := releasing s - {c}\<rparr>)"
proof (rule lease_invI, goal_cases)
  case (3 d' c')
  then show ?case using lease_invD(1,3) [OF inv] c by auto
next
  case (4 c')
  then show ?case using lease_invD(1,4) [OF inv] by auto
qed (use lease_invD [OF inv] in auto)

lemma step_lease_inv:
  assumes inv: "lease_inv s" and "step s e t"
  shows "lease_inv t"
  using assms(2)
proof cases
  case (acquire_granted e d a t c r)
  then show ?thesis using lease_inv_grant [OF inv, of d c r "waiters s"] by (auto dest!: acquireBegin_Granted)
next
  case (resume_granted d a k p w e c r)
  then show ?thesis using lease_inv_grant [OF inv] by (auto dest!: acquireResume_Inr)
next
  case (agent_granted d l n c r)
  then show ?thesis using lease_inv_grant [OF inv, of d c r "waiters s"] by (auto dest!: acquireAgent_Inr)
next
  case (release_lock c d)
  then show ?thesis using lease_inv_release [OF inv] by simp
next
  case (close_done c)
  then show ?thesis using lease_inv_closeDone [OF inv] by simp
qed (auto dest!: acquireBegin_Refused acquireBegin_AwaitRevocation acquireResume_Inl acquireAgent_Inl beginPower_Inl
    beginPower_Inr simp: lease_invD [OF inv] revokeAll_effect intro!: lease_inv_frame [OF inv] split: if_splits)

lemma power_inv_boot: "power_inv boot"
  by (simp add: power_inv_def boot_def newControlRegistry_def)

lemma power_invI:
  assumes "\<And>d p. mget (powerOps (reg s)) d = Some p \<Longrightarrow>
      blocked (reg s) d \<and> mget (active (reg s)) d = None \<and> mget (takeovers (reg s)) d = None
      \<and> (d, p) \<in> dispatching s"
    and "\<And>d p. (d, p) \<in> dispatching s \<Longrightarrow> opRef p < nextRef (reg s)"
    and "\<And>d p d' p'. (d, p) \<in> dispatching s \<Longrightarrow> (d', p') \<in> dispatching s \<Longrightarrow>
      opRef p = opRef p' \<Longrightarrow> d' = d \<and> p' = p"
  shows "power_inv s"
  using assms unfolding power_inv_def by blast

lemma power_invD:
  assumes "power_inv s"
  shows "mget (powerOps (reg s)) d = Some p \<Longrightarrow>
      blocked (reg s) d \<and> mget (active (reg s)) d = None \<and> mget (takeovers (reg s)) d = None
      \<and> (d, p) \<in> dispatching s"
    and "(d, p) \<in> dispatching s \<Longrightarrow> opRef p < nextRef (reg s)"
    and "(d, p) \<in> dispatching s \<Longrightarrow> (d', p') \<in> dispatching s \<Longrightarrow> opRef p = opRef p' \<Longrightarrow>
      d' = d \<and> p' = p"
  using assms unfolding power_inv_def by blast+

text \<open>Every step but the two ends of a power operation leaves the operations alone.\<close>

lemma power_inv_frame:
  assumes inv: "power_inv s" and po: "powerOps (reg t) = powerOps (reg s)" "dispatching t = dispatching s"
    and nr: "nextRef (reg s) \<le> nextRef (reg t)"
    and keep: "\<And>d p. mget (powerOps (reg s)) d = Some p \<Longrightarrow> blocked (reg s) d \<Longrightarrow> mget (active (reg s)) d = None \<Longrightarrow>
      mget (takeovers (reg s)) d = None \<Longrightarrow>
      blocked (reg t) d \<and> mget (active (reg t)) d = None \<and> mget (takeovers (reg t)) d = None"
  shows "power_inv t"
proof (rule power_invI, goal_cases)
  case (1 d p)
  then show ?case using power_invD(1) [OF inv] keep po by simp
next
  case (2 d p)
  then show ?case using power_invD(2) [OF inv] nr po by (auto intro: less_le_trans)
next
  case (3 d p d' p')
  then show ?case using power_invD(3) [OF inv] po by simp
qed

lemma power_inv_begin:
  assumes inv: "power_inv s" and b: "beginPower d act (reg s) = (Inr operation, r)"
  shows "power_inv (s\<lparr>reg := r, dispatching := insert (d, operation) (dispatching s)\<rparr>)"
proof -
  note E = beginPower_Inr [OF b]
  note D = power_invD [OF inv]
  have old: "(d', p) \<in> dispatching s \<Longrightarrow> opRef p \<noteq> opRef operation" for d' p
    using D(2) [of d' p] E by simp
  show ?thesis
  proof (rule power_invI, goal_cases)
    case (1 d' p)
    then show ?case using D(1) E by (cases "d' = d") auto
  next
    case (2 d' p)
    then show ?case using D(2) E by (auto intro: less_SucI)
  next
    case (3 d' p d'' p')
    then have "(d', p) = (d, operation) \<or> (d', p) \<in> dispatching s"
      "(d'', p') = (d, operation) \<or> (d'', p') \<in> dispatching s" "opRef p = opRef p'"
      by auto
    then show ?case using D(3) old by (metis prod.inject)
  qed
qed

lemma power_inv_finish:
  assumes inv: "power_inv s" and m: "(d, operation) \<in> dispatching s"
  shows "power_inv (s\<lparr>reg := finishPower d operation out (reg s),
    dispatching := dispatching s - {(d, operation)}\<rparr>)"
proof -
  note D = power_invD [OF inv]
  show ?thesis
  proof (rule power_invI, goal_cases)
    case (1 d' p)
    then have p: "mget (powerOps (reg s)) d' = Some p"
      and neq: "d' = d \<Longrightarrow> opRef p \<noteq> opRef operation"
      by (auto split: if_splits)
    have "blocked (finishPower d operation out (reg s)) d'"
      using D(1) [OF p] neq p
      by (cases "d' = d") (auto simp: finishPower_blocked_other finishPower_blocked_stale)
    then show ?case using D(1) [OF p] neq by auto
  next
    case (2 d' p)
    then show ?case using D(2) [of d' p] by simp
  next
    case (3 d' p d'' p')
    then have "(d', p) \<in> dispatching s" "(d'', p') \<in> dispatching s" "opRef p = opRef p'"
      by auto
    then show ?case by (rule D(3))
  qed
qed

lemma step_power_inv:
  assumes inv: "power_inv s" and "step s e t"
  shows "power_inv t"
  using assms(2)
proof cases
  case (power_begin d act operation r)
  then show ?thesis using power_inv_begin [OF inv] by simp
next
  case (power_finish d operation out)
  then show ?thesis using power_inv_finish [OF inv] by simp
qed (auto dest!: acquireBegin_Refused acquireBegin_Granted acquireBegin_AwaitRevocation acquireResume_Inl acquireResume_Inr
    acquireAgent_Inl acquireAgent_Inr beginPower_Inl simp: grants_def revokeAll_effect inv intro!: power_inv_frame [OF inv]
    split: if_splits)

lemma takeover_inv_boot: "takeover_inv boot"
  by (simp add: takeover_inv_def boot_def newControlRegistry_def)

lemma takeover_invI:
  assumes "\<And>d. draining (reg s) \<Longrightarrow> mget (takeovers (reg s)) d = None"
    and "\<And>d k. mget (takeovers (reg s)) d = Some k \<Longrightarrow> \<exists>a p. (d, a, k, p) \<in> waiters s"
    and "\<And>d a k p. (d, a, k, p) \<in> waiters s \<Longrightarrow> k < nextRef (reg s) \<and> a = actorHuman"
    and "\<And>d a k p. (d, a, k, p) \<in> waiters s \<Longrightarrow> \<not> draining (reg s) \<Longrightarrow>
      mget (takeovers (reg s)) d = Some k"
    and "\<And>d a k p d' a' p'. (d, a, k, p) \<in> waiters s \<Longrightarrow> (d', a', k, p') \<in> waiters s \<Longrightarrow>
      d' = d \<and> a' = a \<and> p' = p"
  shows "takeover_inv s"
  using assms unfolding takeover_inv_def by blast

lemma takeover_invD:
  assumes "takeover_inv s"
  shows "draining (reg s) \<Longrightarrow> mget (takeovers (reg s)) d = None"
    and "mget (takeovers (reg s)) d = Some k \<Longrightarrow> \<exists>a p. (d, a, k, p) \<in> waiters s"
    and "(d, a, k, p) \<in> waiters s \<Longrightarrow> k < nextRef (reg s) \<and> a = actorHuman"
    and "(d, a, k, p) \<in> waiters s \<Longrightarrow> \<not> draining (reg s) \<Longrightarrow> mget (takeovers (reg s)) d = Some k"
    and "(d, a, k, p) \<in> waiters s \<Longrightarrow> (d', a', k, p') \<in> waiters s \<Longrightarrow> d' = d \<and> a' = a \<and> p' = p"
  using assms unfolding takeover_inv_def by blast+

lemma takeover_inv_frame:
  assumes inv: "takeover_inv s" and t: "\<And>d. mget (takeovers (reg t)) d = mget (takeovers (reg s)) d" "waiters t = waiters s"
    and fr: "draining (reg t) = draining (reg s)" "nextRef (reg s) \<le> nextRef (reg t)"
  shows "takeover_inv t"
proof (rule takeover_invI, goal_cases)
  case (3 d a k p)
  then show ?case using takeover_invD(3) [OF inv] t fr by (simp add: less_le_trans) fastforce
qed (use takeover_invD [OF inv] t fr in auto)

lemma takeover_inv_reserve:
  assumes inv: "takeover_inv s" and b: "acquireBegin e d a t (reg s) = (AwaitRevocation k p, r)"
  shows "takeover_inv (s\<lparr>reg := r, waiters := insert (d, a, k, p) (waiters s)\<rparr>)"
proof -
  note E = acquireBegin_AwaitRevocation [OF b]
  note D = takeover_invD [OF inv]
  have fresh: "(d', a', k, p') \<notin> waiters s" for d' a' p'
    using D(3) E by fastforce
  have free: "(d, a', k', p') \<notin> waiters s" for a' k' p'
    using D(4) E by fastforce
  show ?thesis
  proof (rule takeover_invI, goal_cases)
    case (1 d')
    then show ?case using E by simp
  next
    case (2 d' k')
    then show ?case using E D(2) by (auto split: if_splits)
  next
    case (3 d' a' k' p')
    then show ?case using E D(3) by (fastforce intro: less_SucI)
  next
    case (4 d' a' k' p')
    then show ?case using E D(4) free by auto
  next
    case (5 d' a' k' p' d'' a'' p'')
    then show ?case using D(5) fresh by auto
  qed
qed

lemma takeover_inv_leave:
  assumes inv: "takeover_inv s" and w: "(d, a, k, p) \<in> waiters s"
    and t: "\<And>d'. mget (takeovers r) d' =
      (if d' = d \<and> mget (takeovers (reg s)) d = Some k then None else mget (takeovers (reg s)) d')"
    and fr: "draining r = draining (reg s)" "nextRef r = nextRef (reg s)"
  shows "takeover_inv (s\<lparr>reg := r, home := h, waiters := waiters s - {(d, a, k, p)}\<rparr>)"
proof -
  note D = takeover_invD [OF inv]
  have only: "(d, a', k', p') \<in> waiters s \<Longrightarrow> \<not> draining (reg s) \<Longrightarrow> (d, a', k', p') = (d, a, k, p)"
    for a' k' p'
  proof -
    assume w': "(d, a', k', p') \<in> waiters s" and nd: "\<not> draining (reg s)"
    have "k' = k" using D(4) [OF w' nd] D(4) [OF w nd] by simp
    then show ?thesis using D(5) [OF w, of d a' p'] w' by simp
  qed
  show ?thesis
  proof (rule takeover_invI, goal_cases)
    case (2 d' k')
    then have "mget (takeovers (reg s)) d' = Some k'" "\<not> (d' = d \<and> k' = k)"
      by (auto simp: t split: if_splits)
    then show ?case using D(2) by auto
  next
    case (4 d' a' k' p')
    then have "d' \<noteq> d" using only by (auto simp: fr)
    with 4 show ?case using D(4) by (simp add: t fr)
  next
    case (5 d' a' k' p' d'' a'' p'')
    then show ?case using D(5) by auto
  qed (use D in \<open>auto simp: t fr\<close>)
qed

lemma takeover_inv_drain:
  assumes inv: "takeover_inv s" and r: "revokeAll (reg s) = (cs, r)"
  shows "takeover_inv (s\<lparr>reg := r\<rparr>)"
  by (rule takeover_invI) (use takeover_invD [OF inv] revokeAll_effect [OF r] in auto)

lemma step_takeover_inv:
  assumes inv: "takeover_inv s" and "step s e t"
  shows "takeover_inv t"
  using assms(2)
proof cases
  case (acquire_wait e d a t k p r)
  then show ?thesis using takeover_inv_reserve [OF inv] by simp
next
  case (resume_refused d a k p w e x r)
  then show ?thesis
    using takeover_inv_leave [OF inv, where r = r and h = "home s"] by (auto dest!: acquireResume_Inl split: if_splits)
next
  case (resume_granted d a k p w e c r)
  then show ?thesis
    using takeover_inv_leave [OF inv, where r = r and h = "home s @ [d]"] by (auto dest!: acquireResume_Inr simp: grants_def)
next
  case (revoke cs r)
  then show ?thesis using takeover_inv_drain [OF inv] by simp
qed (auto dest!: acquireBegin_Refused acquireBegin_Granted acquireAgent_Inl acquireAgent_Inr beginPower_Inl beginPower_Inr
    simp: grants_def inv intro!: takeover_inv_frame [OF inv])

lemma generation_inv_boot: "generation_inv boot"
  by (simp add: generation_inv_def boot_def newControlRegistry_def)

lemma generation_invI:
  assumes "length (home s) = length (heap (reg s))"
    and "\<And>d. gen (reg s) d = of_nat (count_list (home s) d)"
    and "\<And>d c. mget (active (reg s)) d = Some c \<Longrightarrow>
      c < length (home s) \<and> generation (heap (reg s) ! c) = gen (reg s) d"
    and "\<And>c. c < length (home s) \<Longrightarrow>
      generation (heap (reg s) ! c) = of_nat (count_list (take (Suc c) (home s)) (home s ! c))"
  shows "generation_inv s"
  using assms unfolding generation_inv_def by blast

lemma generation_invD:
  assumes "generation_inv s"
  shows "length (heap (reg s)) = length (home s)"
    and "gen (reg s) d = of_nat (count_list (home s) d)"
    and "mget (active (reg s)) d = Some c \<Longrightarrow>
      c < length (home s) \<and> generation (heap (reg s) ! c) = gen (reg s) d"
    and "c < length (home s) \<Longrightarrow>
      generation (heap (reg s) ! c) = of_nat (count_list (take (Suc c) (home s)) (home s ! c))"
  using assms unfolding generation_inv_def by auto

lemma generation_inv_grant:
  assumes inv: "generation_inv s" and g: "grants (reg s) d c r"
  shows "generation_inv (s\<lparr>reg := r, home := home s @ [d], waiters := w\<rparr>)"
proof -
  note D = generation_invD [OF inv]
  from g obtain x where heap: "heap r = heap (reg s) @ [x]" "generation x = gen (reg s) d + 1"
    and r: "active r = mput d (length (home s)) (active (reg s))"
      "generations r = mput d (gen (reg s) d + 1) (generations (reg s))"
    by (auto simp: grants_def D(1))
  show ?thesis
  proof (rule generation_invI, goal_cases)
    case (3 d' c')
    then show ?case
    proof (cases "d' = d")
      case False
      with 3 have "mget (active (reg s)) d' = Some c'" by (simp add: r)
      from D(3) [OF this] False show ?thesis by (simp add: heap r nth_append D(1))
    qed (auto simp: r heap nth_append D(1))
  next
    case (4 c')
    then show ?case
      by (cases "c' = length (home s)") (simp_all add: heap nth_append D)
  qed (simp_all add: heap r D)
qed

lemma generation_inv_frame:
  assumes inv: "generation_inv s" and gs: "generations (reg t) = generations (reg s)" "home t = home s"
    and len: "length (heap (reg t)) = length (heap (reg s))"
    and same: "\<And>c. c < length (heap (reg s)) \<Longrightarrow> generation (heap (reg t) ! c) = generation (heap (reg s) ! c)"
    and act: "\<And>d c. mget (active (reg t)) d = Some c \<Longrightarrow> mget (active (reg s)) d = Some c"
  shows "generation_inv t"
proof (rule generation_invI, goal_cases)
  case (3 d c)
  then have "mget (active (reg s)) d = Some c" by (simp add: act)
  from generation_invD(3) [OF inv this] show ?case
    by (simp add: same gs generation_invD(1) [OF inv])
next
  case (4 c)
  then show ?case
    using generation_invD(4) [OF inv, of c] by (simp add: same gs generation_invD(1) [OF inv])
qed (simp_all add: gs len generation_invD [OF inv])

lemma step_generation_inv:
  assumes inv: "generation_inv s" and "step s e t"
  shows "generation_inv t"
  using assms(2)
proof cases
  case (acquire_granted e d a t c r)
  then show ?thesis using generation_inv_grant [OF inv, of d c r "waiters s"] by (auto dest!: acquireBegin_Granted)
next
  case (resume_granted d a k p w e c r)
  then show ?thesis using generation_inv_grant [OF inv] by (auto dest!: acquireResume_Inr)
next
  case (agent_granted d l n c r)
  then show ?thesis using generation_inv_grant [OF inv, of d c r "waiters s"] by (auto dest!: acquireAgent_Inr)
qed (auto dest!: acquireBegin_Refused acquireBegin_AwaitRevocation acquireResume_Inl acquireAgent_Inl beginPower_Inl
    beginPower_Inr simp: inv revokeAll_effect intro!: generation_inv_frame [OF inv] split: if_splits)

section \<open>The registry as an event system\<close>

definition registry_inv :: "sys \<Rightarrow> bool" where
  "registry_inv s \<longleftrightarrow> lease_inv s \<and> power_inv s \<and> takeover_inv s \<and> generation_inv s"

interpretation registry: event_invariant step registry_inv
  by unfold_locales
    (auto simp: registry_inv_def intro: step_lease_inv step_power_inv step_takeover_inv
      step_generation_inv)

lemma registry_inv_boot: "registry_inv boot"
  by (simp add: registry_inv_def lease_inv_boot power_inv_boot takeover_inv_boot generation_inv_boot)

lemma reachable_inv: "reachable es s \<Longrightarrow> registry_inv s"
  using registry.run_inv registry_inv_boot by blast

lemmas reachable_invD = reachable_inv [unfolded registry_inv_def]

end
