(* ===== verification/Control_Props.thy ===== *)
theory Control_Props
  imports Control_Steps
begin

text \<open>
  The properties of the input lease and the power quarantine: mutual exclusion, who may pre-empt
  whom, quarantine until an explicit start succeeds, draining, generations and lease expiry.
\<close>

section \<open>Exclusive leases\<close>

text \<open>A controller still drives its desktop until its release removes it from the registry.\<close>

definition holds :: "sys \<Rightarrow> string \<Rightarrow> nat \<Rightarrow> bool" where
  "holds s d c \<longleftrightarrow> c < length (home s) \<and> home s ! c = d \<and>
     \<not> doneClosed (heap (reg s) ! c) \<and> c \<notin> releasing s"

lemma holds_active: "reachable es s \<Longrightarrow> holds s d c \<longleftrightarrow> mget (active (reg s)) d = Some c"
  using reachable_invD [of es s] lease_invD(3,4) [of s] unfolding holds_def by metis

section \<open>Quarantine\<close>

definition quarantined :: "string \<Rightarrow> sys \<Rightarrow> bool" where
  "quarantined d s \<longleftrightarrow> blocked (reg s) d \<and>
     (\<forall>p. mget (powerOps (reg s)) d = Some p \<longrightarrow> priorBlocked p)"

definition start_succeeds :: "string \<Rightarrow> event \<Rightarrow> bool" where
  "start_succeeds d e =
     (case e of
        EFinishPower d' p out \<Rightarrow> d' = d \<and> opAction p = ''start'' \<and> out = powerSucceeded
      | _ \<Rightarrow> False)"

lemma grants_home:
  "grants r d c r' \<Longrightarrow> blocked r d' \<Longrightarrow> count_list (h @ [d]) d' = count_list h d'"
  by (auto simp: grants_def)

lemma finishPower_keeps_blocked:
  assumes "blocked r d" and "mget (powerOps r) d = Some p" and "priorBlocked p"
    and "\<not> (opAction p = ''start'' \<and> out = powerSucceeded)"
  shows "blocked (finishPower d p out r) d"
  using assms by (simp add: finishPower_def Let_def)

lemma quarantined_finish:
  assumes inv: "power_inv s" and q: "quarantined d s" and m: "(d', p) \<in> dispatching s"
    and n: "\<not> start_succeeds d (EFinishPower d' p out)"
  shows "quarantined d (s\<lparr>reg := finishPower d' p out (reg s), dispatching := x\<rparr>)"
proof (cases "d' = d \<and> map_option opRef (mget (powerOps (reg s)) d) = Some (opRef p)")
  case True
  then obtain p' where p': "mget (powerOps (reg s)) d = Some p'" "opRef p' = opRef p" by auto
  have "(d, p') \<in> dispatching s" using power_invD(1) [OF inv p'(1)] by simp
  then have "p = p'" using power_invD(3) [OF inv _ m] p'(2) by blast
  with p' have p: "mget (powerOps (reg s)) d = Some p" by simp
  then have "blocked (finishPower d p out (reg s)) d"
    using True q n by (intro finishPower_keeps_blocked) (simp_all add: quarantined_def start_succeeds_def)
  then show ?thesis using True by (simp add: quarantined_def)
next
  case False
  then have "blocked (finishPower d' p out (reg s)) d = blocked (reg s) d"
    by (cases "d' = d") (auto simp: finishPower_blocked_other finishPower_blocked_stale)
  with q False show ?thesis by (auto simp: quarantined_def split: if_splits)
qed

lemma quarantined_step:
  assumes "step s e t" and "power_inv s" and "quarantined d s" and "\<not> start_succeeds d e"
  shows "quarantined d t \<and> count_list (home t) d = count_list (home s) d"
  using assms
proof (cases rule: step.cases)
  case (acquire_granted e' d' a tk c r)
  with assms show ?thesis
    by (auto dest!: acquireBegin_Granted simp: quarantined_def grants_home) (auto simp: grants_def)
next
  case (acquire_wait e' d' a tk k p r)
  with assms show ?thesis by (auto dest!: acquireBegin_AwaitRevocation simp: quarantined_def)
next
  case (resume_refused d' a k p w e' x r)
  with assms show ?thesis by (auto dest!: acquireResume_Inl simp: quarantined_def split: if_splits)
next
  case (resume_granted d' a k p w e' c r)
  with assms show ?thesis
    by (auto dest!: acquireResume_Inr simp: quarantined_def grants_home) (auto simp: grants_def)
next
  case (agent_granted d' l n c r)
  with assms show ?thesis
    by (auto dest!: acquireAgent_Inr simp: quarantined_def grants_home) (auto simp: grants_def)
next
  case (power_begin d' act operation r)
  with assms show ?thesis by (auto dest!: beginPower_Inr simp: quarantined_def split: if_splits)
next
  case (power_finish d' operation out)
  with assms show ?thesis using quarantined_finish by auto
next
  case (revoke cs r)
  with assms show ?thesis by (auto simp: quarantined_def revokeAll_effect [OF revoke(3)])
qed (auto dest!: acquireBegin_Refused acquireAgent_Inl beginPower_Inl simp: quarantined_def)

lemma quarantined_run:
  assumes "reachable es s" and "run step s es' t" and "quarantined d s"
    and "\<And>e. e \<in> set es' \<Longrightarrow> \<not> start_succeeds d e"
  shows "quarantined d t \<and> count_list (home t) d = count_list (home s) d"
proof (rule registry.run_relates [OF assms(2) reachable_inv [OF assms(1)]])
  show "quarantined d s \<and> count_list (home s) d = count_list (home s) d" using assms(3) by simp
next
  fix u e v
  assume "quarantined d u \<and> count_list (home u) d = count_list (home s) d" "registry_inv u"
    "e \<in> set es'" "step u e v"
  then show "quarantined d v \<and> count_list (home v) d = count_list (home s) d"
    using quarantined_step [of u e v d] assms(4) by (simp add: registry_inv_def)
qed

section \<open>Draining\<close>

lemma draining_step:
  assumes "step s e t" and "takeover_inv s" and "draining (reg s)"
  shows "draining (reg t) \<and> home t = home s"
  using assms
proof (cases rule: step.cases)
  case (resume_granted d' a k p w e' c r)
  with assms show ?thesis using takeover_invD(1) [of s d'] by (auto dest!: acquireResume_Inr)
next
  case (resume_refused d' a k p w e' x r)
  with assms show ?thesis by (auto dest!: acquireResume_Inl split: if_splits)
next
  case (revoke cs r)
  with assms show ?thesis by (auto simp: revokeAll_effect [OF revoke(3)])
qed (auto dest!: step_effects)


lemma draining_run:
  assumes "reachable es s" and "run step s es' t" and "draining (reg s)"
  shows "draining (reg t) \<and> home t = home s"
proof (rule registry.run_relates [OF assms(2) reachable_inv [OF assms(1)]])
  show "draining (reg s) \<and> home s = home s" using assms(3) by simp
next
  fix u e v
  assume "draining (reg u) \<and> home u = home s" "registry_inv u" "step u e v"
  then show "draining (reg v) \<and> home v = home s"
    using draining_step [of u e v] by (simp add: registry_inv_def)
qed

section \<open>A sample run\<close>

text \<open>
  An agent takes the lease, the human asks to take it over, the agent's lease is released and
  the human's request resumes. The states of this run are the concrete inputs of the witnesses.
\<close>

definition agentLease :: controller where
  "agentLease = \<lparr>actor = actorAgent, generation = 1, ctxDone = False, doneClosed = False,
     ttl = 120 * seconds, lastTouch = 0\<rparr>"

definition s_agent :: sys where
  "s_agent = \<lparr>reg = newControlRegistry\<lparr>heap := [agentLease], active := [(''desk'', 0)],
       generations := [(''desk'', 1)]\<rparr>,
     home = [''desk''], waiters = {}, releasing = {}, dispatching = {}\<rparr>"

definition s_wait :: sys where
  "s_wait = s_agent\<lparr>reg := (reg s_agent)\<lparr>heap := [agentLease\<lparr>ctxDone := True\<rparr>],
       takeovers := [(''desk'', 0)], nextRef := 1\<rparr>,
     waiters := {(''desk'', actorHuman, 0, 0)}\<rparr>"

definition s_drained :: sys where
  "s_drained = s_wait\<lparr>reg := (reg s_wait)\<lparr>draining := True, takeovers := [],
     controlBlocked := [(''desk'', True)]\<rparr>\<rparr>"

definition s_power :: sys where
  "s_power = boot\<lparr>reg := newControlRegistry\<lparr>
       powerOps := [(''desk'', \<lparr>opRef = 0, opAction = ''stop'', priorBlocked = False\<rparr>)],
       controlBlocked := [(''desk'', True)], nextRef := 1\<rparr>,
     dispatching := {(''desk'', \<lparr>opRef = 0, opAction = ''stop'', priorBlocked = False\<rparr>)}\<rparr>"

definition s_unknown :: sys where
  "s_unknown = boot\<lparr>reg := newControlRegistry\<lparr>controlBlocked := [(''desk'', True)], nextRef := 1\<rparr>\<rparr>"

lemmas sample_defs =
  boot_def newControlRegistry_def s_agent_def agentLease_def s_wait_def s_drained_def s_power_def
  s_unknown_def

lemma sample_agent: "reachable [EAcquireAgent ''desk''] s_agent"
proof -
  have "step boot (EAcquireAgent ''desk'') s_agent"
    using step.agent_granted [of "''desk''" "120 * seconds" 0 boot 0 "reg s_agent"]
    by (simp add: sample_defs acquireAgent_def grantLocked_def mget_zero_def)
  then show ?thesis using run.run_snoc [OF run.run_Nil] by fastforce
qed

lemma sample_wait: "reachable [EAcquireAgent ''desk'', EAcquire ''desk'' actorHuman True] s_wait"
proof -
  have "step s_agent (EAcquire ''desk'' actorHuman True) s_wait"
    using step.acquire_wait [of None "''desk''" actorHuman True s_agent 0 0 "reg s_wait"]
    by (simp add: sample_defs acquireBegin_def cancel_def mget_zero_def)
  then show ?thesis using run.run_snoc [OF sample_agent] by fastforce
qed

lemma sample_drained:
  "reachable [EAcquireAgent ''desk'', EAcquire ''desk'' actorHuman True, ERevokeAll] s_drained"
proof -
  have "step s_wait ERevokeAll s_drained"
    using step.revoke [of s_wait "[0]" "reg s_drained"]
    by (simp add: sample_defs revokeAll_def cancel_def block_def unreserve_def)
  then show ?thesis using run.run_snoc [OF sample_wait] by fastforce
qed

lemma sample_power: "reachable [EBeginPower ''desk'' ''stop''] s_power"
proof -
  have "step boot (EBeginPower ''desk'' ''stop'') s_power"
    using step.power_begin [of "''desk''" "''stop''" boot
        "\<lparr>opRef = 0, opAction = ''stop'', priorBlocked = False\<rparr>" "reg s_power"]
    by (simp add: sample_defs beginPower_def mget_zero_def Let_def)
  then show ?thesis using run.run_snoc [OF run.run_Nil] by fastforce
qed

lemma sample_unknown:
  "reachable [EBeginPower ''desk'' ''stop'', EFinishPower ''desk''
     \<lparr>opRef = 0, opAction = ''stop'', priorBlocked = False\<rparr> powerUnknown] s_unknown"
proof -
  have "step s_power (EFinishPower ''desk''
      \<lparr>opRef = 0, opAction = ''stop'', priorBlocked = False\<rparr> powerUnknown) s_unknown"
    using step.power_finish [of "''desk''" "\<lparr>opRef = 0, opAction = ''stop'', priorBlocked = False\<rparr>"
        s_power powerUnknown]
    by (simp add: sample_defs finishPower_def Let_def)
  then show ?thesis using run.run_snoc [OF sample_power] by fastforce
qed

section \<open>Properties\<close>

text \<open>
  C1. In every reachable state of the gateway, at most one granted controller still holds a
  desktop: two controllers granted for the same desktop and not yet released are the same one,
  whatever the interleaving of acquisitions, takeovers, releases, power operations and shutdown.
\<close>

theorem lease_exclusive:
  assumes "reachable es s" and "holds s d c" and "holds s d c'"
  shows "c = c'"
  using holds_active [OF assms(1)] assms(2,3) by simp

theorem lease_exclusive_witness: "holds s_agent ''desk'' 0 \<and> (0::nat) = 0"
proof -
  have h: "holds s_agent ''desk'' 0" by (simp add: holds_def sample_defs)
  show ?thesis using lease_exclusive [OF sample_agent h h] h by simp
qed

text \<open>
  C2. While a power operation on a desktop is in flight, the desktop is blocked, no controller
  holds it and no takeover is reserved on it, in every reachable state.
\<close>

theorem no_lease_during_power:
  assumes "reachable es s" and "mget (powerOps (reg s)) d = Some p"
  shows "blocked (reg s) d \<and> (\<nexists>c. holds s d c) \<and> mget (takeovers (reg s)) d = None"
  using reachable_invD [OF assms(1)] power_invD(1) [of s d p] assms(2) holds_active [OF assms(1)]
  by simp

theorem no_lease_during_power_witness:
  "blocked (reg s_power) ''desk'' \<and> (\<nexists>c. holds s_power ''desk'' c)"
proof -
  have "mget (powerOps (reg s_power)) ''desk'' =
      Some \<lparr>opRef = 0, opAction = ''stop'', priorBlocked = False\<rparr>"
    by (simp add: sample_defs)
  from no_lease_during_power [OF sample_power this] show ?thesis by simp
qed

text \<open>
  C3. A desktop left in quarantine (blocked, with no power operation that could lift the block by
  being rejected) stays in quarantine, and nobody is granted its input, along every run in which
  no explicit start of that desktop succeeds.
\<close>

theorem quarantine_until_start:
  assumes "reachable es s" and "run step s es' t" and "quarantined d s"
    and "\<forall>e \<in> set es'. \<not> start_succeeds d e"
  shows "quarantined d t \<and> count_list (home t) d = count_list (home s) d"
  using quarantined_run assms by blast

theorem quarantine_until_start_witness:
  "quarantined ''desk'' s_unknown \<and> count_list (home s_unknown) ''desk'' = 0"
proof -
  have q: "quarantined ''desk'' s_unknown" by (simp add: quarantined_def sample_defs mget_zero_def)
  from quarantine_until_start [OF sample_unknown run.run_Nil q] show ?thesis
    using q by (simp add: sample_defs)
qed



text \<open>
  The generation of a lease identifies it: the active lease of a desktop carries the
  generation that the registry reports, and two different leases of one desktop have different
  generations as long as fewer than \<open>2 ^ 64\<close> leases of it were granted.
\<close>

lemma count_list_take_less:
  assumes "i < j" and "j < length xs" and "xs ! i = xs ! j"
  shows "count_list (take (Suc i) xs) (xs ! i) < count_list (take (Suc j) xs) (xs ! j)"
proof -
  have "take (Suc j) xs = take (Suc i) xs @ drop (Suc i) (take j xs) @ [xs ! j]"
    using assms by (metis Suc_leI append.assoc append_take_drop_id min.absorb1 take_Suc_conv_app_nth take_take)
  then show ?thesis using assms(3) by simp
qed

lemma count_list_take_le: "count_list (take n xs) x \<le> count_list xs x"
  by (metis append_take_drop_id count_list_append le_add1)

lemma of_nat_word64_inj: "m < n \<Longrightarrow> n < 2 ^ 64 \<Longrightarrow> (of_nat m :: 64 word) \<noteq> of_nat n"
  by (simp add: word_of_nat_eq_iff take_bit_nat_eq_self)

lemma generation_differs:
  assumes inv: "generation_inv s" and c: "c < c'" "c' < length (home s)" "home s ! c = home s ! c'"
    and few: "count_list (home s) (home s ! c) < 2 ^ 64"
  shows "generation (heap (reg s) ! c) \<noteq> generation (heap (reg s) ! c')"
proof -
  let ?n = "\<lambda>c. count_list (take (Suc c) (home s)) (home s ! c)"
  have "?n c < ?n c'" using count_list_take_less [OF c] .
  moreover have "?n c' < 2 ^ 64"
    using count_list_take_le [of "Suc c'" "home s" "home s ! c'"] few c(3) by simp
  ultimately have "(of_nat (?n c) :: 64 word) \<noteq> of_nat (?n c')"
    by (rule of_nat_word64_inj)
  then show ?thesis using generation_invD(4) [OF inv] c by simp
qed

lemma generation_identifies_lease:
  assumes "reachable es s" and "count_list (home s) d < 2 ^ 64"
  shows "(\<forall>c. mget (active (reg s)) d = Some c \<longrightarrow> generation (heap (reg s) ! c) = gen (reg s) d) \<and>
    (\<forall>c c'. c < length (home s) \<longrightarrow> c' < length (home s) \<longrightarrow> home s ! c = d \<longrightarrow> home s ! c' = d \<longrightarrow>
       generation (heap (reg s) ! c) = generation (heap (reg s) ! c') \<longrightarrow> c = c')"
proof -
  have inv: "generation_inv s" using reachable_invD [OF assms(1)] by simp
  have "c = c'" if "c < length (home s)" "c' < length (home s)" "home s ! c = d" "home s ! c' = d"
    "generation (heap (reg s) ! c) = generation (heap (reg s) ! c')" for c c'
    using that generation_differs [OF inv, of c c'] generation_differs [OF inv, of c' c] assms(2)
    by (metis nat_neq_iff)
  then show ?thesis using generation_invD(3) [OF inv] by blast
qed

lemma generation_identifies_lease_witness:
  "generation (heap (reg s_agent) ! 0) = gen (reg s_agent) ''desk'' \<and> gen (reg s_agent) ''desk'' = 1"
  using generation_identifies_lease [OF sample_agent, of "''desk''"]
  by (simp add: sample_defs mget_zero_def)

text \<open>
  Only a human may pre-empt, and only an agent: if the first critical section of \<^verbatim>\<open>acquire\<close>
  cancels the context of a lease, that lease is the active one of the requested desktop, it
  belongs to an agent, and the request comes from the human and asks for the takeover.
\<close>

lemma preemption_only_human_over_agent:
  assumes "acquireBegin e d a takeover r = (out, r')" and "c < length (heap r)"
    and "\<not> ctxDone (heap r ! c)" and "ctxDone (heap r' ! c)"
  shows "a = actorHuman \<and> takeover \<and> mget (active r) d = Some c \<and> actor (heap r ! c) = actorAgent"
proof (cases out)
  case (Refused x)
  with assms acquireBegin_Refused show ?thesis by blast
next
  case (Granted c')
  with assms have "grants r d c' r'" using acquireBegin_Granted by blast
  with assms show ?thesis by (auto simp: grants_def nth_append)
next
  case (AwaitRevocation k p)
  note E = acquireBegin_AwaitRevocation [OF assms(1) [unfolded AwaitRevocation]]
  have "c = p" using assms(2-4) E by (auto simp: cancel_def nth_update_in split: if_splits)
  with E show ?thesis by simp
qed

lemma preemption_only_human_over_agent_witness:
  "actor (heap (reg s_agent) ! 0) = actorAgent \<and> ctxDone (heap (reg s_wait) ! 0)"
proof -
  have b: "acquireBegin None ''desk'' actorHuman True (reg s_agent) = (AwaitRevocation 0 0, reg s_wait)"
    by (simp add: sample_defs acquireBegin_def cancel_def mget_zero_def)
  have "ctxDone (heap (reg s_wait) ! 0)" by (simp add: sample_defs)
  with preemption_only_human_over_agent [OF b, of 0] show ?thesis by (simp add: sample_defs)
qed

text \<open>
  At most one takeover waits on a desktop until the registry drains, and its reservation is
  the one the registry holds. The code compares reservation pointers of an empty struct type,
  which Go allows to be equal for different objects; because of this invariant the comparison
  decides nothing beyond presence.
\<close>

lemma one_takeover_waits:
  assumes "reachable es s" and "\<not> draining (reg s)"
    and "(d, a, k, p) \<in> waiters s" and "(d, a', k', p') \<in> waiters s"
  shows "(a', k', p') = (a, k, p) \<and> mget (takeovers (reg s)) d = Some k"
proof -
  have inv: "takeover_inv s" using reachable_invD [OF assms(1)] by simp
  have "k' = k"
    using takeover_invD(4) [OF inv assms(3,2)] takeover_invD(4) [OF inv assms(4,2)] by simp
  moreover from this have "a' = a" "p' = p"
    using takeover_invD(5) [OF inv assms(3), of d a' p'] assms(4) by simp_all
  ultimately show ?thesis using takeover_invD(4) [OF inv assms(3,2)] by simp
qed

lemma one_takeover_waits_witness:
  "waiters s_wait = {(''desk'', actorHuman, 0, 0)} \<and> mget (takeovers (reg s_wait)) ''desk'' = Some 0"
proof -
  have w: "(''desk'', actorHuman, 0, 0) \<in> waiters s_wait" "\<not> draining (reg s_wait)"
    by (simp_all add: sample_defs)
  from one_takeover_waits [OF sample_wait w(2) w(1) w(1)] show ?thesis by (simp add: sample_defs)
qed

text \<open>
  The expiry of an agent lease: the poll interval is positive and at most five seconds, a
  quarter of the lease time when that is between one nanosecond and five seconds, and a round of
  the loop that finds the lease idle for longer than its lease time ends the loop and leaves
  the desktop without that lease, its \<^verbatim>\<open>done\<close> channel closed.
\<close>

lemma expire_loop_releases:
  "0 < expireInterval leaseTtl \<and> expireInterval leaseTtl \<le> 5 * seconds \<and>
   (4 \<le> leaseTtl \<longrightarrow> expireInterval leaseTtl \<le> leaseTtl div 4) \<and>
   (c < length (heap r) \<and> ttl (heap r ! c) < now - lastTouch (heap r ! c) \<longrightarrow>
      expireRound True now d c r = (False, release d c r) \<and>
      mget (active (release d c r)) d \<noteq> Some c \<and> doneClosed (heap (release d c r) ! c))"
proof -
  have "0 < expireInterval leaseTtl" "expireInterval leaseTtl \<le> 5 * seconds"
    by (simp_all add: expireInterval_def Let_def)
  moreover have "4 \<le> leaseTtl \<longrightarrow> expireInterval leaseTtl \<le> leaseTtl div 4"
    by (auto simp: expireInterval_def Let_def sgn_if)
  moreover have "doneClosed (heap (release d c r) ! c)" if "c < length (heap r)"
    using that by (simp add: release_def)
  moreover have "mget (active (release d c r)) d \<noteq> Some c"
    by (simp add: release_def)
  ultimately show ?thesis by (simp add: expireRound_def)
qed

lemma expire_loop_releases_witness:
  "expireInterval (120 * seconds) = 5 * seconds \<and>
   mget (active (release ''desk'' 0 (reg s_agent))) ''desk'' \<noteq> Some 0"
  using expire_loop_releases [of "120 * seconds" 0 "reg s_agent" "121 * seconds" "''desk''"]
  by (simp add: sample_defs expireInterval_def)

end
