(* ===== verification/Kube.thy ===== *)
theory Kube
  imports Prelude
begin

text \<open>
  What the operator's code sees of Kubernetes and KubeVirt (\<^verbatim>\<open>internal/desktopgateway/kubevirt.go\<close>):
  the decoded virtual machine objects, the client interface of the gateway, and the decoding of
  unstructured objects. Errors of the Kubernetes client libraries are values of a type parameter
  \<open>'e\<close>; the library functions that classify them are the fields of a record that every model
  function calling them takes as an argument.
\<close>

section \<open>Errors of the Kubernetes client libraries\<close>

datatype status_reason =
    ReasonNotFound
  | ReasonUnauthorized
  | ReasonForbidden
  | ReasonBadRequest
  | ReasonInvalid
  | ReasonMethodNotAllowed
  | ReasonNotAcceptable
  | ReasonRequestEntityTooLarge
  | ReasonUnsupportedMediaType
  | ReasonConflict
  | ReasonTimeout
  | ReasonServerTimeout
  | ReasonServiceUnavailable
  | ReasonOther string

record 'e api_errors =
  ReasonForError :: "'e \<Rightarrow> status_reason"
  IsNotFound :: "'e \<Rightarrow> bool"
  IsConflict :: "'e \<Rightarrow> bool"
  IsAlreadyExists :: "'e \<Rightarrow> bool"
  IsBadRequest :: "'e \<Rightarrow> bool"
  IsInvalid :: "'e \<Rightarrow> bool"
  IsTimeout :: "'e \<Rightarrow> bool"
  IsServerTimeout :: "'e \<Rightarrow> bool"
  IsServiceUnavailable :: "'e \<Rightarrow> bool"
  IsTooManyRequests :: "'e \<Rightarrow> bool"
  IsDeadlineExceeded :: "'e \<Rightarrow> bool"
  IsCanceled :: "'e \<Rightarrow> bool"
  GetStatusCode :: "'e \<Rightarrow> int option"
  ErrorText :: "'e \<Rightarrow> string"
  WrapError :: "string \<Rightarrow> 'e \<Rightarrow> 'e"

section \<open>KubeVirt objects\<close>

abbreviation VirtualMachineStatusRunning :: string where
  "VirtualMachineStatusRunning \<equiv> ''Running''"
abbreviation VirtualMachineStatusStopped :: string where
  "VirtualMachineStatusStopped \<equiv> ''Stopped''"
abbreviation VirtualMachineInstanceRunning :: string where
  "VirtualMachineInstanceRunning \<equiv> ''Running''"
abbreviation RunStrategyManual :: string where
  "RunStrategyManual \<equiv> ''Manual''"

definition finalInstancePhase :: "string \<Rightarrow> bool" where
  "finalInstancePhase phase \<longleftrightarrow> phase = ''Succeeded'' \<or> phase = ''Failed''"

record VirtualMachine =
  vmUID :: string
  vmDeleting :: bool
  RunStrategy :: string
  PrintableStatus :: string
  StateChangeRequests :: "string list"

record VirtualMachineInstance =
  vmiUID :: string
  vmiDeleting :: bool
  Phase :: string

text \<open>
  The client of the gateway, over the state \<open>'w\<close> of the world it talks to. The context argument
  is left out: that a deadline passed shows as an error the call returns.
\<close>

record ('w, 'e) KubeVirtClient =
  GetVM :: "string \<Rightarrow> string \<Rightarrow> 'w \<Rightarrow> ('e + VirtualMachine) \<times> 'w"
  GetVMI :: "string \<Rightarrow> string \<Rightarrow> 'w \<Rightarrow> ('e + VirtualMachineInstance) \<times> 'w"
  StartVM :: "string \<Rightarrow> string \<Rightarrow> 'w \<Rightarrow> 'e option \<times> 'w"
  StopVM :: "string \<Rightarrow> string \<Rightarrow> 'w \<Rightarrow> 'e option \<times> 'w"
  ScreenshotVM :: "string \<Rightarrow> string \<Rightarrow> 'w \<Rightarrow> ('e + string) \<times> 'w"
  DialVNC :: "string \<Rightarrow> string \<Rightarrow> 'w \<Rightarrow> 'e option \<times> 'w"

section \<open>Decoding unstructured objects\<close>

text \<open>
  The accessors of the \<^verbatim>\<open>unstructured\<close> library over its maps \<open>'m\<close> and list entries \<open>'v\<close>:
  a nested look-up fails when a field has another type, and otherwise says whether it found one.
\<close>

record ('m, 'v, 'e) unstructured_lib =
  GetUID :: "'m \<Rightarrow> string"
  HasDeletionTimestamp :: "'m \<Rightarrow> bool"
  NestedString :: "'m \<Rightarrow> string list \<Rightarrow> 'e + string option"
  NestedSlice :: "'m \<Rightarrow> string list \<Rightarrow> 'e + 'v list option"
  AsMap :: "'v \<Rightarrow> 'm option"

datatype 'e decode_error =
    ObjectMissing
  | FieldError "string list" 'e
  | EntryNotAMap

definition nestedString ::
  "('m, 'v, 'e) unstructured_lib \<Rightarrow> 'm \<Rightarrow> string list \<Rightarrow> 'e decode_error + string" where
  "nestedString lib object path =
     (case NestedString lib object path of
        Inl err \<Rightarrow> Inl (FieldError path err)
      | Inr None \<Rightarrow> Inr ''''
      | Inr (Some value) \<Rightarrow> Inr value)"

fun decodeRequests ::
  "('m, 'v, 'e) unstructured_lib \<Rightarrow> 'v list \<Rightarrow> 'e decode_error + string list" where
  "decodeRequests lib [] = Inr []"
| "decodeRequests lib (entry # entries) =
     (case AsMap lib entry of
        None \<Rightarrow> Inl EntryNotAMap
      | Some mapped \<Rightarrow>
         (case nestedString lib mapped [''action''] of
            Inl err \<Rightarrow> Inl err
          | Inr action \<Rightarrow>
             (case decodeRequests lib entries of
                Inl err \<Rightarrow> Inl err
              | Inr rest \<Rightarrow> Inr (action # rest))))"

definition decodeVirtualMachine ::
  "('m, 'v, 'e) unstructured_lib \<Rightarrow> 'm option \<Rightarrow> 'e decode_error + VirtualMachine" where
  "decodeVirtualMachine lib object =
     (case object of
        None \<Rightarrow> Inl ObjectMissing
      | Some m \<Rightarrow>
         (case nestedString lib m [''spec'', ''runStrategy''] of
            Inl err \<Rightarrow> Inl err
          | Inr runStrategy \<Rightarrow>
             (case nestedString lib m [''status'', ''printableStatus''] of
                Inl err \<Rightarrow> Inl err
              | Inr printableStatus \<Rightarrow>
                 (case NestedSlice lib m [''status'', ''stateChangeRequests''] of
                    Inl err \<Rightarrow> Inl (FieldError [''status'', ''stateChangeRequests''] err)
                  | Inr found \<Rightarrow>
                     (case decodeRequests lib (case found of None \<Rightarrow> [] | Some entries \<Rightarrow> entries) of
                        Inl err \<Rightarrow> Inl err
                      | Inr requests \<Rightarrow>
                          Inr \<lparr>vmUID = GetUID lib m, vmDeleting = HasDeletionTimestamp lib m,
                               RunStrategy = runStrategy, PrintableStatus = printableStatus,
                               StateChangeRequests = requests\<rparr>)))))"

definition decodeVirtualMachineInstance ::
  "('m, 'v, 'e) unstructured_lib \<Rightarrow> 'm option \<Rightarrow> 'e decode_error + VirtualMachineInstance" where
  "decodeVirtualMachineInstance lib object =
     (case object of
        None \<Rightarrow> Inl ObjectMissing
      | Some m \<Rightarrow>
         (case nestedString lib m [''status'', ''phase''] of
            Inl err \<Rightarrow> Inl err
          | Inr phase \<Rightarrow>
              Inr \<lparr>vmiUID = GetUID lib m, vmiDeleting = HasDeletionTimestamp lib m, Phase = phase\<rparr>))"

lemma decodeRequests_length:
  "decodeRequests lib entries = Inr requests \<Longrightarrow> length requests = length entries"
  by (induction entries arbitrary: requests) (auto split: option.splits sum.splits)

lemma decodeVirtualMachine_idle:
  assumes "decodeVirtualMachine lib (Some m) = Inr vm" and "StateChangeRequests vm = []"
  shows "NestedSlice lib m [''status'', ''stateChangeRequests''] \<in> {Inr None, Inr (Some [])}"
  using assms
  by (auto simp: decodeVirtualMachine_def split: sum.splits option.splits
      dest!: decodeRequests_length)

end
