(* ===== verification/Power_Dispatch.thy ===== *)
theory Power_Dispatch
  imports Control Kube
begin

text \<open>
  The classification of KubeVirt power dispatches (\<^verbatim>\<open>internal/desktopgateway/power.go\<close>):
  what an answer of the API server proves about the desktop, and the HTTP status it maps to.
\<close>

section \<open>Outcomes\<close>

fun label :: "powerOutcome \<Rightarrow> string" where
  "label powerSucceeded = ''Succeeded''"
| "label powerRejected = ''Rejected''"
| "label powerUnknown = ''UnknownOutcome''"

datatype 'e power_error = UnknownAction string | ApiError 'e

record 'e powerResult =
  outcome :: powerOutcome
  idempotent :: bool
  powerErr :: "'e power_error option"

definition definitivePowerRejection :: "'e api_errors \<Rightarrow> 'e \<Rightarrow> bool" where
  "definitivePowerRejection api err =
     (case ReasonForError api err of
        ReasonNotFound \<Rightarrow> True
      | ReasonUnauthorized \<Rightarrow> True
      | ReasonForbidden \<Rightarrow> True
      | ReasonBadRequest \<Rightarrow> True
      | ReasonInvalid \<Rightarrow> True
      | ReasonMethodNotAllowed \<Rightarrow> True
      | ReasonNotAcceptable \<Rightarrow> True
      | ReasonRequestEntityTooLarge \<Rightarrow> True
      | ReasonUnsupportedMediaType \<Rightarrow> True
      | _ \<Rightarrow> False)"

definition kubeVirtOperationStatus :: "'e api_errors \<Rightarrow> 'e \<Rightarrow> nat" where
  "kubeVirtOperationStatus api err =
     (if IsNotFound api err then StatusNotFound
      else if IsBadRequest api err \<or> IsInvalid api err then StatusBadRequest
      else if IsTimeout api err \<or> IsServerTimeout api err \<or> IsServiceUnavailable api err
        then StatusServiceUnavailable
      else if IsConflict api err \<or> definitivePowerRejection api err then StatusConflict
      else StatusBadGateway)"

definition stableRunningAfterStartConflict ::
  "VirtualMachine option \<Rightarrow> VirtualMachineInstance option \<Rightarrow> bool" where
  "stableRunningAfterStartConflict vm vmi =
     (case vm of
        None \<Rightarrow> False
      | Some v \<Rightarrow>
          \<not> vmDeleting v \<and> PrintableStatus v = VirtualMachineStatusRunning \<and>
          length (StateChangeRequests v) = 0 \<and>
          (case vmi of
             None \<Rightarrow> False
           | Some i \<Rightarrow> Phase i = VirtualMachineInstanceRunning \<and> \<not> vmiDeleting i))"

definition stableStoppedAfterStopConflict ::
  "VirtualMachine option \<Rightarrow> VirtualMachineInstance option \<Rightarrow> bool" where
  "stableStoppedAfterStopConflict vm vmi =
     (case vm of
        None \<Rightarrow> False
      | Some v \<Rightarrow>
          \<not> vmDeleting v \<and> RunStrategy v = RunStrategyManual \<and>
          PrintableStatus v = VirtualMachineStatusStopped \<and>
          length (StateChangeRequests v) = 0 \<and>
          (case vmi of None \<Rightarrow> True | Some i \<Rightarrow> finalInstancePhase (Phase i)))"

section \<open>Dispatch\<close>

definition confirmSettledAfterConflict ::
  "'e api_errors \<Rightarrow> ('w, 'e) KubeVirtClient \<Rightarrow> string \<Rightarrow> string \<Rightarrow> string \<Rightarrow> 'w
     \<Rightarrow> ('e + bool) \<times> 'w" where
  "confirmSettledAfterConflict api kv ns name act w =
     (case GetVM kv ns name w of
        (Inl err, w1) \<Rightarrow>
          (Inl (WrapError api (''confirm VirtualMachine after '' @ act @ '' conflict'') err), w1)
      | (Inr vm, w1) \<Rightarrow>
         (case GetVMI kv ns name w1 of
            (Inr vmi, w2) \<Rightarrow>
              (Inr (if act = ''start'' then stableRunningAfterStartConflict (Some vm) (Some vmi)
                    else stableStoppedAfterStopConflict (Some vm) (Some vmi)), w2)
          | (Inl err, w2) \<Rightarrow>
              if act = ''stop'' \<and> IsNotFound api err
              then (Inr (stableStoppedAfterStopConflict (Some vm) None), w2)
              else (Inl (WrapError api
                (''confirm VirtualMachineInstance after '' @ act @ '' conflict'') err), w2)))"

definition dispatchPower ::
  "'e api_errors \<Rightarrow> ('w, 'e) KubeVirtClient \<Rightarrow> string \<Rightarrow> string \<Rightarrow> string \<Rightarrow> 'w
     \<Rightarrow> 'e powerResult \<times> 'w" where
  "dispatchPower api kv ns name act w =
     (if act \<noteq> ''start'' \<and> act \<noteq> ''stop''
      then (\<lparr>outcome = powerRejected, idempotent = False, powerErr = Some (UnknownAction act)\<rparr>, w)
      else
       (case (if act = ''start'' then StartVM kv ns name w else StopVM kv ns name w) of
          (None, w1) \<Rightarrow> (\<lparr>outcome = powerSucceeded, idempotent = False, powerErr = None\<rparr>, w1)
        | (Some err, w1) \<Rightarrow>
            let classify = (\<lambda>w'.
                  (\<lparr>outcome = (if definitivePowerRejection api err then powerRejected else powerUnknown),
                    idempotent = False, powerErr = Some (ApiError err)\<rparr>, w'))
            in if IsConflict api err
               then (case confirmSettledAfterConflict api kv ns name act w1 of
                       (Inl confirmErr, w2) \<Rightarrow>
                         (\<lparr>outcome = powerUnknown, idempotent = False,
                           powerErr = Some (ApiError confirmErr)\<rparr>, w2)
                     | (Inr settled, w2) \<Rightarrow>
                         if settled
                         then (\<lparr>outcome = powerSucceeded, idempotent = True, powerErr = None\<rparr>, w2)
                         else classify w2)
               else classify w1))"

section \<open>What the classification means\<close>

text \<open>The error that the dispatched verb itself returned.\<close>

definition verbError ::
  "('w, 'e) KubeVirtClient \<Rightarrow> string \<Rightarrow> string \<Rightarrow> string \<Rightarrow> 'w \<Rightarrow> 'e option" where
  "verbError kv ns name act w =
     fst (if act = ''start'' then StartVM kv ns name w else StopVM kv ns name w)"

lemma dispatch_rejected:
  assumes "fst (dispatchPower api kv ns name act w) = res" and "outcome res = powerRejected"
    and "act = ''start'' \<or> act = ''stop''"
  shows "\<exists>err. verbError kv ns name act w = Some err \<and> definitivePowerRejection api err
    \<and> powerErr res = Some (ApiError err)"
  using assms
  by (auto simp: dispatchPower_def verbError_def Let_def
      split: prod.splits option.splits if_splits sum.splits)

lemma dispatch_succeeded:
  assumes "fst (dispatchPower api kv ns name act w) = res" and "outcome res = powerSucceeded"
  shows "(act = ''start'' \<or> act = ''stop'') \<and>
    (verbError kv ns name act w = None \<and> \<not> idempotent res \<or>
     (\<exists>err. verbError kv ns name act w = Some err \<and> IsConflict api err) \<and> idempotent res)"
  using assms
  by (auto simp: dispatchPower_def verbError_def Let_def
      split: prod.splits option.splits if_splits sum.splits)

lemma dispatch_unknown_err:
  assumes "fst (dispatchPower api kv ns name act w) = res" and "outcome res = powerUnknown"
  shows "\<exists>err. powerErr res = Some (ApiError err)"
  using assms
  by (auto simp: dispatchPower_def Let_def split: prod.splits option.splits if_splits sum.splits)

end
