(* ===== verification/Auth.thy ===== *)
theory Auth
  imports Control
begin

text \<open>
  Configuration and authentication of the Desktop Gateway
  (\<^verbatim>\<open>internal/desktopgateway/config.go\<close> and \<^verbatim>\<open>auth.go\<close>). The parsers of Go's standard library for
  URLs, IP addresses, host:port pairs and durations are the fields of a record argument.
\<close>

section \<open>Standard-library parsers\<close>

record url =
  Scheme :: string
  urlHost :: string
  Hostname :: string
  hasUser :: bool
  urlPath :: string
  RawQuery :: string
  Fragment :: string

record netlib =
  urlParse :: "string \<Rightarrow> url option"
  ipIsLoopback :: "string \<Rightarrow> bool"
  SplitHostPort :: "string \<Rightarrow> string option"
  timeParseDuration :: "string \<Rightarrow> int option"

section \<open>Configuration\<close>

datatype ConsoleAuthMode =
    ConsoleAuthTailscale
  | ConsoleAuthTrustedProxy
  | ConsoleAuthDev
  | ConsoleAuthOther string

definition consoleAuthMode :: "string \<Rightarrow> ConsoleAuthMode" where
  "consoleAuthMode s =
     (if s = ''tailscale'' then ConsoleAuthTailscale
      else if s = ''trusted-proxy'' then ConsoleAuthTrustedProxy
      else if s = ''dev'' then ConsoleAuthDev
      else ConsoleAuthOther s)"

record Config =
  AgentListenAddress :: string
  ConsoleListenAddress :: string
  cfgNamespace :: string
  cfgName :: string
  cfgOS :: string
  OwnerIssuer :: string
  OwnerSubject :: string
  cfgConsoleAuthMode :: ConsoleAuthMode
  AllowedLogins :: "string list"
  AuthProxyToken :: string
  DevAccessToken :: string
  AgentToken :: string
  GuestAgentToken :: string
  GuestAgentAddress :: string
  GuestAgentTimeout :: int
  AgentLeaseTTL :: int
  cfgConsoleURL :: string
  NoVNCDir :: string
  StatusTimeout :: int
  ScreenshotTimeout :: int
  PowerTimeout :: int
  ScreenshotConcurrency :: int

abbreviation minTokenBytes :: nat where "minTokenBytes \<equiv> 24"
abbreviation minDevTokenBytes :: nat where "minDevTokenBytes \<equiv> 32"
abbreviation maxIdentityBytes :: nat where "maxIdentityBytes \<equiv> 512"

definition lower_alnum :: "char \<Rightarrow> bool" where
  "lower_alnum c =
     (let n = of_char c :: nat in 97 \<le> n \<and> n \<le> 122 \<or> 48 \<le> n \<and> n \<le> 57)"

text \<open>The regular expression \<^verbatim>\<open>^[a-z0-9]([-a-z0-9]*[a-z0-9])?$\<close>.\<close>

definition dnsLabelPattern :: "string \<Rightarrow> bool" where
  "dnsLabelPattern s =
     (case s of
        [] \<Rightarrow> False
      | c # cs \<Rightarrow> lower_alnum c \<and>
          (cs = [] \<or> list_all (\<lambda>x. x = CHR ''-'' \<or> lower_alnum x) (butlast cs) \<and> lower_alnum (last cs)))"

definition validIdentityPart :: "string \<Rightarrow> string \<Rightarrow> string option" where
  "validIdentityPart name value =
     (if value = '''' then Some (name @ '' is required'')
      else if maxIdentityBytes < length value \<or> ContainsAny value [CHR 0x0D, CHR 0x0A]
        then Some (name @ '' must be at most 512 bytes and free of line breaks'')
      else None)"

fun allowedLogin :: "string list \<Rightarrow> string \<Rightarrow> bool" where
  "allowedLogin [] login = False"
| "allowedLogin (candidate # rest) login = (candidate = login \<or> allowedLogin rest login)"

fun parseLoginEntries ::
  "string list \<Rightarrow> string list \<Rightarrow> nat \<Rightarrow> string + string list \<times> nat" where
  "parseLoginEntries [] logins listed = Inr (logins, listed)"
| "parseLoginEntries (entry # entries) logins listed =
     (let login = TrimSpace entry
      in if login = '''' then parseLoginEntries entries logins listed
         else (case validIdentityPart ''TAILSCALE_ALLOWED_LOGINS'' login of
             Some err \<Rightarrow> Inl err
           | None \<Rightarrow> parseLoginEntries entries
               (if allowedLogin logins login then logins else logins @ [login]) (Suc listed)))"

definition parseAllowedLogins :: "string \<Rightarrow> string \<Rightarrow> string + string list" where
  "parseAllowedLogins raw ownerSubject =
     (if raw = '''' then Inr [ownerSubject]
      else (case parseLoginEntries (split_on CHR '','' raw) [ownerSubject] 0 of
          Inl err \<Rightarrow> Inl err
        | Inr (logins, listed) \<Rightarrow>
            if listed = 0
            then Inl ''TAILSCALE_ALLOWED_LOGINS must list at least one login when set''
            else Inr logins))"

definition parseDuration :: "netlib \<Rightarrow> string \<Rightarrow> string \<Rightarrow> string + int" where
  "parseDuration lib name raw =
     (if raw = '''' then Inr 0
      else (case timeParseDuration lib raw of
          None \<Rightarrow> Inl (name @ '' must be a positive duration'')
        | Some value \<Rightarrow>
            if value \<le> 0 then Inl (name @ '' must be a positive duration'') else Inr value))"

definition devConsoleAddressAllowed :: "netlib \<Rightarrow> string \<Rightarrow> string option" where
  "devConsoleAddressAllowed lib address =
     (case SplitHostPort lib address of
        None \<Rightarrow> Some ''CONSOLE_LISTEN_ADDRESS must be host:port in dev console auth mode''
      | Some h \<Rightarrow>
          if EqualFold h ''localhost'' then None
          else if ipIsLoopback lib h then None
          else Some ''CONSOLE_LISTEN_ADDRESS must bind a loopback address in dev console auth mode'')"

text \<open>The address a listener bound: its IP when it is a TCP address that has one.\<close>

definition RequireLoopbackConsoleListener :: "netlib \<Rightarrow> string option \<Rightarrow> bool" where
  "RequireLoopbackConsoleListener lib tcpIP =
     (case tcpIP of None \<Rightarrow> False | Some ip \<Rightarrow> ipIsLoopback lib ip)"

definition effectiveTimeout :: "int \<Rightarrow> int \<Rightarrow> int" where
  "effectiveTimeout configured fallback = (if 0 < configured then configured else fallback)"

definition guardE :: "bool \<Rightarrow> string \<Rightarrow> string + unit" where
  "guardE ok err = (if ok then Inr () else Inl err)"

definition bindE :: "string + 'a \<Rightarrow> ('a \<Rightarrow> string + 'b) \<Rightarrow> string + 'b" where
  "bindE m f = (case m of Inl err \<Rightarrow> Inl err | Inr x \<Rightarrow> f x)"

definition consoleModeCheck :: "netlib \<Rightarrow> Config \<Rightarrow> string + unit" where
  "consoleModeCheck lib cfg =
     (case cfgConsoleAuthMode cfg of
        ConsoleAuthTailscale \<Rightarrow> Inr ()
      | ConsoleAuthTrustedProxy \<Rightarrow>
          guardE (minTokenBytes \<le> length (AuthProxyToken cfg))
            ''AUTH_PROXY_TOKEN must contain at least 24 bytes in trusted-proxy console auth mode''
      | ConsoleAuthDev \<Rightarrow>
          if length (DevAccessToken cfg) < minDevTokenBytes
          then Inl ''DEV_ACCESS_TOKEN must contain at least 32 bytes in dev console auth mode''
          else (case devConsoleAddressAllowed lib (ConsoleListenAddress cfg) of
              Some err \<Rightarrow> Inl err
            | None \<Rightarrow> Inr ())
      | ConsoleAuthOther _ \<Rightarrow> Inl ''CONSOLE_AUTH_MODE must be tailscale, trusted-proxy, or dev'')"

definition identityCheck :: "string \<Rightarrow> string \<Rightarrow> string + unit" where
  "identityCheck name value =
     (case validIdentityPart name value of Some err \<Rightarrow> Inl err | None \<Rightarrow> Inr ())"

definition parseConcurrency :: "string \<Rightarrow> string + int" where
  "parseConcurrency raw =
     (if raw = '''' then Inr 0
      else (case Atoi raw of
          None \<Rightarrow> Inl ''SCREENSHOT_CONCURRENCY must be an integer between 1 and 64''
        | Some n \<Rightarrow>
            if n < 1 \<or> 64 < n
            then Inl ''SCREENSHOT_CONCURRENCY must be an integer between 1 and 64''
            else Inr n))"

text \<open>The environment as it is read, before any check: trimmed values and fall-backs.\<close>

definition environmentConfig :: "(string \<Rightarrow> string) \<Rightarrow> Config" where
  "environmentConfig lookup =
     (let get = (\<lambda>name. TrimSpace (lookup name));
          or = (\<lambda>name fallback. if get name \<noteq> '''' then get name else fallback)
      in \<lparr>AgentListenAddress = or ''LISTEN_ADDRESS'' '':8080'',
          ConsoleListenAddress = or ''CONSOLE_LISTEN_ADDRESS'' '':8081'',
          cfgNamespace = get ''DESKTOP_NAMESPACE'',
          cfgName = get ''DESKTOP_NAME'',
          cfgOS = ToLower (or ''DESKTOP_OS'' ''linux''),
          OwnerIssuer = get ''OWNER_ISSUER'',
          OwnerSubject = get ''OWNER_SUBJECT'',
          cfgConsoleAuthMode = consoleAuthMode (or ''CONSOLE_AUTH_MODE'' ''tailscale''),
          AllowedLogins = [],
          AuthProxyToken = get ''AUTH_PROXY_TOKEN'',
          DevAccessToken = get ''DEV_ACCESS_TOKEN'',
          AgentToken = get ''AGENT_TOKEN'',
          GuestAgentToken = get ''GUEST_AGENT_TOKEN'',
          GuestAgentAddress = get ''GUEST_AGENT_ADDRESS'',
          GuestAgentTimeout = 0, AgentLeaseTTL = 0,
          cfgConsoleURL = get ''CONSOLE_URL'',
          NoVNCDir = or ''NOVNC_DIR'' ''/opt/novnc'',
          StatusTimeout = 0, ScreenshotTimeout = 0, PowerTimeout = 0,
          ScreenshotConcurrency = 0\<rparr>)"

text \<open>\<open>bindE\<close> sequences the checks: the first failing one is the error returned.\<close>

definition LoadConfig :: "netlib \<Rightarrow> (string \<Rightarrow> string) \<Rightarrow> string + Config" where
  "LoadConfig lib lookup =
     (let get = (\<lambda>name. TrimSpace (lookup name));
          cfg = environmentConfig lookup;
          dnsLabel = (\<lambda>s. s \<noteq> '''' \<and> length s \<le> 63 \<and> dnsLabelPattern s)
      in bindE (guardE (dnsLabel (cfgNamespace cfg))
           ''DESKTOP_NAMESPACE must be a lowercase DNS label of at most 63 characters'') (\<lambda>_.
         bindE (guardE (dnsLabel (cfgName cfg))
           ''DESKTOP_NAME must be a lowercase DNS label of at most 63 characters'') (\<lambda>_.
         bindE (guardE (cfgOS cfg \<in> {''linux'', ''windows'', ''macos''})
           ''DESKTOP_OS must be linux, windows, or macos'') (\<lambda>_.
         bindE (identityCheck ''OWNER_ISSUER'' (OwnerIssuer cfg)) (\<lambda>_.
         bindE (identityCheck ''OWNER_SUBJECT'' (OwnerSubject cfg)) (\<lambda>_.
         bindE (guardE (minTokenBytes \<le> length (AgentToken cfg))
           ''AGENT_TOKEN must contain at least 24 bytes'') (\<lambda>_.
         bindE (guardE (minTokenBytes \<le> length (GuestAgentToken cfg))
           ''GUEST_AGENT_TOKEN must contain at least 24 bytes'') (\<lambda>_.
         bindE (parseAllowedLogins (get ''TAILSCALE_ALLOWED_LOGINS'') (OwnerSubject cfg)) (\<lambda>logins.
         bindE (consoleModeCheck lib cfg) (\<lambda>_.
         bindE (guardE (HasPrefix (NoVNCDir cfg) ''/'') ''NOVNC_DIR must be an absolute path'') (\<lambda>_.
         bindE (parseDuration lib ''GUEST_AGENT_TIMEOUT'' (get ''GUEST_AGENT_TIMEOUT'')) (\<lambda>guestTimeout.
         bindE (parseDuration lib ''AGENT_LEASE_TTL'' (get ''AGENT_LEASE_TTL'')) (\<lambda>leaseTTL.
         bindE (parseDuration lib ''STATUS_TIMEOUT'' (get ''STATUS_TIMEOUT'')) (\<lambda>statusTimeout.
         bindE (parseDuration lib ''SCREENSHOT_TIMEOUT'' (get ''SCREENSHOT_TIMEOUT'')) (\<lambda>shotTimeout.
         bindE (parseDuration lib ''POWER_TIMEOUT'' (get ''POWER_TIMEOUT'')) (\<lambda>powerTimeout.
         bindE (parseConcurrency (get ''SCREENSHOT_CONCURRENCY'')) (\<lambda>concurrency.
         Inr (cfg\<lparr>AllowedLogins := logins,
           GuestAgentAddress := (if GuestAgentAddress cfg = ''''
             then ''http://'' @ cfgName cfg @ ''-agent.'' @ cfgNamespace cfg @ ''.svc:9876''
             else GuestAgentAddress cfg),
           GuestAgentTimeout := guestTimeout, AgentLeaseTTL := leaseTTL,
           StatusTimeout := statusTimeout, ScreenshotTimeout := shotTimeout,
           PowerTimeout := powerTimeout, ScreenshotConcurrency := concurrency\<rparr>))))))))))))))))))"

section \<open>Requests and identities\<close>

record request =
  Method :: string
  reqPath :: string
  reqHost :: string
  Header :: "string \<Rightarrow> string"
  Query :: "string \<Rightarrow> string"
  PathValue :: "string \<Rightarrow> string"
  reqBody :: "string + string"

record identity =
  issuer :: string
  subject :: string
  login :: string
  idActor :: actorKind
  authMode :: string

record gateway =
  config :: Config
  bootID :: string
  devLoopbackListener :: bool
  statusTimeout :: int
  screenshotTimeout :: int
  screenshotWriteTimeout :: int
  vncReadinessTimeout :: int
  powerTimeout :: int
  guestAgentTimeout :: int
  agentLeaseTTL :: int
  screenshotConcurrency :: int

definition constantTimeEqual :: "string \<Rightarrow> string \<Rightarrow> bool" where
  "constantTimeEqual got want =
     (if length got \<noteq> length want \<or> want = '''' then False else got = want)"

definition authenticateAgent :: "gateway \<Rightarrow> request \<Rightarrow> identity option" where
  "authenticateAgent g r =
     (let authorization = Header r ''Authorization''
      in if \<not> HasPrefix authorization ''Bearer '' \<or>
            \<not> constantTimeEqual (TrimPrefix authorization ''Bearer '') (AgentToken (config g))
         then None
         else Some \<lparr>issuer = OwnerIssuer (config g), subject = OwnerSubject (config g), login = '''',
                    idActor = actorAgent, authMode = ''agent-bearer''\<rparr>)"

definition authenticateTailscale :: "gateway \<Rightarrow> request \<Rightarrow> identity option" where
  "authenticateTailscale g r =
     (if \<not> EqualFold (TrimSpace (Header r ''X-Forwarded-Proto'')) ''https'' then None
      else
        let name = TrimSpace (Header r ''Tailscale-User-Login'')
        in if name = '''' \<or> maxIdentityBytes < length name then None
           else if \<not> allowedLogin (AllowedLogins (config g)) name then None
           else Some \<lparr>issuer = OwnerIssuer (config g), subject = name, login = name,
                      idActor = actorHuman, authMode = ''tailscale''\<rparr>)"

definition authenticateTrustedProxy :: "gateway \<Rightarrow> request \<Rightarrow> identity option" where
  "authenticateTrustedProxy g r =
     (if \<not> constantTimeEqual (Header r ''X-Personal-Desktop-Proxy-Token'') (AuthProxyToken (config g))
      then None
      else
        let iss = TrimSpace (Header r ''X-Personal-Desktop-Issuer'');
            sub = TrimSpace (Header r ''X-Personal-Desktop-Subject'')
        in if iss = '''' \<or> sub = '''' \<or> iss \<noteq> OwnerIssuer (config g) \<or> sub \<noteq> OwnerSubject (config g)
           then None
           else Some \<lparr>issuer = iss, subject = sub, login = sub, idActor = actorHuman,
                      authMode = ''trusted-proxy''\<rparr>)"

definition isLoopbackHost :: "netlib \<Rightarrow> string \<Rightarrow> bool" where
  "isLoopbackHost lib h = (if EqualFold h ''localhost'' then True else ipIsLoopback lib h)"

definition isLoopbackRequestHost :: "netlib \<Rightarrow> string \<Rightarrow> bool" where
  "isLoopbackRequestHost lib requestHost =
     (case urlParse lib (''//'' @ requestHost) of
        None \<Rightarrow> False
      | Some u \<Rightarrow> \<not> hasUser u \<and> Hostname u \<noteq> '''' \<and> isLoopbackHost lib (Hostname u))"

definition authenticateDev :: "netlib \<Rightarrow> gateway \<Rightarrow> request \<Rightarrow> identity option" where
  "authenticateDev lib g r =
     (if \<not> devLoopbackListener g then None
      else if \<not> isLoopbackRequestHost lib (reqHost r) then None
      else if \<not> constantTimeEqual (Query r ''devToken'') (DevAccessToken (config g)) then None
      else Some \<lparr>issuer = OwnerIssuer (config g), subject = OwnerSubject (config g),
                 login = OwnerSubject (config g), idActor = actorHuman,
                 authMode = ''INSECURE-loopback-dev-token''\<rparr>)"

definition authenticateHuman :: "netlib \<Rightarrow> gateway \<Rightarrow> request \<Rightarrow> identity option" where
  "authenticateHuman lib g r =
     (case cfgConsoleAuthMode (config g) of
        ConsoleAuthTailscale \<Rightarrow> authenticateTailscale g r
      | ConsoleAuthTrustedProxy \<Rightarrow> authenticateTrustedProxy g r
      | ConsoleAuthDev \<Rightarrow> authenticateDev lib g r
      | ConsoleAuthOther _ \<Rightarrow> None)"

section \<open>Origins\<close>

definition allowInsecureOrigin :: "gateway \<Rightarrow> bool" where
  "allowInsecureOrigin g \<longleftrightarrow> cfgConsoleAuthMode (config g) = ConsoleAuthDev \<and> devLoopbackListener g"

definition matchingRequestOrigin :: "netlib \<Rightarrow> string \<Rightarrow> string \<Rightarrow> url option" where
  "matchingRequestOrigin lib origin requestHost =
     (case urlParse lib origin of
        None \<Rightarrow> None
      | Some u \<Rightarrow>
          if hasUser u \<or> urlPath u \<noteq> '''' \<or> RawQuery u \<noteq> '''' \<or> Fragment u \<noteq> '''' then None
          else if \<not> EqualFold (urlHost u) requestHost then None
          else Some u)"

definition sameOrigin :: "netlib \<Rightarrow> request \<Rightarrow> bool \<Rightarrow> bool" where
  "sameOrigin lib r insecure =
     (let origin = Header r ''Origin''
      in if origin = '''' then True
         else (case matchingRequestOrigin lib origin (reqHost r) of
             None \<Rightarrow> False
           | Some u \<Rightarrow>
               if Scheme u = ''https'' then True
               else Scheme u = ''http'' \<and> insecure \<and> isLoopbackHost lib (Hostname u)))"

definition mutationOriginAllowed :: "netlib \<Rightarrow> gateway \<Rightarrow> request \<Rightarrow> identity \<Rightarrow> bool" where
  "mutationOriginAllowed lib g r i =
     (let origin = Header r ''Origin''
      in if idActor i = actorAgent then
           (if origin = '''' then True
            else (case matchingRequestOrigin lib origin (reqHost r) of
                None \<Rightarrow> False
              | Some u \<Rightarrow> Scheme u = ''https'' \<or> Scheme u = ''http''))
         else origin \<noteq> '''' \<and> sameOrigin lib r (allowInsecureOrigin g))"

end
