(* ===== verification/Screenshot.thy ===== *)
theory Screenshot
  imports Kube
begin

text \<open>
  Screenshot transformation of the Desktop Gateway (\<^verbatim>\<open>internal/desktopgateway/screenshot.go\<close>).
  The image codecs of Go's standard library are the fields of a record argument; the deadline
  of the request is a function that gives the answer of the n-th call of \<^verbatim>\<open>ctx.Err()\<close>, and every
  function of the model threads the number of calls made so far.
\<close>

section \<open>Data\<close>

abbreviation maxScreenshotRawBytes :: nat where "maxScreenshotRawBytes \<equiv> 16777216"
abbreviation maxFramebufferDimension :: int where "maxFramebufferDimension \<equiv> 4096"
abbreviation maxFramebufferPixels :: int where "maxFramebufferPixels \<equiv> 8847360"

datatype 'e screenshot_error =
    ShotContext ctx_error
  | errInvalidScreenshotQuery string
  | errScreenshotCannotFit int
  | errScreenshotTooLarge string
  | MetadataFailed 'e
  | DecodeFailed 'e
  | EncodeFailed 'e

record screenshot =
  shotBody :: string
  contentType :: string
  frameWidth :: int
  frameHeight :: int
  encodedWidth :: int
  encodedHeight :: int

text \<open>A source image: its bounds and its pixels; and the codecs.\<close>

record 'p image =
  minX :: int
  minY :: int
  imgDx :: int
  imgDy :: int
  pixelAt :: "int \<Rightarrow> int \<Rightarrow> 'p"

record ('p, 'e) imagelib =
  pngDecodeConfig :: "string \<Rightarrow> 'e + int \<times> int"
  pngDecode :: "string \<Rightarrow> 'e + 'p image"
  jpegEncode :: "'p list list \<Rightarrow> int \<Rightarrow> 'e + string"

type_synonym ctx_oracle = "nat \<Rightarrow> ctx_error option"
type_synonym ('e, 'a) timed = "nat \<Rightarrow> ('e screenshot_error + 'a) \<times> nat"

definition ctxErr :: "ctx_oracle \<Rightarrow> ('e, unit) timed" where
  "ctxErr ctx n = (case ctx n of Some e \<Rightarrow> Inl (ShotContext e) | None \<Rightarrow> Inr (), Suc n)"

definition andThen :: "('e, 'a) timed \<Rightarrow> ('a \<Rightarrow> ('e, 'b) timed) \<Rightarrow> ('e, 'b) timed" where
  "andThen m f n = (case m n of (Inl e, n') \<Rightarrow> (Inl e, n') | (Inr x, n') \<Rightarrow> f x n')"

definition yields :: "'e screenshot_error + 'a \<Rightarrow> ('e, 'a) timed" where
  "yields r n = (r, n)"

section \<open>Operations\<close>

definition boundedInt ::
  "string \<Rightarrow> int \<Rightarrow> int \<Rightarrow> int \<Rightarrow> string \<Rightarrow> 'e screenshot_error + int" where
  "boundedInt raw fallback minimum maximum name =
     (if raw = '''' then Inr fallback
      else
        let bad = Inl (errInvalidScreenshotQuery
              (name @ '' must be between '' @ Itoa minimum @ '' and '' @ Itoa maximum))
        in (case Atoi raw of
              None \<Rightarrow> bad
            | Some value \<Rightarrow> if value < minimum \<or> maximum < value then bad else Inr value))"

text \<open>The destination image is the list of its rows.\<close>

definition sourceY :: "'p image \<Rightarrow> int \<Rightarrow> int \<Rightarrow> int" where
  "sourceY source height y = minY source + y * imgDy source div height"

definition sourceX :: "'p image \<Rightarrow> int \<Rightarrow> int \<Rightarrow> int" where
  "sourceX source width x = minX source + x * imgDx source div width"

fun resizeRows ::
  "ctx_oracle \<Rightarrow> 'p image \<Rightarrow> int \<Rightarrow> int \<Rightarrow> int list \<Rightarrow> ('e, 'p list list) timed" where
  "resizeRows ctx source width height [] = yields (Inr [])"
| "resizeRows ctx source width height (y # ys) =
     andThen (if y mod 16 = 0 then ctxErr ctx else yields (Inr ())) (\<lambda>_.
     andThen (resizeRows ctx source width height ys) (\<lambda>rows.
     yields (Inr (map (\<lambda>x. pixelAt source (sourceX source width x) (sourceY source height y))
                    [0..width - 1] # rows))))"

definition nearestNeighbor ::
  "ctx_oracle \<Rightarrow> 'p image \<Rightarrow> int \<Rightarrow> int \<Rightarrow> ('e, 'p list list) timed" where
  "nearestNeighbor ctx source width height =
     resizeRows ctx source width height [0..height - 1]"

text \<open>
  The inner loop lowers the quality until the encoding fits or the quality is exhausted
  (nothing); the outer loop then shrinks the image.
\<close>

function encodeLoop ::
  "ctx_oracle \<Rightarrow> ('p, 'e) imagelib \<Rightarrow> int \<Rightarrow> 'p list list \<Rightarrow> int \<Rightarrow> ('e, string option) timed" where
  "encodeLoop ctx lib maxBytes resized quality n =
     (case ctxErr ctx n of
        (Inl e, n1) \<Rightarrow> (Inl e, n1)
      | (Inr _, n1) \<Rightarrow>
         (case jpegEncode lib resized quality of
            Inl e \<Rightarrow> (Inl (EncodeFailed e), n1)
          | Inr output \<Rightarrow>
             (case ctxErr ctx n1 of
                (Inl e, n2) \<Rightarrow> (Inl e, n2)
              | (Inr _, n2) \<Rightarrow>
                  if int (length output) \<le> maxBytes then (Inr (Some output), n2)
                  else if quality \<le> 35 then (Inr None, n2)
                  else encodeLoop ctx lib maxBytes resized (quality - 10) n2)))"
  by pat_completeness auto
termination
  by (relation "measure (\<lambda>(_, _, _, _, quality, _). nat quality)") auto

declare encodeLoop.simps [simp del]

function shrinkLoop ::
  "ctx_oracle \<Rightarrow> ('p, 'e) imagelib \<Rightarrow> 'p image \<Rightarrow> int \<Rightarrow> int \<Rightarrow> int \<Rightarrow> int \<Rightarrow> int \<Rightarrow> int
     \<Rightarrow> ('e, screenshot) timed" where
  "shrinkLoop ctx lib source frameW frameH maxBytes width height quality n =
     (case ctxErr ctx n of
        (Inl e, n1) \<Rightarrow> (Inl e, n1)
      | (Inr _, n1) \<Rightarrow>
         (case nearestNeighbor ctx source width height n1 of
            (Inl e, n2) \<Rightarrow> (Inl e, n2)
          | (Inr resized, n2) \<Rightarrow>
             (case encodeLoop ctx lib maxBytes resized quality n2 of
                (Inl e, n3) \<Rightarrow> (Inl e, n3)
              | (Inr (Some output), n3) \<Rightarrow>
                  (Inr \<lparr>shotBody = output, contentType = ''image/jpeg'', frameWidth = frameW,
                        frameHeight = frameH, encodedWidth = width, encodedHeight = height\<rparr>, n3)
              | (Inr None, n3) \<Rightarrow>
                  if width \<le> 320 then (Inl (errScreenshotCannotFit maxBytes), n3)
                  else
                    let width' = max 320 (width * 4 div 5)
                    in shrinkLoop ctx lib source frameW frameH maxBytes width'
                         (max 1 (frameH * width' div frameW)) 55 n3)))"
  by pat_completeness auto
termination
  by (relation "measure (\<lambda>(_, _, _, _, _, _, width, _, _, _). nat width)") auto

declare shrinkLoop.simps [simp del]

definition transformScreenshot ::
  "ctx_oracle \<Rightarrow> ('p, 'e) imagelib \<Rightarrow> string \<Rightarrow> (string \<Rightarrow> string) \<Rightarrow> ('e, screenshot) timed" where
  "transformScreenshot ctx lib raw query =
     andThen (ctxErr ctx) (\<lambda>_.
     if maxScreenshotRawBytes < length raw
     then yields (Inl (errScreenshotTooLarge (''raw PNG is '' @ Itoa (int (length raw)) @ '' bytes'')))
     else (case pngDecodeConfig lib raw of
       Inl e \<Rightarrow> yields (Inl (MetadataFailed e))
     | Inr (cw, ch) \<Rightarrow>
        if cw \<le> 0 \<or> ch \<le> 0 \<or> maxFramebufferDimension < cw \<or> maxFramebufferDimension < ch \<or>
           maxFramebufferPixels div ch < cw
        then yields (Inl (errScreenshotTooLarge (''framebuffer is '' @ Itoa cw @ ''x'' @ Itoa ch)))
        else
        andThen (ctxErr ctx) (\<lambda>_.
        if query ''format'' = '''' \<or> query ''format'' = ''png''
        then yields (Inr \<lparr>shotBody = raw, contentType = ''image/png'', frameWidth = cw,
               frameHeight = ch, encodedWidth = cw, encodedHeight = ch\<rparr>)
        else if query ''format'' \<noteq> ''jpeg''
        then yields (Inl (errInvalidScreenshotQuery ''format must be png or jpeg''))
        else
        andThen (yields (boundedInt (query ''maxWidth'') 1024 320 1600 ''maxWidth'')) (\<lambda>maxWidth.
        andThen (yields (boundedInt (query ''quality'') 65 30 85 ''quality'')) (\<lambda>quality.
        andThen (yields (boundedInt (query ''maxBytes'') 180000 50000 500000 ''maxBytes'')) (\<lambda>maxBytes.
        (case pngDecode lib raw of
           Inl e \<Rightarrow> yields (Inl (DecodeFailed e))
         | Inr source \<Rightarrow>
            andThen (ctxErr ctx) (\<lambda>_.
              let height = (if maxWidth < cw then max 1 (ch * maxWidth div cw) else ch);
                  width = (if maxWidth < cw then maxWidth else cw)
              in shrinkLoop ctx lib source cw ch maxBytes width height quality))))))))"

definition kubeVirtReadStatus :: "'e api_errors \<Rightarrow> 'e \<Rightarrow> nat" where
  "kubeVirtReadStatus api err =
     (if IsDeadlineExceeded api err \<or> IsCanceled api err \<or> IsTimeout api err \<or>
         IsServerTimeout api err \<or> IsServiceUnavailable api err \<or> IsTooManyRequests api err
      then StatusServiceUnavailable else StatusBadGateway)"

definition screenshotReadStatus :: "'e api_errors \<Rightarrow> 'e \<Rightarrow> nat" where
  "screenshotReadStatus api err =
     (if IsNotFound api err \<or> IsConflict api err then StatusConflict
      else if IsDeadlineExceeded api err \<or> IsCanceled api err \<or> IsTimeout api err \<or>
         IsServerTimeout api err \<or> IsServiceUnavailable api err \<or> IsTooManyRequests api err
      then StatusServiceUnavailable else StatusBadGateway)"

fun screenshotTransformStatus :: "'e screenshot_error \<Rightarrow> nat" where
  "screenshotTransformStatus (ShotContext _) = StatusServiceUnavailable"
| "screenshotTransformStatus (errInvalidScreenshotQuery _) = StatusBadRequest"
| "screenshotTransformStatus (errScreenshotCannotFit _) = StatusUnprocessableEntity"
| "screenshotTransformStatus _ = StatusBadGateway"

section \<open>Facts\<close>

lemma andThen_Inr:
  "fst (andThen m f n) = Inr y \<longleftrightarrow> (\<exists>x n'. m n = (Inr x, n') \<and> fst (f x n') = Inr y)"
  by (auto simp: andThen_def split: prod.splits sum.splits)

lemma yields_run [simp]: "yields r n = (r, n)"
  by (simp add: yields_def)

lemma boundedInt_range:
  "boundedInt raw fallback minimum maximum name = Inr v \<Longrightarrow> minimum \<le> fallback \<Longrightarrow> fallback \<le> maximum
     \<Longrightarrow> minimum \<le> v \<and> v \<le> maximum"
  by (auto simp: boundedInt_def Let_def split: if_splits option.splits)

lemma scaled_in_range:
  fixes x d w :: int
  assumes "0 \<le> x" "x < w" "0 < d"
  shows "0 \<le> x * d div w \<and> x * d div w < d"
proof -
  have below: "x * d < d * w" using assms by (simp add: mult.commute)
  have "x * d div w < d"
  proof (rule ccontr)
    assume "\<not> x * d div w < d"
    then have "d * w \<le> x * d div w * w" using assms by (intro mult_right_mono) auto
    also have "\<dots> \<le> x * d"
      using div_mult_mod_eq [of "x * d" w] pos_mod_sign [of w "x * d"] assms by linarith
    finally show False using below by simp
  qed
  with assms show ?thesis
    by (simp add: pos_imp_zdiv_nonneg_iff)
qed

text \<open>The pixels of a resized image: the deadline aside, row \<open>y\<close> and column \<open>x\<close> of the result.\<close>

lemma resizeRows_pixels:
  "resizeRows ctx source width height ys n = (Inr rows, n') \<Longrightarrow>
     rows = map (\<lambda>y. map (\<lambda>x. pixelAt source (sourceX source width x) (sourceY source height y))
                 [0..width - 1]) ys"
proof (induction ys arbitrary: n n' rows)
  case Nil
  then show ?case by simp
next
  case (Cons y ys)
  then show ?case
    by (auto simp: andThen_def split: prod.splits sum.splits if_splits)
qed

definition resized_image :: "'p image \<Rightarrow> int \<Rightarrow> int \<Rightarrow> 'p list list" where
  "resized_image source width height =
     map (\<lambda>y. map (\<lambda>x. pixelAt source (sourceX source width x) (sourceY source height y))
            [0..width - 1]) [0..height - 1]"

lemma nearestNeighbor_result:
  "nearestNeighbor ctx source width height n = (Inr resized, n') \<Longrightarrow>
     resized = resized_image source width height"
  unfolding nearestNeighbor_def resized_image_def by (rule resizeRows_pixels)

lemma resized_image_dims:
  "length (resized_image source width height) = nat height"
  "row \<in> set (resized_image source width height) \<Longrightarrow> length row = nat width"
  by (auto simp: resized_image_def)

lemma encodeLoop_Inr:
  assumes "encodeLoop ctx lib maxBytes resized quality n = (Inr r, n')"
  shows "\<exists>out n2. jpegEncode lib resized quality = Inr out \<and>
    (if int (length out) \<le> maxBytes then r = Some out
     else if quality \<le> 35 then r = None
     else encodeLoop ctx lib maxBytes resized (quality - 10) n2 = (Inr r, n'))"
  using assms
  by (subst (asm) encodeLoop.simps) (auto split: prod.splits sum.splits if_splits)

lemma encodeLoop_result:
  "encodeLoop ctx lib maxBytes resized quality n = (Inr r, n') \<Longrightarrow> 30 \<le> quality \<Longrightarrow>
     (\<exists>q out. 26 \<le> q \<and> q \<le> quality \<and> jpegEncode lib resized q = Inr out \<and>
       (if int (length out) \<le> maxBytes then r = Some out else r = None \<and> q \<le> 35))"
proof (induction "nat quality" arbitrary: quality n rule: less_induct)
  case less
  obtain out n2 where enc: "jpegEncode lib resized quality = Inr out"
    and r: "if int (length out) \<le> maxBytes then r = Some out
     else if quality \<le> 35 then r = None
     else encodeLoop ctx lib maxBytes resized (quality - 10) n2 = (Inr r, n')"
    using encodeLoop_Inr [OF less.prems(1)] by blast
  show ?case
  proof (cases "int (length out) \<le> maxBytes \<or> quality \<le> 35")
    case True
    with enc r less.prems(2) show ?thesis by (intro exI [of _ quality] exI [of _ out]) auto
  next
    case False
    then have rec: "encodeLoop ctx lib maxBytes resized (quality - 10) n2 = (Inr r, n')"
      using r by simp
    show ?thesis
    proof (cases "40 \<le> quality")
      case True
      then show ?thesis
        using less.hyps [of "quality - 10", OF _ rec] by fastforce
    next
      case small: False
      obtain out' where "jpegEncode lib resized (quality - 10) = Inr out'"
        "if int (length out') \<le> maxBytes then r = Some out' else r = None"
        using encodeLoop_Inr [OF rec] small by auto
      then show ?thesis
        using small False by (intro exI [of _ "quality - 10"] exI [of _ out']) auto
    qed
  qed
qed

lemma ctxErr_kind: "ctxErr ctx n \<noteq> (Inl (errScreenshotCannotFit b), n')"
  by (auto simp: ctxErr_def split: option.splits)

lemma resizeRows_kind:
  "resizeRows ctx source width height ys n \<noteq> (Inl (errScreenshotCannotFit b), n')"
  by (induction ys arbitrary: n n')
    (auto simp: andThen_def ctxErr_kind split: prod.splits sum.splits if_splits)

lemma encodeLoop_kind:
  "encodeLoop ctx lib maxBytes resized quality n \<noteq> (Inl (errScreenshotCannotFit b), n')"
proof (induction "nat quality" arbitrary: quality n rule: less_induct)
  case less
  show ?case
    by (subst encodeLoop.simps)
      (use less in \<open>auto simp: ctxErr_kind split: prod.splits sum.splits\<close>)
qed

text \<open>One round of the outer loop that ends without a codec or deadline error.\<close>

lemma shrinkLoop_Inr:
  fixes lib :: "('p, 'e) imagelib"
  assumes "shrinkLoop ctx lib source cw ch maxBytes width height quality n = (res, n')"
    and "res = Inr shot \<or> res = Inl (errScreenshotCannotFit b)"
  shows "\<exists>r n2 n3. encodeLoop ctx lib maxBytes (resized_image source width height) quality n2 = (Inr r, n3) \<and>
    (case r of
       Some out \<Rightarrow> res = Inr \<lparr>shotBody = out, contentType = ''image/jpeg'', frameWidth = cw,
         frameHeight = ch, encodedWidth = width, encodedHeight = height\<rparr>
     | None \<Rightarrow> if width \<le> 320 then res = Inl (errScreenshotCannotFit maxBytes)
         else shrinkLoop ctx lib source cw ch maxBytes (max 320 (width * 4 div 5))
                (max 1 (ch * max 320 (width * 4 div 5) div cw)) 55 n3 = (res, n'))"
proof -
  note run = assms(1) [unfolded shrinkLoop.simps [of ctx lib source cw ch maxBytes width height quality n] Let_def]
  have n1: "(ctxErr ctx n :: ('e screenshot_error + unit) \<times> nat) = (Inr (), Suc n)"
    using run assms(2) by (cases "ctx n") (auto simp: ctxErr_def)
  obtain res2 n2 where res2: "(nearestNeighbor ctx source width height (Suc n)
      :: ('e screenshot_error + 'p list list) \<times> nat) = (res2, n2)"
    by (cases "nearestNeighbor ctx source width height (Suc n)
      :: ('e screenshot_error + 'p list list) \<times> nat") auto
  then obtain resized where resized: "res2 = Inr resized"
    using run assms(2) n1 resizeRows_kind [of ctx source width height "[0..height - 1]" "Suc n" b n2]
    by (cases res2) (auto simp: nearestNeighbor_def)
  note n2 = res2 [unfolded resized]
  obtain r n3 where n3: "encodeLoop ctx lib maxBytes resized quality n2 = (Inr r, n3)"
    using run assms(2) n1 n2
    by (cases "encodeLoop ctx lib maxBytes resized quality n2";
        cases "fst (encodeLoop ctx lib maxBytes resized quality n2)") (auto simp: encodeLoop_kind)
  show ?thesis
    using run n1 n2 n3 nearestNeighbor_result [OF n2]
    by (intro exI [of _ r] exI [of _ n2] exI [of _ n3]) (auto split: option.splits if_splits)
qed

lemma shrinkLoop_result:
  assumes "shrinkLoop ctx lib source cw ch maxBytes width height quality n = (res, n')"
    and "res = Inr shot \<or> res = Inl (errScreenshotCannotFit b)"
    and "30 \<le> quality" and "quality \<le> 85" and "0 < width" and "width \<le> cw" and "1 \<le> height" and "height \<le> ch"
  shows "\<exists>w h q out. 0 < w \<and> w \<le> width \<and> 1 \<le> h \<and> h \<le> ch \<and> 26 \<le> q \<and> q \<le> 85 \<and>
    jpegEncode lib (resized_image source w h) q = Inr out \<and>
    (if int (length out) \<le> maxBytes
     then res = Inr \<lparr>shotBody = out, contentType = ''image/jpeg'', frameWidth = cw,
       frameHeight = ch, encodedWidth = w, encodedHeight = h\<rparr>
     else res = Inl (errScreenshotCannotFit maxBytes) \<and> w \<le> 320 \<and> q \<le> 35)"
  using assms
proof (induction "nat width" arbitrary: width height quality n rule: less_induct)
  case less
  note prems = less.prems
  let ?w = "max 320 (width * 4 div 5)"
  obtain r n2 n3 where enc: "encodeLoop ctx lib maxBytes (resized_image source width height) quality n2 = (Inr r, n3)"
    and r: "case r of
       Some out \<Rightarrow> res = Inr \<lparr>shotBody = out, contentType = ''image/jpeg'', frameWidth = cw,
         frameHeight = ch, encodedWidth = width, encodedHeight = height\<rparr>
     | None \<Rightarrow> if width \<le> 320 then res = Inl (errScreenshotCannotFit maxBytes)
         else shrinkLoop ctx lib source cw ch maxBytes ?w (max 1 (ch * ?w div cw)) 55 n3 = (res, n')"
    using shrinkLoop_Inr [OF prems(1,2)] by blast
  obtain q out where q: "26 \<le> q" "q \<le> quality" "jpegEncode lib (resized_image source width height) q = Inr out"
    and fits: "if int (length out) \<le> maxBytes then r = Some out else r = None \<and> q \<le> 35"
    using encodeLoop_result [OF enc prems(3)] by blast
  show ?case
  proof (cases "r = None \<and> 320 < width")
    case False
    with q fits r prems show ?thesis
      by (intro exI [of _ width] exI [of _ height] exI [of _ q] exI [of _ out]) (auto split: if_splits)
  next
    case True
    then have rec: "shrinkLoop ctx lib source cw ch maxBytes ?w (max 1 (ch * ?w div cw)) 55 n3 = (res, n')"
      using r by simp
    have smaller: "?w < width" "0 < ?w" using True by auto
    then have "ch * ?w \<le> ch * cw" using prems by (intro mult_left_mono) auto
    then have "ch * ?w div cw \<le> ch * cw div cw" using prems by (intro zdiv_mono1) auto
    then have h: "max 1 (ch * ?w div cw) \<le> ch" using prems by auto
    have "nat ?w < nat width" using smaller by simp
    moreover have "?w \<le> cw" using smaller prems by linarith
    ultimately obtain w h q out where "0 < w" "w \<le> ?w" "1 \<le> h" "h \<le> ch" "26 \<le> q" "q \<le> 85"
      "jpegEncode lib (resized_image source w h) q = Inr out"
      "if int (length out) \<le> maxBytes
       then res = Inr \<lparr>shotBody = out, contentType = ''image/jpeg'', frameWidth = cw,
         frameHeight = ch, encodedWidth = w, encodedHeight = h\<rparr>
       else res = Inl (errScreenshotCannotFit maxBytes) \<and> w \<le> 320 \<and> q \<le> 35"
      using less.hyps [OF _ rec prems(2) _ _ smaller(2) _ _ h] by auto
    moreover from this smaller have "w \<le> width" by linarith
    ultimately show ?thesis by blast
  qed
qed

lemma andThen_ctxErr:
  "andThen (ctxErr ctx) f n = (case ctx n of Some e \<Rightarrow> (Inl (ShotContext e), Suc n) | None \<Rightarrow> f () (Suc n))"
  by (simp add: andThen_def ctxErr_def split: option.splits)

lemma andThen_yields:
  "andThen (yields r) f n = (case r of Inl e \<Rightarrow> (Inl e, n) | Inr x \<Rightarrow> f x n)"
  by (simp add: andThen_def)

text \<open>
  A transformation that returns a picture, or that says the picture cannot fit, has passed the
  checks on the framebuffer; one to JPEG has run the loop with the parsed query.
\<close>

lemma boundedInt_kind: "boundedInt raw a b c name = Inl e \<Longrightarrow> \<exists>msg. e = errInvalidScreenshotQuery msg"
  by (auto simp: boundedInt_def Let_def split: if_splits option.splits)

lemma transformScreenshot_frame:
  fixes lib :: "('p, 'e) imagelib"
  assumes "transformScreenshot ctx lib raw query n = (res, n')"
    and "res = Inr shot \<or> res = Inl (errScreenshotCannotFit b)"
  shows "\<exists>cw ch. pngDecodeConfig lib raw = Inr (cw, ch) \<and> 0 < cw \<and> 0 < ch \<and>
    cw \<le> maxFramebufferDimension \<and> ch \<le> maxFramebufferDimension \<and> cw \<le> maxFramebufferPixels div ch \<and>
    (if query ''format'' = ''jpeg''
     then \<exists>maxWidth quality maxBytes source n1.
       (boundedInt (query ''maxWidth'') 1024 320 1600 ''maxWidth'' :: 'e screenshot_error + int) = Inr maxWidth \<and>
       (boundedInt (query ''quality'') 65 30 85 ''quality'' :: 'e screenshot_error + int) = Inr quality \<and>
       (boundedInt (query ''maxBytes'') 180000 50000 500000 ''maxBytes'' :: 'e screenshot_error + int) = Inr maxBytes \<and>
       pngDecode lib raw = Inr source \<and>
       shrinkLoop ctx lib source cw ch maxBytes (if maxWidth < cw then maxWidth else cw)
         (if maxWidth < cw then max 1 (ch * maxWidth div cw) else ch) quality n1 = (res, n')
     else res = Inr \<lparr>shotBody = raw, contentType = ''image/png'', frameWidth = cw,
               frameHeight = ch, encodedWidth = cw, encodedHeight = ch\<rparr>)"
proof -
  note run = assms(1) [unfolded transformScreenshot_def andThen_ctxErr]
  have n: "ctx n = None" using run assms(2) by (cases "ctx n") auto
  have raw: "\<not> maxScreenshotRawBytes < length raw" using run assms(2) n by auto
  obtain cw ch where config: "pngDecodeConfig lib raw = Inr (cw, ch)"
    using run assms(2) n raw by (cases "pngDecodeConfig lib raw") auto
  have frame: "\<not> (cw \<le> 0 \<or> ch \<le> 0 \<or> maxFramebufferDimension < cw \<or> maxFramebufferDimension < ch \<or>
      maxFramebufferPixels div ch < cw)"
    using run assms(2) n raw config by (auto split: if_splits)
  note run2 = run [unfolded n option.case if_not_P [OF raw] config sum.case prod.case if_not_P [OF frame]
      andThen_ctxErr]
  have n2: "ctx (Suc n) = None" using run2 assms(2) by (cases "ctx (Suc n)") auto
  note run3 = run2 [unfolded n2 option.case andThen_yields]
  show ?thesis
  proof (cases "query ''format'' = ''jpeg''")
    case False
    then have "res = Inr \<lparr>shotBody = raw, contentType = ''image/png'', frameWidth = cw,
               frameHeight = ch, encodedWidth = cw, encodedHeight = ch\<rparr>"
      using run3 assms(2) by (auto split: if_splits)
    with False config frame show ?thesis by auto
  next
    case True
    obtain w q b source where w: "(boundedInt (query ''maxWidth'') 1024 320 1600 ''maxWidth'' :: 'e screenshot_error + int) = Inr w"
      and q: "(boundedInt (query ''quality'') 65 30 85 ''quality'' :: 'e screenshot_error + int) = Inr q"
      and b: "(boundedInt (query ''maxBytes'') 180000 50000 500000 ''maxBytes'' :: 'e screenshot_error + int) = Inr b"
      and source: "pngDecode lib raw = Inr source"
      using run3 assms(2) True by (auto dest: boundedInt_kind split: sum.splits)
    have "ctx (Suc (Suc n)) = None"
      using run3 assms(2) True w q b source by (auto simp: andThen_ctxErr split: option.splits)
    with run3 True w q b source config frame show ?thesis
      by (auto simp: andThen_ctxErr Let_def)
  qed
qed

section \<open>Properties\<close>

text \<open>A codec that accepts everything, for the witnesses: a frame of four by two pixels.\<close>

definition sample_image :: "nat image" where
  "sample_image = \<lparr>minX = 0, minY = 0, imgDx = 4, imgDy = 2, pixelAt = (\<lambda>_ _. 0)\<rparr>"

definition sample_codec :: "(nat, string) imagelib" where
  "sample_codec = \<lparr>pngDecodeConfig = (\<lambda>_. Inr (4, 2)), pngDecode = (\<lambda>_. Inr sample_image),
     jpegEncode = (\<lambda>rows q. Inr (replicate (length rows) CHR ''x''))\<rparr>"

definition sample_query :: "string \<Rightarrow> string" where
  "sample_query k = (if k = ''format'' then ''jpeg'' else if k = ''maxWidth'' then ''320'' else '''')"

lemma encodedHeight_le: "0 < ch \<Longrightarrow> 0 < cw \<Longrightarrow> mw < cw \<Longrightarrow> 0 < mw \<Longrightarrow> max 1 (ch * mw div cw) \<le> (ch :: int)"
  using scaled_in_range [of mw cw ch] by (simp add: mult.commute)

lemma pixels_le: "0 < ch \<Longrightarrow> cw \<le> p div ch \<Longrightarrow> cw * ch \<le> (p :: int)"
  using mult_right_mono [of cw "p div ch" ch] div_mult_mod_eq [of p ch] pos_mod_sign [of ch p]
  by linarith

lemma transformScreenshot_jpeg:
  fixes lib :: "('p, 'e) imagelib"
  assumes "transformScreenshot ctx lib raw query n = (res, n')"
    and "res = Inr shot \<or> res = Inl (errScreenshotCannotFit b)"
    and "query ''format'' = ''jpeg''"
  shows "\<exists>cw ch maxWidth maxBytes source w h q out.
    pngDecodeConfig lib raw = Inr (cw, ch) \<and> 0 < cw \<and> 0 < ch \<and>
    cw \<le> maxFramebufferDimension \<and> ch \<le> maxFramebufferDimension \<and> cw * ch \<le> maxFramebufferPixels \<and>
    (boundedInt (query ''maxWidth'') 1024 320 1600 ''maxWidth'' :: 'e screenshot_error + int) = Inr maxWidth \<and>
    (boundedInt (query ''maxBytes'') 180000 50000 500000 ''maxBytes'' :: 'e screenshot_error + int) = Inr maxBytes \<and>
    pngDecode lib raw = Inr source \<and>
    0 < w \<and> w \<le> maxWidth \<and> w \<le> cw \<and> 1 \<le> h \<and> h \<le> ch \<and> 26 \<le> q \<and> q \<le> 85 \<and>
    jpegEncode lib (resized_image source w h) q = Inr out \<and>
    (if int (length out) \<le> maxBytes
     then res = Inr \<lparr>shotBody = out, contentType = ''image/jpeg'', frameWidth = cw,
       frameHeight = ch, encodedWidth = w, encodedHeight = h\<rparr>
     else res = Inl (errScreenshotCannotFit maxBytes) \<and> w \<le> 320 \<and> q \<le> 35)"
proof -
  obtain cw ch maxWidth quality maxBytes source n1
    where config: "pngDecodeConfig lib raw = Inr (cw, ch)" "0 < cw" "0 < ch"
        "cw \<le> maxFramebufferDimension" "ch \<le> maxFramebufferDimension" "cw \<le> maxFramebufferPixels div ch"
      and mw: "(boundedInt (query ''maxWidth'') 1024 320 1600 ''maxWidth'' :: 'e screenshot_error + int) = Inr maxWidth"
      and q: "(boundedInt (query ''quality'') 65 30 85 ''quality'' :: 'e screenshot_error + int) = Inr quality"
      and mb: "(boundedInt (query ''maxBytes'') 180000 50000 500000 ''maxBytes'' :: 'e screenshot_error + int) = Inr maxBytes"
      and source: "pngDecode lib raw = Inr source"
      and loop: "shrinkLoop ctx lib source cw ch maxBytes (if maxWidth < cw then maxWidth else cw)
         (if maxWidth < cw then max 1 (ch * maxWidth div cw) else ch) quality n1 = (res, n')"
    using transformScreenshot_frame [OF assms(1,2)] assms(3) by auto
  let ?w = "if maxWidth < cw then maxWidth else cw"
  let ?h = "if maxWidth < cw then max 1 (ch * maxWidth div cw) else ch"
  have ranges: "320 \<le> maxWidth" "30 \<le> quality" "quality \<le> 85"
    using boundedInt_range [OF mw] boundedInt_range [OF q] by auto
  have "?h \<le> ch" "1 \<le> ?h"
    using encodedHeight_le [of ch cw maxWidth] config ranges by auto
  moreover have "0 < ?w" "?w \<le> cw" "?w \<le> maxWidth" using config ranges by auto
  ultimately obtain w h qu out where res: "0 < w" "w \<le> ?w" "1 \<le> h" "h \<le> ch" "26 \<le> qu" "qu \<le> 85"
    "jpegEncode lib (resized_image source w h) qu = Inr out"
    "if int (length out) \<le> maxBytes
     then res = Inr \<lparr>shotBody = out, contentType = ''image/jpeg'', frameWidth = cw,
       frameHeight = ch, encodedWidth = w, encodedHeight = h\<rparr>
     else res = Inl (errScreenshotCannotFit maxBytes) \<and> w \<le> 320 \<and> qu \<le> 35"
    using shrinkLoop_result [OF loop assms(2) ranges(2,3)] by blast
  have "w \<le> maxWidth" "w \<le> cw" using res(2) by (auto split: if_splits)
  with res(1,3-8) config(1-5) pixels_le [OF config(3,6)] mw mb source show ?thesis
    by blast
qed

text \<open>
  C15. A screenshot that the gateway serves is bounded: the framebuffer has at most 4096 by 4096
  and at most 4096 * 2160 pixels, the encoded picture is not larger than the framebuffer in
  either direction and has at least one row and column; a PNG is the captured frame unchanged;
  a JPEG is at most as wide and as long as the query asked (and never above 1600 pixels and
  500000 bytes), and is the encoding, at a quality between 26 and 85, of the frame resized by
  nearest neighbour to the reported size.
\<close>

theorem screenshot_bounded:
  fixes lib :: "('p, 'e) imagelib"
  assumes "fst (transformScreenshot ctx lib raw query n) = Inr shot"
  shows "0 < frameWidth shot \<and> frameWidth shot \<le> 4096 \<and> 0 < frameHeight shot \<and> frameHeight shot \<le> 4096 \<and>
    frameWidth shot * frameHeight shot \<le> 4096 * 2160 \<and> 0 < encodedWidth shot \<and> encodedWidth shot \<le> frameWidth shot \<and>
    0 < encodedHeight shot \<and> encodedHeight shot \<le> frameHeight shot \<and>
    (if query ''format'' = ''jpeg''
     then \<exists>maxWidth maxBytes source q.
       (boundedInt (query ''maxWidth'') 1024 320 1600 ''maxWidth'' :: 'e screenshot_error + int) = Inr maxWidth \<and>
       (boundedInt (query ''maxBytes'') 180000 50000 500000 ''maxBytes'' :: 'e screenshot_error + int) = Inr maxBytes \<and>
       encodedWidth shot \<le> maxWidth \<and> maxWidth \<le> 1600 \<and>
       int (length (shotBody shot)) \<le> maxBytes \<and> maxBytes \<le> 500000 \<and>
       pngDecode lib raw = Inr source \<and> 26 \<le> q \<and> q \<le> 85 \<and>
       jpegEncode lib (resized_image source (encodedWidth shot) (encodedHeight shot)) q = Inr (shotBody shot)
     else shotBody shot = raw)"
proof -
  obtain n' where run: "transformScreenshot ctx lib raw query n = (Inr shot, n')"
    using assms by (cases "transformScreenshot ctx lib raw query n") auto
  show ?thesis
  proof (cases "query ''format'' = ''jpeg''")
    case False
    with transformScreenshot_frame [OF run] show ?thesis by (auto intro: pixels_le)
  next
    case True
    from transformScreenshot_jpeg [OF run _ True, of shot 0] True show ?thesis
      by (auto split: if_splits dest: boundedInt_range)
  qed
qed

lemma Atoi_320: "Atoi ''320'' = Some 320"
  by (simp add: Atoi_def digit_value_def)

lemmas sample_run_simps = transformScreenshot_def andThen_def ctxErr_def sample_query_def
  boundedInt_def Atoi_320 sample_codec_def sample_image_def nearestNeighbor_def

lemma sample_transform:
  "fst (transformScreenshot (\<lambda>_. None) sample_codec ''raw'' sample_query 0) =
     Inr \<lparr>shotBody = ''xx'', contentType = ''image/jpeg'', frameWidth = 4, frameHeight = 2,
          encodedWidth = 4, encodedHeight = 2\<rparr>"
  by (simp add: sample_run_simps shrinkLoop.simps encodeLoop.simps upto.simps)

theorem screenshot_bounded_witness:
  "jpegEncode sample_codec (resized_image sample_image 4 2) 26 = Inr ''xx'' \<and>
   (\<exists>maxWidth. (boundedInt ''320'' 1024 320 1600 ''maxWidth'' :: string screenshot_error + int) = Inr maxWidth \<and>
      4 \<le> maxWidth)"
  using screenshot_bounded [OF sample_transform]
  by (auto simp: sample_query_def sample_codec_def)

text \<open>
  The gateway says that a screenshot cannot fit only when it tried the smallest rendering:
  some encoding at a quality of at most 35 of the frame resized to a width of at most 320 pixels
  is longer than the byte limit, which is the one the query asked for.
\<close>

lemma cannot_fit_is_exhaustive:
  fixes lib :: "('p, 'e) imagelib"
  assumes "fst (transformScreenshot ctx lib raw query n) = Inl (errScreenshotCannotFit b)"
  shows "(boundedInt (query ''maxBytes'') 180000 50000 500000 ''maxBytes'' :: 'e screenshot_error + int) = Inr b \<and>
    (\<exists>source w h q out. pngDecode lib raw = Inr source \<and> 0 < w \<and> w \<le> 320 \<and> 26 \<le> q \<and> q \<le> 35 \<and>
      jpegEncode lib (resized_image source w h) q = Inr out \<and> b < int (length out))"
proof -
  obtain n' where run: "transformScreenshot ctx lib raw query n = (Inl (errScreenshotCannotFit b), n')"
    using assms by (cases "transformScreenshot ctx lib raw query n") auto
  have jpeg: "query ''format'' = ''jpeg''"
    using transformScreenshot_frame [OF run] by (auto split: if_splits)
  from transformScreenshot_jpeg [OF run _ jpeg] show ?thesis
    by (fastforce simp: not_le split: if_splits)
qed

definition bulky :: string where
  "bulky = replicate 180001 CHR ''x''"

lemma length_bulky: "length bulky = 180001"
  unfolding bulky_def by (rule length_replicate)

definition bulky_codec :: "(nat, string) imagelib" where
  "bulky_codec = sample_codec\<lparr>jpegEncode := (\<lambda>_ _. Inr bulky)\<rparr>"

lemma bulky_transform:
  "fst (transformScreenshot (\<lambda>_. None) bulky_codec ''raw'' sample_query 0) =
     Inl (errScreenshotCannotFit 180000)"
  by (simp add: sample_run_simps bulky_codec_def length_bulky shrinkLoop.simps encodeLoop.simps upto.simps)

lemma cannot_fit_is_exhaustive_witness:
  "\<exists>q out. 26 \<le> q \<and> q \<le> (35 :: int) \<and>
     jpegEncode bulky_codec (resized_image sample_image 4 2) q = Inr out \<and> 180000 < length out"
  using cannot_fit_is_exhaustive [OF bulky_transform]
  by (auto simp: bulky_codec_def sample_codec_def length_bulky)

end
