(* ===== verification/Gateway.thy ===== *)
theory Gateway
  imports Power_Dispatch Auth Screenshot
begin

text \<open>
  The HTTP handlers of the Desktop Gateway (\<^verbatim>\<open>internal/desktopgateway/gateway.go\<close>, \<^verbatim>\<open>vnc.go\<close>,
  the handler of \<^verbatim>\<open>power.go\<close> and the start of \<^verbatim>\<open>server.go\<close>). A handler maps a request and the state
  of the gateway (control registry, screenshot slots in use, outside world) to a response and a
  state. Other goroutines may run between two critical sections of a handler: \<open>others k\<close> is what
  they do to the registry at the handler's k-th such point. Timeouts only end calls early, which
  shows as an error the call returns.
\<close>

section \<open>Responses and services\<close>

datatype body = Json json | Raw string

record response =
  code :: nat
  hdrs :: "(string \<times> string) list"
  rbody :: body

record 'w gstate =
  controls :: controlRegistry
  slotsUsed :: nat
  world :: 'w

text \<open>
  The guest agent's HTTP service: what building a request answers, and what sending it answers:
  an error, or a status with the bytes of the body and an error that ends the body early.
\<close>

record ('w, 'e) guest_http =
  NewRequest :: "string \<Rightarrow> string \<Rightarrow> 'e option"
  DoRequest :: "string \<Rightarrow> string \<Rightarrow> (string \<times> string) list \<Rightarrow> string \<Rightarrow> 'w
    \<Rightarrow> ('e + nat \<times> string \<times> 'e option) \<times> 'w"

record ('w, 'e, 'p) services =
  api :: "'e api_errors"
  kubevirt :: "('w, 'e) KubeVirtClient"
  guestClient :: "('w, 'e) guest_http"
  net :: netlib
  codecs :: "('p, 'e) imagelib"
  IsWebSocketUpgrade :: "request \<Rightarrow> bool"
  muxAnswer :: "request \<Rightarrow> response"
  fileServer :: "request \<Rightarrow> response"
  writeDeadlineErr :: "string option"

type_synonym interference = "nat \<Rightarrow> controlRegistry \<Rightarrow> controlRegistry"
type_synonym 'w handler = "request \<Rightarrow> 'w gstate \<Rightarrow> response \<times> 'w gstate"

definition noStore :: "(string \<times> string) list" where
  "noStore = [(''Cache-Control'', ''no-store''), (''Content-Type'', ''application/json'')]"

definition writeJSON :: "nat \<Rightarrow> (string \<times> json) list \<Rightarrow> response" where
  "writeJSON st value = \<lparr>code = st, hdrs = noStore, rbody = Json (JObject value)\<rparr>"

definition writeError :: "nat \<Rightarrow> string \<Rightarrow> string option \<Rightarrow> response" where
  "writeError st message cause =
     writeJSON st ((''error'', JString message) #
       (case cause of None \<Rightarrow> [] | Some text \<Rightarrow> [(''detail'', JString text)]))"

definition securityHeaders :: "response \<Rightarrow> response" where
  "securityHeaders resp = resp\<lparr>hdrs :=
     [(''Content-Security-Policy'', ''default-src 'self'; img-src 'self' blob:; connect-src 'self' ws: wss:; style-src 'self' 'unsafe-inline'; script-src 'self' 'unsafe-inline'' @ [CHR 0x27]),
      (''Referrer-Policy'', ''no-referrer''), (''X-Content-Type-Options'', ''nosniff''),
      (''X-Frame-Options'', ''SAMEORIGIN'')] @ hdrs resp\<rparr>"

fun actorText :: "actorKind \<Rightarrow> string" where
  "actorText actorHuman = ''human''"
| "actorText actorAgent = ''agent''"

fun controlErrorText :: "control_error \<Rightarrow> string" where
  "controlErrorText errControlBusy = ''another actor controls this desktop''"
| "controlErrorText errControlBlocked = ''desktop control is blocked by its power state''"
| "controlErrorText errPowerBusy = ''another power operation is in progress''"
| "controlErrorText errPowerRecoveryRequired = ''desktop power recovery requires an explicit start''"
| "controlErrorText errRevocationTimed = ''the previous controller did not revoke in time''"
| "controlErrorText (errContext Canceled) = ''context canceled''"
| "controlErrorText (errContext DeadlineExceeded) = ''context deadline exceeded''"

section \<open>The gateway object\<close>

definition New :: "Config \<Rightarrow> string \<Rightarrow> gateway" where
  "New cfg fresh = \<lparr>config = cfg, bootID = fresh, devLoopbackListener = False,
     statusTimeout = StatusTimeout cfg, screenshotTimeout = ScreenshotTimeout cfg,
     screenshotWriteTimeout = 0, vncReadinessTimeout = 0,
     powerTimeout = PowerTimeout cfg, guestAgentTimeout = GuestAgentTimeout cfg,
     agentLeaseTTL = AgentLeaseTTL cfg, screenshotConcurrency = ScreenshotConcurrency cfg\<rparr>"

definition effectiveAgentLeaseTTL :: "gateway \<Rightarrow> int" where
  "effectiveAgentLeaseTTL g = effectiveTimeout (agentLeaseTTL g) (120 * seconds)"

text \<open>The start of \<^verbatim>\<open>Serve\<close>: nothing when it refuses the listener.\<close>

definition serveGuard :: "netlib \<Rightarrow> string option \<Rightarrow> gateway \<Rightarrow> gateway option" where
  "serveGuard lib consoleIP g =
     (if cfgConsoleAuthMode (config g) = ConsoleAuthDev
      then (if RequireLoopbackConsoleListener lib consoleIP
            then Some (g\<lparr>devLoopbackListener := True\<rparr>) else None)
      else Some g)"

definition slotLimit :: "gateway \<Rightarrow> nat" where
  "slotLimit g = (if screenshotConcurrency g \<le> 0 then 3 else nat (screenshotConcurrency g))"

definition tryAcquireScreenshotSlot :: "gateway \<Rightarrow> 'w gstate \<Rightarrow> bool \<times> 'w gstate" where
  "tryAcquireScreenshotSlot g st =
     (if slotsUsed st < slotLimit g then (True, st\<lparr>slotsUsed := Suc (slotsUsed st)\<rparr>) else (False, st))"

definition releaseScreenshotSlot :: "'w gstate \<Rightarrow> 'w gstate" where
  "releaseScreenshotSlot st = st\<lparr>slotsUsed := slotsUsed st - 1\<rparr>"

definition agentIdentity :: "gateway \<Rightarrow> request \<Rightarrow> response + identity" where
  "agentIdentity g r =
     (case authenticateAgent g r of
        None \<Rightarrow> Inl (writeError StatusUnauthorized ''authentication required'' (Some ''missing trusted desktop identity''))
      | Some i \<Rightarrow> Inr i)"

definition humanIdentity :: "netlib \<Rightarrow> gateway \<Rightarrow> request \<Rightarrow> response + identity" where
  "humanIdentity lib g r =
     (case authenticateHuman lib g r of
        None \<Rightarrow> Inl (writeError StatusUnauthorized ''authentication required'' (Some ''missing trusted desktop identity''))
      | Some i \<Rightarrow> Inr i)"

definition requireMutationOrigin :: "netlib \<Rightarrow> gateway \<Rightarrow> request \<Rightarrow> identity \<Rightarrow> response option" where
  "requireMutationOrigin lib g r i =
     (if \<not> mutationOriginAllowed lib g r i
      then Some (writeError StatusForbidden ''same-origin browser request required'' None) else None)"

section \<open>Status\<close>

definition leaseSeconds :: "gateway \<Rightarrow> int" where
  "leaseSeconds g = effectiveAgentLeaseTTL g div seconds"

definition meHeader :: "gateway \<Rightarrow> identity \<Rightarrow> (string \<times> json) list" where
  "meHeader g i =
     [(''desktopName'', JString (cfgName (config g))), (''namespace'', JString (cfgNamespace (config g))),
      (''os'', JString (cfgOS (config g))), (''actor'', JString (actorText (idActor i))),
      (''authMode'', JString (authMode i)), (''gatewayBootID'', JString (bootID g)),
      (''consoleURL'', JString (cfgConsoleURL (config g))),
      (''agentLeaseTtlSeconds'', JInt (leaseSeconds g))] @
     (if login i \<noteq> '''' then [(''login'', JString (login i))] else [])"

definition meControl :: "interference \<Rightarrow> string \<Rightarrow> controlRegistry \<Rightarrow> (string \<times> json) list \<times> controlRegistry" where
  "meControl others d r0 =
     (let r1 = others 0 r0;
          r2 = others 1 r1;
          (owner, g, isActive) = status d r1;
          (isBlocked, powerActive, powerAction) = powerStatus d r2
      in ([(''controlActive'', JBool isActive), (''controlGeneration'', JInt (uint g))] @
          (case owner of None \<Rightarrow> [] | Some a \<Rightarrow> [(''controlActor'', JString (actorText a))]) @
          [(''controlBlocked'', JBool isBlocked), (''powerOperationActive'', JBool powerActive),
           (''powerRecoveryRequired'', JBool (isBlocked \<and> \<not> powerActive))] @
          (if powerActive then [(''powerOperationAction'', JString powerAction)] else []), r2))"

definition handleMe ::
  "('w, 'e, 'p) services \<Rightarrow> gateway \<Rightarrow> interference \<Rightarrow> (request \<Rightarrow> response + identity) \<Rightarrow> 'w handler" where
  "handleMe svc g others authenticate r st =
     (case authenticate r of
        Inl resp \<Rightarrow> (resp, st)
      | Inr i \<Rightarrow>
         (let ns = cfgNamespace (config g); d = cfgName (config g) in
          case GetVM (kubevirt svc) ns d (world st) of
            (vmRes, w1) \<Rightarrow>
             (case (case vmRes of
                Inr vm \<Rightarrow> Inr [(''vmExists'', JBool True), (''vmPrintableStatus'', JString (PrintableStatus vm))]
              | Inl err \<Rightarrow> if IsNotFound (api svc) err then Inr [(''vmExists'', JBool False)] else Inl err) of
                Inl err \<Rightarrow> (writeError (kubeVirtReadStatus (api svc) err) ''read VirtualMachine status''
                             (Some (ErrorText (api svc) err)), st\<lparr>world := w1\<rparr>)
              | Inr vmPart \<Rightarrow>
                 (case GetVMI (kubevirt svc) ns d w1 of
                    (vmiRes, w2) \<Rightarrow>
                     (case (case vmiRes of
                        Inr vmi \<Rightarrow> Inr [(''vmiExists'', JBool True), (''vmiPhase'', JString (Phase vmi)),
                                        (''vmiUID'', JString (vmiUID vmi))]
                      | Inl err \<Rightarrow> if IsNotFound (api svc) err then Inr [(''vmiExists'', JBool False)] else Inl err) of
                        Inl err \<Rightarrow> (writeError (kubeVirtReadStatus (api svc) err)
                                     ''read VirtualMachineInstance status'' (Some (ErrorText (api svc) err)),
                                   st\<lparr>world := w2\<rparr>)
                      | Inr vmiPart \<Rightarrow>
                         (case meControl others d (controls st) of
                            (controlPart, r') \<Rightarrow>
                              (writeJSON StatusOK (meHeader g i @ vmPart @ vmiPart @ controlPart),
                               st\<lparr>world := w2, controls := r'\<rparr>)))))))"

section \<open>Screenshots\<close>

definition stablyRunning :: "VirtualMachineInstance \<Rightarrow> bool" where
  "stablyRunning vmi \<longleftrightarrow> \<not> (Phase vmi \<noteq> VirtualMachineInstanceRunning \<or> vmiDeleting vmi)"

fun ctxText :: "ctx_error \<Rightarrow> string" where
  "ctxText Canceled = ''context canceled''"
| "ctxText DeadlineExceeded = ''context deadline exceeded''"

fun screenshotErrorText :: "'e api_errors \<Rightarrow> 'e screenshot_error \<Rightarrow> string" where
  "screenshotErrorText lib (ShotContext e) = ctxText e"
| "screenshotErrorText lib (errInvalidScreenshotQuery msg) = ''invalid screenshot query: '' @ msg"
| "screenshotErrorText lib (errScreenshotCannotFit b) =
     ''screenshot cannot fit the requested byte cap: maxBytes='' @ Itoa b"
| "screenshotErrorText lib (errScreenshotTooLarge msg) =
     ''screenshot exceeds gateway processing limits: '' @ msg"
| "screenshotErrorText lib (MetadataFailed e) = ''decode KubeVirt PNG metadata: '' @ ErrorText lib e"
| "screenshotErrorText lib (DecodeFailed e) = ''decode KubeVirt PNG: '' @ ErrorText lib e"
| "screenshotErrorText lib (EncodeFailed e) = ''encode JPEG: '' @ ErrorText lib e"

text \<open>
  The writing of the response: \<open>writeDeadlineErr\<close> is a failure to set the write deadline other
  than its not being supported. That the client may have gone away does not show.
\<close>

definition writeScreenshotResponse ::
  "('w, 'e, 'p) services \<Rightarrow> gateway \<Rightarrow> interference \<Rightarrow> screenshot \<Rightarrow> string \<Rightarrow> 'w gstate \<Rightarrow> response \<times> 'w gstate" where
  "writeScreenshotResponse svc g others shot uid st =
     (case writeDeadlineErr svc of
        Some err \<Rightarrow> (writeError StatusServiceUnavailable ''set screenshot response deadline'' (Some err), st)
      | None \<Rightarrow>
     let r = others 0 (controls st);
          (_, lease, _) = status (cfgName (config g)) r
      in (\<lparr>code = StatusOK,
           hdrs = [(''Cache-Control'', ''no-store''), (''Content-Type'', contentType shot),
                   (''X-Framebuffer-Width'', Itoa (frameWidth shot)),
                   (''X-Framebuffer-Height'', Itoa (frameHeight shot)),
                   (''X-Encoded-Width'', Itoa (encodedWidth shot)),
                   (''X-Encoded-Height'', Itoa (encodedHeight shot)),
                   (''X-VMI-UID'', uid), (''X-Gateway-Boot-ID'', bootID g),
                   (''X-Control-Generation'', Itoa (uint lease))],
           rbody = Raw (shotBody shot)\<rparr>, st\<lparr>controls := r\<rparr>))"

definition finishScreenshot ::
  "('w, 'e, 'p) services \<Rightarrow> gateway \<Rightarrow> interference \<Rightarrow> ctx_oracle \<Rightarrow> string \<Rightarrow> string \<Rightarrow> 'w handler" where
  "finishScreenshot svc g others ctx raw uid r st =
     (case transformScreenshot ctx (codecs svc) raw (Query r) 0 of
        (Inl err, _) \<Rightarrow>
          (writeError (screenshotTransformStatus err) ''transform desktop screenshot''
             (Some (screenshotErrorText (api svc) err)), st)
      | (Inr shot, n) \<Rightarrow>
         (case ctx n of
            Some e \<Rightarrow>
              (writeError StatusServiceUnavailable ''desktop framebuffer deadline exceeded''
                 (Some (ctxText e)), st)
          | None \<Rightarrow> writeScreenshotResponse svc g others shot uid st))"

definition tooManyScreenshots :: response where
  "tooManyScreenshots =
     (let resp = writeError StatusTooManyRequests ''too many concurrent screenshot requests'' None
      in resp\<lparr>hdrs := (''Retry-After'', ''2'') # hdrs resp\<rparr>)"

text \<open>The body of \<^verbatim>\<open>handleScreenshot\<close> once it holds a slot, and the handler with its deferred release.\<close>

definition captureScreenshot ::
  "('w, 'e, 'p) services \<Rightarrow> gateway \<Rightarrow> interference \<Rightarrow> ctx_oracle \<Rightarrow> 'w handler" where
  "captureScreenshot svc g others ctx r st =
     (let ns = cfgNamespace (config g); d = cfgName (config g);
          fail = (\<lambda>msg err. writeError (screenshotReadStatus (api svc) err) msg (Some (ErrorText (api svc) err)))
      in case GetVMI (kubevirt svc) ns d (world st) of
           (Inl err, w1) \<Rightarrow> (fail ''desktop framebuffer is not ready'' err, st\<lparr>world := w1\<rparr>)
         | (Inr before, w1) \<Rightarrow>
             if \<not> stablyRunning before
             then (writeError StatusConflict ''desktop framebuffer is not ready'' (Some ''VMI is not stably running''),
                   st\<lparr>world := w1\<rparr>)
             else (case ScreenshotVM (kubevirt svc) ns d w1 of
                (Inl err, w2) \<Rightarrow> (fail ''desktop framebuffer is not ready'' err, st\<lparr>world := w2\<rparr>)
              | (Inr raw, w2) \<Rightarrow>
                 (case GetVMI (kubevirt svc) ns d w2 of
                    (Inl err, w3) \<Rightarrow>
                      (fail ''re-read VirtualMachineInstance after framebuffer capture'' err, st\<lparr>world := w3\<rparr>)
                  | (Inr after, w3) \<Rightarrow>
                      if vmiUID after \<noteq> vmiUID before \<or> \<not> stablyRunning after
                      then (writeError StatusConflict ''desktop framebuffer changed; observe again''
                              (Some ''VMI changed while the framebuffer was captured''), st\<lparr>world := w3\<rparr>)
                      else finishScreenshot svc g others ctx raw (vmiUID after) r (st\<lparr>world := w3\<rparr>))))"

definition withScreenshotSlot :: "gateway \<Rightarrow> 'w handler \<Rightarrow> 'w handler" where
  "withScreenshotSlot g capture r st =
     (case tryAcquireScreenshotSlot g st of
        (False, st') \<Rightarrow> (tooManyScreenshots, st')
      | (True, st') \<Rightarrow>
         (case capture r st' of (resp, st'') \<Rightarrow> (resp, releaseScreenshotSlot st'')))"

definition handleScreenshot ::
  "('w, 'e, 'p) services \<Rightarrow> gateway \<Rightarrow> interference \<Rightarrow> ctx_oracle \<Rightarrow> 'w handler" where
  "handleScreenshot svc g others ctx r st =
     (case humanIdentity (net svc) g r of
        Inl resp \<Rightarrow> (resp, st)
      | Inr _ \<Rightarrow> withScreenshotSlot g (captureScreenshot svc g others ctx) r st)"

section \<open>The guest agent proxy\<close>

definition gatewayUnknownOutcomeBody :: "string \<Rightarrow> string \<Rightarrow> json" where
  "gatewayUnknownOutcomeBody message cause =
     JObject [(''error'', JString message), (''detail'', JString cause), (''outcome'', JString ''UnknownOutcome'')]"

text \<open>Either a status and body the gateway wrote itself, or the guest's status and bytes.\<close>

definition proxyGuestAgent ::
  "('w, 'e, 'p) services \<Rightarrow> gateway \<Rightarrow> string \<Rightarrow> string \<Rightarrow> string \<Rightarrow> 'w
     \<Rightarrow> (nat \<times> json + nat \<times> string) \<times> 'w" where
  "proxyGuestAgent svc g method path payload w =
     (let address = trim_right_byte CHR ''/'' (GuestAgentAddress (config g)) @ path;
          headers = [(''Content-Type'', ''application/json''),
                     (''Authorization'', ''Bearer '' @ GuestAgentToken (config g))];
          unknown = (\<lambda>st msg err. Inl (st, gatewayUnknownOutcomeBody msg (ErrorText (api svc) err)))
      in case NewRequest (guestClient svc) method address of
           Some err \<Rightarrow> (unknown StatusInternalServerError ''build desktop agent request'' err, w)
         | None \<Rightarrow>
            (case DoRequest (guestClient svc) method address headers payload w of
               (Inl err, w') \<Rightarrow>
                 if IsDeadlineExceeded (api svc) err
                 then (unknown StatusGatewayTimeout ''desktop agent did not respond in time'' err, w')
                 else (unknown StatusBadGateway ''desktop agent is unreachable'' err, w')
             | (Inr (st, bytes, ended), w') \<Rightarrow>
                 if maxScreenshotRawBytes < length bytes
                 then (Inr (st, take (maxScreenshotRawBytes + 1) bytes), w')
                 else (case ended of
                     Some err \<Rightarrow> (unknown StatusBadGateway ''read desktop agent response'' err, w')
                   | None \<Rightarrow> (Inr (st, if bytes = [] then ''{}'' else bytes), w'))))"

fun proxyGuestAgentResponse :: "nat \<times> json + nat \<times> string \<Rightarrow> response" where
  "proxyGuestAgentResponse (Inl (st, obj)) = \<lparr>code = st, hdrs = noStore, rbody = Json obj\<rparr>"
| "proxyGuestAgentResponse (Inr (st, bytes)) = \<lparr>code = st, hdrs = noStore, rbody = Raw bytes\<rparr>"

section \<open>The agent's input lease\<close>

definition handleControlAcquire ::
  "('w, 'e, 'p) services \<Rightarrow> gateway \<Rightarrow> int \<Rightarrow> 'w handler" where
  "handleControlAcquire svc g now r st =
     (case agentIdentity g r of
        Inl resp \<Rightarrow> (resp, st)
      | Inr i \<Rightarrow>
         (case requireMutationOrigin (net svc) g r i of
            Some resp \<Rightarrow> (resp, st)
          | None \<Rightarrow>
             (case acquireAgent (cfgName (config g)) (effectiveAgentLeaseTTL g) now (controls st) of
                (Inl err, r') \<Rightarrow>
                  ((if err = errControlBlocked
                    then writeError StatusConflict ''desktop control is blocked by its power state''
                           (Some (controlErrorText err))
                    else if err = errControlBusy
                    then writeError StatusConflict ''another actor controls this desktop''
                           (Some (controlErrorText err))
                    else writeError StatusServiceUnavailable ''input control unavailable''
                           (Some (controlErrorText err))), st\<lparr>controls := r'\<rparr>)
              | (Inr c, r') \<Rightarrow>
                  (writeJSON StatusOK
                     [(''desktopName'', JString (cfgName (config g))), (''gatewayBootID'', JString (bootID g)),
                      (''controlGeneration'', JInt (uint (generation (heap r' ! c)))),
                      (''actor'', JString (actorText (idActor i))), (''leaseTtlSeconds'', JInt (leaseSeconds g))],
                   st\<lparr>controls := r'\<rparr>))))"

definition handleControlRelease ::
  "('w, 'e, 'p) services \<Rightarrow> gateway \<Rightarrow> interference \<Rightarrow> 'w handler" where
  "handleControlRelease svc g others r st =
     (case agentIdentity g r of
        Inl resp \<Rightarrow> (resp, st)
      | Inr i \<Rightarrow>
         (case requireMutationOrigin (net svc) g r i of
            Some resp \<Rightarrow> (resp, st)
          | None \<Rightarrow>
             (let d = cfgName (config g);
                  (_, _, isActive) = status d (controls st);
                  (released, r') = (if isActive then releaseAgentOwner d (others 0 (controls st))
                                    else (False, controls st))
              in (if isActive \<and> \<not> released
                  then writeError StatusConflict ''a human owns input; the agent cannot release it'' None
                  else writeJSON StatusOK [(''desktopName'', JString d), (''released'', JBool True)],
                  st\<lparr>controls := r'\<rparr>))))"

definition agentInputActions :: "string list" where
  "agentInputActions = [''actions'', ''launch'']"

text \<open>Reading the request body through \<^verbatim>\<open>MaxBytesReader\<close>.\<close>

definition readBody :: "nat \<Rightarrow> request \<Rightarrow> string + string" where
  "readBody limit r =
     (case reqBody r of
        Inl err \<Rightarrow> Inl err
      | Inr bytes \<Rightarrow> if limit < length bytes then Inl ''http: request body too large'' else Inr bytes)"

definition handleAgentAction ::
  "('w, 'e, 'p) services \<Rightarrow> gateway \<Rightarrow> interference \<Rightarrow> int \<Rightarrow> 'w handler" where
  "handleAgentAction svc g others now r st =
     (let act = PathValue r ''action''; d = cfgName (config g) in
      if act \<notin> set agentInputActions then (writeError StatusNotFound ''unknown agent action'' None, st)
      else (case agentIdentity g r of
        Inl resp \<Rightarrow> (resp, st)
      | Inr i \<Rightarrow>
         (case requireMutationOrigin (net svc) g r i of
            Some resp \<Rightarrow> (resp, st)
          | None \<Rightarrow>
             (case status d (controls st) of
                (owner, _, isActive) \<Rightarrow>
                  if \<not> isActive \<or> owner \<noteq> Some actorAgent
                  then (writeError StatusConflict
                          ''agent input control is not held; call desktop_acquire first'' None, st)
                  else
                    let r1 = touchAgent d now (others 0 (controls st)); r2 = others 1 r1
                    in (case readBody 1048576 r of
                          Inl err \<Rightarrow> (writeError StatusBadRequest ''read agent action body'' (Some err),
                                      st\<lparr>controls := r2\<rparr>)
                        | Inr payload \<Rightarrow>
                           (case proxyGuestAgent svc g ''POST'' (CHR ''/'' # act) payload (world st) of
                              (answer, w') \<Rightarrow>
                                (proxyGuestAgentResponse answer, st\<lparr>controls := r2, world := w'\<rparr>)))))))"

definition captureAgentScreenshot ::
  "('w, 'e, 'p) services \<Rightarrow> gateway \<Rightarrow> interference \<Rightarrow> ctx_oracle \<Rightarrow> 'w handler" where
  "captureAgentScreenshot svc g others ctx r st =
     (case GetVMI (kubevirt svc) (cfgNamespace (config g)) (cfgName (config g)) (world st) of
        (Inl err, w1) \<Rightarrow>
          (writeError (screenshotReadStatus (api svc) err) ''desktop framebuffer is not ready''
             (Some (ErrorText (api svc) err)), st\<lparr>world := w1\<rparr>)
      | (Inr vmi, w1) \<Rightarrow>
          if \<not> stablyRunning vmi
          then (writeError StatusConflict ''desktop framebuffer is not ready'' (Some ''VMI is not stably running''),
                st\<lparr>world := w1\<rparr>)
          else (case proxyGuestAgent svc g ''POST'' ''/screenshot'' '''' w1 of
             (Inr (st', payload), w2) \<Rightarrow>
               if st' \<noteq> StatusOK then (proxyGuestAgentResponse (Inr (st', payload)), st\<lparr>world := w2\<rparr>)
               else finishScreenshot svc g others ctx payload (vmiUID vmi) r (st\<lparr>world := w2\<rparr>)
           | (Inl own, w2) \<Rightarrow> (proxyGuestAgentResponse (Inl own), st\<lparr>world := w2\<rparr>)))"

definition handleAgentScreenshot ::
  "('w, 'e, 'p) services \<Rightarrow> gateway \<Rightarrow> interference \<Rightarrow> ctx_oracle \<Rightarrow> 'w handler" where
  "handleAgentScreenshot svc g others ctx r st =
     (case agentIdentity g r of
        Inl resp \<Rightarrow> (resp, st)
      | Inr _ \<Rightarrow> withScreenshotSlot g (captureAgentScreenshot svc g others ctx) r st)"

definition handleAgentWindows :: "('w, 'e, 'p) services \<Rightarrow> gateway \<Rightarrow> int \<Rightarrow> 'w handler" where
  "handleAgentWindows svc g now r st =
     (case agentIdentity g r of
        Inl resp \<Rightarrow> (resp, st)
      | Inr _ \<Rightarrow>
         (case proxyGuestAgent svc g ''GET'' ''/windows'' '''' (world st) of
            (answer, w') \<Rightarrow>
              (proxyGuestAgentResponse answer,
               st\<lparr>controls := touchAgent (cfgName (config g)) now (controls st), world := w'\<rparr>)))"

section \<open>Power\<close>

fun powerErrorText :: "'e api_errors \<Rightarrow> 'e power_error option \<Rightarrow> string" where
  "powerErrorText lib None = ''''"
| "powerErrorText lib (Some (UnknownAction act)) = ''unknown power action '' @ [CHR 0x22] @ act @ [CHR 0x22]"
| "powerErrorText lib (Some (ApiError err)) = ErrorText lib err"

fun powerErrorStatus :: "'e api_errors \<Rightarrow> 'e power_error option \<Rightarrow> nat" where
  "powerErrorStatus lib (Some (ApiError err)) = kubeVirtOperationStatus lib err"
| "powerErrorStatus lib _ = StatusBadGateway"

definition powerResponse :: "'e api_errors \<Rightarrow> string \<Rightarrow> string \<Rightarrow> bool \<Rightarrow> 'e powerResult \<Rightarrow> response" where
  "powerResponse lib d act isBlocked res =
     (case outcome res of
        powerSucceeded \<Rightarrow>
          writeJSON StatusAccepted
            [(''desktopName'', JString d), (''action'', JString act), (''outcome'', JString ''Succeeded''),
             (''idempotent'', JBool (idempotent res))]
      | powerRejected \<Rightarrow>
          writeJSON (powerErrorStatus lib (powerErr res))
            [(''error'', JString ''KubeVirt power operation failed''),
             (''detail'', JString (powerErrorText lib (powerErr res))), (''desktopName'', JString d),
             (''action'', JString act), (''outcome'', JString ''Rejected''), (''retrySafe'', JBool True),
             (''controlBlocked'', JBool isBlocked)]
      | powerUnknown \<Rightarrow>
          writeJSON StatusServiceUnavailable
            [(''error'', JString ''KubeVirt power outcome is unknown; desktop control remains blocked''),
             (''detail'', JString (powerErrorText lib (powerErr res))), (''desktopName'', JString d),
             (''action'', JString act), (''outcome'', JString ''UnknownOutcome''), (''retrySafe'', JBool False),
             (''controlBlocked'', JBool True)])"

definition powerRefused :: "string \<Rightarrow> string \<Rightarrow> control_error \<Rightarrow> response" where
  "powerRefused d act err =
     (if err = errPowerRecoveryRequired
      then writeJSON StatusConflict
        [(''error'', JString ''desktop power recovery requires an explicit start''),
         (''detail'', JString (controlErrorText err)), (''desktopName'', JString d), (''action'', JString act),
         (''outcome'', JString ''Rejected''), (''retrySafe'', JBool False), (''controlBlocked'', JBool True),
         (''recoveryAction'', JString ''start'')]
      else writeJSON StatusConflict
        [(''error'', JString ''power operation unavailable''), (''detail'', JString (controlErrorText err)),
         (''desktopName'', JString d), (''action'', JString act), (''outcome'', JString ''Rejected''),
         (''retrySafe'', JBool True)])"

definition handlePower ::
  "('w, 'e, 'p) services \<Rightarrow> gateway \<Rightarrow> interference \<Rightarrow> (request \<Rightarrow> response + identity) \<Rightarrow> 'w handler" where
  "handlePower svc g others authenticate r st =
     (let d = cfgName (config g); act = PathValue r ''action'' in
      case authenticate r of
        Inl resp \<Rightarrow> (resp, st)
      | Inr i \<Rightarrow>
         (case requireMutationOrigin (net svc) g r i of
            Some resp \<Rightarrow> (resp, st)
          | None \<Rightarrow>
              if act \<noteq> ''start'' \<and> act \<noteq> ''stop'' then (writeError StatusNotFound ''unknown power action'' None, st)
              else (case beginPower d act (controls st) of
                 (Inl err, r1) \<Rightarrow> (powerRefused d act err, st\<lparr>controls := r1\<rparr>)
               | (Inr operation, r1) \<Rightarrow>
                  (case dispatchPower (api svc) (kubevirt svc) (cfgNamespace (config g)) d act (world st) of
                     (res, w') \<Rightarrow>
                       (let r2 = finishPower d operation (outcome res) (others 0 r1);
                            r3 = others 1 r2;
                            (isBlocked, _, _) = powerStatus d r3
                        in (powerResponse (api svc) d act isBlocked res,
                            st\<lparr>controls := r3, world := w'\<rparr>))))))"

section \<open>The console's input path\<close>

definition vncStreamHTTPStatus :: "'e api_errors \<Rightarrow> 'e \<Rightarrow> nat" where
  "vncStreamHTTPStatus lib err =
     (if IsDeadlineExceeded lib err \<or> IsCanceled lib err then StatusServiceUnavailable
      else (case GetStatusCode lib err of
          None \<Rightarrow> StatusBadGateway
        | Some n \<Rightarrow>
            if n \<in> {400, 404, 409} then StatusConflict
            else if n \<in> {401, 403} then StatusBadGateway
            else if n \<in> {429, 503, 504} then StatusServiceUnavailable
            else StatusBadGateway))"

text \<open>
  What the outside decides during a console session: the two answers of the context of
  \<^verbatim>\<open>acquire\<close>, how the wait for the incumbent ends, and how the upgrade of the connection ends
  (the response that the upgrader wrote). The relay itself only moves bytes.
\<close>

record vnc_session =
  acquireCtx :: "ctx_error option"
  awaitIncumbent :: "nat \<Rightarrow> controlRegistry \<Rightarrow> control_error option \<times> controlRegistry"
  resumeCtx :: "ctx_error option"
  upgradeAnswer :: response

definition handleVNC ::
  "('w, 'e, 'p) services \<Rightarrow> gateway \<Rightarrow> interference \<Rightarrow> vnc_session \<Rightarrow> 'w handler" where
  "handleVNC svc g others session r st =
     (let ns = cfgNamespace (config g); d = cfgName (config g) in
      case humanIdentity (net svc) g r of
        Inl resp \<Rightarrow> (resp, st)
      | Inr i \<Rightarrow>
         (case requireMutationOrigin (net svc) g r i of
            Some resp \<Rightarrow> (resp, st)
          | None \<Rightarrow>
              if \<not> IsWebSocketUpgrade svc r
              then (writeError StatusBadRequest ''WebSocket upgrade required'' None, st)
              else (case GetVMI (kubevirt svc) ns d (world st) of
                 (Inl err, w1) \<Rightarrow>
                   (writeError (if IsNotFound (api svc) err \<or> IsConflict (api svc) err then StatusConflict
                                else kubeVirtReadStatus (api svc) err)
                      ''desktop is not ready for control'' (Some (ErrorText (api svc) err)), st\<lparr>world := w1\<rparr>)
               | (Inr vmi, w1) \<Rightarrow>
                   if \<not> stablyRunning vmi
                   then (writeError StatusConflict ''desktop is not ready for control''
                           (Some ''VMI is not stably running''), st\<lparr>world := w1\<rparr>)
                   else (case acquire (acquireCtx session) (awaitIncumbent session) (resumeCtx session) d
                                (idActor i) (Query r ''takeover'' = ''1'') (others 0 (controls st)) of
                      (Inl err, r1) \<Rightarrow>
                        (writeError (if err = errRevocationTimed then StatusServiceUnavailable else StatusConflict)
                           ''input control unavailable'' (Some (controlErrorText err)),
                         st\<lparr>world := w1, controls := r1\<rparr>)
                    | (Inr granted, r1) \<Rightarrow>
                       (case DialVNC (kubevirt svc) ns d w1 of
                          (Some err, w2) \<Rightarrow>
                            (writeError (vncStreamHTTPStatus (api svc) err) ''open KubeVirt VNC stream''
                               (Some (ErrorText (api svc) err)),
                             st\<lparr>world := w2, controls := release d granted (others 1 r1)\<rparr>)
                        | (None, w2) \<Rightarrow>
                            (upgradeAnswer session,
                             st\<lparr>world := w2, controls := release d granted (others 1 r1)\<rparr>))))))"

section \<open>The two listeners\<close>

datatype agent_endpoint =
    Healthz | AgentMe | ControlAcquire | ControlRelease | AgentScreenshot | AgentAction string
  | AgentWindows | AgentPower string

datatype console_endpoint =
    ConsoleMe | ConsoleScreenshot | ConsoleVNC | ConsolePower string | ConsoleFile

text \<open>The route tables; a GET pattern also matches HEAD, a wildcard one non-empty segment.\<close>

definition isGet :: "string \<Rightarrow> bool" where
  "isGet method \<longleftrightarrow> method = ''GET'' \<or> method = ''HEAD''"

definition agentRoute :: "string \<Rightarrow> string \<Rightarrow> agent_endpoint option" where
  "agentRoute method path =
     (case split_on CHR ''/'' path of
        [a, b] \<Rightarrow> if a = '''' \<and> b = ''healthz'' \<and> isGet method then Some Healthz else None
      | [a, b, c] \<Rightarrow> if a = '''' \<and> b = ''api'' \<and> c = ''me'' \<and> isGet method then Some AgentMe else None
      | [a, b, c, e] \<Rightarrow>
          if a \<noteq> '''' \<or> b \<noteq> ''api'' \<or> e = '''' then None
          else if method = ''POST'' \<and> c = ''control'' then
            (if e = ''acquire'' then Some ControlAcquire
             else if e = ''release'' then Some ControlRelease else None)
          else if method = ''POST'' \<and> c = ''agent'' then
            (if e = ''screenshot'' then Some AgentScreenshot else Some (AgentAction e))
          else if isGet method \<and> c = ''agent'' \<and> e = ''windows'' then Some AgentWindows
          else if method = ''POST'' \<and> c = ''power'' then Some (AgentPower e)
          else None
      | _ \<Rightarrow> None)"

definition consoleRoute :: "string \<Rightarrow> string \<Rightarrow> console_endpoint option" where
  "consoleRoute method path =
     (case split_on CHR ''/'' path of
        [a, b, c] \<Rightarrow>
          if a = '''' \<and> b = ''api'' \<and> isGet method \<and> c = ''me'' then Some ConsoleMe
          else if a = '''' \<and> b = ''api'' \<and> isGet method \<and> c = ''screenshot'' then Some ConsoleScreenshot
          else if a = '''' \<and> b = ''api'' \<and> isGet method \<and> c = ''vnc'' then Some ConsoleVNC
          else if isGet method then Some ConsoleFile else None
      | [a, b, c, e] \<Rightarrow>
          if a = '''' \<and> b = ''api'' \<and> c = ''power'' \<and> e \<noteq> '''' \<and> method = ''POST'' then Some (ConsolePower e)
          else if isGet method then Some ConsoleFile else None
      | _ \<Rightarrow> if isGet method then Some ConsoleFile else None)"

definition withAction :: "string \<Rightarrow> request \<Rightarrow> request" where
  "withAction act r = r\<lparr>PathValue := (\<lambda>k. if k = ''action'' then act else '''')\<rparr>"

definition AgentHandler ::
  "('w, 'e, 'p) services \<Rightarrow> gateway \<Rightarrow> interference \<Rightarrow> ctx_oracle \<Rightarrow> int \<Rightarrow> 'w handler" where
  "AgentHandler svc g others ctx now r st =
     (case agentRoute (Method r) (reqPath r) of
        None \<Rightarrow> (securityHeaders (muxAnswer svc r), st)
      | Some e \<Rightarrow> apfst securityHeaders
         (case e of
            Healthz \<Rightarrow> (\<lparr>code = StatusOK, hdrs = [(''Content-Type'', ''text/plain; charset=utf-8'')],
                        rbody = Raw (''ok'' @ [CHR 0x0A])\<rparr>, st)
          | AgentMe \<Rightarrow> handleMe svc g others (agentIdentity g) r st
          | ControlAcquire \<Rightarrow> handleControlAcquire svc g now r st
          | ControlRelease \<Rightarrow> handleControlRelease svc g others r st
          | AgentScreenshot \<Rightarrow> handleAgentScreenshot svc g others ctx r st
          | AgentAction act \<Rightarrow> handleAgentAction svc g others now (withAction act r) st
          | AgentWindows \<Rightarrow> handleAgentWindows svc g now r st
          | AgentPower act \<Rightarrow> handlePower svc g others (agentIdentity g) (withAction act r) st))"

definition ConsoleHandler ::
  "('w, 'e, 'p) services \<Rightarrow> gateway \<Rightarrow> interference \<Rightarrow> ctx_oracle \<Rightarrow> vnc_session \<Rightarrow> 'w handler" where
  "ConsoleHandler svc g others ctx session r st =
     (case consoleRoute (Method r) (reqPath r) of
        None \<Rightarrow> (securityHeaders (muxAnswer svc r), st)
      | Some e \<Rightarrow> apfst securityHeaders
         (case e of
            ConsoleMe \<Rightarrow> handleMe svc g others (humanIdentity (net svc) g) r st
          | ConsoleScreenshot \<Rightarrow> handleScreenshot svc g others ctx r st
          | ConsoleVNC \<Rightarrow> handleVNC svc g others session r st
          | ConsolePower act \<Rightarrow> handlePower svc g others (humanIdentity (net svc) g) (withAction act r) st
          | ConsoleFile \<Rightarrow> (fileServer svc r, st)))"

end
