(* ===== verification/Gateway_Props.thy ===== *)
theory Gateway_Props
  imports Gateway
begin

text \<open>
  What the listeners of the Desktop Gateway guarantee: who may change anything, what a power
  request leaves behind, that screenshots show the instance they name, that slots and leases
  are given back, and that a loaded configuration is usable.
\<close>

section \<open>Authentication\<close>

lemma constantTimeEqual_iff: "constantTimeEqual got want \<longleftrightarrow> got = want \<and> want \<noteq> ''''"
  by (auto simp: constantTimeEqual_def)

lemma authenticateAgent_iff:
  "(\<exists>i. authenticateAgent g r = Some i) \<longleftrightarrow>
     Header r ''Authorization'' = ''Bearer '' @ AgentToken (config g) \<and> AgentToken (config g) \<noteq> ''''"
  by (auto simp: authenticateAgent_def Let_def constantTimeEqual_iff HasPrefix_iff TrimPrefix_def)

lemma authenticateAgent_actor: "authenticateAgent g r = Some i \<Longrightarrow> idActor i = actorAgent"
  by (auto simp: authenticateAgent_def Let_def split: if_splits)

lemmas human_modes = authenticateHuman_def authenticateTailscale_def authenticateTrustedProxy_def
  authenticateDev_def

lemma authenticateHuman_actor: "authenticateHuman lib g r = Some i \<Longrightarrow> idActor i = actorHuman"
  by (auto simp: human_modes Let_def split: ConsoleAuthMode.splits if_splits)

lemma allowedLogin_iff: "allowedLogin logins l \<longleftrightarrow> l \<in> set logins"
  by (induction logins) auto

lemma agentIdentity_Inl:
  "authenticateAgent g r = None \<Longrightarrow> \<exists>resp. agentIdentity g r = Inl resp \<and> code resp = StatusUnauthorized"
  by (auto simp: agentIdentity_def writeError_def writeJSON_def)

lemma humanIdentity_Inl:
  "authenticateHuman lib g r = None \<Longrightarrow>
     \<exists>resp. humanIdentity lib g r = Inl resp \<and> code resp = StatusUnauthorized"
  by (auto simp: humanIdentity_def writeError_def writeJSON_def)

lemma code_securityHeaders [simp]: "code (securityHeaders resp) = code resp"
  by (simp add: securityHeaders_def)

lemma authenticateAgent_withAction [simp]: "authenticateAgent g (withAction act r) = authenticateAgent g r"
  by (simp add: authenticateAgent_def withAction_def)

lemma authenticateHuman_withAction [simp]:
  "authenticateHuman lib g (withAction act r) = authenticateHuman lib g r"
  by (simp add: human_modes withAction_def split: ConsoleAuthMode.splits)

lemmas agent_handlers = handleMe_def handleControlAcquire_def handleControlRelease_def
  handleAgentScreenshot_def handleAgentAction_def handleAgentWindows_def handlePower_def

lemma agent_unauthenticated:
  assumes "authenticateAgent g r = None" and "agentRoute (Method r) (reqPath r) = Some e" and "e \<noteq> Healthz"
  shows "snd (AgentHandler svc g others ctx now r st) = st \<and>
    code (fst (AgentHandler svc g others ctx now r st)) \<in> {StatusUnauthorized, StatusNotFound}"
proof -
  obtain resp resp' where resp: "agentIdentity g r = Inl resp" "code resp = StatusUnauthorized"
    "\<And>act. agentIdentity g (withAction act r) = Inl resp"
    using assms(1) agentIdentity_Inl [OF assms(1)] by (auto simp: agentIdentity_def)
  then show ?thesis
    using assms(2,3)
    by (cases e) (auto simp: AgentHandler_def agent_handlers Let_def writeError_def writeJSON_def)
qed


text \<open>A gateway, its services and requests for the witnesses.\<close>

definition sample_config :: Config where
  "sample_config = \<lparr>AgentListenAddress = '':8080'', ConsoleListenAddress = '':8081'',
     cfgNamespace = ''ns'', cfgName = ''desk'', cfgOS = ''linux'', OwnerIssuer = ''iss'',
     OwnerSubject = ''owner'', cfgConsoleAuthMode = ConsoleAuthTailscale, AllowedLogins = [''owner''],
     AuthProxyToken = '''', DevAccessToken = '''', AgentToken = ''secret'', GuestAgentToken = ''guest'',
     GuestAgentAddress = ''http://guest'', GuestAgentTimeout = 0, AgentLeaseTTL = 0,
     cfgConsoleURL = '''', NoVNCDir = ''/opt/novnc'', StatusTimeout = 0, ScreenshotTimeout = 0,
     PowerTimeout = 0, ScreenshotConcurrency = 1\<rparr>"

definition sample_gateway :: gateway where
  "sample_gateway = New sample_config ''b''"

definition sample_api :: "string api_errors" where
  "sample_api = \<lparr>ReasonForError = (\<lambda>e. if e = ''forbidden'' then ReasonForbidden else ReasonOther e),
     IsNotFound = (\<lambda>e. e = ''notfound''), IsConflict = (\<lambda>e. e = ''conflict''), IsAlreadyExists = (\<lambda>_. False),
     IsBadRequest = (\<lambda>_. False), IsInvalid = (\<lambda>_. False), IsTimeout = (\<lambda>e. e = ''timeout''),
     IsServerTimeout = (\<lambda>_. False), IsServiceUnavailable = (\<lambda>_. False), IsTooManyRequests = (\<lambda>_. False),
     IsDeadlineExceeded = (\<lambda>_. False), IsCanceled = (\<lambda>_. False), GetStatusCode = (\<lambda>_. None),
     ErrorText = (\<lambda>e. e), WrapError = (\<lambda>p e. e)\<rparr>"

definition sample_vmi :: VirtualMachineInstance where
  "sample_vmi = \<lparr>vmiUID = ''uid'', vmiDeleting = False, Phase = ''Running''\<rparr>"

text \<open>The world of the sample counts the calls; \<open>verb\<close> is the answer of the power verbs.\<close>

definition sample_kubevirt :: "string option \<Rightarrow> (nat, string) KubeVirtClient" where
  "sample_kubevirt verb = \<lparr>GetVM = (\<lambda>_ _ w. (Inl ''timeout'', Suc w)), GetVMI = (\<lambda>_ _ w. (Inr sample_vmi, Suc w)),
     StartVM = (\<lambda>_ _ w. (verb, Suc w)), StopVM = (\<lambda>_ _ w. (verb, Suc w)),
     ScreenshotVM = (\<lambda>_ _ w. (Inr ''raw'', Suc w)), DialVNC = (\<lambda>_ _ w. (None, Suc w))\<rparr>"

definition sample_net :: netlib where
  "sample_net = \<lparr>urlParse = (\<lambda>s. Some \<lparr>Scheme = ''https'', urlHost = ''host'', Hostname = ''host'', hasUser = False,
       urlPath = '''', RawQuery = '''', Fragment = ''''\<rparr>), ipIsLoopback = (\<lambda>_. False),
     SplitHostPort = (\<lambda>s. Some s), timeParseDuration = (\<lambda>_. None)\<rparr>"

definition plain_response :: response where
  "plain_response = \<lparr>code = 200, hdrs = [], rbody = Raw ''''\<rparr>"

definition sample_services :: "string option \<Rightarrow> (nat, string, nat) services" where
  "sample_services verb = \<lparr>api = sample_api, kubevirt = sample_kubevirt verb,
     guestClient = \<lparr>NewRequest = (\<lambda>_ _. None), DoRequest = (\<lambda>_ _ _ _ w. (Inr (200, ''done'', None), w + 100))\<rparr>,
     net = sample_net, codecs = sample_codec, IsWebSocketUpgrade = (\<lambda>_. True),
     muxAnswer = (\<lambda>_. plain_response), fileServer = (\<lambda>_. plain_response), writeDeadlineErr = None\<rparr>"

definition sample_request :: "string \<Rightarrow> string \<Rightarrow> (string \<Rightarrow> string) \<Rightarrow> string \<Rightarrow> request" where
  "sample_request method path headers act = \<lparr>Method = method, reqPath = path, reqHost = ''host'',
     Header = headers, Query = (\<lambda>_. ''''), PathValue = (\<lambda>_. act), reqBody = Inr ''{}''\<rparr>"

definition human_headers :: "string \<Rightarrow> string" where
  "human_headers k = (if k = ''X-Forwarded-Proto'' then ''https''
     else if k = ''Tailscale-User-Login'' then ''owner''
     else if k = ''Origin'' then ''https://host'' else '''')"

definition agent_headers :: "string \<Rightarrow> string" where
  "agent_headers k = (if k = ''Authorization'' then ''Bearer secret'' else '''')"

definition idle_state :: "nat gstate" where
  "idle_state = \<lparr>controls = newControlRegistry, slotsUsed = 0, world = 0\<rparr>"

definition sample_session :: vnc_session where
  "sample_session = \<lparr>acquireCtx = None, awaitIncumbent = (\<lambda>_ r. (Some errRevocationTimed, r)),
     resumeCtx = None, upgradeAnswer = plain_response\<lparr>code := 101\<rparr>\<rparr>"

lemma sample_request_simps [simp]:
  "Method (sample_request m p h a) = m" "reqPath (sample_request m p h a) = p"
  "reqHost (sample_request m p h a) = ''host''" "Header (sample_request m p h a) = h"
  "Query (sample_request m p h a) k = ''''" "PathValue (sample_request m p h a) k = a"
  "reqBody (sample_request m p h a) = Inr ''{}''"
  by (simp_all add: sample_request_def)

lemma sample_gateway_simps [simp]:
  "config sample_gateway = sample_config" "devLoopbackListener sample_gateway = False"
  "screenshotConcurrency sample_gateway = 1" "agentLeaseTTL sample_gateway = 0"
  by (simp_all add: sample_gateway_def New_def sample_config_def)

lemma sample_config_simps [simp]:
  "cfgNamespace sample_config = ''ns''" "cfgName sample_config = ''desk''"
  "OwnerIssuer sample_config = ''iss''" "OwnerSubject sample_config = ''owner''"
  "cfgConsoleAuthMode sample_config = ConsoleAuthTailscale" "AllowedLogins sample_config = [''owner'']"
  "AgentToken sample_config = ''secret''"
  by (simp_all add: sample_config_def)

lemma sample_services_simps [simp]:
  "api (sample_services v) = sample_api" "kubevirt (sample_services v) = sample_kubevirt v"
  "net (sample_services v) = sample_net" "codecs (sample_services v) = sample_codec"
  "IsWebSocketUpgrade (sample_services v) r" "writeDeadlineErr (sample_services v) = None"
  by (simp_all add: sample_services_def)

lemma idle_state_simps [simp]:
  "controls idle_state = newControlRegistry" "slotsUsed idle_state = 0" "world idle_state = 0"
  by (simp_all add: idle_state_def)

lemma sample_trim [simp]: "TrimSpace ''https'' = ''https''" "TrimSpace ''owner'' = ''owner''"
  by (simp_all add: TrimSpace_visible visible_def)

lemma sample_fold [simp]: "\<not> EqualFold '''' ''https''"
  by (simp add: EqualFold_def ascii_lower_def)

lemma EqualFold_refl [simp]: "EqualFold s s"
  by (simp add: EqualFold_def)

lemma sample_human:
  "authenticateHuman sample_net sample_gateway (sample_request m p human_headers a) =
     Some \<lparr>issuer = ''iss'', subject = ''owner'', login = ''owner'', idActor = actorHuman, authMode = ''tailscale''\<rparr>"
  by (simp add: human_modes human_headers_def Let_def)

lemma sample_origin:
  "mutationOriginAllowed sample_net sample_gateway (sample_request m p human_headers a) i"
  by (simp add: mutationOriginAllowed_def sameOrigin_def matchingRequestOrigin_def human_headers_def
      sample_net_def Let_def)

lemma sample_agent_id:
  "authenticateAgent sample_gateway (sample_request m p agent_headers a) =
     Some \<lparr>issuer = ''iss'', subject = ''owner'', login = '''', idActor = actorAgent, authMode = ''agent-bearer''\<rparr>"
  by (simp add: authenticateAgent_def agent_headers_def Let_def constantTimeEqual_def TrimPrefix_def)


lemma console_unauthenticated:
  assumes "authenticateHuman (net svc) g r = None" and "consoleRoute (Method r) (reqPath r) = Some e"
    and "e \<noteq> ConsoleFile"
  shows "snd (ConsoleHandler svc g others ctx session r st) = st \<and>
    code (fst (ConsoleHandler svc g others ctx session r st)) = StatusUnauthorized"
proof -
  obtain resp where resp: "humanIdentity (net svc) g r = Inl resp" "code resp = StatusUnauthorized"
    "\<And>act. humanIdentity (net svc) g (withAction act r) = Inl resp"
    using assms(1) humanIdentity_Inl [OF assms(1)] by (auto simp: humanIdentity_def)
  then show ?thesis
    using assms(2,3)
    by (cases e) (auto simp: ConsoleHandler_def handleMe_def handleScreenshot_def handleVNC_def
        handlePower_def Let_def)
qed

lemma authenticateHuman_ignores_bearer:
  "authenticateHuman lib g (r\<lparr>Header := (Header r)(''Authorization'' := v)\<rparr>) = authenticateHuman lib g r"
  by (simp add: human_modes split: ConsoleAuthMode.splits)

lemma authenticateHuman_subject:
  "authenticateHuman lib g r = Some i \<Longrightarrow>
     subject i = OwnerSubject (config g) \<or>
     cfgConsoleAuthMode (config g) = ConsoleAuthTailscale \<and> subject i \<in> set (AllowedLogins (config g))"
  by (auto simp: human_modes Let_def allowedLogin_iff split: ConsoleAuthMode.splits if_splits)



section \<open>Origins\<close>

definition browserOriginOk :: "netlib \<Rightarrow> gateway \<Rightarrow> request \<Rightarrow> bool" where
  "browserOriginOk lib g r \<longleftrightarrow>
     (\<exists>u. Header r ''Origin'' \<noteq> '''' \<and> urlParse lib (Header r ''Origin'') = Some u \<and> \<not> hasUser u \<and>
        urlPath u = '''' \<and> RawQuery u = '''' \<and> Fragment u = '''' \<and> EqualFold (urlHost u) (reqHost r) \<and>
        (Scheme u = ''https'' \<or>
         Scheme u = ''http'' \<and> cfgConsoleAuthMode (config g) = ConsoleAuthDev \<and> devLoopbackListener g \<and>
           isLoopbackHost lib (Hostname u)))"

lemma human_origin:
  "mutationOriginAllowed lib g r i \<Longrightarrow> idActor i = actorHuman \<Longrightarrow> browserOriginOk lib g r"
  by (auto simp: mutationOriginAllowed_def sameOrigin_def matchingRequestOrigin_def browserOriginOk_def
      allowInsecureOrigin_def Let_def split: option.splits if_splits)

lemma withAction_simps [simp]:
  "Header (withAction act r) = Header r" "reqHost (withAction act r) = reqHost r"
  "PathValue (withAction act r) ''action'' = act" "reqBody (withAction act r) = reqBody r"
  "Query (withAction act r) = Query r"
  by (simp_all add: withAction_def)

lemma mutationOriginAllowed_withAction [simp]:
  "mutationOriginAllowed lib g (withAction act r) i = mutationOriginAllowed lib g r i"
  by (simp add: mutationOriginAllowed_def sameOrigin_def)

lemma refused_origin:
  assumes "\<not> browserOriginOk (net svc) g r"
  shows "snd (handlePower svc g others (humanIdentity (net svc) g) (withAction act r) st) = st"
    and "snd (handleVNC svc g others session r st) = st"
  using assms human_origin authenticateHuman_actor
  by (auto simp: handlePower_def handleVNC_def humanIdentity_def requireMutationOrigin_def Let_def
      split: option.splits sum.splits)

text \<open>
  C12. Cross-site requests cannot act on the desktop: a power request or a console session on the
  console listener changes anything only if the request has an \<^verbatim>\<open>Origin\<close> header that parses to a
  bare origin whose host is the host of the request, with the https scheme, or with http only
  in dev mode on a listener that bound a loopback address and for a loopback host.
\<close>

theorem console_mutation_needs_origin:
  assumes "consoleRoute (Method r) (reqPath r) = Some e" and "e = ConsoleVNC \<or> (\<exists>act. e = ConsolePower act)"
    and "snd (ConsoleHandler svc g others ctx session r st) \<noteq> st"
  shows "\<exists>u. Header r ''Origin'' \<noteq> '''' \<and> urlParse (net svc) (Header r ''Origin'') = Some u \<and> \<not> hasUser u \<and>
        urlPath u = '''' \<and> RawQuery u = '''' \<and> Fragment u = '''' \<and> EqualFold (urlHost u) (reqHost r) \<and>
        (Scheme u = ''https'' \<or>
         Scheme u = ''http'' \<and> cfgConsoleAuthMode (config g) = ConsoleAuthDev \<and> devLoopbackListener g \<and>
           isLoopbackHost (net svc) (Hostname u))"
proof (rule ccontr)
  assume "\<not> ?thesis"
  then have bad: "\<not> browserOriginOk (net svc) g r" by (simp add: browserOriginOk_def)
  show False
    using assms refused_origin [OF bad] by (auto simp: ConsoleHandler_def)
qed

lemma sample_console_power:
  "snd (ConsoleHandler (sample_services None) sample_gateway (\<lambda>_ r. r) (\<lambda>_. None) sample_session
     (sample_request ''POST'' ''/api/power/start'' human_headers '''') idle_state) \<noteq> idle_state"
proof -
  let ?r = "withAction ''start'' (sample_request ''POST'' ''/api/power/start'' human_headers '''')"
  have "world (snd (handlePower (sample_services None) sample_gateway (\<lambda>_ r. r)
      (humanIdentity sample_net sample_gateway) ?r idle_state)) = 1"
    by (simp add: handlePower_def humanIdentity_def sample_human requireMutationOrigin_def sample_origin
        beginPower_def newControlRegistry_def dispatchPower_def sample_kubevirt_def Let_def split: prod.splits)
  then have "snd (handlePower (sample_services None) sample_gateway (\<lambda>_ r. r)
      (humanIdentity sample_net sample_gateway) ?r idle_state) \<noteq> idle_state"
    by auto
  then show ?thesis by (simp add: ConsoleHandler_def consoleRoute_def)
qed

theorem console_mutation_needs_origin_witness:
  "\<exists>u. urlParse sample_net ''https://host'' = Some u \<and> Scheme u = ''https'' \<and> EqualFold (urlHost u) ''host''"
proof -
  let ?r = "sample_request ''POST'' ''/api/power/start'' human_headers ''''"
  have route: "consoleRoute (Method ?r) (reqPath ?r) = Some (ConsolePower ''start'')"
    by (simp add: consoleRoute_def)
  show ?thesis
    using console_mutation_needs_origin [OF route _ sample_console_power]
    by (auto simp: human_headers_def)
qed

section \<open>Power\<close>

text \<open>
  What every registry operation of another goroutine leaves alone while a power operation on a
  desktop is in flight.
\<close>

definition keepsPower :: "string \<Rightarrow> (controlRegistry \<Rightarrow> controlRegistry) \<Rightarrow> bool" where
  "keepsPower d f \<longleftrightarrow>
     (\<forall>r operation. mget (powerOps r) d = Some operation \<and> blocked r d \<longrightarrow>
        mget (powerOps (f r)) d = Some operation \<and> blocked (f r) d)"

lemma keepsPower_id: "keepsPower d (\<lambda>r. r)"
  by (simp add: keepsPower_def)

lemma keepsPower_comp: "keepsPower d f \<Longrightarrow> keepsPower d f' \<Longrightarrow> keepsPower d (\<lambda>r. f (f' r))"
  unfolding keepsPower_def by blast

lemma keepsPower_acquireAgent: "keepsPower d (\<lambda>r. snd (acquireAgent d' t now r))"
  by (auto simp: keepsPower_def acquireAgent_def grantLocked_def Let_def)

lemma keepsPower_acquireBegin: "keepsPower d (\<lambda>r. snd (acquireBegin e d' a takeover r))"
  by (auto simp: keepsPower_def acquireBegin_def grantLocked_def cancel_def Let_def split: option.splits)

lemma keepsPower_acquireResume: "keepsPower d (\<lambda>r. snd (acquireResume e e' d' a k r))"
  by (auto simp: keepsPower_def acquireResume_def grantLocked_def Let_def split: option.splits)

lemma keepsPower_release: "keepsPower d (release d' c)"
  by (auto simp: keepsPower_def release_def releaseLocked_def closeDone_def)

lemma keepsPower_touchAgent: "keepsPower d (touchAgent d' now)"
  by (auto simp: keepsPower_def touchAgent_def split: option.splits)

lemma keepsPower_releaseAgentOwner: "keepsPower d (\<lambda>r. snd (releaseAgentOwner d' r))"
  by (auto simp: keepsPower_def releaseAgentOwner_def release_def releaseLocked_def closeDone_def
      split: option.splits)

lemma keepsPower_beginPower: "keepsPower d (\<lambda>r. snd (beginPower d' act r))"
  by (auto simp: keepsPower_def beginPower_def Let_def)

lemma keepsPower_finishPower: "d' \<noteq> d \<Longrightarrow> keepsPower d (finishPower d' operation out)"
  by (auto simp: keepsPower_def finishPower_def Let_def)

lemma beginPower_begun:
  "beginPower d act r = (Inr operation, r') \<Longrightarrow>
     mget (powerOps r') d = Some operation \<and> blocked r' d \<and> draining r' = draining r \<and>
     opAction operation = act \<and> priorBlocked operation = blocked r d"
  by (auto simp: beginPower_def Let_def split: if_splits)

lemma beginPower_refused: "beginPower d act r = (Inl err, r') \<Longrightarrow> r' = r"
  by (auto simp: beginPower_def Let_def split: if_splits)

lemma finishPower_effect:
  assumes "mget (powerOps r) d = Some operation" and "blocked r d"
  shows "mget (powerOps (finishPower d operation out r)) d = None \<and>
    (blocked (finishPower d operation out r) d \<longleftrightarrow>
       draining r \<or> out = powerUnknown \<or> out = powerSucceeded \<and> opAction operation \<noteq> ''start'' \<or>
       out = powerRejected \<and> priorBlocked operation)"
  using assms by (cases out) (auto simp: finishPower_def Let_def)

lemma code_powerResponse:
  "code (powerResponse lib d act b res) =
     (case outcome res of powerSucceeded \<Rightarrow> StatusAccepted | powerRejected \<Rightarrow> powerErrorStatus lib (powerErr res)
      | powerUnknown \<Rightarrow> StatusServiceUnavailable)"
  by (simp add: powerResponse_def writeJSON_def split: powerOutcome.splits)

text \<open>
  C11. What a power request leaves behind, whatever other goroutines do to the registry while
  KubeVirt is being asked (as long as they keep the operation in flight, which every operation of
  the registry but its own end does): a refused request changes nothing and answers 409; otherwise
  the operation is over, and control is blocked exactly if the registry is draining, the outcome
  is unknown (answered with 503), the desktop was stopped, or it was already blocked and the
  operation was rejected. A successful start answers 202 and unblocks.
\<close>

theorem power_request_effect:
  assumes "authenticate r = Inr i" and "requireMutationOrigin (net svc) g r i = None"
    and "PathValue r ''action'' \<in> {''start'', ''stop''}"
    and "keepsPower (cfgName (config g)) (others 0)" and "others 1 = (\<lambda>r. r)"
  shows "case beginPower (cfgName (config g)) (PathValue r ''action'') (controls st) of
      (Inl err, _) \<Rightarrow>
        handlePower svc g others authenticate r st =
          (powerRefused (cfgName (config g)) (PathValue r ''action'') err, st)
    | (Inr operation, r1) \<Rightarrow>
        (let res = fst (dispatchPower (api svc) (kubevirt svc) (cfgNamespace (config g)) (cfgName (config g))
                     (PathValue r ''action'') (world st));
             (resp, st') = handlePower svc g others authenticate r st
         in mget (powerOps (controls st')) (cfgName (config g)) = None \<and>
            (blocked (controls st') (cfgName (config g)) \<longleftrightarrow>
               draining (others 0 r1) \<or> outcome res = powerUnknown \<or>
               outcome res = powerSucceeded \<and> PathValue r ''action'' = ''stop'' \<or>
               outcome res = powerRejected \<and> blocked (controls st) (cfgName (config g))) \<and>
            code resp = (case outcome res of powerSucceeded \<Rightarrow> StatusAccepted
               | powerRejected \<Rightarrow> powerErrorStatus (api svc) (powerErr res)
               | powerUnknown \<Rightarrow> StatusServiceUnavailable))"
proof (cases "beginPower (cfgName (config g)) (PathValue r ''action'') (controls st)")
  case (Pair res r1)
  show ?thesis
  proof (cases res)
    case (Inl err)
    with Pair assms(1-3) beginPower_refused [of _ _ _ err r1] show ?thesis
      by (auto simp: handlePower_def Let_def)
  next
    case (Inr operation)
    have begun: "mget (powerOps r1) (cfgName (config g)) = Some operation" "blocked r1 (cfgName (config g))"
      "opAction operation = PathValue r ''action''" "priorBlocked operation = blocked (controls st) (cfgName (config g))"
      using beginPower_begun [OF Pair [unfolded Inr]] by simp_all
    have kept: "mget (powerOps (others 0 r1)) (cfgName (config g)) = Some operation"
      "blocked (others 0 r1) (cfgName (config g))"
      using assms(4) begun unfolding keepsPower_def by blast+
    obtain res' w' where disp: "dispatchPower (api svc) (kubevirt svc) (cfgNamespace (config g)) (cfgName (config g))
        (PathValue r ''action'') (world st) = (res', w')"
      by fastforce
    show ?thesis
      using Pair Inr assms finishPower_effect [OF kept, of "outcome res'"] begun disp
      by (auto simp: handlePower_def Let_def powerStatus_def code_powerResponse)
  qed
qed

theorem power_request_effect_witness:
  "blocked (controls (snd (handlePower (sample_services (Some ''timeout'')) sample_gateway (\<lambda>_ r. r)
      (humanIdentity sample_net sample_gateway) (sample_request ''POST'' '''' human_headers ''stop'') idle_state)))
     ''desk''"
proof -
  let ?r = "sample_request ''POST'' '''' human_headers ''stop''"
  let ?svc = "sample_services (Some ''timeout'')"
  have i: "humanIdentity sample_net sample_gateway ?r = Inr \<lparr>issuer = ''iss'', subject = ''owner'',
      login = ''owner'', idActor = actorHuman, authMode = ''tailscale''\<rparr>"
    by (simp add: humanIdentity_def sample_human)
  have o: "requireMutationOrigin (net ?svc) sample_gateway ?r i = None" for i
    by (simp add: requireMutationOrigin_def sample_origin)
  from power_request_effect [where authenticate = "humanIdentity sample_net sample_gateway" and r = ?r
      and svc = ?svc and g = sample_gateway and others = "\<lambda>_ r. r" and st = idle_state, OF i o]
  show ?thesis
    by (auto simp: keepsPower_id beginPower_def newControlRegistry_def Let_def dispatchPower_def
        sample_kubevirt_def sample_api_def definitivePowerRejection_def split: prod.splits)
qed

text \<open>
  A rejected power operation answers with a 4xx status, so that a client that only looks at
  the status never mistakes it for an unknown outcome: the verb itself was answered with one of
  the reasons that prove that it did not run. The hypothesis is the documented behaviour of the
  Kubernetes client library: an error with such a reason is not a timeout or an unavailability.
\<close>

lemma rejected_power_is_4xx:
  assumes "\<And>err. definitivePowerRejection lib err \<Longrightarrow>
      \<not> IsTimeout lib err \<and> \<not> IsServerTimeout lib err \<and> \<not> IsServiceUnavailable lib err"
    and "fst (dispatchPower lib kv ns d act w) = res" and "outcome res = powerRejected"
    and "act = ''start'' \<or> act = ''stop''"
  shows "400 \<le> code (powerResponse lib d act b res) \<and> code (powerResponse lib d act b res) < 500 \<and>
    (\<exists>err. verbError kv ns d act w = Some err \<and> definitivePowerRejection lib err)"
proof -
  obtain err where err: "verbError kv ns d act w = Some err" "definitivePowerRejection lib err"
    "powerErr res = Some (ApiError err)"
    using dispatch_rejected [OF assms(2,3,4)] by blast
  with assms(1) [of err] assms(3) show ?thesis
    by (auto simp: code_powerResponse kubeVirtOperationStatus_def)
qed

lemma sample_api_reasons:
  "definitivePowerRejection sample_api err \<Longrightarrow>
     \<not> IsTimeout sample_api err \<and> \<not> IsServerTimeout sample_api err \<and> \<not> IsServiceUnavailable sample_api err"
  by (auto simp: definitivePowerRejection_def sample_api_def split: if_splits)

lemma rejected_power_is_4xx_witness:
  "code (powerResponse sample_api ''desk'' ''start'' False
     \<lparr>outcome = powerRejected, idempotent = False, powerErr = Some (ApiError ''forbidden'')\<rparr>) < 500"
proof -
  have "fst (dispatchPower sample_api (sample_kubevirt (Some ''forbidden'')) ''ns'' ''desk'' ''start'' 0) =
    \<lparr>outcome = powerRejected, idempotent = False, powerErr = Some (ApiError ''forbidden'')\<rparr>"
    by (simp add: dispatchPower_def sample_kubevirt_def sample_api_def definitivePowerRejection_def)
  from rejected_power_is_4xx [OF sample_api_reasons this, of False] show ?thesis
    by simp
qed

section \<open>Screenshots\<close>

lemma finishScreenshot_slots [simp]: "slotsUsed (snd (finishScreenshot svc g others ctx raw uid r st)) = slotsUsed st"
  by (auto simp: finishScreenshot_def writeScreenshotResponse_def Let_def split: sum.splits prod.splits option.splits)

lemma captureScreenshot_slots: "slotsUsed (snd (captureScreenshot svc g others ctx r st)) = slotsUsed st"
  by (simp add: captureScreenshot_def Let_def split: sum.split prod.split)

lemma captureAgentScreenshot_slots: "slotsUsed (snd (captureAgentScreenshot svc g others ctx r st)) = slotsUsed st"
  by (simp add: captureAgentScreenshot_def Let_def split: sum.split prod.split)

lemma withScreenshotSlot_returns:
  assumes "\<And>st. slotsUsed (snd (capture r st)) = slotsUsed st"
  shows "slotsUsed (snd (withScreenshotSlot g capture r st)) = slotsUsed st"
proof (cases "slotsUsed st < slotLimit g")
  case True
  obtain resp st' where run: "capture r (st\<lparr>slotsUsed := Suc (slotsUsed st)\<rparr>) = (resp, st')"
    by fastforce
  then have "slotsUsed st' = Suc (slotsUsed st)"
    using assms [of "st\<lparr>slotsUsed := Suc (slotsUsed st)\<rparr>"] by simp
  with True run show ?thesis
    by (simp add: withScreenshotSlot_def tryAcquireScreenshotSlot_def releaseScreenshotSlot_def)
next
  case False
  then show ?thesis by (simp add: withScreenshotSlot_def tryAcquireScreenshotSlot_def)
qed

text \<open>
  Screenshot slots bound the captures and are always given back: both screenshot handlers end
  with as many slots in use as they found, whatever branch they take, and when all slots are in use
  an authenticated request is answered with 429 and touches nothing.
\<close>

lemma screenshot_slots_returned:
  "slotsUsed (snd (handleScreenshot svc g others ctx r st)) = slotsUsed st \<and>
   slotsUsed (snd (handleAgentScreenshot svc g others ctx r st)) = slotsUsed st \<and>
   (slotLimit g \<le> slotsUsed st \<longrightarrow>
      (authenticateHuman (net svc) g r \<noteq> None \<longrightarrow>
         handleScreenshot svc g others ctx r st = (tooManyScreenshots, st)) \<and>
      (authenticateAgent g r \<noteq> None \<longrightarrow>
         handleAgentScreenshot svc g others ctx r st = (tooManyScreenshots, st)) \<and>
      code tooManyScreenshots = StatusTooManyRequests)"
  using withScreenshotSlot_returns [of "captureScreenshot svc g others ctx" r g st, OF captureScreenshot_slots]
    withScreenshotSlot_returns [of "captureAgentScreenshot svc g others ctx" r g st, OF captureAgentScreenshot_slots]
  by (auto simp: handleScreenshot_def handleAgentScreenshot_def humanIdentity_def agentIdentity_def
      withScreenshotSlot_def tryAcquireScreenshotSlot_def tooManyScreenshots_def writeError_def writeJSON_def
      split: option.splits)

lemma screenshot_slots_returned_witness:
  "code (fst (handleScreenshot (sample_services None) sample_gateway (\<lambda>_ r. r) (\<lambda>_. None)
      (sample_request ''GET'' '''' human_headers '''') (idle_state\<lparr>slotsUsed := 1\<rparr>))) = 429"
  using screenshot_slots_returned [of "sample_services None" sample_gateway "\<lambda>_ r. r" "\<lambda>_. None"
      "sample_request ''GET'' '''' human_headers ''''" "idle_state\<lparr>slotsUsed := 1\<rparr>"]
  by (simp add: sample_human slotLimit_def)

lemma finishScreenshot_OK:
  assumes "finishScreenshot svc g others ctx raw uid r st = (resp, st')" and "code resp = StatusOK"
  shows "\<exists>shot n. transformScreenshot ctx (codecs svc) raw (Query r) 0 = (Inr shot, n) \<and> ctx n = None \<and>
     rbody resp = Raw (shotBody shot) \<and> (''X-VMI-UID'', uid) \<in> set (hdrs resp)"
proof -
  have transform_status: "screenshotTransformStatus e \<noteq> StatusOK" for e :: "'b screenshot_error"
    by (cases e) auto
  show ?thesis
    using assms transform_status
    by (auto simp: finishScreenshot_def writeScreenshotResponse_def writeError_def writeJSON_def Let_def
        split: sum.splits prod.splits option.splits)
qed

lemma screenshotReadStatus_not_OK: "screenshotReadStatus lib e \<noteq> StatusOK"
  by (simp add: screenshotReadStatus_def)

lemma captureScreenshot_OK:
  assumes "captureScreenshot svc g others ctx r st = (resp, st')" and "code resp = StatusOK"
  shows "\<exists>vmi1 vmi2 raw w1 w2 w3 st2.
     GetVMI (kubevirt svc) (cfgNamespace (config g)) (cfgName (config g)) (world st) = (Inr vmi1, w1) \<and>
     ScreenshotVM (kubevirt svc) (cfgNamespace (config g)) (cfgName (config g)) w1 = (Inr raw, w2) \<and>
     GetVMI (kubevirt svc) (cfgNamespace (config g)) (cfgName (config g)) w2 = (Inr vmi2, w3) \<and>
     stablyRunning vmi1 \<and> stablyRunning vmi2 \<and> vmiUID vmi1 = vmiUID vmi2 \<and>
     finishScreenshot svc g others ctx raw (vmiUID vmi2) r st2 = (resp, st')"
proof -
  let ?ns = "cfgNamespace (config g)" and ?d = "cfgName (config g)"
  note run = assms(1) [unfolded captureScreenshot_def Let_def]
  have refused: "code (writeError (screenshotReadStatus (api svc) e) msg t) \<noteq> StatusOK" for e msg t
    by (simp add: writeError_def writeJSON_def screenshotReadStatus_not_OK)
  have conflict: "code (writeError StatusConflict msg t) \<noteq> StatusOK" for msg t
    by (simp add: writeError_def writeJSON_def)
  obtain vmi1 w1 where 1: "GetVMI (kubevirt svc) ?ns ?d (world st) = (Inr vmi1, w1)"
    using run assms(2) refused by (cases "GetVMI (kubevirt svc) ?ns ?d (world st)"; cases "fst (GetVMI (kubevirt svc) ?ns ?d (world st))") auto
  note run1 = run [unfolded 1 prod.case sum.case]
  have s1: "stablyRunning vmi1" using run1 assms(2) conflict by (auto split: if_splits)
  obtain raw w2 where 2: "ScreenshotVM (kubevirt svc) ?ns ?d w1 = (Inr raw, w2)"
    using run1 assms(2) s1 refused by (cases "ScreenshotVM (kubevirt svc) ?ns ?d w1"; cases "fst (ScreenshotVM (kubevirt svc) ?ns ?d w1)") auto
  obtain vmi2 w3 where 3: "GetVMI (kubevirt svc) ?ns ?d w2 = (Inr vmi2, w3)"
    using run1 assms(2) s1 2 refused by (cases "GetVMI (kubevirt svc) ?ns ?d w2"; cases "fst (GetVMI (kubevirt svc) ?ns ?d w2)") auto
  have "vmiUID vmi2 = vmiUID vmi1 \<and> stablyRunning vmi2"
    using run1 assms(2) s1 2 3 conflict by (auto split: if_splits)
  with run1 s1 1 2 3 show ?thesis by auto
qed

text \<open>
  A console screenshot shows the instance it names: a picture is served only when the virtual
  machine instance was read as stably running both before and after the capture, with the same
  UID, and the response carries that UID and the transformed capture.
\<close>

lemma screenshot_shows_instance:
  assumes "handleScreenshot svc g others ctx r st = (resp, st')" and "code resp = StatusOK"
  shows "\<exists>vmi1 vmi2 raw w1 w2 w3 shot n.
     GetVMI (kubevirt svc) (cfgNamespace (config g)) (cfgName (config g)) (world st) = (Inr vmi1, w1) \<and>
     ScreenshotVM (kubevirt svc) (cfgNamespace (config g)) (cfgName (config g)) w1 = (Inr raw, w2) \<and>
     GetVMI (kubevirt svc) (cfgNamespace (config g)) (cfgName (config g)) w2 = (Inr vmi2, w3) \<and>
     stablyRunning vmi1 \<and> stablyRunning vmi2 \<and> vmiUID vmi1 = vmiUID vmi2 \<and>
     transformScreenshot ctx (codecs svc) raw (Query r) 0 = (Inr shot, n) \<and> ctx n = None \<and>
     rbody resp = Raw (shotBody shot) \<and> (''X-VMI-UID'', vmiUID vmi2) \<in> set (hdrs resp)"
proof -
  obtain i where i: "humanIdentity (net svc) g r = Inr i"
    using assms by (auto simp: handleScreenshot_def humanIdentity_def writeError_def writeJSON_def
        split: option.splits)
  have "slotsUsed st < slotLimit g"
    using assms i by (auto simp: handleScreenshot_def withScreenshotSlot_def tryAcquireScreenshotSlot_def
        tooManyScreenshots_def writeError_def writeJSON_def split: if_splits)
  then obtain st1 where "captureScreenshot svc g others ctx r (st\<lparr>slotsUsed := Suc (slotsUsed st)\<rparr>) = (resp, st1)"
    using assms i by (auto simp: handleScreenshot_def withScreenshotSlot_def tryAcquireScreenshotSlot_def
        split: prod.splits)
  from captureScreenshot_OK [OF this assms(2)] obtain vmi1 vmi2 raw w1 w2 w3 st2
    where reads: "GetVMI (kubevirt svc) (cfgNamespace (config g)) (cfgName (config g)) (world st) = (Inr vmi1, w1)"
      "ScreenshotVM (kubevirt svc) (cfgNamespace (config g)) (cfgName (config g)) w1 = (Inr raw, w2)"
      "GetVMI (kubevirt svc) (cfgNamespace (config g)) (cfgName (config g)) w2 = (Inr vmi2, w3)"
      "stablyRunning vmi1" "stablyRunning vmi2" "vmiUID vmi1 = vmiUID vmi2"
      and finish: "finishScreenshot svc g others ctx raw (vmiUID vmi2) r st2 = (resp, st1)"
    by auto
  from finishScreenshot_OK [OF finish assms(2)] reads show ?thesis by blast
qed

lemma screenshot_shows_instance_witness:
  "\<exists>vmi. GetVMI (sample_kubevirt None) ''ns'' ''desk'' 0 = (Inr vmi, 1) \<and> stablyRunning vmi"
proof -
  let ?r = "sample_request ''GET'' '''' human_headers ''''"
  obtain resp st' where run: "handleScreenshot (sample_services None) sample_gateway (\<lambda>_ r. r) (\<lambda>_. None) ?r idle_state = (resp, st')"
    by fastforce
  moreover have "code resp = StatusOK"
    using run by (auto simp: handleScreenshot_def humanIdentity_def sample_human withScreenshotSlot_def
        tryAcquireScreenshotSlot_def slotLimit_def captureScreenshot_def sample_kubevirt_def sample_vmi_def
        stablyRunning_def finishScreenshot_def transformScreenshot_def andThen_def ctxErr_def sample_codec_def
        writeScreenshotResponse_def Let_def split: prod.splits)
  ultimately show ?thesis
    using screenshot_shows_instance [of "sample_services None" sample_gateway "\<lambda>_ r. r" "\<lambda>_. None" ?r idle_state resp st']
    by (auto simp: sample_kubevirt_def)
qed

section \<open>Agent input and console sessions\<close>


definition leased_state :: "nat gstate" where
  "leased_state = idle_state\<lparr>controls := snd (acquireAgent ''desk'' (120 * seconds) 0 newControlRegistry)\<rparr>"

lemma leased_controls:
  "controls leased_state =
     newControlRegistry\<lparr>heap := [\<lparr>actor = actorAgent, generation = 1, ctxDone = False, doneClosed = False,
        ttl = 120 * seconds, lastTouch = 0\<rparr>], generations := [(''desk'', 1)], active := [(''desk'', 0)]\<rparr>"
  by (simp add: leased_state_def acquireAgent_def grantLocked_def newControlRegistry_def Let_def)

lemma leased_world [simp]: "world leased_state = 0"
  by (simp add: leased_state_def)

lemma sample_agent_origin:
  "requireMutationOrigin sample_net sample_gateway (sample_request m p agent_headers a)
     \<lparr>issuer = x, subject = y, login = z, idActor = actorAgent, authMode = w\<rparr> = None"
  by (simp add: requireMutationOrigin_def mutationOriginAllowed_def agent_headers_def Let_def)

lemma sample_proxy:
  "proxyGuestAgent (sample_services v) sample_gateway m p b w = (Inr (200, ''done''), w + 100)"
  by (simp add: proxyGuestAgent_def sample_services_def Let_def)

lemma sample_agent_action:
  assumes "a = ''actions''"
  shows "handleAgentAction (sample_services None) sample_gateway others 0
      (sample_request ''POST'' '''' agent_headers a) leased_state =
    (proxyGuestAgentResponse (Inr (200, ''done'')),
     leased_state\<lparr>controls := others 1 (touchAgent ''desk'' 0 (others 0 (controls leased_state))), world := 100\<rparr>)"
  by (simp add: assms handleAgentAction_def agentInputActions_def agentIdentity_def sample_agent_id
      sample_agent_origin status_def leased_controls newControlRegistry_def readBody_def sample_proxy Let_def)


text \<open>
  A takeover of the desktop by the human owner, as the other goroutines perform it: the first
  critical section of \<^verbatim>\<open>acquire\<close> cancels the agent's lease, the lease's expiry loop releases it, and
  the second critical section grants the lease to the human.
\<close>

definition takeover :: "string \<Rightarrow> controlRegistry \<Rightarrow> controlRegistry" where
  "takeover d r =
     (case acquireBegin None d actorHuman True r of
        (AwaitRevocation k c, r1) \<Rightarrow>
          (case expireRound False 0 d c r1 of (_, r2) \<Rightarrow> snd (acquireResume None None d actorHuman k r2))
      | (_, r1) \<Rightarrow> r1)"

text \<open>
  The check of the lease is not tied to the dispatch: a takeover by the human that runs
  between the check and the call leaves the human as the active controller while the agent's
  input is being sent to the guest. (The manual says that human and agent input are never
  concurrent and that an ownership change invalidates in-flight work.)
\<close>

lemma agent_input_can_overlap_takeover:
  "\<exists>others now r st. (\<forall>k reg. others k reg = reg \<or> others k reg = takeover ''desk'' reg) \<and>
     (let st' = snd (handleAgentAction (sample_services None) sample_gateway others now r st) in
        world st' = world st + 100 \<and>
        status ''desk'' (controls st) = (Some actorAgent, 1, True) \<and>
        status ''desk'' (controls st') = (Some actorHuman, 2, True))"
proof -
  let ?others = "\<lambda>k. if k = 1 then takeover ''desk'' else (\<lambda>r. r)"
  let ?r = "sample_request ''POST'' '''' agent_headers ''actions''"
  have "status ''desk'' (takeover ''desk'' (touchAgent ''desk'' 0 (controls leased_state))) = (Some actorHuman, 2, True)"
    by (simp add: takeover_def leased_controls touchAgent_def newControlRegistry_def acquireBegin_def
        cancel_def expireRound_def release_def releaseLocked_def closeDone_def acquireResume_def grantLocked_def
        status_def Let_def mget_zero_def)
  moreover have "status ''desk'' (controls leased_state) = (Some actorAgent, 1, True)"
    by (simp add: status_def leased_controls newControlRegistry_def)
  ultimately show ?thesis
    by (intro exI [of _ ?others] exI [of _ 0] exI [of _ ?r] exI [of _ leased_state])
      (auto simp: sample_agent_action Let_def)
qed

text \<open>
  C14. A console session never outlives its lease and never starts on a desktop that is not
  running: when the handler of the console socket ends, the lease it was granted is not the
  active one and its \<^verbatim>\<open>done\<close> channel is closed; the lease was asked for as the human, with takeover only on
  request, after the instance was read as stably running.
\<close>

theorem console_session_releases_lease:
  assumes "handleVNC svc g others session r st = (resp, st')"
    and "acquire (acquireCtx session) (awaitIncumbent session) (resumeCtx session) (cfgName (config g)) actorHuman
           (Query r ''takeover'' = ''1'') (others 0 (controls st)) = (Inr c, r1)"
    and "c < length (heap (others 1 r1))"
    and "controls st' \<noteq> controls st"
  shows "mget (active (controls st')) (cfgName (config g)) \<noteq> Some c \<and> doneClosed (heap (controls st') ! c) \<and>
    (\<exists>vmi w1. GetVMI (kubevirt svc) (cfgNamespace (config g)) (cfgName (config g)) (world st) = (Inr vmi, w1) \<and>
       stablyRunning vmi) \<and>
    IsWebSocketUpgrade svc r \<and> browserOriginOk (net svc) g r"
proof -
  let ?ns = "cfgNamespace (config g)" and ?d = "cfgName (config g)"
  note run = assms(1) [unfolded handleVNC_def Let_def]
  obtain i where i: "authenticateHuman (net svc) g r = Some i"
    using run assms(4) by (cases "authenticateHuman (net svc) g r") (auto simp: humanIdentity_def)
  have human: "idActor i = actorHuman" using authenticateHuman_actor [OF i] .
  have o: "mutationOriginAllowed (net svc) g r i"
    using run assms(4) i by (auto simp: humanIdentity_def requireMutationOrigin_def split: if_splits)
  have up: "IsWebSocketUpgrade svc r"
    using run assms(4) i o by (auto simp: humanIdentity_def requireMutationOrigin_def split: if_splits)
  note run1 = run [unfolded humanIdentity_def requireMutationOrigin_def i option.case sum.case]
  obtain vmi w1 where vmi: "GetVMI (kubevirt svc) ?ns ?d (world st) = (Inr vmi, w1)"
    using run1 assms(4) o up
    by (cases "GetVMI (kubevirt svc) ?ns ?d (world st)"; cases "fst (GetVMI (kubevirt svc) ?ns ?d (world st))") auto
  have stable: "stablyRunning vmi"
    using run1 assms(4) o up vmi by (auto split: if_splits)
  have "controls st' = release ?d c (others 1 r1)"
    using run1 o up vmi stable assms(2) human
    by (auto split: prod.splits option.splits)
  with assms(3) vmi stable up human_origin [OF o human] show ?thesis
    by (auto simp: release_def releaseLocked_def closeDone_def)
qed

theorem console_session_releases_lease_witness:
  "\<exists>resp st'. handleVNC (sample_services None) sample_gateway (\<lambda>_ r. r) sample_session
       (sample_request ''GET'' '''' human_headers '''') idle_state = (resp, st') \<and>
     mget (active (controls st')) ''desk'' \<noteq> Some 0 \<and> doneClosed (heap (controls st') ! 0)"
proof -
  let ?r = "sample_request ''GET'' '''' human_headers ''''"
  let ?r1 = "snd (grantLocked ''desk'' actorHuman newControlRegistry)"
  have acq: "acquire None (awaitIncumbent sample_session) None ''desk'' actorHuman False newControlRegistry = (Inr 0, ?r1)"
    by (simp add: acquire_def acquireBegin_def grantLocked_def newControlRegistry_def Let_def)
  have run: "handleVNC (sample_services None) sample_gateway (\<lambda>_ r. r) sample_session ?r idle_state =
      (upgradeAnswer sample_session, idle_state\<lparr>world := 2, controls := release ''desk'' 0 ?r1\<rparr>)"
    using acq by (simp add: handleVNC_def humanIdentity_def sample_human requireMutationOrigin_def sample_origin
        sample_kubevirt_def sample_vmi_def stablyRunning_def sample_session_def Let_def)
  have "heap (release ''desk'' 0 ?r1) \<noteq> heap newControlRegistry"
    by (simp add: release_def releaseLocked_def closeDone_def grantLocked_def newControlRegistry_def Let_def)
  then have "release ''desk'' 0 ?r1 \<noteq> newControlRegistry" by auto
  with console_session_releases_lease [OF run, of 0 ?r1] acq run show ?thesis
    by (auto simp: sample_session_def grantLocked_def newControlRegistry_def Let_def)
qed

section \<open>Configuration\<close>

lemma bindE_Inr: "bindE m f = Inr y \<longleftrightarrow> (\<exists>x. m = Inr x \<and> f x = Inr y)"
  by (cases m) (auto simp: bindE_def)

lemma guardE_Inr: "guardE ok err = Inr u \<longleftrightarrow> ok"
  by (simp add: guardE_def)

lemma identityCheck_Inr:
  "identityCheck name value = Inr u \<longleftrightarrow>
     value \<noteq> '''' \<and> length value \<le> maxIdentityBytes \<and> \<not> ContainsAny value [CHR 0x0D, CHR 0x0A]"
  by (auto simp: identityCheck_def validIdentityPart_def)

lemma parseDuration_nonneg: "parseDuration lib name raw = Inr v \<Longrightarrow> 0 \<le> v"
  by (auto simp: parseDuration_def split: if_splits option.splits)

lemma parseConcurrency_range: "parseConcurrency raw = Inr v \<Longrightarrow> 0 \<le> v \<and> v \<le> 64"
  by (auto simp: parseConcurrency_def split: if_splits option.splits)

lemma parseLoginEntries_keeps:
  "parseLoginEntries entries logins n = Inr (logins', n') \<Longrightarrow> set logins \<subseteq> set logins'"
proof (induction entries arbitrary: logins n)
  case Nil
  then show ?case by simp
next
  case (Cons e es)
  then show ?case
    by (fastforce simp: Let_def split: if_splits option.splits)
qed

lemma parseAllowedLogins_owner: "parseAllowedLogins raw owner = Inr logins \<Longrightarrow> owner \<in> set logins"
  by (auto simp: parseAllowedLogins_def split: if_splits sum.splits dest!: parseLoginEntries_keeps)

lemma consoleModeCheck_Inr:
  "consoleModeCheck lib cfg = Inr u \<longleftrightarrow>
     (case cfgConsoleAuthMode cfg of
        ConsoleAuthTailscale \<Rightarrow> True
      | ConsoleAuthTrustedProxy \<Rightarrow> minTokenBytes \<le> length (AuthProxyToken cfg)
      | ConsoleAuthDev \<Rightarrow> minDevTokenBytes \<le> length (DevAccessToken cfg) \<and>
          devConsoleAddressAllowed lib (ConsoleListenAddress cfg) = None
      | ConsoleAuthOther _ \<Rightarrow> False)"
  by (auto simp: consoleModeCheck_def guardE_Inr split: ConsoleAuthMode.splits option.splits)

lemma devConsoleAddressAllowed_loopback:
  "devConsoleAddressAllowed lib address = None \<longleftrightarrow>
     (\<exists>h. SplitHostPort lib address = Some h \<and> isLoopbackHost lib h)"
  by (auto simp: devConsoleAddressAllowed_def isLoopbackHost_def split: option.splits)

text \<open>
  A configuration that loads is usable: namespace and name are DNS labels of at most 63
  bytes, so they cannot reshape a request path; the owner's identity is present and free of line
  breaks; the agent tokens have at least 24 bytes; the owner is among the allowed logins; the
  durations are not negative and at most 64 captures run at once; and the console mode is one
  of the three known ones, with its token long enough and, in dev mode, a loopback address.
\<close>

lemma loaded_config_usable:
  assumes "LoadConfig lib lookup = Inr cfg"
  shows "dnsLabelPattern (cfgNamespace cfg) \<and> length (cfgNamespace cfg) \<le> 63 \<and>
    dnsLabelPattern (cfgName cfg) \<and> length (cfgName cfg) \<le> 63 \<and>
    cfgOS cfg \<in> {''linux'', ''windows'', ''macos''} \<and>
    OwnerIssuer cfg \<noteq> '''' \<and> OwnerSubject cfg \<noteq> '''' \<and>
    \<not> ContainsAny (OwnerIssuer cfg @ OwnerSubject cfg) [CHR 0x0D, CHR 0x0A] \<and>
    24 \<le> length (AgentToken cfg) \<and> 24 \<le> length (GuestAgentToken cfg) \<and>
    OwnerSubject cfg \<in> set (AllowedLogins cfg) \<and> HasPrefix (NoVNCDir cfg) ''/'' \<and>
    0 \<le> GuestAgentTimeout cfg \<and> 0 \<le> AgentLeaseTTL cfg \<and> 0 \<le> StatusTimeout cfg \<and>
    0 \<le> ScreenshotTimeout cfg \<and> 0 \<le> PowerTimeout cfg \<and>
    0 \<le> ScreenshotConcurrency cfg \<and> ScreenshotConcurrency cfg \<le> 64 \<and>
    (case cfgConsoleAuthMode cfg of
        ConsoleAuthTailscale \<Rightarrow> True
      | ConsoleAuthTrustedProxy \<Rightarrow> 24 \<le> length (AuthProxyToken cfg)
      | ConsoleAuthDev \<Rightarrow> 32 \<le> length (DevAccessToken cfg) \<and>
          (\<exists>h. SplitHostPort lib (ConsoleListenAddress cfg) = Some h \<and> isLoopbackHost lib h)
      | ConsoleAuthOther _ \<Rightarrow> False)"
proof -
  define base where "base = environmentConfig lookup"
  note checks = assms [unfolded LoadConfig_def Let_def bindE_Inr guardE_Inr identityCheck_Inr consoleModeCheck_Inr
      devConsoleAddressAllowed_loopback, folded base_def]
  from checks show ?thesis
    apply (elim exE conjE)
    apply (drule sum.inject(2) [THEN iffD1, THEN sym])
    apply (drule parseDuration_nonneg)+
    apply (drule parseConcurrency_range, drule parseAllowedLogins_owner)
    apply (intro conjI)
    apply (simp_all add: ContainsAny_def split: ConsoleAuthMode.splits)
    done
qed

definition sample_environment :: "string \<Rightarrow> string" where
  "sample_environment k = (if k = ''DESKTOP_NAMESPACE'' then ''ns'' else if k = ''DESKTOP_NAME'' then ''desk-1''
     else if k = ''OWNER_ISSUER'' then ''iss'' else if k = ''OWNER_SUBJECT'' then ''owner''
     else if k = ''AGENT_TOKEN'' then ''aaaaaaaaaaaaaaaaaaaaaaaa''
     else if k = ''GUEST_AGENT_TOKEN'' then ''gggggggggggggggggggggggg'' else '''')"

lemma environment_trim: "TrimSpace (sample_environment k) = sample_environment k"
  by (simp add: sample_environment_def TrimSpace_visible visible_def)

lemma sample_values:
  "sample_environment ''DESKTOP_NAMESPACE'' = ''ns''" "sample_environment ''DESKTOP_NAME'' = ''desk-1''"
  "sample_environment ''OWNER_ISSUER'' = ''iss''" "sample_environment ''OWNER_SUBJECT'' = ''owner''"
  "sample_environment ''AGENT_TOKEN'' = ''aaaaaaaaaaaaaaaaaaaaaaaa''"
  "sample_environment ''GUEST_AGENT_TOKEN'' = ''gggggggggggggggggggggggg''"
  "sample_environment ''DESKTOP_OS'' = ''''" "sample_environment ''CONSOLE_AUTH_MODE'' = ''''"
  "sample_environment ''NOVNC_DIR'' = ''''" "sample_environment ''TAILSCALE_ALLOWED_LOGINS'' = ''''"
  "sample_environment ''GUEST_AGENT_TIMEOUT'' = ''''" "sample_environment ''AGENT_LEASE_TTL'' = ''''"
  "sample_environment ''STATUS_TIMEOUT'' = ''''" "sample_environment ''SCREENSHOT_TIMEOUT'' = ''''"
  "sample_environment ''POWER_TIMEOUT'' = ''''" "sample_environment ''SCREENSHOT_CONCURRENCY'' = ''''"
  by (simp_all add: sample_environment_def)

lemma sample_base:
  "cfgNamespace (environmentConfig sample_environment) = ''ns''"
  "cfgName (environmentConfig sample_environment) = ''desk-1''"
  "cfgOS (environmentConfig sample_environment) = ToLower ''linux''"
  "OwnerIssuer (environmentConfig sample_environment) = ''iss''"
  "OwnerSubject (environmentConfig sample_environment) = ''owner''"
  "length (AgentToken (environmentConfig sample_environment)) = 24"
  "length (GuestAgentToken (environmentConfig sample_environment)) = 24"
  "NoVNCDir (environmentConfig sample_environment) = ''/opt/novnc''"
  "cfgConsoleAuthMode (environmentConfig sample_environment) = consoleAuthMode ''tailscale''"
  unfolding environmentConfig_def Let_def environment_trim Config.select_convs sample_values by simp_all

lemma sample_checks:
  "ToLower ''linux'' = ''linux''" "dnsLabelPattern ''ns''" "dnsLabelPattern ''desk-1''"
  "identityCheck n ''iss'' = Inr ()" "identityCheck n ''owner'' = Inr ()"
  "parseDuration lib n '''' = Inr 0" "parseConcurrency '''' = Inr 0" "parseAllowedLogins '''' s = Inr [s]"
  "consoleAuthMode ''tailscale'' = ConsoleAuthTailscale"
  by (simp_all add: dnsLabelPattern_def lower_alnum_def ToLower_def ascii_lower_def identityCheck_def
      validIdentityPart_def ContainsAny_def parseAllowedLogins_def consoleAuthMode_def parseDuration_def
      parseConcurrency_def)

lemma sample_load:
  "\<exists>cfg. LoadConfig sample_net sample_environment = Inr cfg \<and> cfgName cfg = ''desk-1''"
  unfolding LoadConfig_def Let_def environment_trim sample_values sample_base sample_checks
  by (simp add: bindE_def guardE_def consoleModeCheck_def sample_base sample_checks)

lemma loaded_config_usable_witness:
  "dnsLabelPattern ''desk-1'' \<and> (\<exists>cfg. LoadConfig sample_net sample_environment = Inr cfg)"
proof -
  obtain cfg where cfg: "LoadConfig sample_net sample_environment = Inr cfg" "cfgName cfg = ''desk-1''"
    using sample_load by blast
  from loaded_config_usable [OF cfg(1)] cfg show ?thesis by auto
qed

end
