(* ===== verification/Credential.thy ===== *)
theory Credential
  imports Auth
begin

text \<open>
  The typed credential operation: its data (\<^verbatim>\<open>api/v1alpha1/credential_types.go\<close>), the validation,
  policy, ticket and result functions shared by broker, controller and Runner
  (\<^verbatim>\<open>internal/credential/operation.go\<close>), the fixed GitHub client (\<^verbatim>\<open>internal/credential/github.go\<close>) and
  the Runner process (\<^verbatim>\<open>cmd/credential-runner\<close>). SHA-256 and the JSON codec are parameters.
\<close>

section \<open>Data\<close>

abbreviation CredentialOperationGitHubCreateIssue :: string where
  "CredentialOperationGitHubCreateIssue \<equiv> ''github.createIssue''"

datatype CredentialAccessMode =
    CredentialAccessDeny
  | CredentialAccessConfirm
  | CredentialAccessPreAuthorized
  | CredentialAccessBypass
  | CredentialAccessOther string

datatype CredentialPhase =
    CredentialPhaseUnset
  | CredentialPhasePending
  | CredentialPhasePendingApproval
  | CredentialPhaseTicketConsumed
  | CredentialPhaseRunning
  | CredentialPhaseSucceeded
  | CredentialPhaseFailed
  | CredentialPhaseDenied
  | CredentialPhaseUnknownOutcome

datatype CredentialDecision =
    CredentialDecisionApprove
  | CredentialDecisionDeny
  | CredentialDecisionOther string

record CredentialSecretRef =
  refName :: string
  refKey :: string
  refUID :: string
  refResourceVersion :: string
  refImmutable :: bool

record CredentialConsumerSpec =
  consumerName :: string
  Operations :: "string list"
  AccessMode :: CredentialAccessMode
  AllowedRepositories :: "string list"

record CredentialPolicySpec =
  policySecret :: CredentialSecretRef
  Consumers :: "CredentialConsumerSpec list"
  AllowBypass :: bool

record GitHubIssueResult =
  issueNumber :: int
  issueURL :: string
  issueTitle :: string

text \<open>A zero \<^verbatim>\<open>metav1.Time\<close> is no time at all.\<close>

record CredentialRequestSpec =
  specInstance :: string
  specConsumer :: string
  specOperation :: string
  specTicketDigest :: string
  specExpiresAt :: "int option"
  specSecretBinding :: CredentialSecretRef
  specRepository :: string
  specTitle :: string
  specBody :: string

record CredentialRequestStatus =
  stPhase :: CredentialPhase
  stRunnerName :: string
  stPodUID :: string
  stSpecDigest :: string
  stSecretUID :: string
  stSecretResourceVersion :: string
  stTicketConsumedAt :: "int option"
  stResult :: "GitHubIssueResult option"
  stErrorCode :: string
  stObservedGeneration :: int

record CredentialRequest =
  rqName :: string
  rqNamespace :: string
  rqLabels :: "(string \<times> string) list"
  rqDeleting :: bool
  rqFinalizers :: "string list"
  rqGeneration :: int
  rqOwner :: "(string \<times> string) option"
  rqSpec :: CredentialRequestSpec
  rqStatus :: CredentialRequestStatus

record CredentialApproval =
  apRequestName :: string
  apDecision :: CredentialDecision

text \<open>What the credential code reads of a TypeClaw Instance.\<close>

record CredentialInstance =
  ciName :: string
  ciNamespace :: string
  ciUID :: string
  ciPolicy :: "CredentialPolicySpec option"

section \<open>Validation and policy\<close>

datatype credential_error = ErrPolicyDenied | ErrMalformedInput string | ErrUnsupported | ErrInvalidTicket | ErrSecretBinding

definition repository_char :: "char \<Rightarrow> bool" where
  "repository_char c =
     (let n = of_char c :: nat in
      97 \<le> n \<and> n \<le> 122 \<or> 65 \<le> n \<and> n \<le> 90 \<or> 48 \<le> n \<and> n \<le> 57 \<or>
      c = CHR ''.'' \<or> c = CHR ''-'' \<or> c = CHR ''_'')"

definition validRepositoryPart :: "string \<Rightarrow> bool" where
  "validRepositoryPart part =
     (if part = '''' \<or> part = ''.'' \<or> part = ''..'' \<or> HasPrefix part ''.'' then False
      else list_all repository_char part)"

definition ValidateGitHubCreateIssue :: "string \<Rightarrow> string \<Rightarrow> string \<Rightarrow> credential_error option" where
  "ValidateGitHubCreateIssue repository title text =
     (let parts = split_on CHR ''/'' repository in
      if length parts \<noteq> 2 \<or> \<not> validRepositoryPart (parts ! 0) \<or> \<not> validRepositoryPart (parts ! 1)
      then Some (ErrMalformedInput ''repository'')
      else if length title = 0 \<or> 256 < length title \<or> CHR 0x00 \<in> set title
      then Some (ErrMalformedInput ''title'')
      else if 65536 < length text \<or> CHR 0x00 \<in> set text
      then Some (ErrMalformedInput ''body'')
      else None)"

definition ValidateSecretBinding :: "CredentialSecretRef \<Rightarrow> credential_error option" where
  "ValidateSecretBinding ref =
     (if refName ref = '''' \<or> refKey ref = '''' \<or> refUID ref = '''' \<or> refResourceVersion ref = '''' \<or>
         \<not> refImmutable ref
      then Some ErrSecretBinding else None)"

fun allowedRepository :: "string list \<Rightarrow> string \<Rightarrow> bool" where
  "allowedRepository [] repository = False"
| "allowedRepository (allowed # rest) repository = (allowed = repository \<or> allowedRepository rest repository)"

text \<open>The loop over the consumers: the first one with the name decides.\<close>

fun authorizeConsumer ::
  "bool \<Rightarrow> string \<Rightarrow> string \<Rightarrow> string \<Rightarrow> CredentialConsumerSpec list
     \<Rightarrow> credential_error + CredentialAccessMode" where
  "authorizeConsumer bypass consumer operation repository [] = Inl ErrPolicyDenied"
| "authorizeConsumer bypass consumer operation repository (candidate # rest) =
     (if consumerName candidate \<noteq> consumer
      then authorizeConsumer bypass consumer operation repository rest
      else if operation \<notin> set (Operations candidate) \<or>
              \<not> allowedRepository (AllowedRepositories candidate) repository
      then Inl ErrPolicyDenied
      else (case AccessMode candidate of
          CredentialAccessConfirm \<Rightarrow> Inr CredentialAccessConfirm
        | CredentialAccessPreAuthorized \<Rightarrow> Inr CredentialAccessPreAuthorized
        | CredentialAccessBypass \<Rightarrow>
            if bypass then Inr CredentialAccessBypass else Inl ErrPolicyDenied
        | _ \<Rightarrow> Inl ErrPolicyDenied))"

definition AuthorizePolicy ::
  "CredentialPolicySpec option \<Rightarrow> string \<Rightarrow> string \<Rightarrow> string
     \<Rightarrow> credential_error + CredentialAccessMode" where
  "AuthorizePolicy policy consumer operation repository =
     (case policy of
        None \<Rightarrow> Inl ErrPolicyDenied
      | Some p \<Rightarrow>
          if ValidateSecretBinding (policySecret p) \<noteq> None then Inl ErrPolicyDenied
          else if operation \<noteq> CredentialOperationGitHubCreateIssue then Inl ErrUnsupported
          else if ValidateGitHubCreateIssue repository ''title'' '''' \<noteq> None
            then Inl (ErrMalformedInput '''')
          else authorizeConsumer (AllowBypass p) consumer operation repository (Consumers p))"

section \<open>Tickets\<close>

text \<open>Base64 with the URL alphabet and no padding (\<^verbatim>\<open>base64.RawURLEncoding\<close>).\<close>

definition b64_alphabet :: string where
  "b64_alphabet = ''ABCDEFGHIJKLMNOPQRSTUVWXYZabcdefghijklmnopqrstuvwxyz0123456789-_''"

definition b64_char :: "nat \<Rightarrow> char" where
  "b64_char n = b64_alphabet ! n"

definition b64_value :: "char \<Rightarrow> nat option" where
  "b64_value c = map_of (zip b64_alphabet [0..<64]) c"

fun b64_encode :: "nat list \<Rightarrow> string" where
  "b64_encode [] = []"
| "b64_encode [a] = [b64_char (a div 4), b64_char (a mod 4 * 16)]"
| "b64_encode [a, b] =
     [b64_char (a div 4), b64_char (a mod 4 * 16 + b div 16), b64_char (b mod 16 * 4)]"
| "b64_encode (a # b # c # rest) =
     b64_char (a div 4) # b64_char (a mod 4 * 16 + b div 16) # b64_char (b mod 16 * 4 + c div 64) #
     b64_char (c mod 64) # b64_encode rest"

fun b64_bytes :: "nat list \<Rightarrow> nat list option" where
  "b64_bytes [] = Some []"
| "b64_bytes [p] = None"
| "b64_bytes [p, q] = Some [p * 4 + q div 16]"
| "b64_bytes [p, q, r] = Some [p * 4 + q div 16, q mod 16 * 16 + r div 4]"
| "b64_bytes (p # q # r # s # rest) =
     map_option (\<lambda>bs. (p * 4 + q div 16) # (q mod 16 * 16 + r div 4) # (r mod 4 * 64 + s) # bs)
       (b64_bytes rest)"

text \<open>The decoder skips line breaks and does not insist on zero bits behind the last byte.\<close>

definition b64_decode :: "string \<Rightarrow> nat list option" where
  "b64_decode s =
     (let values = map b64_value (filter (\<lambda>c. c \<noteq> CHR 0x0A \<and> c \<noteq> CHR 0x0D) s)
      in if None \<in> set values then None else b64_bytes (map the values))"

definition hex_digit :: "nat \<Rightarrow> char" where
  "hex_digit n = ''0123456789abcdef'' ! n"

definition hexEncode :: "nat list \<Rightarrow> string" where
  "hexEncode bytes = concat (map (\<lambda>b. [hex_digit (b div 16), hex_digit (b mod 16)]) bytes)"

text \<open>\<open>sha256\<close> maps a string to the 32 bytes of its digest; the ticket source yields 32 bytes or fails.\<close>

definition TicketDigest :: "(string \<Rightarrow> nat list) \<Rightarrow> string \<Rightarrow> string" where
  "TicketDigest sha256 ticket = hexEncode (sha256 ticket)"

definition NewTicket :: "(string \<Rightarrow> nat list) \<Rightarrow> string + nat list \<Rightarrow> string + string \<times> string" where
  "NewTicket sha256 source =
     (case source of
        Inl err \<Rightarrow> Inl err
      | Inr buf \<Rightarrow> (let ticket = b64_encode buf in Inr (ticket, TicketDigest sha256 ticket)))"

definition ValidateTicket :: "string \<Rightarrow> credential_error option" where
  "ValidateTicket ticket =
     (case b64_decode ticket of
        None \<Rightarrow> Some ErrInvalidTicket
      | Some decoded \<Rightarrow> if length decoded \<noteq> 32 then Some ErrInvalidTicket else None)"

definition RequestName :: "string \<Rightarrow> string" where
  "RequestName ticketDigest = ''credential-'' @ take 24 ticketDigest"

fun IsTerminal :: "CredentialPhase \<Rightarrow> bool" where
  "IsTerminal CredentialPhaseSucceeded = True"
| "IsTerminal CredentialPhaseFailed = True"
| "IsTerminal CredentialPhaseDenied = True"
| "IsTerminal CredentialPhaseUnknownOutcome = True"
| "IsTerminal _ = False"

section \<open>Runner results\<close>

abbreviation ErrorCodeCredentialUnavailable :: string where "ErrorCodeCredentialUnavailable \<equiv> ''credential_unavailable''"
abbreviation ErrorCodePolicyDenied :: string where "ErrorCodePolicyDenied \<equiv> ''policy_denied''"
abbreviation ErrorCodeApprovalDenied :: string where "ErrorCodeApprovalDenied \<equiv> ''approval_denied''"
abbreviation ErrorCodeSecretBinding :: string where "ErrorCodeSecretBinding \<equiv> ''secret_binding_invalid''"
abbreviation ErrorCodeSPIFFEUnavailable :: string where "ErrorCodeSPIFFEUnavailable \<equiv> ''spiffe_unavailable''"
abbreviation ErrorCodeNetworkUnavailable :: string where "ErrorCodeNetworkUnavailable \<equiv> ''network_authority_unavailable''"
abbreviation ErrorCodeRunnerFailed :: string where "ErrorCodeRunnerFailed \<equiv> ''runner_failed''"
abbreviation ErrorCodeResultInvalid :: string where "ErrorCodeResultInvalid \<equiv> ''result_invalid''"
abbreviation ErrorCodeTicketExpired :: string where "ErrorCodeTicketExpired \<equiv> ''ticket_expired''"

record RunnerResult =
  rrResult :: "GitHubIssueResult option"
  rrErrorCode :: string

definition validErrorCode :: "string \<Rightarrow> bool" where
  "validErrorCode c \<longleftrightarrow> c \<in> {ErrorCodeCredentialUnavailable, ErrorCodePolicyDenied, ErrorCodeApprovalDenied,
     ErrorCodeSecretBinding, ErrorCodeSPIFFEUnavailable, ErrorCodeNetworkUnavailable, ErrorCodeRunnerFailed,
     ErrorCodeResultInvalid, ErrorCodeTicketExpired}"

text \<open>
  The JSON codec for results: marshalling, the strict decoding of the first value, and whether
  anything but white space follows it.
\<close>

record result_codec =
  marshalResult :: "RunnerResult \<Rightarrow> string option"
  decodeResult :: "string \<Rightarrow> RunnerResult option"
  trailingData :: "string \<Rightarrow> bool"

definition EncodeRunnerResult :: "result_codec \<Rightarrow> RunnerResult \<Rightarrow> string + string" where
  "EncodeRunnerResult codec result =
     (if rrResult result = None \<and> \<not> validErrorCode (rrErrorCode result)
      then Inl ''runner result has no bounded outcome''
      else if rrResult result \<noteq> None \<and> rrErrorCode result \<noteq> ''''
      then Inl ''runner result has multiple outcomes''
      else (case marshalResult codec result of
          None \<Rightarrow> Inl ''marshal''
        | Some encoded \<Rightarrow>
            if 4096 < length encoded then Inl ''runner result exceeds termination message limit''
            else Inr encoded))"

definition DecodeRunnerResult :: "result_codec \<Rightarrow> string \<Rightarrow> string + RunnerResult" where
  "DecodeRunnerResult codec raw =
     (case decodeResult codec raw of
        None \<Rightarrow> Inl ''decode''
      | Some result \<Rightarrow>
          if trailingData codec raw then Inl ''runner result contains trailing data''
          else if rrResult result = None \<and> \<not> validErrorCode (rrErrorCode result)
          then Inl ''runner result has no bounded outcome''
          else (case rrResult result of
              None \<Rightarrow> Inr result
            | Some issue \<Rightarrow>
                if rrErrorCode result \<noteq> '''' \<or> issueNumber issue \<le> 0 \<or> issueURL issue = '''' \<or> issueTitle issue = ''''
                then Inl ''runner result is incomplete''
                else Inr result))"

section \<open>The GitHub client and the Runner\<close>

definition path_unescaped :: "char \<Rightarrow> bool" where
  "path_unescaped c =
     (let n = of_char c :: nat in
      97 \<le> n \<and> n \<le> 122 \<or> 65 \<le> n \<and> n \<le> 90 \<or> 48 \<le> n \<and> n \<le> 57 \<or> c \<in> set ''-_.~$&+=:@'')"

definition upper_hex :: "nat \<Rightarrow> char" where
  "upper_hex n = ''0123456789ABCDEF'' ! n"

definition PathEscape :: "string \<Rightarrow> string" where
  "PathEscape s = concat (map (\<lambda>c. if path_unescaped c then [c]
     else (let n = of_char c :: nat in [CHR ''%'', upper_hex (n div 16), upper_hex (n mod 16)])) s)"

record github_call =
  ghMethod :: string
  ghURL :: string
  ghHeaders :: "(string \<times> string) list"
  ghPayload :: string

text \<open>
  The outside of the client: the HTTP exchange (an error, or status and body), the JSON codec of
  the payload and of the answer (number, html url, title), and URL parsing.
\<close>

record github_lib =
  ghDo :: "github_call \<Rightarrow> string + int \<times> string"
  ghMarshal :: "string \<Rightarrow> string \<Rightarrow> string option"
  ghNewRequestErr :: "string \<Rightarrow> string option"
  ghDecode :: "string \<Rightarrow> (int \<times> string \<times> string) option"
  ghParse :: "string \<Rightarrow> url option"

datatype github_error = ErrUpstream | GitHubFailed string

definition githubCall :: "string \<Rightarrow> string \<Rightarrow> string \<Rightarrow> string \<Rightarrow> github_call" where
  "githubCall base token repository payload =
     (let parts = split_on CHR ''/'' repository in
      \<lparr>ghMethod = ''POST'',
       ghURL = trim_right_byte CHR ''/'' base @ ''/repos/'' @ PathEscape (parts ! 0) @ ''/'' @
               PathEscape (parts ! 1) @ ''/issues'',
       ghHeaders = [(''Accept'', ''application/vnd.github+json''), (''Content-Type'', ''application/json''),
                    (''X-GitHub-Api-Version'', ''2022-11-28''), (''User-Agent'', ''typeclaw-credential-runner''),
                    (''Authorization'', ''Bearer '' @ TrimSpace token)],
       ghPayload = payload\<rparr>)"

definition issueFromAnswer :: "github_lib \<Rightarrow> int \<Rightarrow> string \<Rightarrow> github_error + GitHubIssueResult" where
  "issueFromAnswer lib st answer =
     (if st < 200 \<or> 300 \<le> st then Inl ErrUpstream
      else (case ghDecode lib (take 1048576 answer) of
          None \<Rightarrow> Inl (GitHubFailed ''GitHub returned an invalid result'')
        | Some (number, link, title) \<Rightarrow>
            if number \<le> 0 \<or> link = '''' \<or> title = ''''
            then Inl (GitHubFailed ''GitHub returned an incomplete result'')
            else (case ghParse lib link of
                None \<Rightarrow> Inl ErrUpstream
              | Some u \<Rightarrow>
                  if Scheme u \<noteq> ''https'' \<or> Hostname u \<noteq> ''github.com'' \<or> hasUser u then Inl ErrUpstream
                  else Inr \<lparr>issueNumber = number, issueURL = link, issueTitle = title\<rparr>)))"

definition CreateIssue ::
  "github_lib \<Rightarrow> string \<Rightarrow> string \<Rightarrow> string \<Rightarrow> string \<Rightarrow> string
     \<Rightarrow> github_call option \<times> (github_error + GitHubIssueResult)" where
  "CreateIssue lib baseURL token repository title text =
     (if ValidateGitHubCreateIssue repository title text \<noteq> None
      then (None, Inl (GitHubFailed ''malformed typed operation''))
      else if TrimSpace token = '''' then (None, Inl (GitHubFailed ''credential is empty''))
      else
        let base = (if baseURL = '''' then ''https://api.github.com'' else baseURL) in
        (case ghParse lib base of
           None \<Rightarrow> (None, Inl (GitHubFailed ''fixed GitHub API endpoint is invalid''))
         | Some u \<Rightarrow>
             if Scheme u \<noteq> ''https'' \<or> Hostname u \<noteq> ''api.github.com'' \<or> urlPath u \<noteq> ''''
             then (None, Inl (GitHubFailed ''fixed GitHub API endpoint is invalid''))
             else (case ghMarshal lib title text of
                 None \<Rightarrow> (None, Inl (GitHubFailed ''marshal''))
               | Some payload \<Rightarrow>
                  (let c = githubCall base token repository payload in
                   case ghNewRequestErr lib (ghURL c) of
                     Some err \<Rightarrow> (None, Inl (GitHubFailed err))
                   | None \<Rightarrow>
                      (Some c, case ghDo lib c of
                         Inl _ \<Rightarrow> Inl ErrUpstream
                       | Inr (st, answer) \<Rightarrow> issueFromAnswer lib st answer)))))"

text \<open>
  The Runner's \<^verbatim>\<open>run\<close>: from the environment and the credential file to the result it writes to the
  termination log, or nothing when encoding the result fails.
\<close>

definition runnerOutcome ::
  "github_lib \<Rightarrow> (string \<Rightarrow> string) \<Rightarrow> (string \<Rightarrow> string option) \<Rightarrow> RunnerResult" where
  "runnerOutcome lib env readFile =
     (let failed = (\<lambda>c. \<lparr>rrResult = None, rrErrorCode = c\<rparr>);
          repository = env ''TYPECLAW_GITHUB_REPOSITORY''; title = env ''TYPECLAW_GITHUB_TITLE'';
          text = env ''TYPECLAW_GITHUB_BODY'' in
      if env ''TYPECLAW_CREDENTIAL_OPERATION'' \<noteq> CredentialOperationGitHubCreateIssue
      then failed ErrorCodeRunnerFailed
      else if ValidateGitHubCreateIssue repository title text \<noteq> None then failed ErrorCodeResultInvalid
      else (case readFile (if env ''TYPECLAW_CREDENTIAL_FILE'' = '''' then ''/var/run/typeclaw/credential/token''
                           else env ''TYPECLAW_CREDENTIAL_FILE'') of
          None \<Rightarrow> failed ErrorCodeCredentialUnavailable
        | Some token \<Rightarrow>
           (case snd (CreateIssue lib '''' (TrimSpace token) repository title text) of
              Inl ErrUpstream \<Rightarrow> failed ErrorCodeNetworkUnavailable
            | Inl _ \<Rightarrow> failed ErrorCodeRunnerFailed
            | Inr issue \<Rightarrow> \<lparr>rrResult = Some issue, rrErrorCode = ''''\<rparr>)))"

definition runnerRun ::
  "result_codec \<Rightarrow> github_lib \<Rightarrow> (string \<Rightarrow> string) \<Rightarrow> (string \<Rightarrow> string option) \<Rightarrow> string + string" where
  "runnerRun codec lib env readFile = EncodeRunnerResult codec (runnerOutcome lib env readFile)"

section \<open>Facts\<close>

lemma repository_parts:
  assumes "ValidateGitHubCreateIssue repository title text = None"
  shows "\<exists>owner name. repository = owner @ ''/'' @ name \<and> split_on CHR ''/'' repository = [owner, name] \<and>
    validRepositoryPart owner \<and> validRepositoryPart name"
proof -
  have "length (split_on CHR ''/'' repository) = 2"
    and v: "validRepositoryPart (split_on CHR ''/'' repository ! 0)"
      "validRepositoryPart (split_on CHR ''/'' repository ! 1)"
    using assms by (auto simp: ValidateGitHubCreateIssue_def Let_def split: if_splits)
  then obtain a b where ab: "split_on CHR ''/'' repository = [a, b]"
    by (auto simp: numeral_2_eq_2 length_Suc_conv)
  then have "repository = join_with CHR ''/'' [a, b]"
    using join_split [of "CHR ''/''" repository] by simp
  with ab v show ?thesis by auto
qed

lemma repository_char_unescaped: "repository_char c \<Longrightarrow> path_unescaped c"
  by (auto simp: repository_char_def path_unescaped_def Let_def)

lemma PathEscape_id: "list_all path_unescaped s \<Longrightarrow> PathEscape s = s"
  by (induction s) (auto simp: PathEscape_def)

lemma PathEscape_part: "validRepositoryPart p \<Longrightarrow> PathEscape p = p"
  by (rule PathEscape_id) (auto simp: validRepositoryPart_def list_all_iff repository_char_unescaped split: if_splits)

lemma allowedRepository_iff: "allowedRepository l r \<longleftrightarrow> r \<in> set l"
  by (induction l) auto

lemma authorizeConsumer_Inr:
  "authorizeConsumer bypass consumer operation repository cs = Inr mode \<Longrightarrow>
     \<exists>c \<in> set cs. consumerName c = consumer \<and> operation \<in> set (Operations c) \<and>
       repository \<in> set (AllowedRepositories c) \<and> AccessMode c = mode \<and>
       mode \<in> {CredentialAccessConfirm, CredentialAccessPreAuthorized, CredentialAccessBypass} \<and>
       (mode = CredentialAccessBypass \<longrightarrow> bypass)"
  by (induction cs) (auto simp: allowedRepository_iff split: if_splits CredentialAccessMode.splits)

lemma b64_alphabet_simps: "length b64_alphabet = 64" "distinct b64_alphabet"
  by (simp_all add: b64_alphabet_def)

lemma b64_value_char: "n < 64 \<Longrightarrow> b64_value (b64_char n) = Some n"
  using map_of_zip_nth [of b64_alphabet "[0..<64]" n] b64_alphabet_simps
  by (simp add: b64_value_def b64_char_def)

lemma b64_sextets:
  fixes a b c :: nat
  assumes "a < 256" "b < 256" "c < 256"
  shows "a div 4 < 64" "a mod 4 * 16 + b div 16 < 64" "b mod 16 * 4 + c div 64 < 64" "a mod 4 * 16 < 64"
    "b mod 16 * 4 < 64" "b div 16 div 16 = 0" "b div 16 mod 16 = b div 16" "c div 64 div 4 = 0"
    "c div 64 mod 4 = c div 64"
proof -
  have "a div 4 < 64" "a mod 4 < 4" "b div 16 < 16" "b mod 16 < 16" "c div 64 < 4"
    using assms by (simp_all add: less_mult_imp_div_less)
  then show "a div 4 < 64" "a mod 4 * 16 + b div 16 < 64" "b mod 16 * 4 + c div 64 < 64" "a mod 4 * 16 < 64"
    "b mod 16 * 4 < 64" "b div 16 div 16 = 0" "b div 16 mod 16 = b div 16" "c div 64 div 4 = 0"
    "c div 64 mod 4 = c div 64"
    by simp_all
qed

lemma b64_recombine: "(a :: nat) div 4 * 4 + a mod 4 = a" "b div 16 * 16 + b mod 16 = (b :: nat)"
  "c div 64 * 64 + c mod 64 = (c :: nat)"
  by simp_all

lemma b64_encode_values:
  "\<forall>b \<in> set bs. b < 256 \<Longrightarrow> \<exists>vs. map b64_value (b64_encode bs) = map Some vs \<and> b64_bytes vs = Some bs"
proof (induction bs rule: b64_encode.induct)
  case 1
  then show ?case by (intro exI [of _ "[]"]) simp
next
  case (2 a)
  then show ?case
    by (intro exI [of _ "[a div 4, a mod 4 * 16]"]) (simp add: b64_value_char)
next
  case (3 a b)
  then have "a < 256" "b < 256" by simp_all
  note six = b64_sextets [OF this \<open>b < 256\<close>]
  show ?case
    by (intro exI [of _ "[a div 4, a mod 4 * 16 + b div 16, b mod 16 * 4]"])
      (simp add: b64_value_char six b64_recombine)
next
  case (4 a b c rest)
  then obtain vs where vs: "map b64_value (b64_encode rest) = map Some vs" "b64_bytes vs = Some rest"
    by auto
  from 4 have "a < 256" "b < 256" "c < 256" by simp_all
  note six = b64_sextets [OF this]
  show ?case
    by (intro exI [of _ "a div 4 # (a mod 4 * 16 + b div 16) # (b mod 16 * 4 + c div 64) # c mod 64 # vs"])
      (simp add: b64_value_char six b64_recombine vs)
qed

lemma b64_roundtrip: "\<forall>b \<in> set bs. b < 256 \<Longrightarrow> b64_decode (b64_encode bs) = Some bs"
proof -
  assume bytes: "\<forall>b \<in> set bs. b < 256"
  then obtain vs where vs: "map b64_value (b64_encode bs) = map Some vs" "b64_bytes vs = Some bs"
    using b64_encode_values by blast
  have "c \<noteq> CHR 0x0A \<and> c \<noteq> CHR 0x0D" if "c \<in> set (b64_encode bs)" for c
  proof -
    have "b64_value c \<noteq> None"
      using that vs(1) by (metis imageI image_set in_set_conv_nth length_map nth_map option.distinct(1))
    then show ?thesis by (auto simp: b64_value_def b64_alphabet_def upt_conv_Cons)
  qed
  then have "filter (\<lambda>c. c \<noteq> CHR 0x0A \<and> c \<noteq> CHR 0x0D) (b64_encode bs) = b64_encode bs"
    by (simp add: filter_id_conv)
  with vs show ?thesis by (auto simp: b64_decode_def Let_def comp_def)
qed

text \<open>Tickets are base64 texts, so different random bytes give different tickets.\<close>

interpretation ticket: coding b64_encode b64_decode "\<lambda>bs. \<forall>b \<in> set bs. b < 256"
  by unfold_locales (rule b64_roundtrip)

end
