(* ===== verification/Pods.thy ===== *)
theory Pods
  imports Prelude
begin

text \<open>
  The part of the Kubernetes object model that the operator's renderers fill in: volumes,
  containers, Pods, Jobs, StatefulSets, Deployments, Services, Ingresses and NetworkPolicies. A pointer field is an option.
\<close>

datatype volume_source =
    EmptyDirVolume "string option" "int option"
  | SecretVolume string "(string \<times> string) list" "int option"
  | ConfigMapVolume string "(string \<times> string) list" "bool option"
  | PVCVolume string
  | CSIVolume string bool
  | ProjectedToken string int

record volume =
  volName :: string
  volSource :: volume_source

record volume_mount =
  mountName :: string
  mountPath :: string
  mountSubPath :: string
  mountReadOnly :: bool

datatype env_var =
    EnvValue string string
  | EnvSecretKey string string string
  | EnvOptionalSecretKey string string string
  | EnvField string string

text \<open>
  The environment of a container: its variables in their order. The kubelet expands the references in a
  literal value against the variables before it, and \<open>source\<close> gives the value of a variable that is
  taken from elsewhere. Of the expansion only the documented rules are used: a text without a
  dollar sign stays as it is, a doubled one becomes one, and a reference to a variable becomes its value.
\<close>

definition expansion_law :: "((string \<rightharpoonup> string) \<Rightarrow> string \<Rightarrow> string) \<Rightarrow> bool" where
  "expansion_law expand \<longleftrightarrow>
     (\<forall>env s. CHR ''$'' \<notin> set s \<longrightarrow> expand env s = s) \<and>
     (\<forall>env a b. CHR ''$'' \<notin> set a \<longrightarrow> expand env (a @ ''$$'' @ b) = a @ ''$'' @ expand env b) \<and>
     (\<forall>env a name b x. CHR ''$'' \<notin> set a \<longrightarrow> CHR '')'' \<notin> set name \<longrightarrow> env name = Some x \<longrightarrow>
        expand env (a @ ''$('' @ name @ '')'' @ b) = a @ x @ expand env b)"

text \<open>An expansion that has these rules.\<close>

fun expandRefs :: "(string \<rightharpoonup> string) \<Rightarrow> string \<Rightarrow> string" where
  "expandRefs env [] = []"
| "expandRefs env (c # s) =
     (if c \<noteq> CHR ''$'' then c # expandRefs env s
      else (case s of
          [] \<Rightarrow> [c]
        | d # t \<Rightarrow>
            if d = CHR ''$'' then c # expandRefs env t
            else if d = CHR ''('' \<and> CHR '')'' \<in> set t
            then (let name = takeWhile (\<lambda>x. x \<noteq> CHR '')'') t in
              (case env name of Some x \<Rightarrow> x | None \<Rightarrow> ''$('' @ name @ '')'') @ expandRefs env (drop (Suc (length name)) t))
            else c # d # expandRefs env t))"

lemma expandRefs_skip: "CHR ''$'' \<notin> set a \<Longrightarrow> expandRefs env (a @ s) = a @ expandRefs env s"
  by (induction a) auto

lemma expandRefs_law: "expansion_law expandRefs"
proof -
  have "takeWhile (\<lambda>x. x \<noteq> CHR '')'') (name @ CHR '')'' # b) = name" if "CHR '')'' \<notin> set name" for name b
    using that by (induction name) auto
  then show ?thesis
    unfolding expansion_law_def by (auto simp: expandRefs_skip expandRefs_skip [where s = "[]", simplified])
qed

fun container_env ::
  "((string \<rightharpoonup> string) \<Rightarrow> string \<Rightarrow> string) \<Rightarrow> (env_var \<Rightarrow> (string \<times> string) option) \<Rightarrow> env_var list
     \<Rightarrow> (string \<rightharpoonup> string) \<Rightarrow> (string \<rightharpoonup> string)" where
  "container_env expand source [] env = env"
| "container_env expand source (v # vs) env =
     container_env expand source vs
       (case v of
          EnvValue name x \<Rightarrow> env(name \<mapsto> expand env x)
        | _ \<Rightarrow> (case source v of None \<Rightarrow> env | Some (name, x) \<Rightarrow> env(name \<mapsto> x)))"

text \<open>What \<^verbatim>\<open>os.Getenv\<close> answers: the empty string for a variable that is not set.\<close>

definition getenv :: "(string \<rightharpoonup> string) \<Rightarrow> string \<Rightarrow> string" where
  "getenv env key = (case env key of None \<Rightarrow> '''' | Some x \<Rightarrow> x)"

record container_security =
  allowPrivilegeEscalation :: bool
  readOnlyRootFilesystem :: bool
  dropCapabilities :: "string list"

text \<open>A port is given by its number or by the name it has in the container.\<close>

datatype port_ref = PortNumber int | PortName string

record probe =
  probePath :: string
  probePort :: port_ref
  probePeriod :: int
  probeInitialDelay :: int

record container =
  ctName :: string
  ctImage :: string
  ctPullPolicy :: string
  ctCommand :: "string list"
  ctArgs :: "string list"
  ctEnv :: "env_var list"
  ctPorts :: "(string \<times> int) list"
  ctLiveness :: "probe option"
  ctReadiness :: "probe option"
  ctTerminationPath :: string
  ctSecurity :: container_security
  ctMounts :: "volume_mount list"

datatype seccomp_profile = SeccompLocalhost string | SeccompUnconfined | SeccompRuntimeDefault

record pod_spec =
  podRestartPolicy :: string
  podAutomountToken :: bool
  podServiceAccount :: string
  podGracePeriod :: "int option"
  podRunAsNonRoot :: bool
  podRunAsUser :: int
  podRunAsGroup :: int
  podFSGroup :: int
  podSeccomp :: seccomp_profile
  podContainers :: "container list"
  podVolumes :: "volume list"

record job =
  jobName :: string
  jobNamespace :: string
  jobLabels :: "(string \<times> string) list"
  jobAnnotations :: "(string \<times> string) list"
  jobBackoffLimit :: "int option"
  jobTTLSeconds :: "int option"
  jobActiveDeadline :: "int option"
  jobPodLabels :: "(string \<times> string) list"
  jobPod :: pod_spec

record pvc =
  pvcName :: string
  pvcNamespace :: string
  pvcLabels :: "(string \<times> string) list"
  pvcAccessModes :: "string list"
  pvcSize :: int
  pvcStorageClass :: "string option"

record stateful_set =
  ssName :: string
  ssNamespace :: string
  ssLabels :: "(string \<times> string) list"
  ssServiceName :: string
  ssReplicas :: int
  ssWhenDeleted :: string
  ssWhenScaled :: string
  ssSelector :: "(string \<times> string) list"
  ssClaims :: "pvc list"
  ssPodLabels :: "(string \<times> string) list"
  ssPod :: pod_spec

record cron_job =
  cjName :: string
  cjNamespace :: string
  cjLabels :: "(string \<times> string) list"
  cjSchedule :: string
  cjConcurrency :: string
  cjSuccessfulHistory :: int
  cjFailedHistory :: int
  cjSuspend :: bool
  cjJobLabels :: "(string \<times> string) list"
  cjPodLabels :: "(string \<times> string) list"
  cjPod :: pod_spec

record deployment =
  dpName :: string
  dpNamespace :: string
  dpLabels :: "(string \<times> string) list"
  dpReplicas :: int
  dpStrategy :: string
  dpSelector :: "(string \<times> string) list"
  dpPodLabels :: "(string \<times> string) list"
  dpPod :: pod_spec

record config_map =
  cmName :: string
  cmNamespace :: string
  cmLabels :: "(string \<times> string) list"
  cmData :: "(string \<times> string) list"

text \<open>An Ingress with one TLS host list and a default backend (Service, port name).\<close>

record ingress =
  ingName :: string
  ingNamespace :: string
  ingLabels :: "(string \<times> string) list"
  ingAnnotations :: "(string \<times> string) list"
  ingClass :: string
  ingTLSHosts :: "string list"
  ingBackend :: "string \<times> string"

text \<open>A Service with its selector and its ports (name, port, target port).\<close>

record service =
  svcName :: string
  svcNamespace :: string
  svcLabels :: "(string \<times> string) list"
  svcType :: string
  svcSelector :: "(string \<times> string) list"
  svcPorts :: "(string \<times> int \<times> port_ref) list"

record service_account =
  saName :: string
  saNamespace :: string
  saLabels :: "(string \<times> string) list"

record policy_rule =
  prGroups :: "string list"
  prResources :: "string list"
  prNames :: "string list"
  prVerbs :: "string list"

record role =
  roleName :: string
  roleNamespace :: string
  roleLabels :: "(string \<times> string) list"
  roleRules :: "policy_rule list"

text \<open>A binding of a Role to one ServiceAccount (name, namespace).\<close>

record role_binding =
  rbName :: string
  rbNamespace :: string
  rbLabels :: "(string \<times> string) list"
  rbRole :: string
  rbSubject :: "string \<times> string"

text \<open>
  Network policies: a peer is a namespace selector and a Pod selector, each of which may be absent,
  or an address block with exceptions. A port has a protocol, empty when it is not given.
\<close>

datatype np_peer =
    PodPeer "(string \<times> string) list option" "(string \<times> string) list option"
  | BlockPeer string "string list"

record np_rule =
  rulePeers :: "np_peer list"
  rulePorts :: "(string \<times> int) list"

record network_policy =
  npName :: string
  npNamespace :: string
  npLabels :: "(string \<times> string) list"
  npAnnotations :: "(string \<times> string) list"
  npSelector :: "(string \<times> string) list"
  npTypes :: "string list"
  npIngress :: "np_rule list"
  npEgress :: "np_rule list"

abbreviation componentLabelKey :: string where "componentLabelKey \<equiv> ''app.kubernetes.io/component''"
abbreviation RuntimeUID :: int where "RuntimeUID \<equiv> 65532"
abbreviation RuntimeGID :: int where "RuntimeGID \<equiv> 65532"
abbreviation SeccompLocalhostProfile :: string where
  "SeccompLocalhostProfile \<equiv> ''localhost/profiles/typeclaw/native-localbwrap.json''"
abbreviation DefaultOperatorImage :: string where
  "DefaultOperatorImage \<equiv> ''ghcr.io/fml09/typeclaw-operator:0.1.1''"

text \<open>A hardened container: no privilege escalation, read-only root file system, no capabilities.\<close>

definition hardened :: container_security where
  "hardened = \<lparr>allowPrivilegeEscalation = False, readOnlyRootFilesystem = True, dropCapabilities = [''ALL'']\<rparr>"

text \<open>
  What the restricted workloads have in common: a Pod that cannot reach the Kubernetes API by an
  automounted token, does not run as root and has only hardened containers.
\<close>

definition restricted_pod :: "pod_spec \<Rightarrow> bool" where
  "restricted_pod p \<longleftrightarrow>
     \<not> podAutomountToken p \<and> podRunAsNonRoot p \<and> podRunAsUser p \<noteq> 0 \<and>
     list_all (\<lambda>c. ctSecurity c = hardened) (podContainers p)"

text \<open>Every mount of a container names a volume of its Pod.\<close>

definition mounts_resolved :: "string list \<Rightarrow> pod_spec \<Rightarrow> bool" where
  "mounts_resolved claims p \<longleftrightarrow>
     list_all (\<lambda>c. list_all (\<lambda>m. mountName m \<in> set (map volName (podVolumes p)) \<union> set claims) (ctMounts c))
       (podContainers p)"

end
