(* ===== verification/Credential_Runner.thy ===== *)
theory Credential_Runner
  imports Credential Pods
begin

text \<open>
  Rendering of the restricted Credential Runner (\<^verbatim>\<open>internal/resources/credential.go\<close>): its one-shot
  Job and its default-deny NetworkPolicy.
\<close>

definition CredentialRunnerJobName :: "string \<Rightarrow> string" where
  "CredentialRunnerJobName requestName = requestName @ ''-runner''"

definition CredentialRunnerNetworkPolicyName :: "string \<Rightarrow> string" where
  "CredentialRunnerNetworkPolicyName requestName = requestName @ ''-egress''"

definition CredentialRunnerSPIFFEID :: "CredentialInstance \<Rightarrow> CredentialRequest \<Rightarrow> string" where
  "CredentialRunnerSPIFFEID inst request =
     ''spiffe://typeclaw.local/typeclaw/ns/'' @ ciNamespace inst @ ''/instance/'' @ ciName inst @
     ''/credential-runner/'' @ rqName request"

definition runnerLabels :: "CredentialInstance \<Rightarrow> CredentialRequest \<Rightarrow> (string \<times> string) list" where
  "runnerLabels inst request =
     [(componentLabelKey, ''credential-runner''),
      (''typeclaw.fml09.io/credential-request'', rqName request),
      (''typeclaw.fml09.io/credential-instance'', ciName inst)]"

definition runnerContainer :: "CredentialInstance \<Rightarrow> CredentialRequest \<Rightarrow> container" where
  "runnerContainer inst request =
     \<lparr>ctName = ''credential-runner'', ctImage = DefaultOperatorImage, ctPullPolicy = ''IfNotPresent'',
      ctCommand = [''/credential-runner''], ctArgs = [],
      ctEnv = [EnvValue ''TYPECLAW_CREDENTIAL_OPERATION'' (specOperation (rqSpec request)),
               EnvValue ''TYPECLAW_GITHUB_REPOSITORY'' (specRepository (rqSpec request)),
               EnvValue ''TYPECLAW_GITHUB_TITLE'' (specTitle (rqSpec request)),
               EnvValue ''TYPECLAW_GITHUB_BODY'' (specBody (rqSpec request)),
               EnvValue ''TYPECLAW_CREDENTIAL_FILE'' ''/var/run/typeclaw/credential/token'',
               EnvValue ''TYPECLAW_SPIFFE_ID'' (CredentialRunnerSPIFFEID inst request),
               EnvValue ''SPIFFE_ENDPOINT_SOCKET'' ''unix:///spiffe-workload-api/spire-agent.sock''],
      ctPorts = [], ctLiveness = None, ctReadiness = None,
      ctTerminationPath = ''/dev/termination-log'', ctSecurity = hardened,
      ctMounts = [\<lparr>mountName = ''credential'', mountPath = ''/var/run/typeclaw/credential'', mountSubPath = '''',
                    mountReadOnly = True\<rparr>,
                  \<lparr>mountName = ''spiffe-workload-api'', mountPath = ''/spiffe-workload-api'', mountSubPath = '''',
                    mountReadOnly = True\<rparr>]\<rparr>"

datatype runner_error = RunnerMismatch | RunnerInvalid credential_error | RunnerBindingChanged | RunnerUnsupported

definition CredentialRunnerJob ::
  "CredentialInstance \<Rightarrow> CredentialRequest \<Rightarrow> runner_error + job" where
  "CredentialRunnerJob inst request =
     (case ciPolicy inst of
        None \<Rightarrow> Inl RunnerMismatch
      | Some policy \<Rightarrow>
          if specInstance (rqSpec request) \<noteq> ciName inst then Inl RunnerMismatch
          else (case ValidateSecretBinding (policySecret policy) of
            Some err \<Rightarrow> Inl (RunnerInvalid err)
          | None \<Rightarrow>
              if specSecretBinding (rqSpec request) \<noteq> policySecret policy then Inl RunnerBindingChanged
              else (case ValidateSecretBinding (specSecretBinding (rqSpec request)) of
                Some err \<Rightarrow> Inl (RunnerInvalid err)
              | None \<Rightarrow>
                (case ValidateGitHubCreateIssue (specRepository (rqSpec request)) (specTitle (rqSpec request))
                        (specBody (rqSpec request)) of
                   Some err \<Rightarrow> Inl (RunnerInvalid err)
                 | None \<Rightarrow>
                    if specOperation (rqSpec request) \<noteq> CredentialOperationGitHubCreateIssue
                    then Inl RunnerUnsupported
                    else
                      let ref = specSecretBinding (rqSpec request) in
                      Inr \<lparr>jobName = CredentialRunnerJobName (rqName request), jobNamespace = ciNamespace inst,
                           jobLabels = runnerLabels inst request,
                           jobAnnotations =
                             [(''typeclaw.fml09.io/credential-secret-uid'', refUID ref),
                              (''typeclaw.fml09.io/credential-secret-resource-version'', refResourceVersion ref),
                              (''typeclaw.fml09.io/network-authority-required'', ''api.github.com''),
                              (''typeclaw.fml09.io/spiffe-required'', ''true''),
                              (''spiffe.io/credential-runner-id'', CredentialRunnerSPIFFEID inst request)],
                           jobBackoffLimit = Some 0, jobTTLSeconds = Some 300, jobActiveDeadline = Some 120,
                           jobPodLabels = runnerLabels inst request,
                           jobPod =
                             \<lparr>podRestartPolicy = ''Never'', podAutomountToken = False, podServiceAccount = '''', podGracePeriod = None,
                              podRunAsNonRoot = True, podRunAsUser = RuntimeUID, podRunAsGroup = RuntimeGID,
                              podFSGroup = RuntimeGID, podSeccomp = SeccompLocalhost SeccompLocalhostProfile,
                              podContainers = [runnerContainer inst request],
                              podVolumes =
                                [\<lparr>volName = ''credential'',
                                  volSource = SecretVolume (refName ref) [(refKey ref, ''token'')] (Some 288)\<rparr>,
                                 \<lparr>volName = ''spiffe-workload-api'', volSource = CSIVolume ''csi.spiffe.io'' True\<rparr>]\<rparr>\<rparr>))))"

definition CredentialRunnerNetworkPolicy :: "CredentialInstance \<Rightarrow> CredentialRequest \<Rightarrow> network_policy" where
  "CredentialRunnerNetworkPolicy inst request =
     \<lparr>npName = CredentialRunnerNetworkPolicyName (rqName request), npNamespace = ciNamespace inst,
      npLabels = [(''app.kubernetes.io/managed-by'', ''typeclaw-operator''),
                  (''typeclaw.fml09.io/credential-instance'', ciName inst),
                  (componentLabelKey, ''credential-runner'')],
      npAnnotations = [(''typeclaw.fml09.io/required-network-hosts'', ''api.github.com'')],
      npSelector = runnerLabels inst request, npTypes = [''Egress''], npIngress = [],
      npEgress = [\<lparr>rulePeers = [PodPeer (Some [(''kubernetes.io/metadata.name'', ''kube-system'')]) (Some [(''k8s-app'', ''kube-dns'')])],
                   rulePorts = [(''UDP'', 53), (''TCP'', 53)]\<rparr>]\<rparr>"

lemma runner_job_facts:
  assumes "CredentialRunnerJob inst request = Inr j"
  shows "jobName j = CredentialRunnerJobName (rqName request)" "jobBackoffLimit j = Some 0"
    "podRestartPolicy (jobPod j) = ''Never''" "restricted_pod (jobPod j)" "mounts_resolved [] (jobPod j)"
    "jobPodLabels j = npSelector (CredentialRunnerNetworkPolicy inst request)"
    "ValidateGitHubCreateIssue (specRepository (rqSpec request)) (specTitle (rqSpec request))
       (specBody (rqSpec request)) = None"
    "\<exists>policy. ciPolicy inst = Some policy \<and> specSecretBinding (rqSpec request) = policySecret policy"
    "[v \<leftarrow> podVolumes (jobPod j). \<exists>n items m. volSource v = SecretVolume n items m] =
       [\<lparr>volName = ''credential'', volSource = SecretVolume (refName (specSecretBinding (rqSpec request)))
          [(refKey (specSecretBinding (rqSpec request)), ''token'')] (Some 288)\<rparr>]"
  using assms
  by (auto simp: CredentialRunnerJob_def Let_def restricted_pod_def mounts_resolved_def runnerContainer_def
      CredentialRunnerNetworkPolicy_def split: option.splits if_splits)

end
