(* ===== verification/Broker.thy ===== *)
theory Broker
  imports Credential Kube
begin

text \<open>
  The credential broker (\<^verbatim>\<open>internal/credential/broker.go\<close>): a typed request from a SPIFFE-identified
  caller becomes a CredentialRequest that carries only the digest of its one-shot ticket; a retry
  with the ticket only reads. The Kubernetes reader and writer act on a world \<open>'w\<close>.
\<close>

section \<open>Data\<close>

record ('w, 'e) broker_reader =
  brGetInstance :: "string \<Rightarrow> string \<Rightarrow> 'w \<Rightarrow> ('e + CredentialInstance) \<times> 'w"
  brGetRequest :: "string \<Rightarrow> string \<Rightarrow> 'w \<Rightarrow> ('e + CredentialRequest) \<times> 'w"

record githubCreateIssueRequest =
  inRepository :: string
  inTitle :: string
  inBody :: string
  inTicket :: string

text \<open>
  The broker: its clients (which may be missing), the outcome of reading the ticket source, the
  digest function, the trust domain, the clock in nanoseconds, the body limit, and the strict JSON
  decoding of a whole body into the request.
\<close>

record ('w, 'e) Broker =
  Reader :: "('w, 'e) broker_reader option"
  Writer :: "(CredentialRequest \<Rightarrow> 'w \<Rightarrow> 'e option \<times> 'w) option"
  TicketSource :: "string + nat list"
  brSha256 :: "string \<Rightarrow> nat list"
  TrustDomain :: string
  brNow :: int
  MaxBodySize :: int
  decodeInput :: "string \<Rightarrow> githubCreateIssueRequest option"
  brApi :: "'e api_errors"

record broker_request =
  brMethod :: string
  brPath :: string
  peerURIs :: "url list list option"
  brBody :: string

datatype broker_body =
    BrokerError string
  | BrokerStatus CredentialPhase string string "GitHubIssueResult option" string

record brokerIdentity =
  idNamespace :: string
  idInstance :: string

section \<open>Identity\<close>

definition ParseSPIFFEID :: "url \<Rightarrow> string \<Rightarrow> brokerIdentity option" where
  "ParseSPIFFEID uri trust =
     (if Scheme uri \<noteq> ''spiffe'' \<or> urlHost uri \<noteq> trust \<or> RawQuery uri \<noteq> '''' \<or> Fragment uri \<noteq> '''' then None
      else
        let parts = split_on CHR ''/'' (trim_byte CHR ''/'' (urlPath uri)) in
        if length parts \<noteq> 5 \<or> parts ! 0 \<noteq> ''typeclaw'' \<or> parts ! 1 \<noteq> ''ns'' \<or> parts ! 3 \<noteq> ''instance'' \<or>
           parts ! 2 = '''' \<or> parts ! 4 = ''''
        then None
        else Some \<lparr>idNamespace = parts ! 2, idInstance = parts ! 4\<rparr>)"

fun scanURIs :: "string \<Rightarrow> url list \<Rightarrow> brokerIdentity option \<Rightarrow> brokerIdentity option option" where
  "scanURIs trust [] found = Some found"
| "scanURIs trust (uri # uris) found =
     (case ParseSPIFFEID uri trust of
        None \<Rightarrow> scanURIs trust uris found
      | Some candidate \<Rightarrow> if found \<noteq> None then None else scanURIs trust uris (Some candidate))"

text \<open>The two nested loops visit the URIs of all certificates in order.\<close>

definition identityFromRequest :: "broker_request \<Rightarrow> string \<Rightarrow> brokerIdentity option" where
  "identityFromRequest r trust =
     (case peerURIs r of
        None \<Rightarrow> None
      | Some [] \<Rightarrow> None
      | Some certs \<Rightarrow> (case scanURIs trust (concat certs) None of None \<Rightarrow> None | Some found \<Rightarrow> found))"

definition trustDomain :: "('w, 'e) Broker \<Rightarrow> string" where
  "trustDomain b = (if TrustDomain b \<noteq> '''' then TrustDomain b else ''typeclaw.local'')"

section \<open>Handlers\<close>

type_synonym broker_response = "nat \<times> broker_body"

abbreviation TicketTTL :: int where "TicketTTL \<equiv> 300 * 1000000000"

definition newRequest ::
  "('w, 'e) Broker \<Rightarrow> brokerIdentity \<Rightarrow> githubCreateIssueRequest \<Rightarrow> CredentialPolicySpec \<Rightarrow> string
     \<Rightarrow> CredentialRequest" where
  "newRequest b identity input policy digest =
     \<lparr>rqName = RequestName digest, rqNamespace = idNamespace identity,
      rqLabels = [(''typeclaw.fml09.io/instance'', idInstance identity),
                  (''typeclaw.fml09.io/credential-request'', RequestName digest)],
      rqDeleting = False, rqFinalizers = [],
      rqGeneration = 0, rqOwner = None,
      rqSpec = \<lparr>specInstance = idInstance identity, specConsumer = ''github'',
        specOperation = CredentialOperationGitHubCreateIssue, specTicketDigest = digest,
        specExpiresAt = Some (brNow b + TicketTTL), specSecretBinding = policySecret policy,
        specRepository = inRepository input, specTitle = inTitle input, specBody = inBody input\<rparr>,
      rqStatus = \<lparr>stPhase = CredentialPhaseUnset, stRunnerName = '''', stPodUID = '''', stSpecDigest = '''',
        stSecretUID = '''', stSecretResourceVersion = '''', stTicketConsumedAt = None, stResult = None,
        stErrorCode = '''', stObservedGeneration = 0\<rparr>\<rparr>"

definition handleNew ::
  "('w, 'e) Broker \<Rightarrow> brokerIdentity \<Rightarrow> githubCreateIssueRequest \<Rightarrow> 'w \<Rightarrow> broker_response \<times> 'w" where
  "handleNew b identity input w =
     (case (Reader b, Writer b) of
        (Some reader, Some writer) \<Rightarrow>
         (case brGetInstance reader (idNamespace identity) (idInstance identity) w of
            (Inl err, w1) \<Rightarrow>
              (if IsNotFound (brApi b) err then (StatusForbidden, BrokerError ErrorCodePolicyDenied)
               else (StatusServiceUnavailable, BrokerError ''broker_unavailable''), w1)
          | (Inr inst, w1) \<Rightarrow>
             (case AuthorizePolicy (ciPolicy inst) ''github'' CredentialOperationGitHubCreateIssue
                     (inRepository input) of
                Inl _ \<Rightarrow> ((StatusForbidden, BrokerError ErrorCodePolicyDenied), w1)
              | Inr _ \<Rightarrow>
                 (case NewTicket (brSha256 b) (TicketSource b) of
                    Inl _ \<Rightarrow> ((StatusServiceUnavailable, BrokerError ''ticket_unavailable''), w1)
                  | Inr (ticket, digest) \<Rightarrow>
                     (case writer (newRequest b identity input (the (ciPolicy inst)) digest) w1 of
                        (Some err, w2) \<Rightarrow>
                          (if IsAlreadyExists (brApi b) err then (StatusConflict, BrokerError ''ticket_collision'')
                           else (StatusServiceUnavailable, BrokerError ''broker_unavailable''), w2)
                      | (None, w2) \<Rightarrow>
                          ((StatusAccepted, BrokerStatus CredentialPhasePending (RequestName digest) ticket None ''''),
                           w2)))))
      | _ \<Rightarrow> ((StatusServiceUnavailable, BrokerError ''broker_unavailable''), w))"

definition writeRequestStatus :: "CredentialRequest \<Rightarrow> string \<Rightarrow> broker_response" where
  "writeRequestStatus request ticket =
     (let phase = (if stPhase (rqStatus request) = CredentialPhaseUnset then CredentialPhasePending
                   else stPhase (rqStatus request)) in
      (case phase of
         CredentialPhaseSucceeded \<Rightarrow> StatusOK
       | CredentialPhaseDenied \<Rightarrow> StatusForbidden
       | CredentialPhaseFailed \<Rightarrow> StatusConflict
       | CredentialPhaseUnknownOutcome \<Rightarrow> StatusConflict
       | _ \<Rightarrow> StatusAccepted,
       BrokerStatus phase (rqName request) ticket (stResult (rqStatus request)) (stErrorCode (rqStatus request))))"

definition expired :: "int \<Rightarrow> int option \<Rightarrow> bool" where
  "expired now expiresAt = (case expiresAt of None \<Rightarrow> True | Some t \<Rightarrow> \<not> now < t)"

definition ticketMatches :: "string \<Rightarrow> brokerIdentity \<Rightarrow> githubCreateIssueRequest \<Rightarrow> CredentialRequestSpec \<Rightarrow> bool" where
  "ticketMatches digest identity input spec \<longleftrightarrow>
     \<not> (specInstance spec \<noteq> idInstance identity \<or> specConsumer spec \<noteq> ''github'' \<or>
        specOperation spec \<noteq> CredentialOperationGitHubCreateIssue \<or> specRepository spec \<noteq> inRepository input \<or>
        specTitle spec \<noteq> inTitle input \<or> specBody spec \<noteq> inBody input \<or> specTicketDigest spec \<noteq> digest)"

definition handleRetry ::
  "('w, 'e) Broker \<Rightarrow> brokerIdentity \<Rightarrow> githubCreateIssueRequest \<Rightarrow> 'w \<Rightarrow> broker_response \<times> 'w" where
  "handleRetry b identity input w =
     (case Reader b of
        None \<Rightarrow> ((StatusServiceUnavailable, BrokerError ''broker_unavailable''), w)
      | Some reader \<Rightarrow>
          if ValidateTicket (inTicket input) \<noteq> None
          then ((StatusUnauthorized, BrokerError ''invalid_ticket''), w)
          else
            let digest = TicketDigest (brSha256 b) (inTicket input) in
            (case brGetRequest reader (idNamespace identity) (RequestName digest) w of
               (Inl err, w1) \<Rightarrow>
                 (if IsNotFound (brApi b) err then (StatusNotFound, BrokerError ''UnknownOutcome'')
                  else (StatusServiceUnavailable, BrokerError ''broker_unavailable''), w1)
             | (Inr request, w1) \<Rightarrow>
                 (if expired (brNow b) (specExpiresAt (rqSpec request))
                  then (StatusGone, BrokerError ErrorCodeTicketExpired)
                  else if \<not> ticketMatches digest identity input (rqSpec request)
                  then (StatusForbidden, BrokerError ''ticket_mismatch'')
                  else writeRequestStatus request (inTicket input), w1)))"

definition ServeHTTP :: "('w, 'e) Broker \<Rightarrow> broker_request \<Rightarrow> 'w \<Rightarrow> broker_response \<times> 'w" where
  "ServeHTTP b r w =
     (if brMethod r \<noteq> ''POST'' \<or> brPath r \<noteq> ''/v1/github/create-issue''
      then ((StatusNotFound, BrokerError ''not_found''), w)
      else (case identityFromRequest r (trustDomain b) of
          None \<Rightarrow> ((StatusUnauthorized, BrokerError ''spiffe_required''), w)
        | Some identity \<Rightarrow>
            let limit = (if MaxBodySize b \<le> 0 then 131072 else MaxBodySize b);
                invalid = ((StatusBadRequest, BrokerError ''typed_request_invalid''), w)
            in if limit < int (length (brBody r)) then invalid
               else (case decodeInput b (brBody r) of
                   None \<Rightarrow> invalid
                 | Some input \<Rightarrow>
                     if ValidateGitHubCreateIssue (inRepository input) (inTitle input) (inBody input) \<noteq> None
                     then invalid
                     else if inTicket input \<noteq> '''' then handleRetry b identity input w
                     else handleNew b identity input w)))"

section \<open>Facts\<close>

lemma AuthorizePolicy_Inr:
  assumes "AuthorizePolicy policy consumer operation repository = Inr mode"
  shows "\<exists>p. policy = Some p \<and> ValidateSecretBinding (policySecret p) = None \<and>
    operation = CredentialOperationGitHubCreateIssue \<and>
    (\<exists>c \<in> set (Consumers p). consumerName c = consumer \<and> operation \<in> set (Operations c) \<and>
       repository \<in> set (AllowedRepositories c) \<and> AccessMode c = mode \<and>
       mode \<in> {CredentialAccessConfirm, CredentialAccessPreAuthorized, CredentialAccessBypass} \<and>
       (mode = CredentialAccessBypass \<longrightarrow> AllowBypass p))"
  using assms authorizeConsumer_Inr
  by (auto simp: AuthorizePolicy_def split: option.splits if_splits)

lemma five_parts:
  "length parts = 5 \<Longrightarrow> parts = [parts ! 0, parts ! 1, parts ! 2, parts ! 3, parts ! 4]"
  by (simp add: list_eq_iff_nth_eq numeral_eq_Suc less_Suc_eq)

lemma ParseSPIFFEID_iff:
  "ParseSPIFFEID uri trust = Some i \<longleftrightarrow>
     Scheme uri = ''spiffe'' \<and> urlHost uri = trust \<and> RawQuery uri = '''' \<and> Fragment uri = '''' \<and>
     trim_byte CHR ''/'' (urlPath uri) = ''typeclaw/ns/'' @ idNamespace i @ ''/instance/'' @ idInstance i \<and>
     idNamespace i \<noteq> '''' \<and> CHR ''/'' \<notin> set (idNamespace i) \<and>
     idInstance i \<noteq> '''' \<and> CHR ''/'' \<notin> set (idInstance i)"
  (is "?lhs = ?rhs")
proof
  assume ?lhs
  define parts where "parts = split_on CHR ''/'' (trim_byte CHR ''/'' (urlPath uri))"
  have checks: "Scheme uri = ''spiffe''" "urlHost uri = trust" "RawQuery uri = ''''" "Fragment uri = ''''"
    "length parts = 5" "parts ! 0 = ''typeclaw''" "parts ! 1 = ''ns''" "parts ! 3 = ''instance''"
    "parts ! 2 \<noteq> ''''" "parts ! 4 \<noteq> ''''" "i = \<lparr>idNamespace = parts ! 2, idInstance = parts ! 4\<rparr>"
    using \<open>?lhs\<close> by (auto simp: ParseSPIFFEID_def Let_def parts_def [symmetric] split: if_splits)
  have path: "trim_byte CHR ''/'' (urlPath uri) = join_with CHR ''/'' parts"
    by (simp add: parts_def join_split)
  have "parts ! 2 \<in> set parts" "parts ! 4 \<in> set parts" using checks(5) by simp_all
  then have "CHR ''/'' \<notin> set (parts ! 2)" "CHR ''/'' \<notin> set (parts ! 4)"
    unfolding parts_def by (auto dest: split_on_no_sep)
  moreover obtain a c where ac: "parts ! 2 = a" "parts ! 4 = c" by blast
  moreover have "parts = [''typeclaw'', ''ns'', a, ''instance'', c]"
    using five_parts [OF checks(5)] unfolding checks(6,7,8) ac .
  ultimately show ?rhs
    using checks path by (simp only: join_with.simps) simp
next
  assume rhs: ?rhs
  then have "trim_byte CHR ''/'' (urlPath uri) =
      join_with CHR ''/'' [''typeclaw'', ''ns'', idNamespace i, ''instance'', idInstance i]"
    by simp
  then have "split_on CHR ''/'' (trim_byte CHR ''/'' (urlPath uri)) =
      [''typeclaw'', ''ns'', idNamespace i, ''instance'', idInstance i]"
    using rhs by (simp only:) (rule split_join, auto)
  with rhs show ?lhs by (simp add: ParseSPIFFEID_def)
qed

end
