(* ===== verification/Credential_Controller.thy ===== *)
theory Credential_Controller
  imports Credential_Runner Broker
begin

text \<open>
  The controller that turns a CredentialRequest into at most one Runner Job
  (\<^verbatim>\<open>internal/controller/credential_controller.go\<close>). A reconciliation is a program over the log of
  the calls made to the cluster. The cluster is a parameter: every answer may depend on the whole
  log, so it covers concurrent writers, failures and restarts of the operator between calls.
\<close>

section \<open>Cluster and log\<close>

datatype event =
    EvRead string
  | EvUpdate CredentialRequest bool
  | EvStatus CredentialRequestStatus bool
  | EvApplyPolicy network_policy bool
  | EvDeletePolicy string bool
  | EvCreateJob job bool
  | EvDeleteJob string bool

type_synonym clog = "event list"
type_synonym 'a act = "(clog, 'a) state"

record pod_status =
  psUID :: string
  psTerminated :: "(string \<times> string option) list"

record ('e) cluster =
  clGetRequest :: "clog \<Rightarrow> 'e + CredentialRequest"
  clUpdate :: "clog \<Rightarrow> CredentialRequest \<Rightarrow> 'e + CredentialRequest"
  clPatchStatus :: "clog \<Rightarrow> CredentialRequest \<Rightarrow> 'e + CredentialRequest"
  clGetInstance :: "clog \<Rightarrow> string \<Rightarrow> string \<Rightarrow> 'e + CredentialInstance"
  clGetApproval :: "clog \<Rightarrow> string \<Rightarrow> string \<Rightarrow> 'e + CredentialApproval"
  clSecretMetadata :: "(clog \<Rightarrow> string \<Rightarrow> string \<Rightarrow> 'e + string \<times> string) option"
  clApplyPolicy :: "clog \<Rightarrow> network_policy \<Rightarrow> 'e option"
  clDeletePolicy :: "clog \<Rightarrow> string \<Rightarrow> 'e option"
  clGetJob :: "clog \<Rightarrow> string \<Rightarrow> 'e + int \<times> int"
  clCreateJob :: "clog \<Rightarrow> job \<Rightarrow> 'e option"
  clDeleteJob :: "clog \<Rightarrow> string \<Rightarrow> 'e option"
  clListPods :: "clog \<Rightarrow> string \<Rightarrow> 'e + pod_status list"
  clSetOwner :: "'e option"
  clMarshalSpec :: "CredentialRequestSpec \<Rightarrow> 'e + string"
  clSha256 :: "string \<Rightarrow> nat list"
  clNow :: "clog \<Rightarrow> int"
  clApi :: "'e api_errors"
  clCodec :: result_codec

datatype 'e reconcile_error = ApiFailed 'e | OwnError string | BindingError

definition perform :: "(clog \<Rightarrow> 'r) \<Rightarrow> ('r \<Rightarrow> event) \<Rightarrow> 'r act" where
  "perform f ev = State (\<lambda>l. (f l, l @ [ev (f l)]))"

definition ok :: "'e + 'a \<Rightarrow> bool" where
  "ok r = (case r of Inl _ \<Rightarrow> False | Inr _ \<Rightarrow> True)"

definition getRequest :: "'e cluster \<Rightarrow> ('e + CredentialRequest) act" where
  "getRequest cl = perform (clGetRequest cl) (\<lambda>_. EvRead ''request'')"

definition updateRequest :: "'e cluster \<Rightarrow> CredentialRequest \<Rightarrow> ('e + CredentialRequest) act" where
  "updateRequest cl request = perform (\<lambda>l. clUpdate cl l request) (\<lambda>r. EvUpdate request (ok r))"

definition patchStatus :: "'e cluster \<Rightarrow> CredentialRequest \<Rightarrow> ('e + CredentialRequest) act" where
  "patchStatus cl request = perform (\<lambda>l. clPatchStatus cl l request) (\<lambda>r. EvStatus (rqStatus request) (ok r))"

definition createJob :: "'e cluster \<Rightarrow> job \<Rightarrow> 'e option act" where
  "createJob cl j = perform (\<lambda>l. clCreateJob cl l j) (\<lambda>r. EvCreateJob j (r = None))"

definition deleteJob :: "'e cluster \<Rightarrow> string \<Rightarrow> 'e option act" where
  "deleteJob cl name = perform (\<lambda>l. clDeleteJob cl l name) (\<lambda>r. EvDeleteJob name (r = None))"

definition applyPolicy :: "'e cluster \<Rightarrow> network_policy \<Rightarrow> 'e option act" where
  "applyPolicy cl np = perform (\<lambda>l. clApplyPolicy cl l np) (\<lambda>r. EvApplyPolicy np (r = None))"

definition deletePolicy :: "'e cluster \<Rightarrow> string \<Rightarrow> 'e option act" where
  "deletePolicy cl name = perform (\<lambda>l. clDeletePolicy cl l name) (\<lambda>r. EvDeletePolicy name (r = None))"

section \<open>Status updates\<close>

type_synonym 'e outcome = "'e reconcile_error + int"

abbreviation credentialRequeue :: int where "credentialRequeue \<equiv> 5 * 1000000000"

definition setStatus ::
  "'e cluster \<Rightarrow> CredentialRequest \<Rightarrow> (CredentialRequestStatus \<Rightarrow> CredentialRequestStatus)
     \<Rightarrow> ('e reconcile_error + CredentialRequest) act" where
  "setStatus cl request mutate =
     do {
       r \<leftarrow> patchStatus cl (request\<lparr>rqStatus := (mutate (rqStatus request))\<lparr>stObservedGeneration := rqGeneration request\<rparr>\<rparr>);
       State_Monad.return (case r of Inl err \<Rightarrow> Inl (ApiFailed err) | Inr request' \<Rightarrow> Inr request')
     }"

definition endWith :: "int \<Rightarrow> ('e reconcile_error + 'a) act \<Rightarrow> 'e outcome act" where
  "endWith requeue m =
     do { r \<leftarrow> m; State_Monad.return (case r of Inl err \<Rightarrow> Inl err | Inr _ \<Rightarrow> Inr requeue) }"

definition deny :: "string \<Rightarrow> CredentialRequestStatus \<Rightarrow> CredentialRequestStatus" where
  "deny c st = st\<lparr>stPhase := CredentialPhaseDenied, stErrorCode := c\<rparr>"

definition denyDigest :: "string \<Rightarrow> string \<Rightarrow> CredentialRequestStatus \<Rightarrow> CredentialRequestStatus" where
  "denyDigest digest c st = (deny c st)\<lparr>stSpecDigest := digest\<rparr>"

definition unknownOutcome ::
  "'e cluster \<Rightarrow> CredentialRequest \<Rightarrow> bool \<Rightarrow> 'e outcome act" where
  "unknownOutcome cl request bindingCause =
     do {
       deleted \<leftarrow> (if stRunnerName (rqStatus request) \<noteq> '''' then deleteJob cl (stRunnerName (rqStatus request))
                   else State_Monad.return None);
       (case deleted of
          Some err \<Rightarrow>
            if \<not> IsNotFound (clApi cl) err then State_Monad.return (Inl (ApiFailed err))
            else endWith 0 (setStatus cl request (\<lambda>st. st\<lparr>stPhase := CredentialPhaseUnknownOutcome,
              stErrorCode := (if bindingCause then ErrorCodeSecretBinding else ErrorCodeRunnerFailed)\<rparr>))
        | None \<Rightarrow> endWith 0 (setStatus cl request (\<lambda>st. st\<lparr>stPhase := CredentialPhaseUnknownOutcome,
              stErrorCode := (if bindingCause then ErrorCodeSecretBinding else ErrorCodeRunnerFailed)\<rparr>)))
     }"

section \<open>Finalizers and network policy\<close>

abbreviation credentialRequestFinalizer :: string where
  "credentialRequestFinalizer \<equiv> ''typeclaw.fml09.io/credential-request''"

definition hasFinalizer :: "CredentialRequest \<Rightarrow> string \<Rightarrow> bool" where
  "hasFinalizer request want = list_ex (\<lambda>f. f = want) (rqFinalizers request)"

definition removeFinalizer :: "'e cluster \<Rightarrow> CredentialRequest \<Rightarrow> 'e outcome act" where
  "removeFinalizer cl request =
     (if \<not> hasFinalizer request credentialRequestFinalizer then State_Monad.return (Inr 0)
      else do {
        r \<leftarrow> updateRequest cl (request\<lparr>rqFinalizers := filter (\<lambda>f. f \<noteq> credentialRequestFinalizer) (rqFinalizers request)\<rparr>);
        State_Monad.return (case r of Inl err \<Rightarrow> Inl (ApiFailed err) | Inr _ \<Rightarrow> Inr 0)
      })"

definition cleanupRunnerNetworkPolicy :: "'e cluster \<Rightarrow> CredentialRequest \<Rightarrow> ('e reconcile_error + unit) act" where
  "cleanupRunnerNetworkPolicy cl request =
     do {
       r \<leftarrow> deletePolicy cl (CredentialRunnerNetworkPolicyName (rqName request));
       State_Monad.return (case r of Some err \<Rightarrow> if \<not> IsNotFound (clApi cl) err then Inl (ApiFailed err) else Inr ()
                           | None \<Rightarrow> Inr ())
     }"

definition ensureRunnerNetworkPolicy ::
  "'e cluster \<Rightarrow> CredentialInstance \<Rightarrow> CredentialRequest \<Rightarrow> ('e reconcile_error + unit) act" where
  "ensureRunnerNetworkPolicy cl inst request =
     (case clSetOwner cl of
        Some err \<Rightarrow> State_Monad.return (Inl (ApiFailed err))
      | None \<Rightarrow> do {
          r \<leftarrow> applyPolicy cl (CredentialRunnerNetworkPolicy inst request);
          State_Monad.return (case r of Some err \<Rightarrow> Inl (ApiFailed err) | None \<Rightarrow> Inr ())
        })"

definition revokeRunner :: "'e cluster \<Rightarrow> CredentialRequest \<Rightarrow> ('e reconcile_error + CredentialRequest) act" where
  "revokeRunner cl request =
     (if stRunnerName (rqStatus request) \<noteq> '''' \<and> \<not> IsTerminal (stPhase (rqStatus request))
      then do {
        r \<leftarrow> deleteJob cl (stRunnerName (rqStatus request));
        (case r of
           Some err \<Rightarrow>
             if \<not> IsNotFound (clApi cl) err then State_Monad.return (Inl (ApiFailed err))
             else setStatus cl request (\<lambda>st. st\<lparr>stPhase := CredentialPhaseUnknownOutcome, stErrorCode := ErrorCodeRunnerFailed\<rparr>)
         | None \<Rightarrow> setStatus cl request (\<lambda>st. st\<lparr>stPhase := CredentialPhaseUnknownOutcome, stErrorCode := ErrorCodeRunnerFailed\<rparr>))
      }
      else State_Monad.return (Inr request))"

definition revokeAndRemoveFinalizer :: "'e cluster \<Rightarrow> CredentialRequest \<Rightarrow> 'e outcome act" where
  "revokeAndRemoveFinalizer cl request =
     do {
       r \<leftarrow> revokeRunner cl request;
       (case r of
          Inl err \<Rightarrow> State_Monad.return (Inl err)
        | Inr request1 \<Rightarrow> do {
            c \<leftarrow> cleanupRunnerNetworkPolicy cl request1;
            (case c of Inl err \<Rightarrow> State_Monad.return (Inl err) | Inr _ \<Rightarrow> removeFinalizer cl request1)
          })
     }"

section \<open>Observing the Runner\<close>

fun scanTerminated :: "result_codec \<Rightarrow> (string \<times> string option) list \<Rightarrow> (string + RunnerResult) option" where
  "scanTerminated codec [] = None"
| "scanTerminated codec ((name, message) # rest) =
     (case message of
        None \<Rightarrow> scanTerminated codec rest
      | Some text \<Rightarrow>
          if name \<noteq> ''credential-runner'' then scanTerminated codec rest
          else if text = '''' then Some (Inl ''Runner result channel is empty'')
          else Some (DecodeRunnerResult codec text))"

fun scanPods :: "result_codec \<Rightarrow> pod_status list \<Rightarrow> string + RunnerResult \<times> string" where
  "scanPods codec [] = Inl ''Runner result Pod is unavailable''"
| "scanPods codec (pod # pods) =
     (case scanTerminated codec (psTerminated pod) of
        None \<Rightarrow> scanPods codec pods
      | Some (Inl err) \<Rightarrow> Inl err
      | Some (Inr result) \<Rightarrow> Inr (result, psUID pod))"

definition listPods :: "'e cluster \<Rightarrow> CredentialRequest \<Rightarrow> ('e + pod_status list) act" where
  "listPods cl request = perform (\<lambda>l. clListPods cl l (rqName request)) (\<lambda>_. EvRead ''pods'')"

definition runnerPodUID :: "pod_status list \<Rightarrow> string" where
  "runnerPodUID pods = (case find (\<lambda>p. psUID p \<noteq> '''') pods of None \<Rightarrow> '''' | Some p \<Rightarrow> psUID p)"

definition observeRunner :: "'e cluster \<Rightarrow> CredentialRequest \<Rightarrow> 'e outcome act" where
  "observeRunner cl request =
     do {
       j \<leftarrow> perform (\<lambda>l. clGetJob cl l (stRunnerName (rqStatus request))) (\<lambda>_. EvRead ''job'');
       (case j of
          Inl err \<Rightarrow> if IsNotFound (clApi cl) err then unknownOutcome cl request False
                     else State_Monad.return (Inl (ApiFailed err))
        | Inr (succeeded, failed) \<Rightarrow>
            if 0 < succeeded then do {
              pods \<leftarrow> listPods cl request;
              (case (case pods of Inl err \<Rightarrow> Inl '''' | Inr ps \<Rightarrow> scanPods (clCodec cl) ps) of
                 Inl _ \<Rightarrow> unknownOutcome cl request False
               | Inr (result, uid) \<Rightarrow>
                   if rrErrorCode result \<noteq> ''''
                   then endWith 0 (setStatus cl request (\<lambda>st. st\<lparr>stPhase := CredentialPhaseFailed, stPodUID := uid,
                          stErrorCode := rrErrorCode result\<rparr>))
                   else endWith 0 (setStatus cl request (\<lambda>st. st\<lparr>stPhase := CredentialPhaseSucceeded, stPodUID := uid,
                          stResult := rrResult result, stErrorCode := ''''\<rparr>)))
            }
            else if 0 < failed then unknownOutcome cl request False
            else if stPhase (rqStatus request) \<noteq> CredentialPhaseRunning then do {
              pods \<leftarrow> listPods cl request;
              (case pods of
                 Inl err \<Rightarrow> State_Monad.return (Inl (ApiFailed err))
               | Inr ps \<Rightarrow> endWith credentialRequeue (setStatus cl request (\<lambda>st. st\<lparr>stPhase := CredentialPhaseRunning,
                   stPodUID := (if runnerPodUID ps \<noteq> '''' then runnerPodUID ps else stPodUID st)\<rparr>)))
            }
            else State_Monad.return (Inr credentialRequeue))
     }"

section \<open>Reconciliation\<close>

definition bindRequest ::
  "'e cluster \<Rightarrow> CredentialRequest \<Rightarrow> CredentialInstance \<Rightarrow> ('e reconcile_error + CredentialRequest) act" where
  "bindRequest cl request inst =
     (case rqOwner request of
        Some (uid, name) \<Rightarrow>
          if uid \<noteq> ciUID inst \<or> name \<noteq> ciName inst then setStatus cl request (deny ErrorCodePolicyDenied)
          else State_Monad.return (Inr request)
      | None \<Rightarrow>
         (case clSetOwner cl of
            Some err \<Rightarrow> State_Monad.return (Inl (ApiFailed err))
          | None \<Rightarrow> do {
              r \<leftarrow> updateRequest cl (request\<lparr>rqOwner := Some (ciUID inst, ciName inst)\<rparr>);
              State_Monad.return (case r of Inl err \<Rightarrow> Inl (ApiFailed err) | Inr request' \<Rightarrow> Inr request')
            }))"

definition approval :: "'e cluster \<Rightarrow> CredentialRequest \<Rightarrow> ('e reconcile_error + CredentialApproval) act" where
  "approval cl request =
     do {
       r \<leftarrow> perform (\<lambda>l. clGetApproval cl l (rqNamespace request) (rqName request @ ''-approval'')) (\<lambda>_. EvRead ''approval'');
       State_Monad.return (case r of
          Inl err \<Rightarrow> Inl (ApiFailed err)
        | Inr a \<Rightarrow> if apRequestName a \<noteq> rqName request then Inl (OwnError ''approval targets a different request'')
                   else Inr a)
     }"

definition secretMetadata ::
  "'e cluster \<Rightarrow> CredentialRequest \<Rightarrow> CredentialSecretRef \<Rightarrow> ('e reconcile_error + string \<times> string) act" where
  "secretMetadata cl request ref =
     (case clSecretMetadata cl of
        None \<Rightarrow> State_Monad.return (Inl (OwnError ''Secret metadata reader is unavailable''))
      | Some reader \<Rightarrow> do {
          r \<leftarrow> perform (\<lambda>l. reader l (rqNamespace request) (refName ref)) (\<lambda>_. EvRead ''secret'');
          State_Monad.return (case r of
             Inl err \<Rightarrow> Inl (ApiFailed err)
           | Inr (uid, version) \<Rightarrow>
               if uid \<noteq> refUID ref \<or> version \<noteq> refResourceVersion ref then Inl BindingError
               else Inr (uid, version))
        })"

definition consumeTicket ::
  "'e cluster \<Rightarrow> CredentialRequest \<Rightarrow> string \<Rightarrow> string \<times> string \<Rightarrow> string
     \<Rightarrow> ('e reconcile_error + CredentialRequest) act" where
  "consumeTicket cl request digest metadata runner =
     do {
       now \<leftarrow> perform (clNow cl) (\<lambda>_. EvRead ''clock'');
       r \<leftarrow> patchStatus cl (request\<lparr>rqStatus := (rqStatus request)\<lparr>stPhase := CredentialPhaseTicketConsumed,
              stSpecDigest := digest, stRunnerName := runner, stSecretUID := fst metadata,
              stSecretResourceVersion := snd metadata, stErrorCode := '''', stTicketConsumedAt := Some now\<rparr>\<rparr>);
       State_Monad.return (case r of Inl err \<Rightarrow> Inl (ApiFailed err) | Inr request' \<Rightarrow> Inr request')
     }"

text \<open>The last part of \<^verbatim>\<open>Reconcile\<close>: consume the ticket, then create the Job unless one was found.\<close>

definition launchRunner ::
  "'e cluster \<Rightarrow> CredentialInstance \<Rightarrow> CredentialRequest \<Rightarrow> string \<Rightarrow> string \<times> string \<Rightarrow> 'e outcome act" where
  "launchRunner cl inst request digest metadata =
     do {
       let runner = CredentialRunnerJobName (rqName request);
       j \<leftarrow> perform (\<lambda>l. clGetJob cl l runner) (\<lambda>_. EvRead ''job'');
       (if \<not> ok j \<and> \<not> IsNotFound (clApi cl) (projl j) then State_Monad.return (Inl (ApiFailed (projl j)))
        else do {
          consumed \<leftarrow> consumeTicket cl request digest metadata runner;
          (case consumed of
             Inl err \<Rightarrow> State_Monad.return (Inl err)
           | Inr request1 \<Rightarrow>
               if ok j then State_Monad.return (Inr credentialRequeue)
               else (case CredentialRunnerJob inst request1 of
                  Inl err \<Rightarrow> unknownOutcome cl request1 (err = RunnerInvalid ErrSecretBinding)
                | Inr jb \<Rightarrow>
                   (case clSetOwner cl of
                      Some err \<Rightarrow> unknownOutcome cl request1 False
                    | None \<Rightarrow> do {
                        created \<leftarrow> createJob cl jb;
                        (case created of
                           Some err \<Rightarrow>
                             if \<not> IsAlreadyExists (clApi cl) err then unknownOutcome cl request1 False
                             else State_Monad.return (Inr credentialRequeue)
                         | None \<Rightarrow> State_Monad.return (Inr credentialRequeue))
                      })))
        })
     }"

definition runPhase ::
  "'e cluster \<Rightarrow> CredentialInstance \<Rightarrow> CredentialRequest \<Rightarrow> string \<Rightarrow> 'e outcome act" where
  "runPhase cl inst request digest =
     do {
       m \<leftarrow> secretMetadata cl request (specSecretBinding (rqSpec request));
       (case m of
          Inl BindingError \<Rightarrow> endWith 0 (setStatus cl request (denyDigest digest ErrorCodeSecretBinding))
        | Inl _ \<Rightarrow>
            if stRunnerName (rqStatus request) \<noteq> '''' then unknownOutcome cl request False
            else endWith credentialRequeue (setStatus cl request (\<lambda>st. st\<lparr>stPhase := CredentialPhasePending,
                   stSpecDigest := digest, stErrorCode := ErrorCodeSecretBinding\<rparr>))
        | Inr metadata \<Rightarrow>
            if stRunnerName (rqStatus request) \<noteq> '''' \<and>
               (fst metadata \<noteq> stSecretUID (rqStatus request) \<or>
                snd metadata \<noteq> stSecretResourceVersion (rqStatus request))
            then unknownOutcome cl request False
            else do {
              p \<leftarrow> ensureRunnerNetworkPolicy cl inst request;
              (case p of
                 Inl err \<Rightarrow> State_Monad.return (Inl err)
               | Inr _ \<Rightarrow>
                   if stRunnerName (rqStatus request) \<noteq> '''' then observeRunner cl request
                   else launchRunner cl inst request digest metadata)
            })
     }"

definition authorizePhase ::
  "'e cluster \<Rightarrow> CredentialInstance \<Rightarrow> CredentialRequest \<Rightarrow> string \<Rightarrow> 'e outcome act" where
  "authorizePhase cl inst request digest =
     (let spec = rqSpec request in
      case AuthorizePolicy (ciPolicy inst) (specConsumer spec) (specOperation spec) (specRepository spec) of
        Inl err \<Rightarrow>
          if stRunnerName (rqStatus request) \<noteq> '''' then unknownOutcome cl request False
          else endWith 0 (setStatus cl request (denyDigest digest ErrorCodePolicyDenied))
      | Inr mode \<Rightarrow>
          if policySecret (the (ciPolicy inst)) \<noteq> specSecretBinding spec
          then (if stRunnerName (rqStatus request) \<noteq> '''' then unknownOutcome cl request True
                else endWith 0 (setStatus cl request (denyDigest digest ErrorCodeSecretBinding)))
          else if mode = CredentialAccessConfirm
          then do {
            a \<leftarrow> approval cl request;
            (case a of
               Inl (ApiFailed err) \<Rightarrow>
                 if IsNotFound (clApi cl) err
                 then endWith credentialRequeue (setStatus cl request (\<lambda>st. st\<lparr>stPhase := CredentialPhasePendingApproval,
                        stSpecDigest := digest\<rparr>))
                 else State_Monad.return (Inl (ApiFailed err))
             | Inl err \<Rightarrow> State_Monad.return (Inl err)
             | Inr ap \<Rightarrow>
                 if apDecision ap = CredentialDecisionDeny
                 then endWith 0 (setStatus cl request (denyDigest digest ErrorCodeApprovalDenied))
                 else if apDecision ap \<noteq> CredentialDecisionApprove then State_Monad.return (Inr credentialRequeue)
                 else runPhase cl inst request digest)
          }
          else runPhase cl inst request digest)"

definition credentialSpecDigest :: "'e cluster \<Rightarrow> CredentialRequestSpec \<Rightarrow> 'e + string" where
  "credentialSpecDigest cl spec =
     (case clMarshalSpec cl spec of
        Inl err \<Rightarrow> Inl err
      | Inr encoded \<Rightarrow> Inr (hexEncode (clSha256 cl encoded)))"

definition checkedPhase ::
  "'e cluster \<Rightarrow> CredentialInstance \<Rightarrow> CredentialRequest \<Rightarrow> 'e outcome act" where
  "checkedPhase cl inst request =
     (if IsTerminal (stPhase (rqStatus request)) then State_Monad.return (Inr 0)
      else (case credentialSpecDigest cl (rqSpec request) of
          Inl err \<Rightarrow> State_Monad.return (Inl (ApiFailed err))
        | Inr digest \<Rightarrow>
            if stSpecDigest (rqStatus request) \<noteq> '''' \<and> stSpecDigest (rqStatus request) \<noteq> digest
            then endWith 0 (setStatus cl request (deny ErrorCodePolicyDenied))
            else do {
              now \<leftarrow> perform (clNow cl) (\<lambda>_. EvRead ''clock'');
              (if expired now (specExpiresAt (rqSpec request))
               then endWith 0 (setStatus cl request (denyDigest digest ErrorCodeTicketExpired))
               else authorizePhase cl inst request digest)
            }))"

definition boundPhase :: "'e cluster \<Rightarrow> CredentialRequest \<Rightarrow> 'e outcome act" where
  "boundPhase cl request =
     do {
       i \<leftarrow> perform (\<lambda>l. clGetInstance cl l (rqNamespace request) (specInstance (rqSpec request))) (\<lambda>_. EvRead ''instance'');
       (case i of
          Inl err \<Rightarrow>
            if IsNotFound (clApi cl) err then endWith 0 (setStatus cl request (deny ErrorCodePolicyDenied))
            else State_Monad.return (Inl (ApiFailed err))
        | Inr inst \<Rightarrow>
            if rqName request \<noteq> RequestName (specTicketDigest (rqSpec request))
            then endWith 0 (setStatus cl request (deny ErrorCodePolicyDenied))
            else do {
              b \<leftarrow> bindRequest cl request inst;
              (case b of Inl err \<Rightarrow> State_Monad.return (Inl err) | Inr request1 \<Rightarrow> checkedPhase cl inst request1)
            })
     }"

definition Reconcile :: "'e cluster \<Rightarrow> 'e outcome act" where
  "Reconcile cl =
     do {
       r \<leftarrow> getRequest cl;
       (case r of
          Inl err \<Rightarrow> State_Monad.return (if IsNotFound (clApi cl) err then Inr 0 else Inl (ApiFailed err))
        | Inr request \<Rightarrow>
            if rqDeleting request then revokeAndRemoveFinalizer cl request
            else if IsTerminal (stPhase (rqStatus request))
            then do {
              c \<leftarrow> cleanupRunnerNetworkPolicy cl request;
              (case c of Inl err \<Rightarrow> State_Monad.return (Inl err) | Inr _ \<Rightarrow> removeFinalizer cl request)
            }
            else if \<not> hasFinalizer request credentialRequestFinalizer
            then do {
              u \<leftarrow> updateRequest cl (request\<lparr>rqFinalizers := rqFinalizers request @ [credentialRequestFinalizer]\<rparr>);
              (case u of Inl err \<Rightarrow> State_Monad.return (Inl (ApiFailed err)) | Inr request1 \<Rightarrow> boundPhase cl request1)
            }
            else boundPhase cl request)
     }"

end
