(* ===== verification/Credential_Steps.thy ===== *)
theory Credential_Steps
  imports Credential_Controller
begin

text \<open>
  A logic for the programs of \<^verbatim>\<open>Credential_Controller\<close> that may stop after any call, and the invariant
  it carries through every reconciliation: a Job is created at most once, after the ticket was consumed.
\<close>

section \<open>A logic for reconciliations that may crash after any call\<close>

text \<open>
  \<open>triple P A m B\<close>: from a log that satisfies \<open>A\<close>, the run of \<open>m\<close> ends in a result and log that
  satisfy \<open>B\<close>, only appends to the log, and \<open>P\<close> holds of the log after every single call.
\<close>

definition extends :: "(clog \<Rightarrow> bool) \<Rightarrow> clog \<Rightarrow> clog \<Rightarrow> bool" where
  "extends P l l' \<longleftrightarrow> (\<exists>new. l' = l @ new \<and> (\<forall>k. P (l @ take k new)))"

definition triple :: "(clog \<Rightarrow> bool) \<Rightarrow> (clog \<Rightarrow> bool) \<Rightarrow> 'a act \<Rightarrow> ('a \<Rightarrow> clog \<Rightarrow> bool) \<Rightarrow> bool" where
  "triple P A m B \<longleftrightarrow>
     (\<forall>l. A l \<longrightarrow> B (fst (run_state m l)) (snd (run_state m l)) \<and> extends P l (snd (run_state m l)))"

lemma extends_refl: "P l \<Longrightarrow> extends P l l"
  by (auto simp: extends_def)

lemma extends_trans: "extends P l l' \<Longrightarrow> extends P l' l'' \<Longrightarrow> extends P l l''"
proof -
  assume "extends P l l'" "extends P l' l''"
  then obtain n1 n2 where n1: "l' = l @ n1" "\<And>k. P (l @ take k n1)"
    and n2: "l'' = l' @ n2" "\<And>k. P (l' @ take k n2)"
    by (auto simp: extends_def)
  have "P (l @ take k (n1 @ n2))" for k
  proof (cases "k \<le> length n1")
    case True
    then show ?thesis using n1(2) [of k] by simp
  next
    case False
    then show ?thesis using n2(2) [of "k - length n1"] n1(1) by simp
  qed
  with n1 n2 show ?thesis by (auto simp: extends_def)
qed

lemma triple_return: "(\<And>l. A l \<Longrightarrow> P l) \<Longrightarrow> (\<And>l. A l \<Longrightarrow> B x l) \<Longrightarrow> triple P A (State_Monad.return x) B"
  by (simp add: triple_def extends_refl)

lemma triple_bind:
  assumes "triple P A m C" and "\<And>x. triple P (C x) (f x) B"
  shows "triple P A (State_Monad.bind m f) B"
  unfolding triple_def
proof (intro allI impI)
  fix l assume "A l"
  obtain x l' where x: "run_state m l = (x, l')" by fastforce
  from assms(1) \<open>A l\<close> x have "C x l'" "extends P l l'" by (auto simp: triple_def)
  moreover from assms(2) [of x] \<open>C x l'\<close> have
    "B (fst (run_state (f x) l')) (snd (run_state (f x) l')) \<and> extends P l' (snd (run_state (f x) l'))"
    by (simp add: triple_def)
  ultimately show "B (fst (run_state (State_Monad.bind m f) l)) (snd (run_state (State_Monad.bind m f) l)) \<and>
      extends P l (snd (run_state (State_Monad.bind m f) l))"
    using x extends_trans [of P l l'] by simp
qed

lemma triple_conseq:
  "triple P A m B \<Longrightarrow> (\<And>l. A' l \<Longrightarrow> A l) \<Longrightarrow> (\<And>x l. B x l \<Longrightarrow> B' x l) \<Longrightarrow> triple P A' m B'"
  by (simp add: triple_def)

lemma triple_perform:
  assumes "\<And>l. A l \<Longrightarrow> P l" and "\<And>l. A l \<Longrightarrow> P (l @ [ev (f l)])" and "\<And>l. A l \<Longrightarrow> B (f l) (l @ [ev (f l)])"
  shows "triple P A (perform f ev) B"
proof -
  have "P (l @ take k [ev (f l)])" if "A l" for l k
    using assms(1,2) [OF that] by (cases k) auto
  then show ?thesis
    using assms(3) by (auto simp: triple_def perform_def extends_def)
qed

lemma triple_if:
  "(c \<Longrightarrow> triple P A m B) \<Longrightarrow> (\<not> c \<Longrightarrow> triple P A m' B) \<Longrightarrow> triple P A (if c then m else m') B"
  by simp

lemma triple_option:
  "(x = None \<Longrightarrow> triple P A m B) \<Longrightarrow> (\<And>y. x = Some y \<Longrightarrow> triple P A (m' y) B)
     \<Longrightarrow> triple P A (case x of None \<Rightarrow> m | Some y \<Rightarrow> m' y) B"
  by (cases x) auto

lemma triple_sum:
  "(\<And>y. x = Inl y \<Longrightarrow> triple P A (m y) B) \<Longrightarrow> (\<And>y. x = Inr y \<Longrightarrow> triple P A (m' y) B)
     \<Longrightarrow> triple P A (case x of Inl y \<Rightarrow> m y | Inr y \<Rightarrow> m' y) B"
  by (cases x) auto

section \<open>At most one Runner\<close>

definition consumed :: "clog \<Rightarrow> bool" where
  "consumed l \<longleftrightarrow> (\<exists>st. EvStatus st True \<in> set l \<and> stRunnerName st \<noteq> '''')"

definition creations :: "clog \<Rightarrow> job list" where
  "creations l = concat (map (\<lambda>e. case e of EvCreateJob j _ \<Rightarrow> [j] | _ \<Rightarrow> []) l)"

text \<open>The invariant of the log: at most one creation was tried, and only after a consumption.\<close>

definition one_shot :: "clog \<Rightarrow> bool" where
  "one_shot l \<longleftrightarrow> length (creations l) \<le> 1 \<and>
     (\<forall>l1 j b l2. l = l1 @ EvCreateJob j b # l2 \<longrightarrow> consumed l1)"

text \<open>
  The cluster answers with what it accepted: once a status with a Runner name was accepted, every
  request it returns has a Runner name.
\<close>

definition reads_accepted :: "'e cluster \<Rightarrow> bool" where
  "reads_accepted cl \<longleftrightarrow>
     (\<forall>l rq. consumed l \<longrightarrow> clGetRequest cl l = Inr rq \<longrightarrow> stRunnerName (rqStatus rq) \<noteq> '''') \<and>
     (\<forall>l rq rq'. consumed l \<longrightarrow> clUpdate cl l rq' = Inr rq \<longrightarrow> stRunnerName (rqStatus rq) \<noteq> '''') \<and>
     (\<forall>l rq rq'. consumed l \<or> stRunnerName (rqStatus rq') \<noteq> '''' \<longrightarrow>
        clPatchStatus cl l rq' = Inr rq \<longrightarrow> stRunnerName (rqStatus rq) \<noteq> '''')"

definition fresh :: "CredentialRequest \<Rightarrow> clog \<Rightarrow> bool" where
  "fresh rq l \<longleftrightarrow> (consumed l \<longrightarrow> stRunnerName (rqStatus rq) \<noteq> '''')"

lemma creations_snoc [simp]:
  "creations (l @ [e]) = creations l @ (case e of EvCreateJob j _ \<Rightarrow> [j] | _ \<Rightarrow> [])"
  by (simp add: creations_def)

lemma consumed_snoc [simp]:
  "consumed (l @ [e]) \<longleftrightarrow> consumed l \<or> (\<exists>st. e = EvStatus st True \<and> stRunnerName st \<noteq> '''')"
  by (auto simp: consumed_def)

lemma one_shot_Nil: "one_shot []"
  by (simp add: one_shot_def creations_def)

lemma one_shot_snoc: "one_shot l \<Longrightarrow> (\<forall>j b. e \<noteq> EvCreateJob j b) \<Longrightarrow> one_shot (l @ [e])"
  by (cases e) (auto simp: one_shot_def split_snoc)

lemma one_shot_create: "one_shot l \<Longrightarrow> creations l = [] \<Longrightarrow> consumed l \<Longrightarrow> one_shot (l @ [EvCreateJob j b])"
  by (auto simp: one_shot_def split_snoc)

lemma one_shot_unconsumed: "one_shot l \<Longrightarrow> \<not> consumed l \<Longrightarrow> creations l = []"
proof (rule ccontr)
  assume a: "one_shot l" "\<not> consumed l" "creations l \<noteq> []"
  then obtain e where "e \<in> set l" "(case e of EvCreateJob j _ \<Rightarrow> [j] | _ \<Rightarrow> []) \<noteq> []"
    by (auto simp: creations_def)
  then obtain j b where "EvCreateJob j b \<in> set l" by (auto split: event.splits)
  then obtain l1 l2 where l: "l = l1 @ EvCreateJob j b # l2" by (meson split_list)
  with a(1) have "consumed l1" unfolding one_shot_def by blast
  with a(2) l show False by (auto simp: consumed_def)
qed

text \<open>Reads and writes other than Job creations, and the requests they answer with.\<close>

abbreviation safe :: "'a act \<Rightarrow> bool" where
  "safe m \<equiv> triple one_shot one_shot m (\<lambda>_. one_shot)"

abbreviation inv_with :: "CredentialRequest \<Rightarrow> clog \<Rightarrow> bool" where
  "inv_with rq l \<equiv> one_shot l \<and> fresh rq l"

abbreviation answers :: "'x + CredentialRequest \<Rightarrow> clog \<Rightarrow> bool" where
  "answers r l \<equiv> one_shot l \<and> (\<forall>rq. r = Inr rq \<longrightarrow> fresh rq l)"

lemma safe_weaken: "safe m \<Longrightarrow> triple one_shot (inv_with rq) m (\<lambda>_. one_shot)"
  by (erule triple_conseq) auto

lemma safe_return [intro]: "safe (State_Monad.return x)"
  by (rule triple_return) auto

lemma safe_bind: "safe m \<Longrightarrow> (\<And>x. safe (f x)) \<Longrightarrow> safe (State_Monad.bind m f)"
  by (rule triple_bind)

lemma safe_perform: "(\<And>r j b. ev r \<noteq> EvCreateJob j b) \<Longrightarrow> safe (perform f ev)"
  by (rule triple_perform) (auto intro: one_shot_snoc)

lemmas safe_calls = getRequest_def updateRequest_def patchStatus_def deleteJob_def applyPolicy_def
  deletePolicy_def listPods_def

lemma safe_patchStatus: "safe (patchStatus cl rq)"
  by (simp add: safe_calls safe_perform)

lemma safe_deleteJob: "safe (deleteJob cl name)"
  by (simp add: safe_calls safe_perform)

lemma safe_deletePolicy: "safe (deletePolicy cl name)"
  by (simp add: safe_calls safe_perform)

lemma safe_updateRequest: "safe (updateRequest cl rq)"
  by (simp add: safe_calls safe_perform)

lemma safe_listPods: "safe (listPods cl rq)"
  by (simp add: safe_calls safe_perform)

lemma safe_setStatus: "safe (setStatus cl rq f)"
  unfolding setStatus_def by (intro safe_bind safe_patchStatus safe_return)

lemma safe_endWith: "safe m \<Longrightarrow> safe (endWith n m)"
  unfolding endWith_def by (intro safe_bind safe_return)

lemma safe_unknownOutcome: "safe (unknownOutcome cl rq b)"
  unfolding unknownOutcome_def
  by (intro safe_bind triple_if triple_option safe_deleteJob safe_return safe_endWith safe_setStatus)

lemma safe_removeFinalizer: "safe (removeFinalizer cl rq)"
  unfolding removeFinalizer_def by (intro triple_if safe_bind safe_updateRequest safe_return)

lemma safe_cleanup: "safe (cleanupRunnerNetworkPolicy cl rq)"
  unfolding cleanupRunnerNetworkPolicy_def by (intro safe_bind safe_deletePolicy safe_return)

lemma safe_revoke: "safe (revokeAndRemoveFinalizer cl rq)"
  unfolding revokeAndRemoveFinalizer_def revokeRunner_def
  by (intro safe_bind triple_if triple_option triple_sum safe_deleteJob safe_setStatus safe_return safe_cleanup
      safe_removeFinalizer)

lemma safe_observeRunner: "safe (observeRunner cl rq)"
proof -
  have "safe (case r of Inl x \<Rightarrow> unknownOutcome cl rq False
      | Inr (result, uid) \<Rightarrow> if rrErrorCode result \<noteq> ''''
          then endWith 0 (setStatus cl rq (f result uid)) else endWith 0 (setStatus cl rq (g result uid)))"
    for r :: "string + RunnerResult \<times> string" and f g
    by (auto split: sum.splits prod.splits intro: safe_unknownOutcome safe_endWith safe_setStatus)
  then show ?thesis
    unfolding observeRunner_def
    by (auto intro!: safe_bind triple_if triple_sum safe_perform safe_listPods safe_unknownOutcome safe_endWith
        safe_setStatus split: prod.splits)
qed

text \<open>A read between two uses of a request keeps it fresh.\<close>

lemma inv_perform:
  "(\<And>r j b. ev r \<noteq> EvCreateJob j b) \<Longrightarrow> (\<And>r st. ev r \<noteq> EvStatus st True)
     \<Longrightarrow> triple one_shot (inv_with rq) (perform f ev) (\<lambda>_. inv_with rq)"
  by (rule triple_perform) (auto intro: one_shot_snoc simp: fresh_def)

lemma reads_acceptedD:
  assumes "reads_accepted cl"
  shows "consumed l \<Longrightarrow> clGetRequest cl l = Inr rq \<Longrightarrow> stRunnerName (rqStatus rq) \<noteq> ''''"
    and "consumed l \<Longrightarrow> clUpdate cl l rq' = Inr rq \<Longrightarrow> stRunnerName (rqStatus rq) \<noteq> ''''"
    and "consumed l \<or> stRunnerName (rqStatus rq') \<noteq> '''' \<Longrightarrow> clPatchStatus cl l rq' = Inr rq
      \<Longrightarrow> stRunnerName (rqStatus rq) \<noteq> ''''"
  using assms unfolding reads_accepted_def by blast+

lemma answers_update:
  "reads_accepted cl \<Longrightarrow> triple one_shot one_shot (updateRequest cl rq) answers"
  unfolding updateRequest_def
  by (rule triple_perform) (auto intro: one_shot_snoc simp: fresh_def dest: reads_acceptedD(2))

lemma answers_getRequest: "reads_accepted cl \<Longrightarrow> triple one_shot one_shot (getRequest cl) answers"
  unfolding getRequest_def
  by (rule triple_perform) (auto intro: one_shot_snoc simp: fresh_def dest: reads_acceptedD(1))

lemma answers_patch:
  "reads_accepted cl \<Longrightarrow> triple one_shot one_shot (patchStatus cl rq) answers"
  unfolding patchStatus_def
  by (rule triple_perform) (auto intro: one_shot_snoc simp: fresh_def dest: reads_acceptedD(3))

lemma answers_setStatus: "reads_accepted cl \<Longrightarrow> triple one_shot one_shot (setStatus cl rq f) answers"
  unfolding setStatus_def
  by (rule triple_bind, erule answers_patch) (rule triple_return, auto split: sum.splits)

abbreviation unused :: "clog \<Rightarrow> bool" where
  "unused l \<equiv> one_shot l \<and> creations l = []"

lemma unused_read: "triple one_shot unused (perform f (\<lambda>_. EvRead s)) (\<lambda>_. unused)"
  by (rule triple_perform) (auto intro: one_shot_snoc)

lemma unused_return: "triple one_shot (\<lambda>l. unused l \<and> X l) (State_Monad.return y) (\<lambda>_. one_shot)"
  by (rule triple_return) auto

lemma unused_safe: "safe m \<Longrightarrow> triple one_shot (\<lambda>l. unused l \<and> X l) m (\<lambda>_. one_shot)"
  by (erule triple_conseq) auto

lemma consumeTicket_consumes:
  "triple one_shot unused (consumeTicket cl rq digest metadata (CredentialRunnerJobName n))
     (\<lambda>r l. unused l \<and> (ok r \<longrightarrow> consumed l))"
proof -
  have patch: "triple one_shot unused (patchStatus cl rq') (\<lambda>r l. unused l \<and> (ok r \<longrightarrow> consumed l))"
    if "stRunnerName (rqStatus rq') \<noteq> ''''" for rq'
    unfolding patchStatus_def using that
    by (intro triple_perform) (auto intro: one_shot_snoc split: sum.splits)
  show ?thesis
    unfolding consumeTicket_def
    by (rule triple_bind, rule unused_read, rule triple_bind, rule patch)
      (auto simp: CredentialRunnerJobName_def ok_def intro!: triple_return split: sum.splits)
qed

text \<open>With the ticket consumed and nothing created yet, one Job may be created.\<close>

lemma createJob_once: "triple one_shot (\<lambda>l. unused l \<and> consumed l) (createJob cl j) (\<lambda>_. one_shot)"
  unfolding createJob_def by (rule triple_perform) (auto intro: one_shot_create)

lemma launch_once:
  assumes "reads_accepted cl" and "stRunnerName (rqStatus rq) = ''''"
  shows "triple one_shot (inv_with rq) (launchRunner cl inst rq digest metadata) (\<lambda>_. one_shot)"
proof -
  have first: "triple one_shot (inv_with rq) (perform f (\<lambda>_. EvRead s)) (\<lambda>_. unused)" for f :: "clog \<Rightarrow> 'z" and s
    by (rule triple_conseq [OF unused_read]) (use assms(2) one_shot_unconsumed in \<open>auto simp: fresh_def\<close>)
  show ?thesis
    unfolding launchRunner_def Let_def
    apply (rule triple_bind [OF first], rule triple_if, rule unused_return [where X = "\<lambda>_. True", simplified])
    apply (rule triple_bind [OF consumeTicket_consumes], rule triple_sum, rule unused_return, rule triple_if, rule unused_return)
    apply (rule triple_conseq [where A = "\<lambda>l. unused l \<and> consumed l"], rule triple_sum, rule unused_safe,
        rule safe_unknownOutcome, rule triple_option, rule triple_bind [OF createJob_once])
    apply (intro triple_option triple_if safe_unknownOutcome safe_return)
    apply (rule unused_safe, rule safe_unknownOutcome)
    apply (auto simp: ok_def)
    done
qed

text \<open>From here on the request in hand is fresh, so a Runner name in it is decisive.\<close>

lemma secretMetadata_keeps:
  "triple one_shot (inv_with rq) (secretMetadata cl rq' ref) (\<lambda>_. inv_with rq)"
  unfolding secretMetadata_def
  by (rule triple_option, rule triple_return, simp, simp, rule triple_bind, rule inv_perform)
    (auto intro: triple_return)

lemma ensurePolicy_keeps:
  "triple one_shot (inv_with rq) (ensureRunnerNetworkPolicy cl inst rq') (\<lambda>_. inv_with rq)"
  unfolding ensureRunnerNetworkPolicy_def applyPolicy_def
  by (rule triple_option, rule triple_bind, rule inv_perform) (auto intro: triple_return)

lemma approval_keeps: "triple one_shot (inv_with rq) (approval cl rq') (\<lambda>_. inv_with rq)"
  unfolding approval_def by (rule triple_bind, rule inv_perform) (auto intro: triple_return)

lemma stop_keeps: "triple one_shot (inv_with rq) (State_Monad.return y) (\<lambda>_. one_shot)"
  by (rule triple_return) auto

lemmas ends = safe_weaken [OF safe_endWith [OF safe_setStatus]] safe_weaken [OF safe_unknownOutcome]
  safe_weaken [OF safe_observeRunner] stop_keeps

lemma runPhase_once:
  assumes "reads_accepted cl"
  shows "triple one_shot (inv_with rq) (runPhase cl inst rq digest) (\<lambda>_. one_shot)"
proof -
  have go: "triple one_shot (inv_with rq)
      (State_Monad.bind (ensureRunnerNetworkPolicy cl inst rq) (\<lambda>p.
        case p of Inl err \<Rightarrow> State_Monad.return (Inl err)
        | Inr _ \<Rightarrow> if stRunnerName (rqStatus rq) \<noteq> '''' then observeRunner cl rq
                   else launchRunner cl inst rq digest metadata)) (\<lambda>_. one_shot)" for metadata
    by (rule triple_bind [OF ensurePolicy_keeps], rule triple_sum, rule ends, rule triple_if, rule ends,
        rule launch_once [OF assms]) simp
  show ?thesis
    unfolding runPhase_def
    apply (rule triple_bind [OF secretMetadata_keeps])
    apply (rule triple_sum)
    subgoal for m e
      by (cases e) (auto intro!: triple_if ends)
    apply (intro triple_if ends go)
    done
qed

lemma authorizePhase_once:
  assumes "reads_accepted cl"
  shows "triple one_shot (inv_with rq) (authorizePhase cl inst rq digest) (\<lambda>_. one_shot)"
proof -
  have confirmed: "triple one_shot (inv_with rq)
      (case a of
               Inl (ApiFailed err) \<Rightarrow>
                 if IsNotFound (clApi cl) err
                 then endWith credentialRequeue (setStatus cl rq (\<lambda>st. st\<lparr>stPhase := CredentialPhasePendingApproval,
                        stSpecDigest := digest\<rparr>))
                 else State_Monad.return (Inl (ApiFailed err))
             | Inl err \<Rightarrow> State_Monad.return (Inl err)
             | Inr ap \<Rightarrow>
                 if apDecision ap = CredentialDecisionDeny
                 then endWith 0 (setStatus cl rq (denyDigest digest ErrorCodeApprovalDenied))
                 else if apDecision ap \<noteq> CredentialDecisionApprove then State_Monad.return (Inr credentialRequeue)
                 else runPhase cl inst rq digest) (\<lambda>_. one_shot)" for a :: "'a reconcile_error + CredentialApproval"
    using runPhase_once [OF assms]
    by (cases a) (auto split: reconcile_error.splits intro!: triple_if ends)
  show ?thesis
    unfolding authorizePhase_def Let_def
    by (intro triple_sum triple_if triple_bind [OF approval_keeps] confirmed runPhase_once [OF assms] ends)
qed

lemma checkedPhase_once:
  assumes "reads_accepted cl"
  shows "triple one_shot (inv_with rq) (checkedPhase cl inst rq) (\<lambda>_. one_shot)"
proof -
  have clock: "triple one_shot (inv_with rq) (perform (clNow cl) (\<lambda>_. EvRead s)) (\<lambda>_. inv_with rq)" for s
    by (rule inv_perform) auto
  show ?thesis
    unfolding checkedPhase_def
    by (intro triple_if triple_sum triple_bind [OF clock] authorizePhase_once [OF assms] ends)
qed

lemma bindRequest_answers:
  assumes "reads_accepted cl"
  shows "triple one_shot (inv_with rq) (bindRequest cl rq inst) answers"
proof -
  have keep: "triple one_shot (inv_with rq) (State_Monad.return (Inr rq)) answers"
    and fail: "triple one_shot (inv_with rq) (State_Monad.return (Inl e)) answers" for e :: "'a reconcile_error"
    by (rule triple_return, auto)+
  have st: "triple one_shot (inv_with rq) (setStatus cl rq f) answers" for f
    by (rule triple_conseq [OF answers_setStatus [OF assms]]) auto
  have up: "triple one_shot (inv_with rq) (updateRequest cl rq') answers" for rq'
    by (rule triple_conseq [OF answers_update [OF assms]]) auto
  have upd: "triple one_shot (inv_with rq) (State_Monad.bind (updateRequest cl rq') (\<lambda>r.
      State_Monad.return (case r of Inl err \<Rightarrow> Inl (ApiFailed err) | Inr request' \<Rightarrow> Inr request'))) answers" for rq'
    by (rule triple_bind [OF up], rule triple_return) (auto split: sum.splits)
  show ?thesis
    unfolding bindRequest_def
    by (cases "rqOwner rq"; cases "clSetOwner cl") (auto intro!: keep fail st upd)
qed

lemma boundPhase_once:
  assumes "reads_accepted cl"
  shows "triple one_shot (inv_with rq) (boundPhase cl rq) (\<lambda>_. one_shot)"
proof -
  have inst: "triple one_shot (inv_with rq) (perform f (\<lambda>_. EvRead s)) (\<lambda>_. inv_with rq)" for f :: "clog \<Rightarrow> 'z" and s
    by (rule inv_perform) auto
  have bound: "triple one_shot (answers b)
      (case b of Inl err \<Rightarrow> State_Monad.return (Inl err) | Inr request1 \<Rightarrow> checkedPhase cl i request1) (\<lambda>_. one_shot)"
    for b :: "'a reconcile_error + CredentialRequest" and i
    using checkedPhase_once [OF assms]
    by (cases b) (auto intro: triple_return)
  show ?thesis
    unfolding boundPhase_def
    by (intro triple_bind [OF inst] triple_sum triple_if triple_bind [OF bindRequest_answers [OF assms]] bound ends)
qed

lemma reconcile_once: "reads_accepted cl \<Longrightarrow> safe (Reconcile cl)"
proof -
  assume acc: "reads_accepted cl"
  have bound: "triple one_shot (answers u)
      (case u of Inl err \<Rightarrow> State_Monad.return (Inl (ApiFailed err)) | Inr request1 \<Rightarrow> boundPhase cl request1) (\<lambda>_. one_shot)"
    for u :: "'a + CredentialRequest"
    using boundPhase_once [OF acc] by (cases u) (auto intro: triple_return)
  have up: "triple one_shot (inv_with rq) (updateRequest cl rq') answers" for rq rq'
    by (rule triple_conseq [OF answers_update [OF acc]]) auto
  have terminal: "safe (State_Monad.bind (cleanupRunnerNetworkPolicy cl rq) (\<lambda>c.
      case c of Inl err \<Rightarrow> State_Monad.return (Inl err) | Inr _ \<Rightarrow> removeFinalizer cl rq))" for rq
    by (intro safe_bind safe_cleanup triple_sum safe_return safe_removeFinalizer)
  have known: "triple one_shot (inv_with rq)
      (if rqDeleting rq then revokeAndRemoveFinalizer cl rq
       else if IsTerminal (stPhase (rqStatus rq)) then State_Monad.bind (cleanupRunnerNetworkPolicy cl rq) (\<lambda>c.
         case c of Inl err \<Rightarrow> State_Monad.return (Inl err) | Inr _ \<Rightarrow> removeFinalizer cl rq)
       else if \<not> hasFinalizer rq credentialRequestFinalizer then
         State_Monad.bind (updateRequest cl (rq\<lparr>rqFinalizers := rqFinalizers rq @ [credentialRequestFinalizer]\<rparr>)) (\<lambda>u.
           case u of Inl err \<Rightarrow> State_Monad.return (Inl (ApiFailed err)) | Inr request1 \<Rightarrow> boundPhase cl request1)
       else boundPhase cl rq) (\<lambda>_. one_shot)" for rq
    by (intro triple_if safe_weaken [OF safe_revoke] safe_weaken [OF terminal] triple_bind [OF up] bound
        boundPhase_once [OF acc])
  show ?thesis
    unfolding Reconcile_def
    apply (rule triple_bind [OF answers_getRequest [OF acc]])
    subgoal for r
      using known by (cases r) (auto intro: triple_return)
    done
qed

text \<open>
  The logs that the controller can leave behind: every reconciliation starts from such a log and
  may be cut off after any of its calls, when the operator crashes.
\<close>

inductive reconciled :: "'e cluster \<Rightarrow> clog \<Rightarrow> bool" for cl where
  reconciled_start: "reconciled cl []"
| reconciled_run: "reconciled cl l \<Longrightarrow> snd (run_state (Reconcile cl) l) = l @ new \<Longrightarrow> reconciled cl (l @ take k new)"

lemma reconciled_one_shot: "reconciled cl l \<Longrightarrow> reads_accepted cl \<Longrightarrow> one_shot l"
proof (induction rule: reconciled.induct)
  case reconciled_start
  show ?case by (rule one_shot_Nil)
next
  case (reconciled_run l new k)
  then have "extends one_shot l (l @ new)"
    using reconcile_once [of cl] unfolding triple_def by metis
  then show ?case by (auto simp: extends_def)
qed

end
