(* ===== verification/Credential_Props.thy ===== *)
theory Credential_Props
  imports Credential_Steps
begin

text \<open>
  What the credential path guarantees: the policy fails closed, tickets and results survive their
  encodings, the GitHub call is fixed, the broker stores only digests, and the controller starts
  at most one Runner per request, whatever the cluster answers and wherever the operator crashes.
\<close>


text \<open>A cluster that accepts every write, for the witnesses.\<close>

definition sample_ref :: CredentialSecretRef where
  "sample_ref = \<lparr>refName = ''gh'', refKey = ''token'', refUID = ''u'', refResourceVersion = ''7'', refImmutable = True\<rparr>"

definition sample_policy :: CredentialPolicySpec where
  "sample_policy = \<lparr>policySecret = sample_ref,
     Consumers = [\<lparr>consumerName = ''github'', Operations = [''github.createIssue''],
       AccessMode = CredentialAccessPreAuthorized, AllowedRepositories = [''a/b'']\<rparr>], AllowBypass = False\<rparr>"

definition sample_instance :: CredentialInstance where
  "sample_instance = \<lparr>ciName = ''i'', ciNamespace = ''n'', ciUID = ''iu'', ciPolicy = Some sample_policy\<rparr>"

definition unset_status :: CredentialRequestStatus where
  "unset_status = \<lparr>stPhase = CredentialPhaseUnset, stRunnerName = '''', stPodUID = '''', stSpecDigest = '''',
     stSecretUID = '''', stSecretResourceVersion = '''', stTicketConsumedAt = None, stResult = None,
     stErrorCode = '''', stObservedGeneration = 0\<rparr>"

definition sample_spec :: CredentialRequestSpec where
  "sample_spec = \<lparr>specInstance = ''i'', specConsumer = ''github'', specOperation = ''github.createIssue'',
     specTicketDigest = ''d'', specExpiresAt = Some 10, specSecretBinding = sample_ref,
     specRepository = ''a/b'', specTitle = ''t'', specBody = ''''\<rparr>"

definition sample_rq :: "CredentialRequestStatus \<Rightarrow> CredentialRequest" where
  "sample_rq st = \<lparr>rqName = ''credential-d'', rqNamespace = ''n'', rqLabels = [], rqDeleting = False,
     rqFinalizers = [''typeclaw.fml09.io/credential-request''], rqGeneration = 1, rqOwner = Some (''iu'', ''i''),
     rqSpec = sample_spec, rqStatus = st\<rparr>"

definition accepted :: "clog \<Rightarrow> CredentialRequestStatus list" where
  "accepted l = concat (map (\<lambda>e. case e of EvStatus st True \<Rightarrow> [st] | _ \<Rightarrow> []) l)"

definition stored :: "clog \<Rightarrow> CredentialRequestStatus" where
  "stored l = (case filter (\<lambda>st. stRunnerName st \<noteq> '''') (accepted l) of
     [] \<Rightarrow> last (unset_status # accepted l) | named \<Rightarrow> last named)"

definition sample_codec_result :: result_codec where
  "sample_codec_result = \<lparr>marshalResult = (\<lambda>_. Some ''{}''), decodeResult = (\<lambda>_. None), trailingData = (\<lambda>_. False)\<rparr>"

definition sample_errors :: "unit api_errors" where
  "sample_errors = \<lparr>ReasonForError = (\<lambda>_. ReasonNotFound), IsNotFound = (\<lambda>_. True), IsConflict = (\<lambda>_. False),
     IsAlreadyExists = (\<lambda>_. False), IsBadRequest = (\<lambda>_. False), IsInvalid = (\<lambda>_. False), IsTimeout = (\<lambda>_. False),
     IsServerTimeout = (\<lambda>_. False), IsServiceUnavailable = (\<lambda>_. False), IsTooManyRequests = (\<lambda>_. False),
     IsDeadlineExceeded = (\<lambda>_. False), IsCanceled = (\<lambda>_. False), GetStatusCode = (\<lambda>_. None),
     ErrorText = (\<lambda>_. ''''), WrapError = (\<lambda>_ e. e)\<rparr>"

definition sample_cluster :: "int \<Rightarrow> unit cluster" where
  "sample_cluster now = \<lparr>clGetRequest = (\<lambda>l. Inr (sample_rq (stored l))), clUpdate = (\<lambda>l rq. Inr (sample_rq (stored l))),
     clPatchStatus = (\<lambda>l rq. Inr (sample_rq (stored (l @ [EvStatus (rqStatus rq) True])))),
     clGetInstance = (\<lambda>_ _ _. Inr sample_instance), clGetApproval = (\<lambda>_ _ _. Inl ()),
     clSecretMetadata = Some (\<lambda>_ _ _. Inr (''u'', ''7'')), clApplyPolicy = (\<lambda>_ _. None), clDeletePolicy = (\<lambda>_ _. None),
     clGetJob = (\<lambda>l _. if creations l = [] then Inl () else Inr (0, 0)), clCreateJob = (\<lambda>_ _. None),
     clDeleteJob = (\<lambda>_ _. None), clListPods = (\<lambda>_ _. Inr []), clSetOwner = None, clMarshalSpec = (\<lambda>_. Inr ''spec''), clSha256 = (\<lambda>_. [0xAB]),
     clNow = (\<lambda>_. now), clApi = sample_errors, clCodec = sample_codec_result\<rparr>"

lemma consumed_accepted: "consumed l \<longleftrightarrow> (\<exists>st \<in> set (accepted l). stRunnerName st \<noteq> '''')"
proof -
  have "st \<in> set (case e of EvStatus st True \<Rightarrow> [st] | _ \<Rightarrow> []) \<longleftrightarrow> e = EvStatus st True" for st e
    by (auto split: event.splits bool.splits)
  then have "st \<in> set (accepted l) \<longleftrightarrow> EvStatus st True \<in> set l" for st
    by (auto simp: accepted_def)
  then show ?thesis by (auto simp: consumed_def)
qed

lemma stored_named: "consumed l \<Longrightarrow> stRunnerName (stored l) \<noteq> ''''"
proof -
  assume "consumed l"
  then have "filter (\<lambda>st. stRunnerName st \<noteq> '''') (accepted l) \<noteq> []"
    by (simp add: consumed_accepted filter_empty_conv)
  then have "last (filter (\<lambda>st. stRunnerName st \<noteq> '''') (accepted l)) \<in>
      set (filter (\<lambda>st. stRunnerName st \<noteq> '''') (accepted l))" by (rule last_in_set)
  with \<open>filter _ _ \<noteq> []\<close> show ?thesis by (auto simp: stored_def split: list.splits)
qed

lemma sample_reads: "reads_accepted (sample_cluster now)"
  by (auto simp: reads_accepted_def sample_cluster_def sample_rq_def stored_named)

lemma sample_validate: "ValidateGitHubCreateIssue ''a/b'' ''t'' '''' = None"
  "ValidateGitHubCreateIssue ''a/b'' ''title'' '''' = None"
  by (simp_all add: ValidateGitHubCreateIssue_def validRepositoryPart_def repository_char_def)

lemma sample_authorize:
  "AuthorizePolicy (Some sample_policy) ''github'' ''github.createIssue'' ''a/b'' = Inr CredentialAccessPreAuthorized"
  by (simp add: AuthorizePolicy_def sample_policy_def ValidateSecretBinding_def sample_ref_def sample_validate)

lemma sample_rq_simps [simp]:
  "rqName (sample_rq st) = ''credential-d''" "rqNamespace (sample_rq st) = ''n''" "rqDeleting (sample_rq st) = False"
  "rqFinalizers (sample_rq st) = [''typeclaw.fml09.io/credential-request'']" "rqGeneration (sample_rq st) = 1"
  "rqOwner (sample_rq st) = Some (''iu'', ''i'')" "rqSpec (sample_rq st) = sample_spec" "rqStatus (sample_rq st) = st"
  "rqStatus_update f (sample_rq st) = sample_rq (f st)"
  by (simp_all add: sample_rq_def)

lemma sample_cluster_simps [simp]:
  "clGetRequest (sample_cluster now) l = Inr (sample_rq (stored l))"
  "clPatchStatus (sample_cluster now) l rq = Inr (sample_rq (stored (l @ [EvStatus (rqStatus rq) True])))"
  "clGetInstance (sample_cluster now) l ns n = Inr sample_instance"
  "clSecretMetadata (sample_cluster now) = Some (\<lambda>_ _ _. Inr (''u'', ''7''))"
  "clApplyPolicy (sample_cluster now) l np = None"
  "clGetJob (sample_cluster now) l n = (if creations l = [] then Inl () else Inr (0, 0))"
  "clCreateJob (sample_cluster now) l j = None" "clSetOwner (sample_cluster now) = None"
  "credentialSpecDigest (sample_cluster now) sp = Inr ''ab''" "clNow (sample_cluster now) l = now"
  "IsNotFound (clApi (sample_cluster now)) e"
  by (simp_all add: sample_cluster_def sample_errors_def credentialSpecDigest_def hexEncode_def hex_digit_def)

lemma sample_instance_simps [simp]:
  "ciName sample_instance = ''i''" "ciNamespace sample_instance = ''n''" "ciUID sample_instance = ''iu''"
  "ciPolicy sample_instance = Some sample_policy" "policySecret sample_policy = sample_ref"
  "specInstance sample_spec = ''i''" "specConsumer sample_spec = ''github''"
  "specOperation sample_spec = ''github.createIssue''" "specTicketDigest sample_spec = ''d''"
  "specExpiresAt sample_spec = Some 10" "specSecretBinding sample_spec = sample_ref"
  "specRepository sample_spec = ''a/b''" "specTitle sample_spec = ''t''" "specBody sample_spec = ''''"
  "refUID sample_ref = ''u''" "refResourceVersion sample_ref = ''7''" "refName sample_ref = ''gh''"
  "refKey sample_ref = ''token''" "refImmutable sample_ref"
  by (simp_all add: sample_instance_def sample_policy_def sample_spec_def sample_ref_def)

lemma sample_binding: "ValidateSecretBinding sample_ref = None"
  by (simp add: ValidateSecretBinding_def)

definition the_job :: job where
  "the_job = projr (CredentialRunnerJob sample_instance (sample_rq unset_status))"

lemma sample_job_eq: "CredentialRunnerJob sample_instance (sample_rq st) = Inr the_job"
  by (simp add: the_job_def CredentialRunnerJob_def sample_binding sample_validate Let_def runnerLabels_def
      runnerContainer_def CredentialRunnerSPIFFEID_def)

lemma stored_unset: "accepted l = [] \<Longrightarrow> stored l = unset_status"
  by (simp add: stored_def)

lemma accepted_simps [simp]: "accepted [] = []" "accepted (l @ l') = accepted l @ accepted l'"
  "accepted (EvRead s # l) = accepted l" "accepted (EvApplyPolicy np b # l) = accepted l"
  by (simp_all add: accepted_def)

lemma creations_simps [simp]: "creations [] = []" "creations (l @ l') = creations l @ creations l'"
  "creations (EvRead s # l) = creations l" "creations (EvApplyPolicy np b # l) = creations l"
  "creations (EvStatus st b # l) = creations l" "creations (EvCreateJob j b # l) = j # creations l"
  by (simp_all add: creations_def)

lemma unset_simps: "stRunnerName unset_status = ''''" "stPhase unset_status = CredentialPhaseUnset"
  "stSpecDigest unset_status = ''''"
  by (simp_all add: unset_status_def)

lemma sample_launch:
  assumes "accepted l = []" "creations l = []"
  shows "creations (snd (run_state (launchRunner (sample_cluster now) sample_instance (sample_rq unset_status) d m) l)) = [the_job]"
  using assms
  by (simp add: launchRunner_def consumeTicket_def patchStatus_def createJob_def perform_def sample_job_eq ok_def Let_def)

lemma sample_runPhase:
  assumes "accepted l = []" "creations l = []"
  shows "creations (snd (run_state (runPhase (sample_cluster now) sample_instance (sample_rq unset_status) d) l)) = [the_job]"
  using assms
  by (simp add: runPhase_def secretMetadata_def ensureRunnerNetworkPolicy_def applyPolicy_def perform_def
      unset_simps sample_launch)

lemma sample_run:
  "creations (snd (run_state (Reconcile (sample_cluster 0)) [])) = [the_job]"
  by (simp add: Reconcile_def boundPhase_def bindRequest_def checkedPhase_def authorizePhase_def
      getRequest_def perform_def hasFinalizer_def stored_unset sample_authorize expired_def
      unset_simps RequestName_def sample_runPhase Let_def)


section \<open>Policy, tickets and the broker\<close>

lemma authorizeConsumer_find:
  "authorizeConsumer bypass consumer operation repository cs = Inr mode \<longleftrightarrow>
     (\<exists>c. find (\<lambda>c. consumerName c = consumer) cs = Some c \<and> operation \<in> set (Operations c) \<and>
       repository \<in> set (AllowedRepositories c) \<and> AccessMode c = mode \<and>
       (mode = CredentialAccessConfirm \<or> mode = CredentialAccessPreAuthorized \<or>
        mode = CredentialAccessBypass \<and> bypass))"
  by (induction cs) (auto simp: allowedRepository_iff split: CredentialAccessMode.splits)

text \<open>
  C17. The policy decision is exactly this declarative rule: an operation is authorised if and only
  if the Instance has a policy with a complete immutable Secret binding, the operation is the
  supported one, the repository is well formed, and the first consumer with the caller's name lists
  the operation and the exact repository and grants Confirm or PreAuthorized, or Bypass where the
  cluster policy allows it. Everything else, an unknown access mode included, is refused.
\<close>

theorem policy_fails_closed:
  "AuthorizePolicy policy consumer operation repository = Inr mode \<longleftrightarrow>
     (\<exists>p c. policy = Some p \<and> ValidateSecretBinding (policySecret p) = None \<and>
       operation = ''github.createIssue'' \<and> ValidateGitHubCreateIssue repository ''title'' '''' = None \<and>
       find (\<lambda>c. consumerName c = consumer) (Consumers p) = Some c \<and> operation \<in> set (Operations c) \<and>
       repository \<in> set (AllowedRepositories c) \<and> AccessMode c = mode \<and>
       (mode = CredentialAccessConfirm \<or> mode = CredentialAccessPreAuthorized \<or>
        mode = CredentialAccessBypass \<and> AllowBypass p))"
  by (cases policy) (auto simp: AuthorizePolicy_def authorizeConsumer_find)

lemma handleNew_accepted:
  assumes "handleNew b identity input w = ((StatusAccepted, answer), w')"
  shows "\<exists>reader writer inst w1 buf mode.
    Reader b = Some reader \<and> Writer b = Some writer \<and>
    brGetInstance reader (idNamespace identity) (idInstance identity) w = (Inr inst, w1) \<and>
    AuthorizePolicy (ciPolicy inst) ''github'' ''github.createIssue'' (inRepository input) = Inr mode \<and>
    TicketSource b = Inr buf \<and>
    writer (newRequest b identity input (the (ciPolicy inst)) (TicketDigest (brSha256 b) (b64_encode buf))) w1 = (None, w') \<and>
    answer = BrokerStatus CredentialPhasePending (RequestName (TicketDigest (brSha256 b) (b64_encode buf)))
      (b64_encode buf) None ''''"
  using assms
  by (auto simp: handleNew_def NewTicket_def Let_def split: option.splits prod.splits sum.splits if_splits)

lemma ticket_valid: "\<forall>c \<in> set buf. c < 256 \<Longrightarrow> length buf = 32 \<Longrightarrow> ValidateTicket (b64_encode buf) = None"
  by (simp add: ValidateTicket_def b64_roundtrip)

text \<open>
  C18. What the broker accepted it finds again. When a new request was accepted with a ticket, a
  retry of the same caller with the same typed input and that ticket passes the ticket check, looks
  up exactly the object that was created, and reports its current status; the ticket decodes to the
  random bytes it was made of. The hypotheses say that the source gave 32 bytes, that the store
  answers with the created spec under the created name, and that the ticket has not expired.
\<close>

theorem retry_finds_request:
  assumes "handleNew b identity input w = ((StatusAccepted, BrokerStatus phase name ticket res code), w')"
    and "TicketSource b = Inr buf" and "\<forall>x \<in> set buf. x < 256" and "length buf = 32"
    and "Reader b = Some reader"
    and "brGetInstance reader (idNamespace identity) (idInstance identity) w = (Inr inst, w1)"
    and "brGetRequest reader (idNamespace identity) name w' = (Inr request, w'')"
    and "rqSpec request = rqSpec (newRequest b identity input (the (ciPolicy inst)) (TicketDigest (brSha256 b) ticket))"
    and "later < brNow b + TicketTTL"
  shows "b64_decode ticket = Some buf \<and>
    handleRetry (b\<lparr>brNow := later\<rparr>) identity (input\<lparr>inTicket := ticket\<rparr>) w' = (writeRequestStatus request ticket, w'')"
proof -
  have ticket: "ticket = b64_encode buf" and name: "name = RequestName (TicketDigest (brSha256 b) ticket)"
    using handleNew_accepted [OF assms(1)] assms(2) by auto
  show ?thesis
    using assms(5-) ticket_valid [OF assms(3,4)] b64_roundtrip [OF assms(3)]
    by (simp add: handleRetry_def Let_def ticket [symmetric] name expired_def ticketMatches_def newRequest_def)
qed

text \<open>
  What the broker stores for a new request: an accepted request was authorised by the policy
  of the Instance named by the caller's identity, was written once, in the caller's namespace, under
  the name derived from the ticket's digest, with the policy's own Secret binding, the typed input
  and an expiry of five minutes; the object written is a function of the ticket's digest and not of
  the ticket itself, which only the answer carries.
\<close>

lemma broker_stores_only_digest:
  assumes "handleNew b identity input w = ((StatusAccepted, answer), w')"
  shows "\<exists>reader writer inst w1 policy mode ticket rq.
    Reader b = Some reader \<and> Writer b = Some writer \<and>
    brGetInstance reader (idNamespace identity) (idInstance identity) w = (Inr inst, w1) \<and>
    ciPolicy inst = Some policy \<and> mode \<noteq> CredentialAccessDeny \<and>
    AuthorizePolicy (Some policy) ''github'' ''github.createIssue'' (inRepository input) = Inr mode \<and>
    rq = newRequest b identity input policy (TicketDigest (brSha256 b) ticket) \<and> writer rq w1 = (None, w') \<and>
    rqNamespace rq = idNamespace identity \<and> rqName rq = RequestName (specTicketDigest (rqSpec rq)) \<and>
    specSecretBinding (rqSpec rq) = policySecret policy \<and> specExpiresAt (rqSpec rq) = Some (brNow b + TicketTTL) \<and>
    answer = BrokerStatus CredentialPhasePending (rqName rq) ticket None ''''"
proof -
  obtain reader writer inst w1 buf mode where new:
    "Reader b = Some reader" "Writer b = Some writer"
    "brGetInstance reader (idNamespace identity) (idInstance identity) w = (Inr inst, w1)"
    "AuthorizePolicy (ciPolicy inst) ''github'' ''github.createIssue'' (inRepository input) = Inr mode"
    "writer (newRequest b identity input (the (ciPolicy inst)) (TicketDigest (brSha256 b) (b64_encode buf))) w1 = (None, w')"
    "answer = BrokerStatus CredentialPhasePending (RequestName (TicketDigest (brSha256 b) (b64_encode buf)))
      (b64_encode buf) None ''''"
    using handleNew_accepted [OF assms] by (elim exE conjE) (rule that; assumption)
  obtain policy where "ciPolicy inst = Some policy" "mode \<noteq> CredentialAccessDeny"
    using AuthorizePolicy_Inr [OF new(4)] by auto
  define rq where "rq = newRequest b identity input policy (TicketDigest (brSha256 b) (b64_encode buf))"
  have "rqNamespace rq = idNamespace identity" "rqName rq = RequestName (specTicketDigest (rqSpec rq))"
    "specSecretBinding (rqSpec rq) = policySecret policy" "specExpiresAt (rqSpec rq) = Some (brNow b + TicketTTL)"
    "specTicketDigest (rqSpec rq) = TicketDigest (brSha256 b) (b64_encode buf)"
    by (simp_all add: rq_def newRequest_def)
  moreover have "writer rq w1 = (None, w')"
    using new(5) \<open>ciPolicy inst = Some policy\<close> by (simp add: rq_def)
  moreover note new(1-3) new(4) [unfolded \<open>ciPolicy inst = Some policy\<close>] new(6) rq_def
    \<open>ciPolicy inst = Some policy\<close> \<open>mode \<noteq> CredentialAccessDeny\<close>
  ultimately show ?thesis by metis
qed

text \<open>A broker over a store of one slot, for the witnesses.\<close>

definition sample_bytes :: "nat list" where
  "sample_bytes = replicate 32 7"

definition sample_broker :: "(CredentialRequest option, unit) Broker" where
  "sample_broker = \<lparr>Reader = Some \<lparr>brGetInstance = (\<lambda>_ _ w. (Inr sample_instance, w)),
       brGetRequest = (\<lambda>_ _ w. (case w of None \<Rightarrow> Inl () | Some rq \<Rightarrow> Inr rq, w))\<rparr>,
     Writer = Some (\<lambda>rq w. (None, Some rq)), TicketSource = Inr sample_bytes,
     brSha256 = (\<lambda>s. [length s]), TrustDomain = '''', brNow = 0, MaxBodySize = 0,
     decodeInput = (\<lambda>_. None), brApi = sample_errors\<rparr>"

definition sample_input :: githubCreateIssueRequest where
  "sample_input = \<lparr>inRepository = ''a/b'', inTitle = ''t'', inBody = '''', inTicket = ''''\<rparr>"

definition sample_identity :: brokerIdentity where
  "sample_identity = \<lparr>idNamespace = ''n'', idInstance = ''i''\<rparr>"

definition sample_ticket :: string where
  "sample_ticket = b64_encode sample_bytes"

definition sample_new :: CredentialRequest where
  "sample_new = newRequest sample_broker sample_identity sample_input sample_policy (TicketDigest (brSha256 sample_broker) sample_ticket)"

lemma sample_broker_simps [simp]:
  "Reader sample_broker = Some \<lparr>brGetInstance = (\<lambda>_ _ w. (Inr sample_instance, w)),
       brGetRequest = (\<lambda>_ _ w. (case w of None \<Rightarrow> Inl () | Some rq \<Rightarrow> Inr rq, w))\<rparr>"
  "Writer sample_broker = Some (\<lambda>rq w. (None, Some rq))" "TicketSource sample_broker = Inr sample_bytes"
  "brNow sample_broker = 0"
  "inRepository sample_input = ''a/b''" "idNamespace sample_identity = ''n''" "idInstance sample_identity = ''i''"
  by (simp_all add: sample_broker_def sample_input_def sample_identity_def)

lemma sample_accepted:
  "handleNew sample_broker sample_identity sample_input None =
     ((StatusAccepted, BrokerStatus CredentialPhasePending (rqName sample_new) sample_ticket None ''''), Some sample_new)"
  by (simp add: handleNew_def sample_authorize NewTicket_def Let_def sample_new_def sample_ticket_def [symmetric] newRequest_def)

theorem retry_finds_request_witness:
  "b64_decode sample_ticket = Some sample_bytes \<and>
   handleRetry (sample_broker\<lparr>brNow := 5\<rparr>) sample_identity (sample_input\<lparr>inTicket := sample_ticket\<rparr>) (Some sample_new) =
     (writeRequestStatus sample_new sample_ticket, Some sample_new)"
  by (rule retry_finds_request [OF sample_accepted, where reader = "the (Reader sample_broker)" and inst = sample_instance
        and ?w1.0 = None]) (simp_all add: sample_new_def sample_bytes_def)

lemma broker_stores_only_digest_witness:
  "\<exists>reader writer inst w1 policy mode ticket rq.
    Reader sample_broker = Some reader \<and> Writer sample_broker = Some writer \<and>
    brGetInstance reader ''n'' ''i'' None = (Inr inst, w1) \<and>
    ciPolicy inst = Some policy \<and> mode \<noteq> CredentialAccessDeny \<and>
    rq = newRequest sample_broker sample_identity sample_input policy (TicketDigest (brSha256 sample_broker) ticket) \<and>
    writer rq w1 = (None, Some sample_new) \<and> rqName rq = rqName sample_new"
  using broker_stores_only_digest [OF sample_accepted] by (elim exE conjE) (auto simp: sample_new_def)

section \<open>The Runner\<close>

lemma CreateIssue_sent:
  assumes "CreateIssue lib '''' token repository title text = (Some c, answer)"
  shows "ValidateGitHubCreateIssue repository title text = None \<and>
    (\<exists>payload. ghMarshal lib title text = Some payload \<and> c = githubCall ''https://api.github.com'' token repository payload)"
  using assms by (auto simp: CreateIssue_def Let_def split: if_splits option.splits)

lemma CreateIssue_result:
  assumes "snd (CreateIssue lib base token repository title text) = Inr issue"
  shows "0 < issueNumber issue \<and> issueURL issue \<noteq> '''' \<and> issueTitle issue \<noteq> '''' \<and>
    (\<exists>u. ghParse lib (issueURL issue) = Some u \<and> Scheme u = ''https'' \<and> Hostname u = ''github.com'' \<and> \<not> hasUser u)"
  using assms
  by (auto simp: CreateIssue_def issueFromAnswer_def Let_def split: if_splits option.splits sum.splits prod.splits)

text \<open>
  C19. The Runner can only call the one fixed endpoint: whatever the repository, title, body and
  token, a request that leaves the client is a POST to
  \<^verbatim>\<open>https://api.github.com/repos/<owner>/<name>/issues\<close>, where the two parts have no other separators,
  dots in front or escapes and together are the repository the policy was asked about; the token
  occurs in the Authorization header only; and a result is reported only with a positive number and
  a link to github.com.
\<close>

theorem github_endpoint_fixed:
  assumes "CreateIssue lib '''' token repository title text = (Some c, answer)"
  shows "ghMethod c = ''POST'' \<and> ghURL c = ''https://api.github.com/repos/'' @ repository @ ''/issues'' \<and>
    (\<exists>owner name. repository = owner @ ''/'' @ name \<and> validRepositoryPart owner \<and> validRepositoryPart name \<and>
       CHR ''/'' \<notin> set owner \<and> CHR ''/'' \<notin> set name) \<and>
    [v. (k, v) \<leftarrow> ghHeaders c, k = ''Authorization''] = [''Bearer '' @ TrimSpace token] \<and>
    ghMarshal lib title text = Some (ghPayload c) \<and>
    (\<forall>issue. answer = Inr issue \<longrightarrow> 0 < issueNumber issue \<and>
       (\<exists>u. ghParse lib (issueURL issue) = Some u \<and> Scheme u = ''https'' \<and> Hostname u = ''github.com''))"
proof -
  obtain payload where v: "ValidateGitHubCreateIssue repository title text = None"
    and c: "c = githubCall ''https://api.github.com'' token repository payload" "ghMarshal lib title text = Some payload"
    using CreateIssue_sent [OF assms] by blast
  obtain owner name where parts: "repository = owner @ ''/'' @ name" "split_on CHR ''/'' repository = [owner, name]"
    "validRepositoryPart owner" "validRepositoryPart name"
    using repository_parts [OF v] by blast
  have "CHR ''/'' \<notin> set owner" "CHR ''/'' \<notin> set name"
    using parts(2) split_on_no_sep [of _ "CHR ''/''" repository] by auto
  moreover have "ghURL c = ''https://api.github.com/repos/'' @ repository @ ''/issues''"
    using parts PathEscape_part [OF parts(3)] PathEscape_part [OF parts(4)]
    by (simp add: c githubCall_def Let_def trim_right_byte_def)
  moreover have "\<forall>issue. answer = Inr issue \<longrightarrow> 0 < issueNumber issue \<and>
       (\<exists>u. ghParse lib (issueURL issue) = Some u \<and> Scheme u = ''https'' \<and> Hostname u = ''github.com'')"
    using CreateIssue_result [of lib "''''" token repository title "text"] assms by auto
  moreover have "\<exists>owner name. repository = owner @ ''/'' @ name \<and> validRepositoryPart owner \<and>
      validRepositoryPart name \<and> CHR ''/'' \<notin> set owner \<and> CHR ''/'' \<notin> set name"
    using parts calculation by blast
  moreover have "ghMethod c = ''POST''" "[v. (k, v) \<leftarrow> ghHeaders c, k = ''Authorization''] = [''Bearer '' @ TrimSpace token]"
    "ghMarshal lib title text = Some (ghPayload c)"
    using c by (simp_all add: githubCall_def Let_def)
  ultimately show ?thesis by blast
qed

lemma runnerOutcome_bounded:
  "(rrResult (runnerOutcome lib env rf) = None \<longrightarrow> validErrorCode (rrErrorCode (runnerOutcome lib env rf))) \<and>
   (\<forall>issue. rrResult (runnerOutcome lib env rf) = Some issue \<longrightarrow>
      rrErrorCode (runnerOutcome lib env rf) = '''' \<and> 0 < issueNumber issue \<and> issueURL issue \<noteq> '''' \<and> issueTitle issue \<noteq> '''')"
  using CreateIssue_result
  by (auto simp: runnerOutcome_def Let_def validErrorCode_def split: if_splits option.splits sum.splits github_error.splits)


text \<open>A codec for the witness: the outcome without an issue is its code, an issue is its number.\<close>

definition sample_codec :: result_codec where
  "sample_codec = \<lparr>marshalResult = (\<lambda>r. if rrResult r = None then Some (rrErrorCode r) else None),
     decodeResult = (\<lambda>s. Some \<lparr>rrResult = None, rrErrorCode = s\<rparr>), trailingData = (\<lambda>_. False)\<rparr>"

definition sample_github :: github_lib where
  "sample_github = \<lparr>ghDo = (\<lambda>_. Inr (201, ''answer'')), ghMarshal = (\<lambda>_ _. Some ''{}''), ghNewRequestErr = (\<lambda>_. None),
     ghDecode = (\<lambda>_. Some (1, ''link'', ''t'')),
     ghParse = (\<lambda>s. Some \<lparr>Scheme = ''https'', urlHost = '''', Hostname = (if s = ''link'' then ''github.com'' else ''api.github.com''),
       hasUser = False, urlPath = '''', RawQuery = '''', Fragment = ''''\<rparr>)\<rparr>"


lemma sample_token: "TrimSpace ''k'' = ''k''"
  by (rule TrimSpace_visible) (simp_all add: visible_def)

lemma sample_issue:
  "CreateIssue sample_github '''' ''k'' ''a/b'' ''t'' '''' =
     (Some (githubCall ''https://api.github.com'' ''k'' ''a/b'' ''{}''),
      Inr \<lparr>issueNumber = 1, issueURL = ''link'', issueTitle = ''t''\<rparr>)"
  by (simp add: CreateIssue_def sample_validate sample_token sample_github_def issueFromAnswer_def Let_def)

theorem github_endpoint_fixed_witness:
  "ghMethod (githubCall ''https://api.github.com'' ''k'' ''a/b'' ''{}'') = ''POST'' \<and>
   ghURL (githubCall ''https://api.github.com'' ''k'' ''a/b'' ''{}'') = ''https://api.github.com/repos/a/b/issues''"
  using github_endpoint_fixed [OF sample_issue] by simp

section \<open>Settled and expired requests\<close>

definition touches_work :: "event \<Rightarrow> bool" where
  "touches_work e = (case e of EvStatus _ _ \<Rightarrow> True | EvCreateJob _ _ \<Rightarrow> True | EvDeleteJob _ _ \<Rightarrow> True | _ \<Rightarrow> False)"

lemma cleanup_run:
  "\<exists>r b. run_state (cleanupRunnerNetworkPolicy cl rq) l =
     (r, l @ [EvDeletePolicy (CredentialRunnerNetworkPolicyName (rqName rq)) b])"
  by (simp add: cleanupRunnerNetworkPolicy_def deletePolicy_def perform_def)

lemma removeFinalizer_run:
  "\<exists>r evs. run_state (removeFinalizer cl rq) l = (r, l @ evs) \<and> (\<forall>e \<in> set evs. \<not> touches_work e)"
  by (auto simp: removeFinalizer_def updateRequest_def perform_def touches_work_def)

text \<open>
  A settled request stays settled: when the controller reads a request in a terminal phase
  (Succeeded, Failed, Denied, UnknownOutcome), deletion apart, the reconciliation writes no status
  and neither creates nor deletes a Job; it removes the Runner's network policy and, when that
  succeeded, the finalizer.
\<close>

lemma terminal_request_untouched:
  assumes "clGetRequest cl l = Inr request" and "\<not> rqDeleting request" and "IsTerminal (stPhase (rqStatus request))"
  shows "\<exists>evs. snd (run_state (Reconcile cl) l) = l @ evs \<and> (\<forall>e \<in> set evs. \<not> touches_work e) \<and>
    (\<exists>b. EvDeletePolicy (CredentialRunnerNetworkPolicyName (rqName request)) b \<in> set evs)"
proof -
  obtain r b where c: "run_state (cleanupRunnerNetworkPolicy cl request) (l @ [EvRead ''request'']) =
      (r, (l @ [EvRead ''request'']) @ [EvDeletePolicy (CredentialRunnerNetworkPolicyName (rqName request)) b])"
    using cleanup_run by blast
  obtain r' evs where f: "run_state (removeFinalizer cl request)
        ((l @ [EvRead ''request'']) @ [EvDeletePolicy (CredentialRunnerNetworkPolicyName (rqName request)) b]) =
      (r', ((l @ [EvRead ''request'']) @ [EvDeletePolicy (CredentialRunnerNetworkPolicyName (rqName request)) b]) @ evs)"
    "\<forall>e \<in> set evs. \<not> touches_work e"
    using removeFinalizer_run by blast
  show ?thesis
    using assms c f
    by (cases r) (auto simp: Reconcile_def getRequest_def perform_def touches_work_def)
qed

text \<open>
  The expiry check does not look at the Runner: a request whose ticket was consumed and whose
  Runner is at work becomes Denied with \<^verbatim>\<open>ticket_expired\<close> at the first reconciliation after the
  expiry; its Job is neither observed nor deleted, and since Denied is terminal its result is never
  collected.
\<close>

lemma expiry_denies_running_request:
  assumes "credentialSpecDigest cl (rqSpec request) = Inr digest" and "stSpecDigest (rqStatus request) = digest"
    and "\<not> IsTerminal (stPhase (rqStatus request))" and "expired (clNow cl l) (specExpiresAt (rqSpec request))"
  shows "\<exists>b st. snd (run_state (checkedPhase cl inst request) l) = l @ [EvRead ''clock'', EvStatus st b] \<and>
    stPhase st = CredentialPhaseDenied \<and> stErrorCode st = ''ticket_expired'' \<and>
    stRunnerName st = stRunnerName (rqStatus request) \<and> IsTerminal (stPhase st)"
  using assms
  by (auto simp: checkedPhase_def perform_def endWith_def setStatus_def patchStatus_def denyDigest_def deny_def)

definition running_status :: CredentialRequestStatus where
  "running_status = unset_status\<lparr>stPhase := CredentialPhaseRunning, stRunnerName := ''runner'', stSpecDigest := ''ab''\<rparr>"

lemma expiry_denies_running_request_witness:
  "\<exists>b st. snd (run_state (checkedPhase (sample_cluster 10) sample_instance (sample_rq running_status)) []) =
      [EvRead ''clock'', EvStatus st b] \<and>
    stPhase st = CredentialPhaseDenied \<and> stErrorCode st = ''ticket_expired'' \<and> stRunnerName st = ''runner''"
  using expiry_denies_running_request [of "sample_cluster 10" "sample_rq running_status" "''ab''" "[]" sample_instance]
  by (auto simp: running_status_def expired_def)

section \<open>Identity\<close>

lemma scanURIs_spec:
  "scanURIs trust uris found =
     (case (case found of None \<Rightarrow> [] | Some i \<Rightarrow> [i]) @ List.map_filter (\<lambda>u. ParseSPIFFEID u trust) uris of
        [] \<Rightarrow> Some None | [i] \<Rightarrow> Some (Some i) | _ \<Rightarrow> None)"
  by (induction trust uris found rule: scanURIs.induct)
    (auto simp: map_filter_simps split: option.splits list.splits)

text \<open>
  Who the broker talks to: a caller has an identity exactly when its certificates carry one and
  only one SPIFFE URI of the trust domain whose path is
  \<^verbatim>\<open>typeclaw/ns/<namespace>/instance/<name>\<close> up to slashes at its ends; two such URIs, even equal ones,
  are refused.
\<close>

lemma caller_identity_unique:
  "identityFromRequest r trust = Some i \<longleftrightarrow>
     (\<exists>certs. peerURIs r = Some certs \<and>
        List.map_filter (\<lambda>u. ParseSPIFFEID u trust) (concat certs) = [i] \<and>
        (\<exists>uri \<in> set (concat certs). Scheme uri = ''spiffe'' \<and> urlHost uri = trust \<and>
           trim_byte CHR ''/'' (urlPath uri) = ''typeclaw/ns/'' @ idNamespace i @ ''/instance/'' @ idInstance i))"
proof -
  have found: "\<exists>uri \<in> set us. ParseSPIFFEID uri trust = Some i"
    if "List.map_filter (\<lambda>u. ParseSPIFFEID u trust) us = [i]" for us
  proof -
    have "i \<in> set (List.map_filter (\<lambda>u. ParseSPIFFEID u trust) us)" using that by simp
    then show ?thesis by (auto simp: map_filter_def)
  qed
  have "(\<exists>uri \<in> set us. Scheme uri = ''spiffe'' \<and> urlHost uri = trust \<and>
           trim_byte CHR ''/'' (urlPath uri) = ''typeclaw/ns/'' @ idNamespace i @ ''/instance/'' @ idInstance i)"
    if "List.map_filter (\<lambda>u. ParseSPIFFEID u trust) us = [i]" for us
    using found [OF that] unfolding ParseSPIFFEID_iff by blast
  moreover have "identityFromRequest r trust = Some i \<longleftrightarrow>
      (\<exists>certs. peerURIs r = Some certs \<and> List.map_filter (\<lambda>u. ParseSPIFFEID u trust) (concat certs) = [i])"
    by (cases "peerURIs r") (auto simp: identityFromRequest_def scanURIs_spec map_filter_simps split: list.splits)
  ultimately show ?thesis by metis
qed

end
