(* ===== verification/Instance.thy ===== *)
theory Instance
  imports Credential
begin

text \<open>
  The TypeClawInstance resource (\<^verbatim>\<open>api/v1alpha1/typeclawinstance_types.go\<close>), its status conditions
  (\<^verbatim>\<open>setCondition\<close> and its relatives in \<^verbatim>\<open>internal/controller\<close>), and the two rules that say which runtime
  image an Instance runs (\<^verbatim>\<open>internal/resources/workload.go\<close>, \<^verbatim>\<open>effective.go\<close>). Pointers are options,
  quantities and times are integers, a zero time is no time.
\<close>

section \<open>Spec\<close>

record VolumeClaimSpec =
  vcSize :: int
  vcStorageClass :: "string option"

record StorageSpec =
  AgentFolder :: VolumeClaimSpec
  RuntimeHome :: "VolumeClaimSpec option"
  TmpSizeLimit :: "int option"
  OnInstanceDeletion :: string

record BackupSpec =
  Schedule :: string
  SnapshotVolume :: VolumeClaimSpec
  Retention :: int

record AutoUpdateSpec =
  auEnabled :: bool
  Track :: string
  RequireFreshBackup :: bool
  MaxBackupAgeHours :: int
  ConfirmationTimeoutMinutes :: int

record NetworkSpec =
  Egress :: string
  IngressCIDRs :: "string list"

record RuntimeSpec =
  rtVersion :: string
  rtImage :: string
  Timezone :: string

record PersonalDesktopTailscaleAccessSpec =
  tsHostname :: string
  Tags :: "string list"
  OperatorNamespace :: string
  tsMode :: string
  Tailnet :: string
  tsImage :: string
  AuthSecret :: string
  tsAllowedLogins :: "string list"

record PersonalDesktopImageImportSpec =
  importURL :: string
  Checksum :: string
  importSize :: int
  importStorageClass :: "string option"

record PersonalDesktopImageSpec =
  GoldenDataVolume :: string
  imgImport :: "PersonalDesktopImageImportSpec option"

record PersonalDesktopRootVolumeSpec =
  rvSize :: int
  rvStorageClass :: "string option"
  ExistingDataVolume :: string
  rvOnInstanceDeletion :: string

record PersonalDesktopScreenSpec =
  screenWidth :: int
  screenHeight :: int

record PersonalDesktopLinuxSpec =
  linuxUsername :: string
  SSHAuthorizedKeys :: "string list"

record PersonalDesktopWindowsSpec =
  windowsUsername :: string
  VirtioContainerDisk :: string
  PythonInstaller :: "(string \<times> string) option"

record PersonalDesktopGatewaySpec =
  gwImage :: string
  AgentLeaseTTLSeconds :: int

text \<open>The access block is a pointer to a block with a pointer to the Tailscale settings.\<close>

record PersonalDesktopSpec =
  pdEnabled :: bool
  pdOS :: string
  pdNamespace :: string
  pdOwnerIssuer :: string
  pdOwnerSubject :: string
  pdAccess :: "PersonalDesktopTailscaleAccessSpec option option"
  pdImage :: PersonalDesktopImageSpec
  pdRootVolume :: PersonalDesktopRootVolumeSpec
  pdCPUCores :: int
  pdMemory :: int
  pdNodeSelector :: "(string \<times> string) list"
  pdScreen :: "PersonalDesktopScreenSpec option"
  pdMACAddress :: string
  pdLinux :: "PersonalDesktopLinuxSpec option"
  pdWindows :: "PersonalDesktopWindowsSpec option"
  pdGateway :: "PersonalDesktopGatewaySpec option"

text \<open>The security block is its seccomp profile, the self-configuration block its protected paths.\<close>

record TypeClawInstanceSpec =
  Runtime :: RuntimeSpec
  Storage :: StorageSpec
  Suspend :: bool
  ExposeTUI :: "bool option"
  RestartRelay :: "bool option"
  spBackup :: "BackupSpec option"
  spAutoUpdate :: "AutoUpdateSpec option"
  spNetwork :: NetworkSpec
  spSecurity :: "string option"
  spSelfConfig :: "string list option"
  spCredentialPolicy :: "CredentialPolicySpec option"
  spPersonalDesktop :: "PersonalDesktopSpec option"

section \<open>Status\<close>

record condition =
  condType :: string
  condStatus :: bool
  condObservedGeneration :: int
  condReason :: string
  condMessage :: string
  LastTransitionTime :: "int option"

datatype UpdatePhase =
    UpdatePhaseUnset
  | UpdatePhaseIdle
  | UpdatePhaseAwaitingBackup
  | UpdatePhaseUpdating
  | UpdatePhaseConfirming
  | UpdatePhaseReady
  | UpdatePhaseRolledBack

record UpdateStatus =
  upPhase :: UpdatePhase
  CurrentVersion :: string
  TargetVersion :: string
  PromotedImage :: string
  ConfirmationDeadline :: "int option"
  upMessage :: string

record BackupStatus =
  LatestSnapshot :: string
  LastSnapshotTime :: "int option"

record SelfConfigStatus =
  ObservedDigest :: string
  ObservedAt :: "int option"
  Revision :: int
  ChangedPaths :: "string list"
  ProtectedViolation :: bool

record PersonalDesktopStatus =
  pdsPhase :: string
  pdsDesktopName :: string
  pdsNamespace :: string
  GoldenImagePhase :: string
  RootVolumePhase :: string
  VMPrintableStatus :: string
  GatewayReady :: bool
  pdsConsoleURL :: string
  pdsMessage :: string

record TypeClawInstanceStatus =
  ObservedGeneration :: int
  Conditions :: "condition list"
  stBackup :: "BackupStatus option"
  stUpdate :: "UpdateStatus option"
  RestoreLastProcessed :: string
  stSelfConfig :: "SelfConfigStatus option"
  stPersonalDesktop :: "PersonalDesktopStatus option"

record TypeClawInstance =
  instName :: string
  instNamespace :: string
  instUID :: string
  instGeneration :: int
  instDeleting :: bool
  instFinalizers :: "string list"
  instAnnotations :: "(string \<times> string) list"
  Spec :: TypeClawInstanceSpec
  Status :: TypeClawInstanceStatus

section \<open>Conditions\<close>

text \<open>The loop of \<^verbatim>\<open>setCondition\<close>: the first condition of the type is replaced in place, else one is added.\<close>

fun upsertCondition :: "condition \<Rightarrow> condition list \<Rightarrow> condition list" where
  "upsertCondition cond [] = [cond]"
| "upsertCondition cond (existing # rest) =
     (if condType existing \<noteq> condType cond then existing # upsertCondition cond rest
      else if condStatus existing = condStatus cond
      then let cond' = cond\<lparr>LastTransitionTime := LastTransitionTime existing\<rparr> in
           if LastTransitionTime cond' \<noteq> None \<and> condReason existing = condReason cond \<and>
              condMessage existing = condMessage cond
           then existing\<lparr>condObservedGeneration := condObservedGeneration cond\<rparr> # rest
           else cond' # rest
      else cond # rest)"

definition setCondition ::
  "int \<Rightarrow> int \<Rightarrow> string \<Rightarrow> bool \<Rightarrow> string \<Rightarrow> string \<Rightarrow> string
     \<Rightarrow> TypeClawInstanceStatus \<Rightarrow> TypeClawInstanceStatus" where
  "setCondition now gnr conditionType positive trueReason falseReason message st =
     st\<lparr>Conditions := upsertCondition
          \<lparr>condType = conditionType, condStatus = positive, condObservedGeneration = gnr,
           condReason = (if positive then trueReason else falseReason), condMessage = message,
           LastTransitionTime = Some now\<rparr> (Conditions st)\<rparr>"

fun dropCondition :: "string \<Rightarrow> condition list \<Rightarrow> condition list" where
  "dropCondition conditionType [] = []"
| "dropCondition conditionType (c # cs) =
     (if condType c = conditionType then cs else c # dropCondition conditionType cs)"

definition removeCondition :: "string \<Rightarrow> TypeClawInstanceStatus \<Rightarrow> TypeClawInstanceStatus" where
  "removeCondition conditionType st = st\<lparr>Conditions := dropCondition conditionType (Conditions st)\<rparr>"

definition condition_of :: "string \<Rightarrow> TypeClawInstanceStatus \<Rightarrow> condition option" where
  "condition_of conditionType st = find (\<lambda>c. condType c = conditionType) (Conditions st)"

section \<open>Images\<close>

abbreviation DefaultRuntimeRepository :: string where
  "DefaultRuntimeRepository \<equiv> ''ghcr.io/fml09/typeclaw-runtime''"
abbreviation DefaultRuntimeVersion :: string where "DefaultRuntimeVersion \<equiv> ''0.48.9''"

definition ResolveRuntimeImage :: "TypeClawInstanceSpec \<Rightarrow> string" where
  "ResolveRuntimeImage spec =
     (if rtImage (Runtime spec) \<noteq> '''' then rtImage (Runtime spec)
      else let version = (if rtVersion (Runtime spec) = '''' then DefaultRuntimeVersion else rtVersion (Runtime spec))
           in DefaultRuntimeRepository @ '':'' @ version)"

definition EffectiveRuntimeImage :: "TypeClawInstance \<Rightarrow> string" where
  "EffectiveRuntimeImage inst =
     (case stUpdate (Status inst) of
        None \<Rightarrow> ResolveRuntimeImage (Spec inst)
      | Some u \<Rightarrow>
          if PromotedImage u \<noteq> '''' \<and>
             (upPhase u = UpdatePhaseUpdating \<or> upPhase u = UpdatePhaseConfirming \<or> upPhase u = UpdatePhaseReady)
          then PromotedImage u else ResolveRuntimeImage (Spec inst))"

definition Labels :: "TypeClawInstance \<Rightarrow> (string \<times> string) list" where
  "Labels inst =
     [(''app.kubernetes.io/name'', ''typeclaw''), (''app.kubernetes.io/instance'', instName inst),
      (''app.kubernetes.io/managed-by'', ''typeclaw-operator'')]"

section \<open>Facts\<close>

text \<open>At most one condition per type is kept once it holds, and other types are not touched.\<close>

lemma upsertCondition_types:
  "map condType (upsertCondition c cs) =
     (if condType c \<in> set (map condType cs) then map condType cs else map condType cs @ [condType c])"
  by (induction cs) (auto simp: Let_def)

lemma find_upsertCondition:
  "find (\<lambda>x. condType x = t) (upsertCondition c cs) =
     (if t \<noteq> condType c then find (\<lambda>x. condType x = t) cs
      else Some (c\<lparr>LastTransitionTime := (case find (\<lambda>x. condType x = t) cs of
          None \<Rightarrow> LastTransitionTime c
        | Some old \<Rightarrow> if condStatus old = condStatus c then LastTransitionTime old else LastTransitionTime c)\<rparr>))"
proof (induction cs)
  case (Cons e cs)
  show ?case
    using Cons by (cases e; cases c) (auto simp: Let_def split: option.splits)
qed simp

lemma condition_of_setCondition:
  "condition_of t (setCondition now gnr ty positive trueReason falseReason message st) =
     (if t = ty then Some
        \<lparr>condType = ty, condStatus = positive, condObservedGeneration = gnr,
         condReason = (if positive then trueReason else falseReason), condMessage = message,
         LastTransitionTime = (case condition_of ty st of
             None \<Rightarrow> Some now
           | Some old \<Rightarrow> if condStatus old = positive then LastTransitionTime old else Some now)\<rparr>
      else condition_of t st)"
  by (auto simp: condition_of_def setCondition_def find_upsertCondition split: option.splits)

text \<open>
  C25. The list of conditions implements a map from condition types to conditions: seen as such a
  map, setting a condition updates exactly its type, with the new status, reason, message and
  generation, and with the time of the last transition kept when the status stayed the same and
  renewed when it changed; no other entry changes, and the list keeps at most one entry per type
  in the order of first appearance.
\<close>

theorem setCondition_refines_map:
  "condition_of t (setCondition now gnr ty positive trueReason falseReason message st) =
     ((\<lambda>t. condition_of t st)(ty \<mapsto>
        \<lparr>condType = ty, condStatus = positive, condObservedGeneration = gnr,
         condReason = (if positive then trueReason else falseReason), condMessage = message,
         LastTransitionTime = (case condition_of ty st of
             None \<Rightarrow> Some now
           | Some old \<Rightarrow> if condStatus old = positive then LastTransitionTime old else Some now)\<rparr>)) t \<and>
   map condType (Conditions (setCondition now gnr ty positive trueReason falseReason message st)) =
     (if ty \<in> set (map condType (Conditions st)) then map condType (Conditions st)
      else map condType (Conditions st) @ [ty])"
  by (simp add: condition_of_setCondition) (simp add: setCondition_def upsertCondition_types)

section \<open>A sample Instance\<close>

text \<open>An Instance with auto-update enabled and everything else at its default, for the witnesses.\<close>

definition claim0 :: VolumeClaimSpec where
  "claim0 = \<lparr>vcSize = 1, vcStorageClass = None\<rparr>"

definition sample_auto :: AutoUpdateSpec where
  "sample_auto = \<lparr>auEnabled = True, Track = '''', RequireFreshBackup = False, MaxBackupAgeHours = 0,
     ConfirmationTimeoutMinutes = 0\<rparr>"

definition sample_ispec :: TypeClawInstanceSpec where
  "sample_ispec = \<lparr>Runtime = \<lparr>rtVersion = ''0.48.9'', rtImage = '''', Timezone = ''''\<rparr>,
     Storage = \<lparr>AgentFolder = claim0, RuntimeHome = None, TmpSizeLimit = None, OnInstanceDeletion = ''''\<rparr>,
     Suspend = False, ExposeTUI = None, RestartRelay = None, spBackup = None, spAutoUpdate = Some sample_auto,
     spNetwork = \<lparr>Egress = '''', IngressCIDRs = []\<rparr>, spSecurity = None, spSelfConfig = None,
     spCredentialPolicy = None, spPersonalDesktop = None\<rparr>"

definition sample_istatus :: "UpdateStatus option \<Rightarrow> TypeClawInstanceStatus" where
  "sample_istatus u = \<lparr>ObservedGeneration = 0, Conditions = [], stBackup = None, stUpdate = u,
     RestoreLastProcessed = '''', stSelfConfig = None, stPersonalDesktop = None\<rparr>"

definition sample_inst :: "TypeClawInstanceStatus \<Rightarrow> TypeClawInstance" where
  "sample_inst st = \<lparr>instName = ''i'', instNamespace = ''n'', instUID = ''u'', instGeneration = 1, instDeleting = False,
     instFinalizers = [], instAnnotations = [], Spec = sample_ispec, Status = st\<rparr>"

lemma sample_inst_simps [simp]:
  "spAutoUpdate sample_ispec = Some sample_auto" "auEnabled sample_auto" "Track sample_auto = ''''"
  "\<not> RequireFreshBackup sample_auto" "Status (sample_inst st) = st" "Spec (sample_inst st) = sample_ispec"
  "instGeneration (sample_inst st) = 1" "instName (sample_inst st) = ''i''" "instNamespace (sample_inst st) = ''n''"
  "Status_update (\<lambda>_. st') (sample_inst st) = sample_inst st'"
  "stUpdate (sample_istatus u) = u" "spPersonalDesktop sample_ispec = None"
  by (simp_all add: sample_ispec_def sample_auto_def sample_inst_def sample_istatus_def)

end
