(* ===== verification/Update.thy ===== *)
theory Update
  imports Instance "HOL-Library.Multiset" "HOL-Library.List_Lexorder" "HOL-Library.Option_ord"
begin

text \<open>
  Release tags of the managed runtime (\<^verbatim>\<open>internal/update/registry.go\<close>) and the version gate of the
  Personal Desktop (\<^verbatim>\<open>internal/desktop/preconditions.go\<close>). Both compare release numbers with code of
  their own; the locale \<open>version_order\<close> states what a comparator promises and both interpret it.
  The HTTP exchange, JSON and URL parsing are parameters, and so is \<^verbatim>\<open>sort.Slice\<close>, of which the
  locale \<open>slice_sort\<close> keeps the documented contract.
\<close>

section \<open>Release tags\<close>

definition is_digit :: "char \<Rightarrow> bool" where
  "is_digit c = (let n = of_char c :: nat in 48 \<le> n \<and> n \<le> 57)"

text \<open>The regular expression \<^verbatim>\<open>^\d+\.\d+\.\d+$\<close>.\<close>

definition plainSemver :: "string \<Rightarrow> bool" where
  "plainSemver tag =
     (let parts = split_on CHR ''.'' tag in
      length parts = 3 \<and> list_all (\<lambda>p. p \<noteq> [] \<and> list_all is_digit p) parts)"

fun parseParts :: "string list \<Rightarrow> int list option" where
  "parseParts [] = Some []"
| "parseParts (part # rest) =
     (case Atoi part of
        None \<Rightarrow> None
      | Some n \<Rightarrow> map_option ((#) n) (parseParts rest))"

definition parseVersion :: "string \<Rightarrow> int list option" where
  "parseVersion tag =
     (let parts = split_on CHR ''.'' tag in if length parts \<noteq> 3 then None else parseParts parts)"

fun compareParts :: "int list \<Rightarrow> int list \<Rightarrow> int" where
  "compareParts (a # as) (b # bs) =
     (if a \<noteq> b then (if b < a then 1 else - 1) else compareParts as bs)"
| "compareParts _ _ = 0"

definition compareVersion :: "string \<Rightarrow> string \<Rightarrow> int" where
  "compareVersion a b =
     (case (parseVersion a, parseVersion b) of
        (None, None) \<Rightarrow> 0
      | (None, Some _) \<Rightarrow> - 1
      | (Some _, None) \<Rightarrow> 1
      | (Some as, Some bs) \<Rightarrow> compareParts as bs)"

definition Newer :: "string \<Rightarrow> string \<Rightarrow> bool" where
  "Newer a b = (0 < compareVersion a b)"

fun pickLoop :: "string \<Rightarrow> string \<Rightarrow> string list \<Rightarrow> string" where
  "pickLoop track best [] = best"
| "pickLoop track best (tag # tags) =
     (if \<not> plainSemver tag then pickLoop track best tags
      else if track \<noteq> ''latest'' \<and> \<not> HasPrefix tag (track @ ''.'') then pickLoop track best tags
      else if best = '''' \<or> 0 < compareVersion tag best then pickLoop track tag tags
      else pickLoop track best tags)"

definition PickVersion :: "string list \<Rightarrow> string \<Rightarrow> string \<times> bool" where
  "PickVersion tags track = (let best = pickLoop track '''' tags in (best, best \<noteq> ''''))"

section \<open>The registry client\<close>

record RegistryClient =
  BaseURL :: string
  TokenURL :: string

text \<open>
  The client's outside: a URL with query parameters set (or why it does not parse), the GET of a URL
  with an optional bearer token (an error, or status and body), and the two JSON decoders.
\<close>

record registry_lib =
  setQuery :: "string \<Rightarrow> (string \<times> string) list \<Rightarrow> string + string"
  httpGet :: "string \<Rightarrow> string option \<Rightarrow> string + int \<times> string"
  decodeToken :: "string \<Rightarrow> string option"
  decodeTags :: "string \<Rightarrow> string list option"

definition fetchToken :: "registry_lib \<Rightarrow> string \<Rightarrow> string + string" where
  "fetchToken lib tokenURL =
     (case setQuery lib tokenURL [(''service'', ''ghcr.io''), (''scope'', ''repository:fml09/typeclaw-runtime:pull'')] of
        Inl err \<Rightarrow> Inl (''parse token URL: '' @ err)
      | Inr endpoint \<Rightarrow>
         (case httpGet lib endpoint None of
            Inl err \<Rightarrow> Inl err
          | Inr (st, answer) \<Rightarrow>
              if st \<noteq> 200 then Inl (''status '' @ Itoa st)
              else (case decodeToken lib (take 1048576 answer) of
                  None \<Rightarrow> Inl ''decode token response''
                | Some token \<Rightarrow> if token = '''' then Inl ''token response carried no token'' else Inr token)))"

definition newestFirst :: "string \<Rightarrow> string \<Rightarrow> bool" where
  "newestFirst a b = (0 < compareVersion a b)"

definition fetchTags ::
  "registry_lib \<Rightarrow> ((string \<Rightarrow> string \<Rightarrow> bool) \<Rightarrow> string list \<Rightarrow> string list) \<Rightarrow> string \<Rightarrow> string
     \<Rightarrow> string + string list" where
  "fetchTags lib sortSlice baseURL token =
     (case httpGet lib (TrimSuffix baseURL ''/'' @ ''/v2/fml09/typeclaw-runtime/tags/list?n=1000'') (Some token) of
        Inl err \<Rightarrow> Inl err
      | Inr (st, answer) \<Rightarrow>
          if st \<noteq> 200 then Inl (''status '' @ Itoa st)
          else (case decodeTags lib (take 4194304 answer) of
              None \<Rightarrow> Inl ''decode tag list''
            | Some tags \<Rightarrow> Inr (sortSlice newestFirst (filter plainSemver tags))))"

definition ListVersions ::
  "registry_lib \<Rightarrow> ((string \<Rightarrow> string \<Rightarrow> bool) \<Rightarrow> string list \<Rightarrow> string list) \<Rightarrow> RegistryClient
     \<Rightarrow> string + string list" where
  "ListVersions lib sortSlice c =
     (let base = (if BaseURL c = '''' then ''https://ghcr.io'' else BaseURL c);
          tokenURL = (if TokenURL c = '''' then ''https://ghcr.io/token'' else TokenURL c)
      in case fetchToken lib tokenURL of
           Inl err \<Rightarrow> Inl (''registry token exchange: '' @ err)
         | Inr token \<Rightarrow>
            (case fetchTags lib sortSlice base token of
               Inl err \<Rightarrow> Inl (''registry tag list: '' @ err)
             | Inr tags \<Rightarrow> Inr tags))"

section \<open>The desktop's version gate\<close>

text \<open>The prefix up to the first \<^verbatim>\<open>-\<close> or \<^verbatim>\<open>+\<close>.\<close>

definition semverCore :: "string \<Rightarrow> string" where
  "semverCore version = takeWhile (\<lambda>c. c \<notin> set ''-+'') version"

fun semverFields :: "string list \<Rightarrow> int list option" where
  "semverFields [] = Some []"
| "semverFields (field # rest) =
     (case Atoi field of
        None \<Rightarrow> None
      | Some v \<Rightarrow> if v < 0 then None else map_option ((#) v) (semverFields rest))"

definition semverParts :: "string \<Rightarrow> int list option" where
  "semverParts version =
     (let fields = split_on CHR ''.'' (TrimPrefix (semverCore version) ''v'') in
      if length fields \<noteq> 3 then None else semverFields fields)"

fun compareFields :: "int list \<Rightarrow> int list \<Rightarrow> int" where
  "compareFields (l # ls) (r # rs) =
     (if l \<noteq> r then (if l < r then - 1 else 1) else compareFields ls rs)"
| "compareFields _ _ = 0"

definition compareSemver :: "string \<Rightarrow> string \<Rightarrow> int" where
  "compareSemver left right =
     (case (semverParts left, semverParts right) of
        (None, None) \<Rightarrow> 0
      | (None, Some _) \<Rightarrow> - 1
      | (Some _, None) \<Rightarrow> 1
      | (Some ls, Some rs) \<Rightarrow> compareFields ls rs)"

definition RuntimeSupportsExtensions :: "TypeClawInstance \<Rightarrow> bool" where
  "RuntimeSupportsExtensions inst =
     (if rtImage (Runtime (Spec inst)) \<noteq> '''' then True
      else let version = (if rtVersion (Runtime (Spec inst)) = '''' then DefaultRuntimeVersion
                          else rtVersion (Runtime (Spec inst)))
           in 0 \<le> compareSemver version ''0.52.0'')"

definition EffectiveRuntimeVersion :: "TypeClawInstance \<Rightarrow> string" where
  "EffectiveRuntimeVersion inst =
     (if rtImage (Runtime (Spec inst)) \<noteq> '''' then rtImage (Runtime (Spec inst))
      else if rtVersion (Runtime (Spec inst)) \<noteq> '''' then rtVersion (Runtime (Spec inst))
      else DefaultRuntimeVersion)"

definition RuntimeTooOldMessage :: "TypeClawInstance \<Rightarrow> string" where
  "RuntimeTooOldMessage inst =
     ''managed runtime '' @ EffectiveRuntimeVersion inst @
     '' predates 0.52.0, which is the first release that loads Platform Extensions''"

section \<open>What a comparator promises\<close>

text \<open>
  A comparator orders version strings by what they parse to: a string that does not parse is below
  every release, and releases are ordered lexicographically.
\<close>

locale version_order =
  fixes parse :: "string \<Rightarrow> int list option" and cmp :: "string \<Rightarrow> string \<Rightarrow> int"
  assumes cmp_spec: "cmp a b = (if parse a = parse b then 0 else if parse b < parse a then 1 else - 1)"
begin

lemma newer_iff: "0 < cmp a b \<longleftrightarrow> parse b < parse a"
  by (auto simp: cmp_spec)

lemma at_least_iff: "0 \<le> cmp a b \<longleftrightarrow> parse b \<le> parse a"
  by (auto simp: cmp_spec not_less)

lemma antisym: "cmp a b = - cmp b a"
  by (auto simp: cmp_spec not_less_iff_gr_or_eq)

lemma newer_irrefl: "\<not> 0 < cmp a a"
  by (simp add: cmp_spec)

lemma newer_trans: "0 < cmp a b \<Longrightarrow> 0 < cmp b c \<Longrightarrow> 0 < cmp a c"
  by (simp add: newer_iff)

lemma not_newer_trans: "\<not> 0 < cmp b a \<Longrightarrow> \<not> 0 < cmp c b \<Longrightarrow> \<not> 0 < cmp c a"
  by (simp add: newer_iff)

lemma not_newer_newer: "\<not> 0 < cmp a b \<Longrightarrow> 0 < cmp a c \<Longrightarrow> 0 < cmp b c"
  by (auto simp: newer_iff not_less)

end

lemma compareParts_spec:
  "length as = length bs \<Longrightarrow> compareParts as bs = (if as = bs then 0 else if bs < as then 1 else - 1)"
  by (induction as bs rule: compareParts.induct) auto

lemma compareFields_parts: "compareFields as bs = compareParts as bs"
  by (induction as bs rule: compareParts.induct) auto

lemma parseParts_length: "parseParts ps = Some v \<Longrightarrow> length v = length ps"
  by (induction ps arbitrary: v) (auto split: option.splits)

lemma semverFields_length: "semverFields ps = Some v \<Longrightarrow> length v = length ps"
  by (induction ps arbitrary: v) (auto split: option.splits if_splits)

interpretation releases: version_order parseVersion compareVersion
proof
  have "length v = 3" if "parseVersion s = Some v" for s v
    using that parseParts_length by (auto simp: parseVersion_def Let_def split: if_splits)
  then show "compareVersion a b = (if parseVersion a = parseVersion b then 0
      else if parseVersion b < parseVersion a then 1 else - 1)" for a b
    by (cases "parseVersion a"; cases "parseVersion b") (simp_all add: compareVersion_def compareParts_spec)
qed

interpretation gate: version_order semverParts compareSemver
proof
  have "length v = 3" if "semverParts s = Some v" for s v
    using that semverFields_length by (auto simp: semverParts_def Let_def split: if_splits)
  then show "compareSemver a b = (if semverParts a = semverParts b then 0
      else if semverParts b < semverParts a then 1 else - 1)" for a b
    by (cases "semverParts a"; cases "semverParts b")
      (simp_all add: compareSemver_def compareFields_parts compareParts_spec)
qed

section \<open>What \<^verbatim>\<open>sort.Slice\<close> promises\<close>

text \<open>
  The documented contract: the result is a permutation, and it is ordered when \<open>lt\<close> is a strict
  weak ordering (irreflexive, transitive, and with transitive incomparability).
\<close>

definition strict_weak :: "('a \<Rightarrow> 'a \<Rightarrow> bool) \<Rightarrow> bool" where
  "strict_weak lt \<longleftrightarrow> (\<forall>x. \<not> lt x x) \<and> (\<forall>x y z. lt x y \<longrightarrow> lt y z \<longrightarrow> lt x z) \<and>
     (\<forall>x y z. \<not> lt y x \<longrightarrow> \<not> lt z y \<longrightarrow> \<not> lt z x)"

locale slice_sort =
  fixes sortSlice :: "('a \<Rightarrow> 'a \<Rightarrow> bool) \<Rightarrow> 'a list \<Rightarrow> 'a list"
  assumes sort_perm: "mset (sortSlice lt xs) = mset xs"
    and sort_sorted: "strict_weak lt \<Longrightarrow> sorted_wrt (\<lambda>x y. \<not> lt y x) (sortSlice lt xs)"
begin

lemma sort_set: "set (sortSlice lt xs) = set xs"
  by (metis sort_perm set_mset_mset)

lemma sort_head:
  assumes "strict_weak lt" "sortSlice lt xs = y # ys" "x \<in> set xs"
  shows "\<not> lt x y"
proof -
  from assms(3) have "x \<in> set (y # ys)" using sort_set [of lt xs] assms(2) by simp
  moreover have "\<forall>z \<in> set ys. \<not> lt z y" using sort_sorted [OF assms(1), of xs] assms(2) by simp
  moreover have "\<not> lt y y" using assms(1) by (simp add: strict_weak_def)
  ultimately show ?thesis by auto
qed

end

text \<open>Short slices are sorted by insertion.\<close>

fun insertBy :: "('a \<Rightarrow> 'a \<Rightarrow> bool) \<Rightarrow> 'a \<Rightarrow> 'a list \<Rightarrow> 'a list" where
  "insertBy lt x [] = [x]"
| "insertBy lt x (y # ys) = (if lt y x then y # insertBy lt x ys else x # y # ys)"

definition insertionSort :: "('a \<Rightarrow> 'a \<Rightarrow> bool) \<Rightarrow> 'a list \<Rightarrow> 'a list" where
  "insertionSort lt xs = foldr (insertBy lt) xs []"

lemma mset_insertBy: "mset (insertBy lt x ys) = {#x#} + mset ys"
  by (induction ys) auto

lemma sorted_insertBy:
  assumes "strict_weak lt" "sorted_wrt (\<lambda>x y. \<not> lt y x) ys"
  shows "sorted_wrt (\<lambda>x y. \<not> lt y x) (insertBy lt x ys)"
  using assms(2)
proof (induction ys)
  case (Cons y ys)
  have set: "set (insertBy lt x ys) = insert x (set ys)"
    by (metis mset_insertBy set_mset_mset set_mset_add_mset_insert add_mset_add_single union_commute)
  have trans: "\<not> lt c a" if "\<not> lt b a" "\<not> lt c b" for a b c
    using assms(1) that unfolding strict_weak_def by blast
  have "\<not> lt x y" if "lt y x"
    using that assms(1) unfolding strict_weak_def by blast
  with Cons trans [of y x] show ?case by (auto simp: set)
qed simp

interpretation insertion: slice_sort insertionSort
proof
  show "mset (insertionSort lt xs) = mset xs" for lt :: "'a \<Rightarrow> 'a \<Rightarrow> bool" and xs
    by (induction xs) (auto simp: insertionSort_def mset_insertBy)
  show "sorted_wrt (\<lambda>x y. \<not> lt y x) (insertionSort lt xs)" if "strict_weak lt"
    for lt :: "'a \<Rightarrow> 'a \<Rightarrow> bool" and xs
    by (induction xs) (auto simp: insertionSort_def sorted_insertBy [OF that])
qed

lemma newestFirst_weak: "strict_weak newestFirst"
  unfolding strict_weak_def newestFirst_def
  using releases.newer_irrefl releases.newer_trans releases.not_newer_trans by blast

section \<open>Selection\<close>

definition qualifies :: "string \<Rightarrow> string \<Rightarrow> bool" where
  "qualifies track tag \<longleftrightarrow> plainSemver tag \<and> (track = ''latest'' \<or> HasPrefix tag (track @ ''.''))"

lemma qualifies_nonempty: "qualifies track tag \<Longrightarrow> tag \<noteq> ''''"
  by (auto simp: qualifies_def plainSemver_def)

lemma pickLoop_step:
  "pickLoop track best (tag # tags) =
     (if qualifies track tag \<and> (best = '''' \<or> Newer tag best) then pickLoop track tag tags else pickLoop track best tags)"
  by (auto simp: qualifies_def Newer_def)

lemma pickLoop_in: "pickLoop track best tags = best \<or> pickLoop track best tags \<in> {t \<in> set tags. qualifies track t}"
proof (induction tags arbitrary: best)
  case (Cons t tags)
  show ?case
    using Cons [of best] Cons [of t] unfolding pickLoop_step by auto
qed simp

lemma pickLoop_max:
  "(best \<noteq> '''' \<longrightarrow> \<not> Newer best (pickLoop track best tags)) \<and>
   (\<forall>t \<in> set tags. qualifies track t \<longrightarrow> pickLoop track best tags \<noteq> '''' \<and> \<not> Newer t (pickLoop track best tags))"
proof (induction tags arbitrary: best)
  case Nil
  then show ?case by (simp add: Newer_def releases.newer_irrefl)
next
  case (Cons tag tags)
  show ?case
  proof (cases "qualifies track tag \<and> (best = '''' \<or> Newer tag best)")
    case True
    then have eq: "pickLoop track best (tag # tags) = pickLoop track tag tags" unfolding pickLoop_step by (rule if_P)
    have tag: "tag \<noteq> ''''" using True qualifies_nonempty by blast
    have "pickLoop track tag tags \<noteq> ''''"
      using pickLoop_in [of track tag tags] tag qualifies_nonempty by auto
    moreover have "\<not> Newer best (pickLoop track tag tags)" if "best \<noteq> ''''"
      using Cons [of tag] tag True that unfolding Newer_def
      by (metis releases.newer_trans)
    ultimately show ?thesis unfolding eq using Cons [of tag] tag by auto
  next
    case False
    then have eq: "pickLoop track best (tag # tags) = pickLoop track best tags" unfolding pickLoop_step by (rule if_not_P)
    have "pickLoop track best tags \<noteq> '''' \<and> \<not> Newer tag (pickLoop track best tags)" if "qualifies track tag"
    proof -
      have "best \<noteq> ''''" "\<not> Newer tag best" using False that by auto
      then show ?thesis
        using Cons [of best] pickLoop_in [of track best tags] qualifies_nonempty [of track]
        unfolding Newer_def by (auto dest: releases.not_newer_trans)
    qed
    then show ?thesis unfolding eq using Cons [of best] by auto
  qed
qed

section \<open>Properties\<close>

lemma digits_not_negative:
  assumes "p \<noteq> []" "list_all is_digit p" "Atoi p = Some v"
  shows "0 \<le> v"
proof -
  obtain c cs where p: "p = c # cs" using assms(1) by (cases p) auto
  have "c \<noteq> CHR ''-''" "c \<noteq> CHR ''+''" using assms(2) p by (auto simp: is_digit_def)
  then show ?thesis
    using assms(3) p by (auto simp: Atoi_def Let_def split: option.splits if_splits)
qed

lemma semverFields_digits:
  "list_all (\<lambda>p. p \<noteq> [] \<and> list_all is_digit p) ps \<Longrightarrow> semverFields ps = parseParts ps"
  by (induction ps) (auto split: option.splits dest: digits_not_negative)

lemma join_chars: "c \<in> set (join_with sep ws) \<Longrightarrow> c = sep \<or> (\<exists>w \<in> set ws. c \<in> set w)"
  by (induction ws rule: join_with.induct) auto

lemma plain_parts:
  assumes "plainSemver tag"
  shows "semverParts tag = parseVersion tag"
proof -
  define parts where "parts = split_on CHR ''.'' tag"
  have parts: "length parts = 3" "list_all (\<lambda>p. p \<noteq> [] \<and> list_all is_digit p) parts"
    using assms by (auto simp: plainSemver_def parts_def Let_def)
  have tag: "tag = join_with CHR ''.'' parts" by (simp add: parts_def join_split)
  have chars: "c = CHR ''.'' \<or> is_digit c" if "c \<in> set tag" for c
    using that parts(2) join_chars [of c "CHR ''.''" parts] by (auto simp: tag list_all_iff)
  have "c \<noteq> CHR ''-'' \<and> c \<noteq> CHR ''+'' \<and> c \<noteq> CHR ''v''" if "c \<in> set tag" for c
    using chars [OF that] by (auto simp: is_digit_def)
  then have "semverCore tag = tag" "CHR ''v'' \<notin> set tag"
    by (auto simp: semverCore_def takeWhile_eq_all_conv)
  moreover from this(2) have "\<not> HasPrefix tag ''v''" by (auto simp: HasPrefix_iff)
  ultimately show ?thesis
    using parts by (simp add: semverParts_def parseVersion_def TrimPrefix_def parts_def [symmetric] semverFields_digits Let_def)
qed

text \<open>
  The registry client and the desktop's version gate compare release numbers with separate
  code, and they agree: on release tags both comparators give the same answer, which is the
  lexicographic order of the numbers, and the answer is antisymmetric. A tag with a number beyond 64
  bits does not parse and counts as the oldest in both.
\<close>

lemma version_comparators_agree:
  assumes "plainSemver a" and "plainSemver b"
  shows "compareVersion a b = compareSemver a b \<and> compareVersion a b = - compareVersion b a \<and>
    (Newer a b \<longleftrightarrow> semverParts b < semverParts a) \<and>
    (compareVersion a b = 0 \<longleftrightarrow> semverParts a = semverParts b)"
  using plain_parts [OF assms(1)] plain_parts [OF assms(2)]
  by (auto simp: releases.cmp_spec gate.cmp_spec Newer_def not_less_iff_gr_or_eq)

lemma version_comparators_agree_witness:
  "compareVersion ''0.48.9'' ''0.48.10'' = compareSemver ''0.48.9'' ''0.48.10'' \<and>
   compareVersion ''0.48.9'' ''0.48.10'' = - 1"
proof -
  have "plainSemver ''0.48.9''" "plainSemver ''0.48.10''"
    by (simp_all add: plainSemver_def is_digit_def Let_def)
  moreover have "compareVersion ''0.48.9'' ''0.48.10'' = - 1"
    by (simp add: compareVersion_def parseVersion_def Atoi_def digit_value_def Let_def)
  ultimately show ?thesis using version_comparators_agree [of "''0.48.9''" "''0.48.10''"] by simp
qed

lemma ListVersions_tags:
  assumes "ListVersions lib sortSlice c = Inr tags"
  shows "\<exists>answer all. decodeTags lib answer = Some all \<and> tags = sortSlice newestFirst (filter plainSemver all)"
  using assms
  by (auto simp: ListVersions_def fetchTags_def Let_def split: sum.splits prod.splits if_splits option.splits)

text \<open>
  C22. How a rollout candidate is chosen: the tags the registry client returns are exactly the
  release tags of the decoded answer, newest first; on a track a version is picked if and only if
  some tag qualifies for it, the picked one qualifies, and no qualifying tag is newer; for the track
  latest that is the head of the list. The hypothesis is the contract of \<^verbatim>\<open>sort.Slice\<close>.
\<close>

theorem candidate_selection:
  assumes "slice_sort sortSlice" and "ListVersions lib sortSlice c = Inr tags"
    and "PickVersion tags track = (best, found)"
  shows "(\<exists>answer all. decodeTags lib answer = Some all \<and> mset tags = filter_mset plainSemver (mset all)) \<and>
    sorted_wrt (\<lambda>a b. \<not> Newer b a) tags \<and>
    (found \<longleftrightarrow> (\<exists>t \<in> set tags. qualifies track t)) \<and>
    (found \<longrightarrow> best \<in> set tags \<and> qualifies track best \<and> (\<forall>t \<in> set tags. qualifies track t \<longrightarrow> \<not> Newer t best)) \<and>
    (found \<and> track = ''latest'' \<longrightarrow> best = hd tags)"
proof -
  note sort = slice_sort.sort_perm [OF assms(1)] slice_sort.sort_sorted [OF assms(1) newestFirst_weak]
  obtain answer all where all: "decodeTags lib answer = Some all"
    "tags = sortSlice newestFirst (filter plainSemver all)"
    using ListVersions_tags [OF assms(2)] by blast
  have best: "best = pickLoop track '''' tags" "found \<longleftrightarrow> best \<noteq> ''''"
    using assms(3) by (auto simp: PickVersion_def Let_def)
  have sorted: "sorted_wrt (\<lambda>a b. \<not> Newer b a) tags"
    using sort(2) [of "filter plainSemver all"] unfolding all(2) newestFirst_def Newer_def .
  have head: "best = hd tags" if "found" "track = ''latest''"
  proof -
    have "tags \<noteq> []" using that best by auto
    then obtain t ts where tags: "tags = t # ts" by (cases tags) auto
    have "set tags = set (filter plainSemver all)"
      using slice_sort.sort_set [OF assms(1)] by (simp add: all(2))
    then have "plainSemver t" using tags by auto
    then have t: "qualifies track t" using tags that by (simp add: qualifies_def)
    have "pickLoop track t us = t" if "\<forall>u \<in> set us. \<not> Newer u t" for us
      using that qualifies_nonempty [OF t] by (induction us) (simp_all only: pickLoop_step, auto)
    moreover have "\<forall>u \<in> set ts. \<not> Newer u t" using sorted tags by auto
    ultimately show ?thesis
      using t tags best(1) by (simp only: pickLoop_step) simp
  qed
  have "mset tags = filter_mset plainSemver (mset all)" using sort(1) by (simp add: all(2))
  with all(1) have "\<exists>answer all. decodeTags lib answer = Some all \<and> mset tags = filter_mset plainSemver (mset all)" by blast
  moreover have "found \<longleftrightarrow> (\<exists>t \<in> set tags. qualifies track t)"
    using pickLoop_in [of track "''''" tags] pickLoop_max [of "''''" track tags] unfolding best by blast
  moreover have "best \<in> set tags \<and> qualifies track best \<and> (\<forall>t \<in> set tags. qualifies track t \<longrightarrow> \<not> Newer t best)" if found
    using that pickLoop_in [of track "''''" tags] pickLoop_max [of "''''" track tags] unfolding best by blast
  ultimately show ?thesis using sorted head by blast
qed

definition sample_registry :: registry_lib where
  "sample_registry = \<lparr>setQuery = (\<lambda>u _. Inr u), httpGet = (\<lambda>_ _. Inr (200, ''x'')), decodeToken = (\<lambda>_. Some ''t''),
     decodeTags = (\<lambda>_. Some [''0.48.9'', ''latest'', ''0.49.0''])\<rparr>"

definition sample_client :: RegistryClient where
  "sample_client = \<lparr>BaseURL = '''', TokenURL = ''''\<rparr>"

lemma sample_compare:
  "plainSemver ''0.48.9''" "plainSemver ''0.49.0''" "\<not> plainSemver ''latest''"
  "compareVersion ''0.49.0'' ''0.48.9'' = 1" "compareVersion ''0.48.9'' ''0.49.0'' = - 1"
  by (simp_all add: plainSemver_def is_digit_def compareVersion_def parseVersion_def Atoi_def digit_value_def Let_def)

lemma sample_list: "ListVersions sample_registry insertionSort sample_client = Inr [''0.49.0'', ''0.48.9'']"
  by (simp add: ListVersions_def fetchToken_def fetchTags_def sample_registry_def sample_client_def sample_compare
      insertionSort_def newestFirst_def)

theorem candidate_selection_witness:
  "PickVersion [''0.49.0'', ''0.48.9''] ''latest'' = (''0.49.0'', True) \<and>
   sorted_wrt (\<lambda>a b. \<not> Newer b a) [''0.49.0'', ''0.48.9''] \<and> hd [''0.49.0'', ''0.48.9''] = ''0.49.0''"
proof -
  have pick: "PickVersion [''0.49.0'', ''0.48.9''] ''latest'' = (''0.49.0'', True)"
    by (simp add: PickVersion_def sample_compare Let_def)
  show ?thesis
    using candidate_selection [OF insertion.slice_sort_axioms sample_list pick] pick
    by (elim conjE, intro conjI) (assumption, assumption, simp)
qed

end
