(* ===== verification/AutoUpdate.thy ===== *)
theory AutoUpdate
  imports Update
begin

text \<open>
  The rollout state machine of the managed runtime (\<^verbatim>\<open>internal/controller/autoupdate_controller.go\<close>).
  One reconciliation is a function of what it reads: the Instance, the StatefulSet (read twice), the
  registry's tags and the clock. It yields the result for the queue, the status it stored, if the
  status patch was accepted, and the runtime img it patched into the StatefulSet, if any.
  Durations are 64-bit nanoseconds and wrap around as in the code.
\<close>

section \<open>Data\<close>

record sts_view =
  stsContainers :: "(string \<times> string) list"
  stsReadyReplicas :: int

record ('e) update_lib =
  ulGetReadiness :: "'e + sts_view"
  ulGetWorkload :: "'e + sts_view"
  ulPatchWorkload :: "sts_view \<Rightarrow> 'e option"
  ulPatchStatus :: "TypeClawInstanceStatus \<Rightarrow> 'e option"
  ulListVersions :: "string + string list"
  ulIsNotFound :: "'e \<Rightarrow> bool"
  ulNow :: int

datatype 'e update_error = UpdateApi string 'e | UpdateFailed string

datatype queue_result = Requeue | RequeueAfter int | Forget

type_synonym 'e rollout_outcome =
  "('e update_error + queue_result) \<times> TypeClawInstanceStatus option \<times> string option"

abbreviation ConditionAutoUpdateReady :: string where "ConditionAutoUpdateReady \<equiv> ''AutoUpdateReady''"
abbreviation reasonUpdTrackingCurrent :: string where "reasonUpdTrackingCurrent \<equiv> ''TrackingCurrent''"
abbreviation reasonUpdRolloutInProgress :: string where "reasonUpdRolloutInProgress \<equiv> ''RolloutInProgress''"
abbreviation reasonUpdRolloutConfirmed :: string where "reasonUpdRolloutConfirmed \<equiv> ''RolloutConfirmed''"
abbreviation reasonUpdAwaitingFreshBackup :: string where "reasonUpdAwaitingFreshBackup \<equiv> ''AwaitingFreshBackup''"
abbreviation reasonUpdRolledBack :: string where "reasonUpdRolledBack \<equiv> ''RolledBack''"
abbreviation reasonUpdRegistryError :: string where "reasonUpdRegistryError \<equiv> ''RegistryError''"

abbreviation autoUpdatePollInterval :: int where "autoUpdatePollInterval \<equiv> 30 * 60 * 1000000000"

section \<open>Time\<close>

text \<open>A \<^verbatim>\<open>time.Duration\<close> is a signed 64-bit number of nanoseconds; \<^verbatim>\<open>Time.Sub\<close> saturates.\<close>

definition duration64 :: "int \<Rightarrow> int" where
  "duration64 n = sint (word_of_int n :: 64 word)"

definition timeSub :: "int \<Rightarrow> int \<Rightarrow> int" where
  "timeSub t u = max (- (2 ^ 63)) (min (2 ^ 63 - 1) (t - u))"

definition confirmationTimeout :: "AutoUpdateSpec \<Rightarrow> int" where
  "confirmationTimeout au =
     (if ConfirmationTimeoutMinutes au \<le> 0 then 15 * 60000000000
      else duration64 (ConfirmationTimeoutMinutes au * 60000000000))"

definition maxBackupAge :: "AutoUpdateSpec \<Rightarrow> int" where
  "maxBackupAge au =
     (if MaxBackupAgeHours au \<le> 0 then 24 * 3600000000000
      else duration64 (MaxBackupAgeHours au * 3600000000000))"

section \<open>Helpers\<close>

definition emptyUpdate :: UpdateStatus where
  "emptyUpdate = \<lparr>upPhase = UpdatePhaseUnset, CurrentVersion = '''', TargetVersion = '''', PromotedImage = '''',
     ConfirmationDeadline = None, upMessage = ''''\<rparr>"

definition ensureUpdate :: "TypeClawInstanceStatus \<Rightarrow> UpdateStatus" where
  "ensureUpdate st = (case stUpdate st of None \<Rightarrow> emptyUpdate | Some u \<Rightarrow> u)"

definition withUpdate :: "UpdateStatus \<Rightarrow> TypeClawInstanceStatus \<Rightarrow> TypeClawInstanceStatus" where
  "withUpdate u st = st\<lparr>stUpdate := Some u\<rparr>"

definition setIdle :: "TypeClawInstanceStatus \<Rightarrow> TypeClawInstanceStatus" where
  "setIdle st =
     removeCondition ConditionAutoUpdateReady
       (withUpdate ((ensureUpdate st)\<lparr>upPhase := UpdatePhaseIdle, TargetVersion := '''', PromotedImage := '''',
          ConfirmationDeadline := None, upMessage := ''''\<rparr>) st)"

definition trackOrDefault :: "string \<Rightarrow> string" where
  "trackOrDefault track = (if track = '''' then ''latest'' else track)"

text \<open>The part behind the last colon, or everything.\<close>

definition versionTag :: "string \<Rightarrow> string" where
  "versionTag img =
     (case after_last CHR '':'' img of Some tag \<Rightarrow> tag | None \<Rightarrow> img)"

definition backupGateBlocked :: "TypeClawInstanceStatus \<Rightarrow> AutoUpdateSpec \<Rightarrow> int \<Rightarrow> bool" where
  "backupGateBlocked st au now =
     (if \<not> RequireFreshBackup au then False
      else (case stBackup st of
          None \<Rightarrow> True
        | Some backup \<Rightarrow>
           (case LastSnapshotTime backup of
              None \<Rightarrow> True
            | Some t \<Rightarrow> maxBackupAge au < timeSub now t)))"

fun replaceImage :: "string \<Rightarrow> (string \<times> string) list \<Rightarrow> (string \<times> string) list option" where
  "replaceImage img [] = None"
| "replaceImage img ((name, old) # rest) =
     (if name = ''runtime'' then Some ((name, img) # rest)
      else map_option ((#) (name, old)) (replaceImage img rest))"

definition patchRuntimeImage :: "'e update_lib \<Rightarrow> string \<Rightarrow> 'e update_error option" where
  "patchRuntimeImage lib img =
     (case ulGetWorkload lib of
        Inl err \<Rightarrow>
          Some (if ulIsNotFound lib err then UpdateFailed ''workload StatefulSet does not exist yet''
                else UpdateApi '''' err)
      | Inr sts \<Rightarrow>
         (case replaceImage img (stsContainers sts) of
            None \<Rightarrow> Some (UpdateFailed ''StatefulSet renders no runtime container'')
          | Some cs \<Rightarrow> map_option (UpdateApi '''') (ulPatchWorkload lib (sts\<lparr>stsContainers := cs\<rparr>))))"

section \<open>An active rollout\<close>

definition advanceReady ::
  "AutoUpdateSpec \<Rightarrow> int \<Rightarrow> int \<Rightarrow> UpdateStatus \<Rightarrow> TypeClawInstanceStatus \<Rightarrow> TypeClawInstanceStatus" where
  "advanceReady au gnr now u st =
     (let opened =
        (if upPhase u = UpdatePhaseUpdating
         then let u1 = u\<lparr>upPhase := UpdatePhaseConfirming,
                ConfirmationDeadline := (case ConfirmationDeadline u of
                   None \<Rightarrow> Some (now + confirmationTimeout au) | Some d \<Rightarrow> Some d),
                upMessage := TargetVersion u @ '' reported ready; confirming''\<rparr>
              in (u1, setCondition now gnr ConditionAutoUpdateReady False reasonUpdRolloutInProgress
                        reasonUpdRolloutInProgress (upMessage u1) (withUpdate u1 st))
         else (u, st))
      in case opened of (u1, st1) \<Rightarrow>
        (if upPhase u1 = UpdatePhaseConfirming \<and>
            (case ConfirmationDeadline u1 of None \<Rightarrow> False | Some d \<Rightarrow> \<not> now < d)
         then let u2 = u1\<lparr>upPhase := UpdatePhaseReady, CurrentVersion := TargetVersion u1, TargetVersion := '''',
                PromotedImage := '''', ConfirmationDeadline := None, upMessage := ''''\<rparr>
              in setCondition now gnr ConditionAutoUpdateReady True reasonUpdRolloutConfirmed reasonUpdRolloutConfirmed
                   (''confirmed '' @ CurrentVersion u2 @ '' as current version'') (withUpdate u2 st1)
         else st1))"

definition advanceRollout ::
  "'e update_lib \<Rightarrow> AutoUpdateSpec \<Rightarrow> int \<Rightarrow> TypeClawInstanceSpec \<Rightarrow> int \<Rightarrow> UpdateStatus
     \<Rightarrow> TypeClawInstanceStatus \<Rightarrow> ('e update_error + TypeClawInstanceStatus) \<times> string option" where
  "advanceRollout lib au gnr spec readyReplicas u st =
     (let now = ulNow lib in
      if 0 < readyReplicas then (Inr (advanceReady au gnr now u st), None)
      else if (case ConfirmationDeadline u of None \<Rightarrow> True | Some d \<Rightarrow> \<not> d < now) then (Inr st, None)
      else
        let fallbackImage = ResolveRuntimeImage spec in
        (case patchRuntimeImage lib fallbackImage of
           Some err \<Rightarrow> (Inl err, None)
         | None \<Rightarrow>
            (let u1 = u\<lparr>upPhase := UpdatePhaseRolledBack,
               upMessage := ''rollout of '' @ TargetVersion u @ '' rolled back to '' @ versionTag fallbackImage @
                 '' after confirmation timeout'',
               PromotedImage := '''', ConfirmationDeadline := None\<rparr>
             in (Inr (setCondition now gnr ConditionAutoUpdateReady False reasonUpdRolledBack reasonUpdRolledBack
                       (upMessage u1) (withUpdate u1 st)), Some fallbackImage))))"

section \<open>Reconciliation\<close>

definition finish :: "'e update_lib \<Rightarrow> string option \<Rightarrow> TypeClawInstanceStatus \<Rightarrow> 'e rollout_outcome" where
  "finish lib img st =
     (case ulPatchStatus lib st of
        Some err \<Rightarrow> (Inr Requeue, None, img)
      | None \<Rightarrow> (Inr (RequeueAfter autoUpdatePollInterval), Some st, img))"

definition promote ::
  "'e update_lib \<Rightarrow> int \<Rightarrow> string \<Rightarrow> UpdateStatus \<Rightarrow> TypeClawInstanceStatus \<Rightarrow> 'e rollout_outcome" where
  "promote lib gnr candidate u st =
     (let imageRef = DefaultRuntimeRepository @ '':'' @ candidate in
      case patchRuntimeImage lib imageRef of
        Some err \<Rightarrow> (Inl err, None, None)
      | None \<Rightarrow>
          finish lib (Some imageRef)
            (setCondition (ulNow lib) gnr ConditionAutoUpdateReady False reasonUpdRolloutInProgress
               reasonUpdRolloutInProgress
               (''promoted '' @ candidate @ ''; awaiting readiness before confirmation window opens'')
               (withUpdate (u\<lparr>upPhase := UpdatePhaseUpdating, TargetVersion := candidate, PromotedImage := imageRef,
                  ConfirmationDeadline := None, upMessage := ''promoted''\<rparr>) st)))"

definition considerCandidate ::
  "'e update_lib \<Rightarrow> TypeClawInstance \<Rightarrow> AutoUpdateSpec \<Rightarrow> string \<Rightarrow> UpdateStatus \<Rightarrow> TypeClawInstanceStatus
     \<Rightarrow> 'e rollout_outcome" where
  "considerCandidate lib inst au candidate u st =
     (let gnr = instGeneration inst; now = ulNow lib;
          current = (if CurrentVersion u = '''' then versionTag (ResolveRuntimeImage (Spec inst)) else CurrentVersion u);
          tracking = setCondition now gnr ConditionAutoUpdateReady True reasonUpdTrackingCurrent
            reasonUpdTrackingCurrent (''managed runtime tracks '' @ current)
      in if candidate = TargetVersion u
         then (if upPhase u = UpdatePhaseRolledBack
               then finish lib None (setCondition now gnr ConditionAutoUpdateReady False reasonUpdRolledBack
                      reasonUpdRolledBack (upMessage u) st)
               else finish lib None (tracking st))
         else if \<not> Newer candidate current then finish lib None (tracking st)
         else if backupGateBlocked st au now
         then let u1 = u\<lparr>upPhase := UpdatePhaseAwaitingBackup,
                upMessage := ''rollout of '' @ candidate @ '' deferred: no snapshot within MaxBackupAgeHours''\<rparr>
              in finish lib None (setCondition now gnr ConditionAutoUpdateReady False reasonUpdAwaitingFreshBackup
                   reasonUpdAwaitingFreshBackup (upMessage u1) (withUpdate u1 st))
         else promote lib gnr candidate u st)"

definition quotedTrack :: "string \<Rightarrow> string" where
  "quotedTrack track = [CHR 0x22] @ track @ [CHR 0x22]"

definition pollRegistry ::
  "'e update_lib \<Rightarrow> TypeClawInstance \<Rightarrow> AutoUpdateSpec \<Rightarrow> UpdateStatus \<Rightarrow> TypeClawInstanceStatus
     \<Rightarrow> 'e rollout_outcome" where
  "pollRegistry lib inst au u st =
     (let gnr = instGeneration inst;
          failed = (\<lambda>m. finish lib None (setCondition (ulNow lib) gnr ConditionAutoUpdateReady False
            reasonUpdRegistryError reasonUpdRegistryError m st))
      in case ulListVersions lib of
           Inl err \<Rightarrow> failed (''registry poll failed: '' @ err)
         | Inr tags \<Rightarrow>
            (case PickVersion tags (trackOrDefault (Track au)) of
               (candidate, found) \<Rightarrow>
                 if \<not> found
                 then failed (''no qualifying release tag on track '' @ quotedTrack (trackOrDefault (Track au)))
                 else considerCandidate lib inst au candidate u st))"

definition autoReconcile :: "'e update_lib \<Rightarrow> 'e + TypeClawInstance \<Rightarrow> 'e rollout_outcome" where
  "autoReconcile lib got =
     (case got of
        Inl err \<Rightarrow> (if ulIsNotFound lib err then Inr Forget else Inl (UpdateApi '''' err), None, None)
      | Inr inst \<Rightarrow>
         (case spAutoUpdate (Spec inst) of
            None \<Rightarrow> finish lib None (setIdle (Status inst))
          | Some au \<Rightarrow>
              if \<not> auEnabled au then finish lib None (setIdle (Status inst))
              else
                let u = ensureUpdate (Status inst); st = withUpdate u (Status inst);
                    active = (\<lambda>ready. case advanceRollout lib au (instGeneration inst) (Spec inst) ready u st of
                       (Inl err, img) \<Rightarrow> (Inl err, None, img)
                     | (Inr st1, img) \<Rightarrow> finish lib img st1);
                    proceed = (\<lambda>ready. if upPhase u = UpdatePhaseUpdating \<or> upPhase u = UpdatePhaseConfirming
                       then active ready else pollRegistry lib inst au u st)
                in (case ulGetReadiness lib of
                      Inl err \<Rightarrow>
                        if \<not> ulIsNotFound lib err then (Inl (UpdateApi ''read workload readiness'' err), None, None)
                        else proceed 0
                    | Inr sts \<Rightarrow> proceed (stsReadyReplicas sts))))"

end
