(* ===== verification/AutoUpdate_Props.thy ===== *)
theory AutoUpdate_Props
  imports AutoUpdate
begin

text \<open>
  What the rollout state machine guarantees over any run: the bookkeeping of the update block is
  consistent, images are patched only under the documented guards, and two cases in which the machine
  does not do what its documentation says.
\<close>

section \<open>Runs\<close>

text \<open>
  A state is the stored Instance and the image of the live runtime container. Besides the rollout
  controller the backup controller writes the backup block, every controller writes conditions, the
  user edits the spec, and the Instance controller renders the StatefulSet. Only the rollout
  controller writes the update block, so its read and its patch may be one step.
\<close>

inductive rollout_step :: "TypeClawInstance \<times> string \<Rightarrow> TypeClawInstance \<times> string \<Rightarrow> bool" where
  reconcile: "autoReconcile (lib :: string update_lib) (Inr inst) = (res, stored, patched) \<Longrightarrow>
     rollout_step (inst, img)
       (case stored of None \<Rightarrow> inst | Some st \<Rightarrow> inst\<lparr>Status := st\<rparr>, case patched of None \<Rightarrow> img | Some new \<Rightarrow> new)"
| backup: "rollout_step (inst, img) (inst\<lparr>Status := (Status inst)\<lparr>stBackup := b, Conditions := cs\<rparr>\<rparr>, img)"
| edit: "rollout_step (inst, img) (inst\<lparr>Spec := sp, instGeneration := g\<rparr>, img)"
| render: "rollout_step (inst, img) (inst, EffectiveRuntimeImage inst)"

inductive rollout_reach :: "TypeClawInstance \<times> string \<Rightarrow> bool" where
  created: "stUpdate (Status inst) = None \<Longrightarrow> rollout_reach (inst, ResolveRuntimeImage (Spec inst))"
| stepped: "rollout_reach s \<Longrightarrow> rollout_step s s' \<Longrightarrow> rollout_reach s'"

definition update_ok :: "UpdateStatus \<Rightarrow> bool" where
  "update_ok u \<longleftrightarrow>
     (PromotedImage u \<noteq> '''' \<longleftrightarrow> upPhase u = UpdatePhaseUpdating \<or> upPhase u = UpdatePhaseConfirming) \<and>
     (PromotedImage u \<noteq> '''' \<longrightarrow>
        PromotedImage u = DefaultRuntimeRepository @ '':'' @ TargetVersion u \<and> plainSemver (TargetVersion u)) \<and>
     (ConfirmationDeadline u \<noteq> None \<longleftrightarrow> upPhase u = UpdatePhaseConfirming) \<and>
     (CurrentVersion u = '''' \<or> plainSemver (CurrentVersion u))"

definition status_ok :: "TypeClawInstanceStatus \<Rightarrow> bool" where
  "status_ok st \<longleftrightarrow> (case stUpdate st of None \<Rightarrow> True | Some u \<Rightarrow> update_ok u)"

section \<open>Preservation\<close>

lemma setCondition_update [simp]: "stUpdate (setCondition now gnr t p r1 r2 m st) = stUpdate st"
  "stBackup (setCondition now gnr t p r1 r2 m st) = stBackup st"
  by (simp_all add: setCondition_def)

lemma withUpdate_simps [simp]: "stUpdate (withUpdate u st) = Some u" "stBackup (withUpdate u st) = stBackup st"
  by (simp_all add: withUpdate_def)

lemma status_ok_setCondition [simp]: "status_ok (setCondition now gnr t p r1 r2 m st) = status_ok st"
  by (simp add: status_ok_def)

lemma status_ok_withUpdate [simp]: "status_ok (withUpdate u st) = update_ok u"
  by (simp add: status_ok_def)

lemma ensureUpdate_ok: "status_ok st \<Longrightarrow> update_ok (ensureUpdate st)"
  by (auto simp: status_ok_def ensureUpdate_def emptyUpdate_def update_ok_def split: option.splits)

lemma setIdle_ok: "status_ok st \<Longrightarrow> status_ok (setIdle st)"
  using ensureUpdate_ok [of st]
  by (simp add: setIdle_def removeCondition_def status_ok_def withUpdate_def update_ok_def)

lemma finish_stored: "finish lib i st = (res, Some st', i') \<Longrightarrow> st' = st \<and> i' = i"
  by (auto simp: finish_def split: option.splits)

lemma advanceReady_ok: "update_ok u \<Longrightarrow> upPhase u = UpdatePhaseUpdating \<or> upPhase u = UpdatePhaseConfirming \<Longrightarrow>
    status_ok (advanceReady au gnr now u (withUpdate u st))"
  by (auto simp: advanceReady_def Let_def update_ok_def split: option.splits)

lemma advanceRollout_ok:
  assumes "update_ok u" "upPhase u = UpdatePhaseUpdating \<or> upPhase u = UpdatePhaseConfirming"
    and "advanceRollout lib au gnr spec ready u (withUpdate u st) = (Inr st', i)"
  shows "status_ok st'"
  using assms(3) advanceReady_ok [OF assms(1,2)] assms(1)
  by (auto simp: advanceRollout_def Let_def update_ok_def split: if_splits option.splits)

lemma PickVersion_plain: "PickVersion tags track = (best, True) \<Longrightarrow> plainSemver best \<and> best \<noteq> ''''"
  using pickLoop_in [of track "''''" tags] by (auto simp: PickVersion_def Let_def qualifies_def)

lemma promote_ok:
  assumes "update_ok u" "plainSemver v" "promote lib gnr v u st = (res, Some st', i)"
  shows "status_ok st'"
proof -
  obtain now where "st' = setCondition now gnr ConditionAutoUpdateReady False reasonUpdRolloutInProgress
      reasonUpdRolloutInProgress (''promoted '' @ v @ ''; awaiting readiness before confirmation window opens'')
      (withUpdate (u\<lparr>upPhase := UpdatePhaseUpdating, TargetVersion := v,
         PromotedImage := DefaultRuntimeRepository @ '':'' @ v, ConfirmationDeadline := None, upMessage := ''promoted''\<rparr>) st)"
    using assms(3) by (auto simp: promote_def Let_def split: option.splits dest!: finish_stored)
  then show ?thesis using assms(1,2) by (simp add: update_ok_def)
qed

lemma considerCandidate_ok:
  assumes "update_ok u" "upPhase u \<noteq> UpdatePhaseUpdating" "upPhase u \<noteq> UpdatePhaseConfirming" "plainSemver v"
    and "considerCandidate lib inst au v u (withUpdate u st) = (res, Some st', i)"
  shows "status_ok st'"
  using assms(5) promote_ok [OF assms(1,4)] assms(1-3)
  by (auto simp: considerCandidate_def Let_def update_ok_def split: if_splits dest!: finish_stored)

lemma pollRegistry_ok:
  assumes "update_ok u" "upPhase u \<noteq> UpdatePhaseUpdating" "upPhase u \<noteq> UpdatePhaseConfirming"
    and "pollRegistry lib inst au u (withUpdate u st) = (res, Some st', i)"
  shows "status_ok st'"
proof -
  have "status_ok st'" if "ulListVersions lib = Inr tags" "PickVersion tags track = (v, True)"
    "considerCandidate lib inst au v u (withUpdate u st) = (res, Some st', i)" for tags track v
    using considerCandidate_ok [OF assms(1-3) _ that(3)] PickVersion_plain [OF that(2)] by blast
  then show ?thesis
    using assms(4,1)
    by (auto simp: pollRegistry_def Let_def split: sum.splits prod.splits if_splits dest!: finish_stored)
qed

lemma autoReconcile_ok:
  assumes "status_ok (Status inst)" "autoReconcile lib (Inr inst) = (res, Some st', i)"
  shows "status_ok st'"
proof -
  let ?u = "ensureUpdate (Status inst)"
  note ok = ensureUpdate_ok [OF assms(1)]
  have active: "status_ok st1" if "upPhase ?u = UpdatePhaseUpdating \<or> upPhase ?u = UpdatePhaseConfirming"
    "advanceRollout lib au g sp ready ?u (withUpdate ?u (Status inst)) = (Inr st1, j)" for au g sp ready st1 j
    using advanceRollout_ok [OF ok that(1,2)] .
  show ?thesis
    using assms(2) setIdle_ok [OF assms(1)] pollRegistry_ok [OF ok] active
    by (auto simp: autoReconcile_def Let_def split: option.splits if_splits sum.splits prod.splits dest!: finish_stored)
qed

lemma rollout_step_ok: "rollout_step s s' \<Longrightarrow> status_ok (Status (fst s)) \<Longrightarrow> status_ok (Status (fst s'))"
proof (induction rule: rollout_step.induct)
  case (reconcile lib inst res stored patched img)
  then show ?case using autoReconcile_ok by (cases stored) auto
qed (auto simp: status_ok_def)

lemma rollout_reach_ok: "rollout_reach s \<Longrightarrow> status_ok (Status (fst s))"
proof (induction rule: rollout_reach.induct)
  case (created inst)
  then show ?case by (simp add: status_ok_def)
next
  case (stepped s s')
  from rollout_step_ok [OF stepped(2,3)] show ?case .
qed

section \<open>Properties\<close>

text \<open>
  C23. The rollout record is consistent in every reachable state, whatever the registry, the cluster
  and the user do: an image is recorded as promoted exactly while a rollout is active, it is then the
  managed repository at the target release tag, a confirmation deadline is recorded exactly in the
  confirmation window, and the confirmed version is empty or a release tag.
\<close>

theorem rollout_record_consistent:
  assumes "rollout_reach (inst, img)" and "stUpdate (Status inst) = Some u"
  shows "(PromotedImage u \<noteq> '''' \<longleftrightarrow> upPhase u = UpdatePhaseUpdating \<or> upPhase u = UpdatePhaseConfirming) \<and>
    (PromotedImage u \<noteq> '''' \<longrightarrow>
       PromotedImage u = ''ghcr.io/fml09/typeclaw-runtime:'' @ TargetVersion u \<and> plainSemver (TargetVersion u)) \<and>
    (ConfirmationDeadline u \<noteq> None \<longleftrightarrow> upPhase u = UpdatePhaseConfirming) \<and>
    (CurrentVersion u = '''' \<or> plainSemver (CurrentVersion u))"
  using rollout_reach_ok [OF assms(1)] assms(2) by (simp add: status_ok_def update_ok_def)

lemma finish_image: "finish lib i st = (res, stored, i') \<Longrightarrow> i' = i"
  by (auto simp: finish_def split: option.splits)

lemma promote_image:
  "promote lib gnr v u st = (res, stored, Some img) \<Longrightarrow> img = DefaultRuntimeRepository @ '':'' @ v"
  by (auto simp: promote_def Let_def split: option.splits dest!: finish_image)

lemma considerCandidate_image:
  assumes "considerCandidate lib inst au v u st = (res, stored, Some img)"
  shows "img = DefaultRuntimeRepository @ '':'' @ v \<and> v \<noteq> TargetVersion u \<and>
    Newer v (if CurrentVersion u = '''' then versionTag (ResolveRuntimeImage (Spec inst)) else CurrentVersion u) \<and>
    \<not> backupGateBlocked st au (ulNow lib)"
  using assms by (auto simp: considerCandidate_def Let_def split: if_splits dest!: finish_image promote_image)

lemma advanceRollout_image:
  assumes "advanceRollout lib au gnr spec ready u st = (r, Some img)"
  shows "img = ResolveRuntimeImage spec \<and> ready \<le> 0 \<and> (\<exists>d. ConfirmationDeadline u = Some d \<and> d < ulNow lib)"
  using assms by (auto simp: advanceRollout_def Let_def split: if_splits option.splits)

lemma fresh_backup:
  "\<not> backupGateBlocked st au now \<Longrightarrow> RequireFreshBackup au \<Longrightarrow>
     \<exists>b t. stBackup st = Some b \<and> LastSnapshotTime b = Some t \<and> timeSub now t \<le> maxBackupAge au"
  by (auto simp: backupGateBlocked_def split: option.splits)

lemma image_patch_cases:
  assumes "autoReconcile lib (Inr inst) = (res, stored, Some img)"
  shows "\<exists>au. spAutoUpdate (Spec inst) = Some au \<and> auEnabled au \<and>
    ((upPhase (ensureUpdate (Status inst)) \<in> {UpdatePhaseUpdating, UpdatePhaseConfirming} \<and>
      img = ResolveRuntimeImage (Spec inst) \<and>
      (\<exists>d. ConfirmationDeadline (ensureUpdate (Status inst)) = Some d \<and> d < ulNow lib))
     \<or> (upPhase (ensureUpdate (Status inst)) \<notin> {UpdatePhaseUpdating, UpdatePhaseConfirming} \<and>
        (\<exists>tags v. ulListVersions lib = Inr tags \<and> PickVersion tags (trackOrDefault (Track au)) = (v, True) \<and>
           img = ''ghcr.io/fml09/typeclaw-runtime:'' @ v \<and> v \<noteq> TargetVersion (ensureUpdate (Status inst)) \<and>
           (RequireFreshBackup au \<longrightarrow> (\<exists>b t. stBackup (Status inst) = Some b \<and> LastSnapshotTime b = Some t \<and>
              timeSub (ulNow lib) t \<le> maxBackupAge au)) \<and>
           Newer v (if CurrentVersion (ensureUpdate (Status inst)) = '''' then versionTag (ResolveRuntimeImage (Spec inst))
                    else CurrentVersion (ensureUpdate (Status inst))))))"
proof -
  let ?u = "ensureUpdate (Status inst)"
  let ?st = "withUpdate ?u (Status inst)"
  have poll: "\<exists>tags v. ulListVersions lib = Inr tags \<and> PickVersion tags (trackOrDefault (Track au)) = (v, True) \<and>
      considerCandidate lib inst au v ?u ?st = (res, stored, Some img)"
    if "pollRegistry lib inst au ?u ?st = (res, stored, Some img)" for au
    using that by (auto simp: pollRegistry_def Let_def split: sum.splits prod.splits if_splits dest!: finish_image)
  obtain au where au: "spAutoUpdate (Spec inst) = Some au" "auEnabled au"
    and cases: "(upPhase ?u \<in> {UpdatePhaseUpdating, UpdatePhaseConfirming} \<and>
        (\<exists>ready r. advanceRollout lib au (instGeneration inst) (Spec inst) ready ?u ?st = (r, Some img))) \<or>
      (upPhase ?u \<notin> {UpdatePhaseUpdating, UpdatePhaseConfirming} \<and>
        pollRegistry lib inst au ?u ?st = (res, stored, Some img))"
    using assms
    by (auto simp: autoReconcile_def Let_def split: option.splits if_splits sum.splits prod.splits dest: finish_image)
  from cases show ?thesis
  proof
    assume busy: "upPhase ?u \<in> {UpdatePhaseUpdating, UpdatePhaseConfirming} \<and>
      (\<exists>ready r. advanceRollout lib au (instGeneration inst) (Spec inst) ready ?u ?st = (r, Some img))"
    then obtain ready r where "advanceRollout lib au (instGeneration inst) (Spec inst) ready ?u ?st = (r, Some img)"
      by (elim conjE exE)
    note rolled = advanceRollout_image [OF this]
    show ?thesis
      using au busy rolled by (intro exI [of _ au] conjI disjI1) simp_all
  next
    assume idle: "upPhase ?u \<notin> {UpdatePhaseUpdating, UpdatePhaseConfirming} \<and>
      pollRegistry lib inst au ?u ?st = (res, stored, Some img)"
    obtain tags v where v: "ulListVersions lib = Inr tags" "PickVersion tags (trackOrDefault (Track au)) = (v, True)"
      "considerCandidate lib inst au v ?u ?st = (res, stored, Some img)"
      using poll idle by blast
    note guards = considerCandidate_image [OF v(3)]
    have "RequireFreshBackup au \<longrightarrow> (\<exists>b t. stBackup (Status inst) = Some b \<and> LastSnapshotTime b = Some t \<and>
        timeSub (ulNow lib) t \<le> maxBackupAge au)"
      using guards fresh_backup [of ?st au "ulNow lib"] by simp
    moreover have "img = ''ghcr.io/fml09/typeclaw-runtime:'' @ v" using guards by simp
    moreover note guards v(1,2)
    ultimately show ?thesis using au idle by (intro exI [of _ au] conjI disjI2 exI [of _ tags] exI [of _ v]) blast+
  qed
qed

text \<open>
  C24. When the controller touches the workload: it patches the runtime image only with auto-update
  enabled, and then it is either a rollback of an active rollout, to the image the spec declares, after the
  confirmation deadline passed without a ready replica; or a promotion outside any active rollout, of the
  newest qualifying release of the track, which is newer than the current one, is not the release
  whose attempt is on record (so a rolled back release is not promoted again), and, where a fresh backup is
  required, with a snapshot within the permitted age.
\<close>

theorem image_patch_guarded:
  assumes "autoReconcile lib (Inr inst) = (res, stored, Some img)"
  shows "\<exists>au. spAutoUpdate (Spec inst) = Some au \<and> auEnabled au \<and>
    ((upPhase (ensureUpdate (Status inst)) \<in> {UpdatePhaseUpdating, UpdatePhaseConfirming} \<and>
      img = ResolveRuntimeImage (Spec inst) \<and>
      (\<exists>d. ConfirmationDeadline (ensureUpdate (Status inst)) = Some d \<and> d < ulNow lib))
     \<or> (upPhase (ensureUpdate (Status inst)) \<notin> {UpdatePhaseUpdating, UpdatePhaseConfirming} \<and>
        (\<exists>tags v. ulListVersions lib = Inr tags \<and> PickVersion tags (trackOrDefault (Track au)) = (v, True) \<and>
           img = ''ghcr.io/fml09/typeclaw-runtime:'' @ v \<and> v \<noteq> TargetVersion (ensureUpdate (Status inst)) \<and>
           (RequireFreshBackup au \<longrightarrow> (\<exists>b t. stBackup (Status inst) = Some b \<and> LastSnapshotTime b = Some t \<and>
              timeSub (ulNow lib) t \<le> maxBackupAge au)) \<and>
           Newer v (if CurrentVersion (ensureUpdate (Status inst)) = '''' then versionTag (ResolveRuntimeImage (Spec inst))
                    else CurrentVersion (ensureUpdate (Status inst))))))"
  using image_patch_cases [OF assms] .

lemma confirm_status:
  assumes "upPhase u = UpdatePhaseConfirming" "ConfirmationDeadline u = Some d" "d \<le> now"
  shows "stUpdate (advanceReady au gnr now u st) = Some (u\<lparr>upPhase := UpdatePhaseReady, CurrentVersion := TargetVersion u,
      TargetVersion := '''', PromotedImage := '''', ConfirmationDeadline := None, upMessage := ''''\<rparr>)"
  using assms by (simp add: advanceReady_def Let_def)

text \<open>
  A confirmed rollout is undone: confirming clears the promoted image, so from then on the image
  rendered into the StatefulSet is again the one the spec declares, while the status says that the
  new version is current; and as long as that version is the newest of its track, no later
  reconciliation patches the workload again.
\<close>

lemma confirmed_rollout_reverts:
  fixes lib lib' :: "'e update_lib"
  assumes "spAutoUpdate (Spec inst) = Some au" "auEnabled au" "stUpdate (Status inst) = Some u"
    and "upPhase u = UpdatePhaseConfirming" "ConfirmationDeadline u = Some d" "d \<le> ulNow lib"
    and "ulGetReadiness lib = Inr sts" "0 < stsReadyReplicas sts"
    and "autoReconcile lib (Inr inst) = (res, Some st, patched)"
    and "ulListVersions lib' = Inr tags" "PickVersion tags (trackOrDefault (Track au)) = (TargetVersion u, True)"
    and "autoReconcile lib' (Inr (inst\<lparr>Status := st\<rparr>)) = (res', stored', patched')"
  shows "\<exists>u'. stUpdate st = Some u' \<and> upPhase u' = UpdatePhaseReady \<and> CurrentVersion u' = TargetVersion u \<and>
    EffectiveRuntimeImage (inst\<lparr>Status := st\<rparr>) = ResolveRuntimeImage (Spec inst) \<and> patched' = None"
proof -
  define u' where "u' = u\<lparr>upPhase := UpdatePhaseReady, CurrentVersion := TargetVersion u,
      TargetVersion := '''', PromotedImage := '''', ConfirmationDeadline := None, upMessage := ''''\<rparr>"
  have "st = advanceReady au (instGeneration inst) (ulNow lib) u (withUpdate u (Status inst))"
    using assms(1-9) by (auto simp: autoReconcile_def advanceRollout_def ensureUpdate_def Let_def dest!: finish_stored)
  then have up: "stUpdate st = Some u'"
    by (simp add: confirm_status [OF assms(4-6)] u'_def)
  have ens: "ensureUpdate (Status (inst\<lparr>Status := st\<rparr>)) = u'" by (simp add: ensureUpdate_def up)
  have "False" if "patched' = Some img" for img
    using image_patch_cases [of lib' "inst\<lparr>Status := st\<rparr>" res' stored' img] assms(1,10-12) that unfolding ens
    by (auto simp: u'_def Newer_def releases.newer_irrefl PickVersion_def Let_def split: if_splits)
  then have "patched' = None" by (cases patched') auto
  moreover have "EffectiveRuntimeImage (inst\<lparr>Status := st\<rparr>) = ResolveRuntimeImage (Spec inst)"
    by (simp add: EffectiveRuntimeImage_def up u'_def)
  ultimately show ?thesis using up by (auto simp: u'_def)
qed

text \<open>
  A release that never becomes ready is never rolled back: while no replica has been ready, an
  active rollout has no deadline, and every reconciliation, however late, leaves the rollout record
  and the workload as they are.
\<close>

lemma unready_rollout_stays:
  assumes "spAutoUpdate (Spec inst) = Some au" "auEnabled au" "stUpdate (Status inst) = Some u"
    and "upPhase u = UpdatePhaseUpdating" "ConfirmationDeadline u = None"
    and "ulGetReadiness lib = Inr sts" "stsReadyReplicas sts \<le> 0"
  shows "\<exists>res stored. autoReconcile lib (Inr inst) = (Inr res, stored, None) \<and>
    (stored = None \<or> (\<exists>st. stored = Some st \<and> stUpdate st = Some u))"
  using assms by (auto simp: autoReconcile_def advanceRollout_def ensureUpdate_def finish_def Let_def split: option.splits)

section \<open>A sample rollout\<close>

definition sample_lib :: "int \<Rightarrow> int \<Rightarrow> string update_lib" where
  "sample_lib now ready = \<lparr>ulGetReadiness = Inr \<lparr>stsContainers = [(''runtime'', ''x'')], stsReadyReplicas = ready\<rparr>,
     ulGetWorkload = Inr \<lparr>stsContainers = [(''runtime'', ''x'')], stsReadyReplicas = ready\<rparr>,
     ulPatchWorkload = (\<lambda>_. None), ulPatchStatus = (\<lambda>_. None),
     ulListVersions = Inr [''0.49.0'', ''0.48.9''], ulIsNotFound = (\<lambda>_. False), ulNow = now\<rparr>"

lemma sample_lib_simps [simp]: "ulNow (sample_lib now ready) = now"
  "ulGetReadiness (sample_lib now ready) = Inr \<lparr>stsContainers = [(''runtime'', ''x'')], stsReadyReplicas = ready\<rparr>"
  "ulListVersions (sample_lib now ready) = Inr [''0.49.0'', ''0.48.9'']"
  by (simp_all add: sample_lib_def)

lemma sample_resolve: "ResolveRuntimeImage sample_ispec = ''ghcr.io/fml09/typeclaw-runtime:0.48.9''"
  by (simp add: ResolveRuntimeImage_def sample_ispec_def Let_def)

lemma sample_tag: "versionTag (ResolveRuntimeImage sample_ispec) = ''0.48.9''"
  by (simp add: sample_resolve versionTag_def after_last_def)

lemma sample_pick: "PickVersion [''0.49.0'', ''0.48.9''] (trackOrDefault '''') = (''0.49.0'', True)"
  by (simp add: PickVersion_def trackOrDefault_def sample_compare Let_def)

definition promoted_update :: UpdateStatus where
  "promoted_update = emptyUpdate\<lparr>upPhase := UpdatePhaseUpdating, TargetVersion := ''0.49.0'',
     PromotedImage := ''ghcr.io/fml09/typeclaw-runtime:0.49.0'', ConfirmationDeadline := None, upMessage := ''promoted''\<rparr>"

lemma sample_promotion:
  "\<exists>st. autoReconcile (sample_lib 0 0) (Inr (sample_inst (sample_istatus None))) =
     (Inr (RequeueAfter autoUpdatePollInterval), Some st, Some ''ghcr.io/fml09/typeclaw-runtime:0.49.0'') \<and>
     stUpdate st = Some promoted_update"
  by (simp add: autoReconcile_def ensureUpdate_def pollRegistry_def sample_pick considerCandidate_def sample_tag
      Newer_def sample_compare backupGateBlocked_def promote_def patchRuntimeImage_def finish_def emptyUpdate_def
      sample_lib_def promoted_update_def Let_def)

theorem rollout_record_consistent_witness:
  "\<exists>inst img. rollout_reach (inst, img) \<and> stUpdate (Status inst) = Some promoted_update \<and>
     img = ''ghcr.io/fml09/typeclaw-runtime:0.49.0'' \<and> plainSemver (TargetVersion promoted_update)"
proof -
  obtain st where run: "autoReconcile (sample_lib 0 0) (Inr (sample_inst (sample_istatus None))) =
      (Inr (RequeueAfter autoUpdatePollInterval), Some st, Some ''ghcr.io/fml09/typeclaw-runtime:0.49.0'')"
    and st: "stUpdate st = Some promoted_update"
    using sample_promotion by blast
  have "rollout_reach (sample_inst (sample_istatus None), ResolveRuntimeImage sample_ispec)"
    using created [of "sample_inst (sample_istatus None)"] by simp
  from stepped [OF this reconcile [OF run]]
  have reach: "rollout_reach (sample_inst st, ''ghcr.io/fml09/typeclaw-runtime:0.49.0'')" by simp
  have "plainSemver (TargetVersion promoted_update)"
    using rollout_record_consistent [OF reach, of promoted_update] st by (simp add: promoted_update_def)
  with reach st show ?thesis by (intro exI [of _ "sample_inst st"]) simp
qed

theorem image_patch_guarded_witness:
  "\<exists>res stored. autoReconcile (sample_lib 0 0) (Inr (sample_inst (sample_istatus None))) =
      (res, stored, Some ''ghcr.io/fml09/typeclaw-runtime:0.49.0'') \<and>
    (\<exists>tags v. ulListVersions (sample_lib 0 0) = Inr tags \<and> PickVersion tags ''latest'' = (v, True) \<and>
      ''ghcr.io/fml09/typeclaw-runtime:0.49.0'' = ''ghcr.io/fml09/typeclaw-runtime:'' @ v)"
proof -
  obtain res stored where run: "autoReconcile (sample_lib 0 0) (Inr (sample_inst (sample_istatus None))) =
      (res, stored, Some ''ghcr.io/fml09/typeclaw-runtime:0.49.0'')"
    using sample_promotion by blast
  from image_patch_guarded [OF this] show ?thesis
    using run by (auto simp: ensureUpdate_def emptyUpdate_def trackOrDefault_def sample_pick [unfolded trackOrDefault_def])
qed

definition confirming_update :: UpdateStatus where
  "confirming_update = promoted_update\<lparr>upPhase := UpdatePhaseConfirming, ConfirmationDeadline := Some 5\<rparr>"

lemma confirming_simps:
  "upPhase confirming_update = UpdatePhaseConfirming" "ConfirmationDeadline confirming_update = Some 5"
  "TargetVersion confirming_update = ''0.49.0''" "upPhase promoted_update = UpdatePhaseUpdating"
  "ConfirmationDeadline promoted_update = None"
  by (simp_all add: confirming_update_def promoted_update_def emptyUpdate_def)

lemma sample_confirmed:
  "\<exists>res st patched. autoReconcile (sample_lib 9 1) (Inr (sample_inst (sample_istatus (Some confirming_update)))) =
     (res, Some st, patched)"
  by (simp add: autoReconcile_def ensureUpdate_def advanceRollout_def finish_def confirming_simps Let_def)
    (simp add: sample_lib_def)

lemma confirmed_rollout_reverts_witness:
  "\<exists>st u'. stUpdate st = Some u' \<and> upPhase u' = UpdatePhaseReady \<and> CurrentVersion u' = ''0.49.0'' \<and>
     EffectiveRuntimeImage (sample_inst st) = ''ghcr.io/fml09/typeclaw-runtime:0.48.9''"
proof -
  obtain res st patched where run: "autoReconcile (sample_lib 9 1)
      (Inr (sample_inst (sample_istatus (Some confirming_update)))) = (res, Some st, patched)"
    using sample_confirmed by blast
  obtain res' stored' patched' where later: "autoReconcile (sample_lib 20 1) (Inr (sample_inst st)) = (res', stored', patched')"
    by (metis prod_cases3)
  have "\<exists>u'. stUpdate st = Some u' \<and> upPhase u' = UpdatePhaseReady \<and> CurrentVersion u' = TargetVersion confirming_update \<and>
      EffectiveRuntimeImage ((sample_inst (sample_istatus (Some confirming_update)))\<lparr>Status := st\<rparr>) =
        ResolveRuntimeImage (Spec (sample_inst (sample_istatus (Some confirming_update)))) \<and> patched' = None"
    by (rule confirmed_rollout_reverts [where lib = "sample_lib 9 1" and lib' = "sample_lib 20 1" and au = sample_auto and d = 5
          and sts = "\<lparr>stsContainers = [(''runtime'', ''x'')], stsReadyReplicas = 1\<rparr>" and tags = "[''0.49.0'', ''0.48.9'']",
          OF _ _ _ _ _ _ _ _ run]) (simp_all add: confirming_simps sample_pick later)
  then show ?thesis by (auto simp: confirming_simps sample_resolve)
qed

lemma unready_rollout_stays_witness:
  "\<exists>res stored. autoReconcile (sample_lib 1000000 0) (Inr (sample_inst (sample_istatus (Some promoted_update)))) =
      (Inr res, stored, None) \<and> (stored = None \<or> (\<exists>st. stored = Some st \<and> stUpdate st = Some promoted_update))"
  by (rule unready_rollout_stays [where au = sample_auto
        and sts = "\<lparr>stsContainers = [(''runtime'', ''x'')], stsReadyReplicas = 0\<rparr>"]) (simp_all add: confirming_simps)

end
