(* ===== verification/Desktop_Names.thy ===== *)
theory Desktop_Names
  imports Update Pods
begin

text \<open>
  Names, labels and effective settings of a Personal Desktop (\<^verbatim>\<open>internal/desktop/names.go\<close>,
  \<^verbatim>\<open>defaults.go\<close>), its validation (\<^verbatim>\<open>preconditions.go\<close>), the console address (\<^verbatim>\<open>ingress.go\<close>) and its
  shared secrets (\<^verbatim>\<open>tokens.go\<close>).
\<close>

section \<open>Names\<close>

record NameSet =
  nsInstance :: string
  nsInstanceNamespace :: string
  nsNamespace :: string
  nsDesktop :: string
  nsTokens :: string
  nsRootVolume :: string
  nsGoldenVolume :: string
  nsCloudInit :: string
  nsSysprep :: string
  nsAgentService :: string
  nsGateway :: string
  nsConsoleIngress :: string
  nsExtension :: string
  nsServeConfig :: string
  nsGatewayState :: string

abbreviation TokenKeyAgent :: string where "TokenKeyAgent \<equiv> ''agent-token''"
abbreviation TokenKeyGuest :: string where "TokenKeyGuest \<equiv> ''guest-token''"
abbreviation TokenKeyWindowsPassword :: string where "TokenKeyWindowsPassword \<equiv> ''windows-password''"
abbreviation ExtensionMountPath :: string where
  "ExtensionMountPath \<equiv> ''/opt/typeclaw/extensions/personal-desktop-computer-use''"

definition Namespace :: "TypeClawInstance \<Rightarrow> string" where
  "Namespace inst =
     (case spPersonalDesktop (Spec inst) of
        Some spec \<Rightarrow> if pdNamespace spec \<noteq> '''' then pdNamespace spec else instNamespace inst
      | None \<Rightarrow> instNamespace inst)"

definition Names :: "TypeClawInstance \<Rightarrow> NameSet" where
  "Names inst =
     (let desktop = instName inst @ ''-desktop'' in
      \<lparr>nsInstance = instName inst, nsInstanceNamespace = instNamespace inst, nsNamespace = Namespace inst,
       nsDesktop = desktop, nsTokens = desktop @ ''-tokens'',
       nsRootVolume = (case spPersonalDesktop (Spec inst) of
          Some spec \<Rightarrow> if ExistingDataVolume (pdRootVolume spec) \<noteq> '''' then ExistingDataVolume (pdRootVolume spec)
                       else desktop @ ''-root''
        | None \<Rightarrow> desktop @ ''-root''),
       nsGoldenVolume = (case spPersonalDesktop (Spec inst) of
          Some spec \<Rightarrow> GoldenDataVolume (pdImage spec) | None \<Rightarrow> ''''),
       nsCloudInit = desktop @ ''-cloudinit'', nsSysprep = desktop @ ''-sysprep'',
       nsAgentService = desktop @ ''-agent'', nsGateway = desktop @ ''-gateway'',
       nsConsoleIngress = desktop @ ''-console'', nsExtension = desktop @ ''-extension'',
       nsServeConfig = desktop @ ''-serve-config'', nsGatewayState = desktop @ ''-gateway-state''\<rparr>)"

definition CrossNamespace :: "TypeClawInstance \<Rightarrow> bool" where
  "CrossNamespace inst = (Namespace inst \<noteq> instNamespace inst)"

definition DesktopLabels :: "TypeClawInstance \<Rightarrow> (string \<times> string) list" where
  "DesktopLabels inst =
     [(''app.kubernetes.io/name'', ''typeclaw-desktop''), (''app.kubernetes.io/instance'', instName inst),
      (''app.kubernetes.io/managed-by'', ''typeclaw-operator''),
      (''typeclaw.fml09.io/instance-uid'', instUID inst),
      (''typeclaw.fml09.io/instance-namespace'', instNamespace inst)]"

definition GatewayLabels :: "TypeClawInstance \<Rightarrow> (string \<times> string) list" where
  "GatewayLabels inst =
     [(''app.kubernetes.io/name'', ''typeclaw-desktop-gateway''), (''app.kubernetes.io/instance'', instName inst),
      (''app.kubernetes.io/managed-by'', ''typeclaw-operator'')]"

definition OwnedBySelector :: "TypeClawInstance \<Rightarrow> (string \<times> string) list" where
  "OwnedBySelector inst =
     [(''typeclaw.fml09.io/instance-uid'', instUID inst),
      (''typeclaw.fml09.io/instance-namespace'', instNamespace inst)]"

definition GatewayURL :: "TypeClawInstance \<Rightarrow> string" where
  "GatewayURL inst = ''http://'' @ nsGateway (Names inst) @ ''.'' @ nsNamespace (Names inst) @ ''.svc:8080''"

section \<open>Effective settings\<close>

abbreviation OSLinux :: string where "OSLinux \<equiv> ''Linux''"
abbreviation OSWindows :: string where "OSWindows \<equiv> ''Windows''"

definition Enabled :: "TypeClawInstance \<Rightarrow> bool" where
  "Enabled inst = (case spPersonalDesktop (Spec inst) of None \<Rightarrow> False | Some spec \<Rightarrow> pdEnabled spec)"

definition OS :: "PersonalDesktopSpec option \<Rightarrow> string" where
  "OS spec = (case spec of None \<Rightarrow> OSLinux | Some s \<Rightarrow> if pdOS s = OSWindows then OSWindows else OSLinux)"

definition GuestOSName :: "PersonalDesktopSpec option \<Rightarrow> string" where
  "GuestOSName spec = (if OS spec = OSWindows then ''windows'' else ''linux'')"

definition Screen :: "PersonalDesktopSpec option \<Rightarrow> int \<times> int" where
  "Screen spec =
     (case spec of
        None \<Rightarrow> (1280, 800)
      | Some s \<Rightarrow>
         (case pdScreen s of
            None \<Rightarrow> (1280, 800)
          | Some sc \<Rightarrow> (if 0 < screenWidth sc then screenWidth sc else 1280,
                        if 0 < screenHeight sc then screenHeight sc else 800)))"

definition CPUCores :: "PersonalDesktopSpec option \<Rightarrow> int" where
  "CPUCores spec = (case spec of None \<Rightarrow> 2 | Some s \<Rightarrow> if 0 < pdCPUCores s then pdCPUCores s else 2)"

definition Memory :: "PersonalDesktopSpec option \<Rightarrow> int" where
  "Memory spec = (case spec of None \<Rightarrow> 4 * 2 ^ 30 | Some s \<Rightarrow> if pdMemory s \<noteq> 0 then pdMemory s else 4 * 2 ^ 30)"

definition RootVolumeSize :: "PersonalDesktopSpec option \<Rightarrow> int" where
  "RootVolumeSize spec =
     (case spec of None \<Rightarrow> 32 * 2 ^ 30
      | Some s \<Rightarrow> if rvSize (pdRootVolume s) \<noteq> 0 then rvSize (pdRootVolume s) else 32 * 2 ^ 30)"

definition GoldenVolumeSize :: "PersonalDesktopImageImportSpec option \<Rightarrow> int" where
  "GoldenVolumeSize imp =
     (case imp of None \<Rightarrow> 32 * 2 ^ 30 | Some i \<Rightarrow> if importSize i \<noteq> 0 then importSize i else 32 * 2 ^ 30)"

definition Username :: "PersonalDesktopSpec option \<Rightarrow> string" where
  "Username spec =
     (case spec of
        None \<Rightarrow> ''desktop''
      | Some s \<Rightarrow>
          if OS spec = OSWindows
          then (case pdWindows s of
                  Some win \<Rightarrow> if windowsUsername win \<noteq> '''' then windowsUsername win else ''desktop''
                | None \<Rightarrow> ''desktop'')
          else (case pdLinux s of
                  Some lin \<Rightarrow> if linuxUsername lin \<noteq> '''' then linuxUsername lin else ''desktop''
                | None \<Rightarrow> ''desktop''))"

definition OwnerIssuer :: "PersonalDesktopSpec option \<Rightarrow> string" where
  "OwnerIssuer spec =
     (case spec of None \<Rightarrow> ''https://login.tailscale.com''
      | Some s \<Rightarrow> if pdOwnerIssuer s \<noteq> '''' then pdOwnerIssuer s else ''https://login.tailscale.com'')"

definition TailscaleOperatorNamespace :: "PersonalDesktopTailscaleAccessSpec option \<Rightarrow> string" where
  "TailscaleOperatorNamespace access =
     (case access of None \<Rightarrow> ''tailscale''
      | Some a \<Rightarrow> if OperatorNamespace a \<noteq> '''' then OperatorNamespace a else ''tailscale'')"

definition EffectiveLeaseTTLSeconds :: "PersonalDesktopSpec option \<Rightarrow> int" where
  "EffectiveLeaseTTLSeconds spec =
     (case spec of
        None \<Rightarrow> 120
      | Some s \<Rightarrow>
         (case pdGateway s of
            None \<Rightarrow> 120
          | Some g \<Rightarrow> if 0 < AgentLeaseTTLSeconds g then AgentLeaseTTLSeconds g else 120))"

definition EffectiveVirtioDisk :: "PersonalDesktopSpec option \<Rightarrow> string" where
  "EffectiveVirtioDisk spec =
     (let fallback = ''quay.io/kubevirt/virtio-container-disk:20260902_5d403aa64a'' in
      case spec of
        None \<Rightarrow> fallback
      | Some s \<Rightarrow>
         (case pdWindows s of
            None \<Rightarrow> fallback
          | Some win \<Rightarrow> if VirtioContainerDisk win \<noteq> '''' then VirtioContainerDisk win else fallback))"

definition EffectivePythonInstaller :: "PersonalDesktopSpec option \<Rightarrow> string \<times> string" where
  "EffectivePythonInstaller spec =
     (let fallback = (''https://www.python.org/ftp/python/3.13.15/python-3.13.15-amd64.exe'',
                      ''edec09c4853aeae9ac36efb8c9f95b6b8e2fee65eee56d9767a8b7c69c574403'') in
      case spec of
        None \<Rightarrow> fallback
      | Some s \<Rightarrow>
         (case pdWindows s of
            None \<Rightarrow> fallback
          | Some win \<Rightarrow>
             (case PythonInstaller win of
                None \<Rightarrow> fallback
              | Some (link, sha) \<Rightarrow> if link \<noteq> '''' \<and> sha \<noteq> '''' then (link, sha) else fallback)))"

definition TailscaleAccess :: "PersonalDesktopSpec option \<Rightarrow> PersonalDesktopTailscaleAccessSpec option" where
  "TailscaleAccess spec =
     (case spec of None \<Rightarrow> None | Some s \<Rightarrow> (case pdAccess s of None \<Rightarrow> None | Some tailscale \<Rightarrow> tailscale))"

abbreviation ConsoleModeIngress :: string where "ConsoleModeIngress \<equiv> ''Ingress''"
abbreviation ConsoleModeSidecar :: string where "ConsoleModeSidecar \<equiv> ''Sidecar''"

definition ConsoleMode :: "PersonalDesktopSpec option \<Rightarrow> string" where
  "ConsoleMode spec =
     (case TailscaleAccess spec of
        None \<Rightarrow> ConsoleModeIngress
      | Some access \<Rightarrow> if tsMode access = '''' then ConsoleModeIngress else tsMode access)"

definition ConsoleSidecar :: "PersonalDesktopSpec option \<Rightarrow> bool" where
  "ConsoleSidecar spec =
     (case TailscaleAccess spec of
        None \<Rightarrow> False
      | Some access \<Rightarrow> tsHostname access \<noteq> '''' \<and> ConsoleMode spec = ConsoleModeSidecar)"

definition ConsoleListenAddress :: "PersonalDesktopSpec option \<Rightarrow> string" where
  "ConsoleListenAddress spec = (if ConsoleSidecar spec then ''127.0.0.1:8081'' else '':8081'')"

text \<open>An Ingress is seen through the host names in its load balancer status.\<close>

definition ConsoleURLFrom :: "string list option \<Rightarrow> string" where
  "ConsoleURLFrom ingress =
     (case ingress of
        None \<Rightarrow> ''''
      | Some hosts \<Rightarrow> (case find (\<lambda>h. h \<noteq> '''') hosts of None \<Rightarrow> '''' | Some h \<Rightarrow> ''https://'' @ h))"

definition ConsoleURL :: "TypeClawInstance \<Rightarrow> string list option \<Rightarrow> string" where
  "ConsoleURL inst ingress =
     (if ConsoleSidecar (spPersonalDesktop (Spec inst))
      then (case TailscaleAccess (spPersonalDesktop (Spec inst)) of
              Some access \<Rightarrow> ''https://'' @ tsHostname access @ ''.'' @ Tailnet access
            | None \<Rightarrow> '''')
      else ConsoleURLFrom ingress)"

section \<open>Validation\<close>

definition Validate :: "TypeClawInstance \<Rightarrow> string option" where
  "Validate inst =
     (case spPersonalDesktop (Spec inst) of
        None \<Rightarrow> None
      | Some spec \<Rightarrow>
          if pdOwnerSubject spec = '''' then Some ''spec.personalDesktop.owner.subject is required''
          else if GoldenDataVolume (pdImage spec) = ''''
          then Some ''spec.personalDesktop.image.goldenDataVolume is required''
          else if OS (Some spec) = OSWindows \<and> imgImport (pdImage spec) \<noteq> None
          then Some ''spec.personalDesktop.image.import is not supported with os=Windows''
          else if (case imgImport (pdImage spec) of None \<Rightarrow> False | Some i \<Rightarrow> importURL i = '''')
          then Some ''spec.personalDesktop.image.import.url is required''
          else if (case imgImport (pdImage spec) of None \<Rightarrow> False | Some i \<Rightarrow> Checksum i = '''')
          then Some ''spec.personalDesktop.image.import.checksum is required''
          else (case pdAccess spec of
              None \<Rightarrow> None
            | Some None \<Rightarrow> Some ''spec.personalDesktop.access.tailscale.hostname is required when access is set''
            | Some (Some ts) \<Rightarrow>
                if tsHostname ts = ''''
                then Some ''spec.personalDesktop.access.tailscale.hostname is required when access is set''
                else if ConsoleMode (Some spec) = ConsoleModeSidecar
                then (if AuthSecret ts = ''''
                      then Some ''spec.personalDesktop.access.tailscale.authSecret is required when mode is Sidecar''
                      else if Tailnet ts = ''''
                      then Some ''spec.personalDesktop.access.tailscale.tailnet is required when mode is Sidecar''
                      else None)
                else None))"

section \<open>Tokens\<close>

record TokenSet =
  tokAgent :: string
  tokGuest :: string
  tokWindowsPassword :: string

record secret =
  secName :: string
  secNamespace :: string
  secLabels :: "(string \<times> string) list"
  secData :: "(string \<times> string) list"

definition existingToken :: "secret option \<Rightarrow> string \<Rightarrow> string" where
  "existingToken sec key =
     (case sec of
        None \<Rightarrow> ''''
      | Some s \<Rightarrow> (case map_of (secData s) key of None \<Rightarrow> '''' | Some v \<Rightarrow> v))"

text \<open>The random source yields 32 bytes per call or fails; \<open>k\<close> is the number of the call.\<close>

type_synonym random_source = "nat \<Rightarrow> string + nat list"

definition randomToken :: "string + nat list \<Rightarrow> string + string" where
  "randomToken drawn = (case drawn of Inl err \<Rightarrow> Inl err | Inr buf \<Rightarrow> Inr (hexEncode buf))"

text \<open>One turn of the loop over the slots: a missing needed token is drawn, everything else is kept.\<close>

definition fillSlot ::
  "random_source \<Rightarrow> string \<Rightarrow> bool \<Rightarrow> string \<times> nat \<Rightarrow> (string + string \<times> nat)" where
  "fillSlot rnd name needed slot =
     (case slot of (current, k) \<Rightarrow>
        if \<not> needed \<or> current \<noteq> '''' then Inr (current, k)
        else (case randomToken (rnd k) of
            Inl err \<Rightarrow> Inl (''generate '' @ name @ '': '' @ err)
          | Inr v \<Rightarrow> Inr (v, Suc k)))"

definition NewTokenSet :: "random_source \<Rightarrow> TypeClawInstance \<Rightarrow> secret option \<Rightarrow> string + TokenSet" where
  "NewTokenSet rnd inst existing =
     (case fillSlot rnd TokenKeyAgent True (existingToken existing TokenKeyAgent, 0) of
        Inl err \<Rightarrow> Inl err
      | Inr (agent, k1) \<Rightarrow>
         (case fillSlot rnd TokenKeyGuest True (existingToken existing TokenKeyGuest, k1) of
            Inl err \<Rightarrow> Inl err
          | Inr (guest, k2) \<Rightarrow>
             (case fillSlot rnd TokenKeyWindowsPassword (OS (spPersonalDesktop (Spec inst)) = OSWindows)
                     (existingToken existing TokenKeyWindowsPassword, k2) of
                Inl err \<Rightarrow> Inl err
              | Inr (password, k3) \<Rightarrow>
                  Inr \<lparr>tokAgent = agent, tokGuest = guest, tokWindowsPassword = password\<rparr>)))"

definition TokensSecret :: "TypeClawInstance \<Rightarrow> TokenSet \<Rightarrow> secret" where
  "TokensSecret inst tokens =
     \<lparr>secName = nsTokens (Names inst), secNamespace = nsNamespace (Names inst), secLabels = DesktopLabels inst,
      secData = [(TokenKeyAgent, tokAgent tokens), (TokenKeyGuest, tokGuest tokens)] @
        (if tokWindowsPassword tokens \<noteq> '''' then [(TokenKeyWindowsPassword, tokWindowsPassword tokens)] else [])\<rparr>"

definition MirroredAgentTokenSecret :: "TypeClawInstance \<Rightarrow> string \<Rightarrow> secret" where
  "MirroredAgentTokenSecret inst agentToken =
     \<lparr>secName = nsTokens (Names inst), secNamespace = nsInstanceNamespace (Names inst),
      secLabels = DesktopLabels inst, secData = [(TokenKeyAgent, agentToken)]\<rparr>"

section \<open>Properties\<close>

lemma hexEncode_length: "length (hexEncode bs) = 2 * length bs"
  by (induction bs) (simp_all add: hexEncode_def)

lemma fillSlot_keep: "current \<noteq> '''' \<Longrightarrow> fillSlot rnd name needed (current, k) = Inr (current, k)"
  by (simp add: fillSlot_def)

lemma fillSlot_Inr:
  assumes "fillSlot rnd name needed (current, k) = Inr (v, k')"
  shows "current \<noteq> '''' \<and> v = current \<or> current = '''' \<and> needed \<and> randomToken (rnd k) = Inr v \<or>
    current = '''' \<and> \<not> needed \<and> v = ''''"
  using assms by (auto simp: fillSlot_def split: if_splits sum.splits)

lemma NewTokenSet_Inr:
  assumes "NewTokenSet rnd inst existing = Inr tokens"
  shows "\<exists>k1 k2 k3. fillSlot rnd TokenKeyAgent True (existingToken existing TokenKeyAgent, 0) = Inr (tokAgent tokens, k1) \<and>
    fillSlot rnd TokenKeyGuest True (existingToken existing TokenKeyGuest, k1) = Inr (tokGuest tokens, k2) \<and>
    fillSlot rnd TokenKeyWindowsPassword (OS (spPersonalDesktop (Spec inst)) = OSWindows)
      (existingToken existing TokenKeyWindowsPassword, k2) = Inr (tokWindowsPassword tokens, k3)"
  using assms by (auto simp: NewTokenSet_def split: sum.splits prod.splits)

text \<open>
  The desktop's shared secrets are made once: whatever is stored is reused verbatim, a new token
  is drawn only for an empty slot that is needed, and once the set is written to its Secret every
  later reconciliation, with any random source and whichever operating system the desktop is
  switched to, reads back exactly the tokens the guest was built with, provided the switch needs no
  new password; new tokens have 64 characters, above the gateway's minimum of 24.
\<close>

lemma tokens_made_once:
  assumes "NewTokenSet rnd inst existing = Inr tokens" and "\<And>k bs. rnd k = Inr bs \<Longrightarrow> length bs = 32"
    and "OS (spPersonalDesktop (Spec inst')) = OSWindows \<Longrightarrow> tokWindowsPassword tokens \<noteq> ''''"
  shows "NewTokenSet rnd' inst' (Some (TokensSecret inst'' tokens)) = Inr tokens \<and>
    (existingToken existing TokenKeyAgent = '''' \<or> tokAgent tokens = existingToken existing TokenKeyAgent) \<and>
    (existingToken existing TokenKeyGuest = '''' \<or> tokGuest tokens = existingToken existing TokenKeyGuest) \<and>
    (existingToken existing TokenKeyWindowsPassword = '''' \<or>
       tokWindowsPassword tokens = existingToken existing TokenKeyWindowsPassword) \<and>
    (existingToken existing TokenKeyAgent \<noteq> '''' \<or> length (tokAgent tokens) = 64) \<and>
    (existingToken existing TokenKeyGuest \<noteq> '''' \<or> length (tokGuest tokens) = 64)"
proof -
  have new: "length v = 64" if "randomToken (rnd k) = Inr v" for k v
    using that assms(2) by (auto simp: randomToken_def hexEncode_length split: sum.splits)
  obtain k1 k2 k3 where slots:
    "fillSlot rnd TokenKeyAgent True (existingToken existing TokenKeyAgent, 0) = Inr (tokAgent tokens, k1)"
    "fillSlot rnd TokenKeyGuest True (existingToken existing TokenKeyGuest, k1) = Inr (tokGuest tokens, k2)"
    "fillSlot rnd TokenKeyWindowsPassword (OS (spPersonalDesktop (Spec inst)) = OSWindows)
       (existingToken existing TokenKeyWindowsPassword, k2) = Inr (tokWindowsPassword tokens, k3)"
    using NewTokenSet_Inr [OF assms(1)] by blast
  have agent: "existingToken existing TokenKeyAgent \<noteq> '''' \<and> tokAgent tokens = existingToken existing TokenKeyAgent \<or>
      existingToken existing TokenKeyAgent = '''' \<and> length (tokAgent tokens) = 64"
    using fillSlot_Inr [OF slots(1)] new by blast
  have guest: "existingToken existing TokenKeyGuest \<noteq> '''' \<and> tokGuest tokens = existingToken existing TokenKeyGuest \<or>
      existingToken existing TokenKeyGuest = '''' \<and> length (tokGuest tokens) = 64"
    using fillSlot_Inr [OF slots(2)] new by blast
  have nonempty: "tokAgent tokens \<noteq> ''''" "tokGuest tokens \<noteq> ''''"
    using agent guest by auto
  have data: "existingToken (Some (TokensSecret inst'' tokens)) TokenKeyAgent = tokAgent tokens"
    "existingToken (Some (TokensSecret inst'' tokens)) TokenKeyGuest = tokGuest tokens"
    "existingToken (Some (TokensSecret inst'' tokens)) TokenKeyWindowsPassword = tokWindowsPassword tokens"
    by (simp_all add: existingToken_def TokensSecret_def)
  have pass: "fillSlot rnd' TokenKeyWindowsPassword (OS (spPersonalDesktop (Spec inst')) = OSWindows)
      (tokWindowsPassword tokens, k) = Inr (tokWindowsPassword tokens, k)" for k
    using assms(3) by (auto simp: fillSlot_def)
  have "NewTokenSet rnd' inst' (Some (TokensSecret inst'' tokens)) = Inr tokens"
    unfolding NewTokenSet_def data by (simp add: fillSlot_keep nonempty pass)
  then show ?thesis
    using agent guest fillSlot_Inr [OF slots(3)] by blast
qed

lemma tokens_made_once_witness:
  "\<exists>tokens. NewTokenSet (\<lambda>k. Inr (replicate 32 k)) (sample_inst (sample_istatus None)) None = Inr tokens \<and>
     NewTokenSet (\<lambda>_. Inl ''no entropy'') (sample_inst (sample_istatus None))
       (Some (TokensSecret (sample_inst (sample_istatus None)) tokens)) = Inr tokens \<and> length (tokAgent tokens) = 64"
proof -
  let ?inst = "sample_inst (sample_istatus None)"
  have "\<exists>tokens. NewTokenSet (\<lambda>k. Inr (replicate 32 k)) ?inst None = Inr tokens"
    by (simp add: NewTokenSet_def fillSlot_def existingToken_def randomToken_def OS_def)
  then obtain tokens where tokens: "NewTokenSet (\<lambda>k. Inr (replicate 32 k)) ?inst None = Inr tokens" by blast
  have "NewTokenSet (\<lambda>_. Inl ''no entropy'') ?inst (Some (TokensSecret ?inst tokens)) = Inr tokens \<and>
      (existingToken None TokenKeyAgent \<noteq> '''' \<or> length (tokAgent tokens) = 64)"
    using tokens_made_once [OF tokens, of ?inst "\<lambda>_. Inl ''no entropy''" ?inst] by (auto simp: OS_def)
  with tokens show ?thesis by (auto simp: existingToken_def)
qed

end
