(* ===== verification/Workload.thy ===== *)
theory Workload
  imports Desktop_Names Credential_Runner
begin

text \<open>
  Rendering of an Instance's workload: the StatefulSet, its Service and the relay attachment
  (\<^verbatim>\<open>internal/resources/workload.go\<close>, \<^verbatim>\<open>relay.go\<close>), and the snapshot and restore workloads
  (\<^verbatim>\<open>internal/resources/backup.go\<close>). Quantities are their values in bytes; a configured size is positive when
  its value is.
\<close>

section \<open>The relay attachment\<close>

abbreviation ManagedControlDir :: string where "ManagedControlDir \<equiv> ''/run/typeclaw-managed''"
abbreviation SelfConfigObservationDir :: string where "SelfConfigObservationDir \<equiv> ''/run/typeclaw-selfconfig''"
abbreviation SelfConfigObservationFile :: string where
  "SelfConfigObservationFile \<equiv> ''/run/typeclaw-selfconfig/observation.json''"
abbreviation SelfConfigObservationVolumeName :: string where
  "SelfConfigObservationVolumeName \<equiv> ''selfconfig-observation''"
abbreviation ContainerPort :: int where "ContainerPort \<equiv> 8973"

definition mount :: "string \<Rightarrow> string \<Rightarrow> bool \<Rightarrow> volume_mount" where
  "mount name path readOnly =
     \<lparr>mountName = name, mountPath = path, mountSubPath = '''', mountReadOnly = readOnly\<rparr>"

definition RelaySidecar :: "string \<Rightarrow> string \<Rightarrow> string \<Rightarrow> container" where
  "RelaySidecar runtimeID controlDir img =
     \<lparr>ctName = ''restart-relay'', ctImage = img, ctPullPolicy = ''IfNotPresent'', ctCommand = [''/relay''], ctArgs = [],
      ctEnv = [EnvValue ''TYPECLAW_MANAGED_CONTROL_DIR'' controlDir, EnvValue ''TYPECLAW_RUNTIME_ID'' runtimeID,
               EnvValue ''TYPECLAW_SELF_CONFIG_OBSERVATION_FILE'' SelfConfigObservationFile,
               EnvField ''POD_NAME'' ''metadata.name'', EnvField ''POD_NAMESPACE'' ''metadata.namespace''],
      ctPorts = [], ctLiveness = None, ctReadiness = None, ctTerminationPath = '''', ctSecurity = hardened,
      ctMounts = [mount ''managed-control'' controlDir False,
                  mount ''relay-token'' ''/var/run/secrets/typeclaw-relay'' True,
                  mount SelfConfigObservationVolumeName SelfConfigObservationDir True,
                  mount ''relay-ca'' ''/var/run/secrets/kubernetes.io/serviceaccount'' True]\<rparr>"

definition relayResourceName :: "TypeClawInstance \<Rightarrow> string" where
  "relayResourceName inst = instName inst @ ''-relay''"

definition RelayServiceAccount :: "TypeClawInstance \<Rightarrow> service_account" where
  "RelayServiceAccount inst =
     \<lparr>saName = relayResourceName inst, saNamespace = instNamespace inst, saLabels = Labels inst\<rparr>"

definition RelayRole :: "TypeClawInstance \<Rightarrow> role" where
  "RelayRole inst =
     \<lparr>roleName = relayResourceName inst, roleNamespace = instNamespace inst, roleLabels = Labels inst, roleRules =
     [\<lparr>prGroups = [''''], prResources = [''pods''], prNames = [instName inst @ ''-0''], prVerbs = [''get'', ''delete'']\<rparr>,
      \<lparr>prGroups = [''typeclaw.fml09.io''], prResources = [''typeclawinstances''], prNames = [instName inst],
       prVerbs = [''get'']\<rparr>,
      \<lparr>prGroups = [''typeclaw.fml09.io''], prResources = [''typeclawinstances/status''], prNames = [instName inst],
       prVerbs = [''get'', ''patch'']\<rparr>]\<rparr>"

definition RelayRoleBinding :: "TypeClawInstance \<Rightarrow> role_binding" where
  "RelayRoleBinding inst =
     \<lparr>rbName = relayResourceName inst, rbNamespace = instNamespace inst, rbLabels = Labels inst,
      rbRole = relayResourceName inst, rbSubject = (relayResourceName inst, instNamespace inst)\<rparr>"

definition RelayTokenVolume :: volume where
  "RelayTokenVolume = \<lparr>volName = ''relay-token'', volSource = ProjectedToken ''token'' 86400\<rparr>"

definition RelayCAVolume :: volume where
  "RelayCAVolume =
     \<lparr>volName = ''relay-ca'', volSource = ConfigMapVolume ''kube-root-ca.crt'' [(''ca.crt'', ''ca.crt'')] (Some False)\<rparr>"

section \<open>The StatefulSet\<close>

definition claimTemplate :: "string \<Rightarrow> VolumeClaimSpec \<Rightarrow> pvc" where
  "claimTemplate name spec =
     \<lparr>pvcName = name, pvcNamespace = '''', pvcLabels = [], pvcAccessModes = [''ReadWriteOnce''], pvcSize = vcSize spec,
      pvcStorageClass = vcStorageClass spec\<rparr>"

definition desktopProjected :: "TypeClawInstance \<Rightarrow> bool" where
  "desktopProjected inst \<longleftrightarrow> Enabled inst \<and> Validate inst = None \<and> RuntimeSupportsExtensions inst"

definition seccompProfileFor :: "string option \<Rightarrow> seccomp_profile \<Rightarrow> seccomp_profile" where
  "seccompProfileFor sec baseline = (if sec = Some ''Unconfined'' then SeccompUnconfined else baseline)"

definition claimRetention :: "TypeClawInstance \<Rightarrow> string" where
  "claimRetention inst = (if OnInstanceDeletion (Storage (Spec inst)) = ''Delete'' then ''Delete'' else ''Retain'')"

definition serviceAccountNameFor :: "bool \<Rightarrow> TypeClawInstance \<Rightarrow> string" where
  "serviceAccountNameFor relayEnabled inst = (if \<not> relayEnabled then '''' else relayResourceName inst)"

definition probeAt :: "string \<Rightarrow> probe" where
  "probeAt path = \<lparr>probePath = path, probePort = PortNumber ContainerPort, probePeriod = 10, probeInitialDelay = 0\<rparr>"

definition relayEnabled :: "TypeClawInstance \<Rightarrow> bool" where
  "relayEnabled inst = (case RestartRelay (Spec inst) of None \<Rightarrow> True | Some b \<Rightarrow> b)"

definition runtimeClaims :: "TypeClawInstance \<Rightarrow> pvc list" where
  "runtimeClaims inst =
     claimTemplate ''agent-folder'' (AgentFolder (Storage (Spec inst))) #
     (case RuntimeHome (Storage (Spec inst)) of None \<Rightarrow> [] | Some home \<Rightarrow> [claimTemplate ''runtime-home'' home])"

definition runtimeVolumes :: "TypeClawInstance \<Rightarrow> int \<Rightarrow> volume list" where
  "runtimeVolumes inst tmpSize =
     [\<lparr>volName = ''managed-control'', volSource = EmptyDirVolume None None\<rparr>,
      \<lparr>volName = SelfConfigObservationVolumeName, volSource = EmptyDirVolume None None\<rparr>,
      \<lparr>volName = ''runtime-tmp'', volSource = EmptyDirVolume (Some ''Memory'') (Some tmpSize)\<rparr>,
      \<lparr>volName = ''browser-shm'', volSource = EmptyDirVolume (Some ''Memory'') (Some (512 * 2 ^ 20))\<rparr>] @
     (case RuntimeHome (Storage (Spec inst)) of
        None \<Rightarrow> [\<lparr>volName = ''runtime-home'', volSource = EmptyDirVolume None None\<rparr>] | Some _ \<Rightarrow> []) @
     (if spCredentialPolicy (Spec inst) \<noteq> None
      then [\<lparr>volName = ''spiffe-workload-api'', volSource = CSIVolume ''csi.spiffe.io'' True\<rparr>] else []) @
     (if desktopProjected inst
      then [\<lparr>volName = ''desktop-extension'', volSource = ConfigMapVolume (nsExtension (Names inst)) [] None\<rparr>] else [])"

definition runtimeMounts :: "TypeClawInstance \<Rightarrow> volume_mount list" where
  "runtimeMounts inst =
     [mount ''agent-folder'' ''/agent'' False, mount ''managed-control'' ManagedControlDir False,
      mount SelfConfigObservationVolumeName SelfConfigObservationDir False, mount ''runtime-tmp'' ''/tmp'' False,
      mount ''browser-shm'' ''/dev/shm'' False, mount ''runtime-home'' ''/home/typeclaw'' False] @
     (if spCredentialPolicy (Spec inst) \<noteq> None then [mount ''spiffe-workload-api'' ''/spiffe-workload-api'' True] else []) @
     (if desktopProjected inst then [mount ''desktop-extension'' ExtensionMountPath True] else [])"

definition runtimeEnv :: "TypeClawInstance \<Rightarrow> env_var list" where
  "runtimeEnv inst =
     [EnvValue ''TYPECLAW_SELF_CONFIG_OBSERVATION_FILE'' SelfConfigObservationFile,
      EnvValue ''TYPECLAW_DEPLOYMENT_PROFILE'' ''managed'',
      EnvValue ''TYPECLAW_RUNTIME_ID'' (instNamespace inst @ ''/'' @ instName inst),
      EnvValue ''TYPECLAW_MANAGED_CONTROL_DIR'' ManagedControlDir] @
     (if Timezone (Runtime (Spec inst)) \<noteq> '''' then [EnvValue ''TZ'' (Timezone (Runtime (Spec inst)))] else []) @
     (if spCredentialPolicy (Spec inst) \<noteq> None
      then [EnvValue ''SPIFFE_ENDPOINT_SOCKET'' ''unix:///spiffe-workload-api/spire-agent.sock''] else []) @
     (if desktopProjected inst
      then [EnvValue ''TYPECLAW_PLATFORM_EXTENSIONS'' (ExtensionMountPath @ ''/index.ts''),
            EnvValue ''PERSONAL_DESKTOP_GATEWAY_URL'' (GatewayURL inst),
            EnvSecretKey ''PERSONAL_DESKTOP_AGENT_TOKEN'' (nsTokens (Names inst)) TokenKeyAgent] @
           (if ConsoleURL inst None \<noteq> '''' then [EnvValue ''PERSONAL_DESKTOP_CONSOLE_URL'' (ConsoleURL inst None)] else [])
      else [])"

definition runtimeContainer :: "TypeClawInstance \<Rightarrow> container" where
  "runtimeContainer inst =
     \<lparr>ctName = ''runtime'', ctImage = EffectiveRuntimeImage inst, ctPullPolicy = ''IfNotPresent'', ctCommand = [],
      ctArgs = [], ctEnv = runtimeEnv inst, ctPorts = [(''server'', ContainerPort)],
      ctLiveness = Some (probeAt ''/health/live''),
      ctReadiness = Some ((probeAt ''/health/ready'')\<lparr>probeInitialDelay := 5\<rparr>), ctTerminationPath = '''',
      ctSecurity = hardened, ctMounts = runtimeMounts inst\<rparr>"

definition runtimePod :: "TypeClawInstance \<Rightarrow> int \<Rightarrow> pod_spec" where
  "runtimePod inst tmpSize =
     \<lparr>podRestartPolicy = '''', podAutomountToken = False,
      podServiceAccount = serviceAccountNameFor (relayEnabled inst) inst, podGracePeriod = Some 120,
      podRunAsNonRoot = True, podRunAsUser = RuntimeUID, podRunAsGroup = RuntimeGID, podFSGroup = RuntimeGID,
      podSeccomp = seccompProfileFor (spSecurity (Spec inst)) (SeccompLocalhost SeccompLocalhostProfile),
      podContainers = runtimeContainer inst #
        (if relayEnabled inst
         then [RelaySidecar (instNamespace inst @ ''/'' @ instName inst) ManagedControlDir DefaultOperatorImage] else []),
      podVolumes = runtimeVolumes inst tmpSize @
        (if relayEnabled inst then [RelayTokenVolume, RelayCAVolume] else [])\<rparr>"

definition StatefulSet :: "TypeClawInstance \<Rightarrow> string + stateful_set" where
  "StatefulSet inst =
     (let configured = TmpSizeLimit (Storage (Spec inst)) in
      if (case configured of None \<Rightarrow> False | Some q \<Rightarrow> q \<le> 0)
      then Inl (''spec.storage.tmpSizeLimit must be positive'')
      else
        let tmpSize = (case configured of None \<Rightarrow> 256 * 2 ^ 20 | Some q \<Rightarrow> q); labels = Labels inst in
        Inr \<lparr>ssName = instName inst, ssNamespace = instNamespace inst, ssLabels = labels,
             ssServiceName = instName inst, ssReplicas = (if Suspend (Spec inst) then 0 else 1),
             ssWhenDeleted = claimRetention inst, ssWhenScaled = ''Retain'',
             ssSelector = [(''app.kubernetes.io/name'', ''typeclaw''), (''app.kubernetes.io/instance'', instName inst)],
             ssClaims = runtimeClaims inst, ssPodLabels = labels, ssPod = runtimePod inst tmpSize\<rparr>)"

definition Service :: "TypeClawInstance \<Rightarrow> service" where
  "Service inst =
     \<lparr>svcName = instName inst, svcNamespace = instNamespace inst, svcLabels = Labels inst, svcType = ''ClusterIP'',
      svcSelector = Labels inst, svcPorts = [(''server'', ContainerPort, PortNumber ContainerPort)]\<rparr>"

section \<open>Snapshots and restores\<close>

definition SnapshotPVCName :: "string \<Rightarrow> string" where
  "SnapshotPVCName instanceName = instanceName @ ''-snapshots''"

definition BackupCronJobName :: "string \<Rightarrow> string" where
  "BackupCronJobName instanceName = instanceName @ ''-backup''"

definition RestoreJobName :: "(string \<Rightarrow> nat list) \<Rightarrow> string \<Rightarrow> string \<Rightarrow> string" where
  "RestoreJobName sha256 instanceName snapshotArchive =
     instanceName @ ''-restore-'' @ hexEncode (take 4 (sha256 snapshotArchive))"

definition SnapshotPVC :: "TypeClawInstance \<Rightarrow> BackupSpec \<Rightarrow> pvc" where
  "SnapshotPVC inst backup =
     (claimTemplate (SnapshotPVCName (instName inst)) (SnapshotVolume backup))
       \<lparr>pvcNamespace := instNamespace inst, pvcLabels := Labels inst\<rparr>"

abbreviation line_break :: string where "line_break \<equiv> [CHR 0x0A]"
abbreviation quote_char :: char where "quote_char \<equiv> CHR 0x27"
abbreviation dquote :: string where "dquote \<equiv> [CHR 0x22]"

text \<open>A shell word in single quotes, in which a single quote becomes \<^verbatim>\<open>'"'"'\<close>.\<close>

definition ReplaceQuotes :: "string \<Rightarrow> string" where
  "ReplaceQuotes v = concat (map (\<lambda>c. if c = quote_char
     then [quote_char, CHR 0x22, quote_char, CHR 0x22, quote_char] else [c]) v)"

definition shellQuote :: "string \<Rightarrow> string" where
  "shellQuote v = [quote_char] @ ReplaceQuotes v @ [quote_char]"

definition restoreArchivePath :: "string \<Rightarrow> string" where
  "restoreArchivePath snapshotArchive =
     (if snapshotArchive = '''' \<or> ContainsAny snapshotArchive [CHR ''/'', CHR 0x5C, CHR 0x5C]
      then shellQuote ''/snapshots/invalid-archive''
      else shellQuote (''/snapshots'' @ ''/'' @ snapshotArchive))"

definition excludes :: "string \<Rightarrow> string" where
  "excludes prefix = concat (map (\<lambda>f. ''--exclude='' @ [quote_char] @ prefix @ ''/'' @ f @ [quote_char] @ '' '')
     [''.env'', ''.env.local'', ''secrets.json'', ''auth.json''])"

definition backupScript :: string where
  "backupScript =
     ''tar czf '' @ dquote @ ''/snapshots/${JOB_NAME}.tar.gz'' @ dquote @ '' '' @ [CHR 0x5C] @ line_break @ ''  '' @
     excludes ''.'' @ [CHR 0x5C] @ line_break @ ''  '' @ excludes ''*'' @ [CHR 0x5C] @ line_break @
     ''  -C /workspace .'' @ line_break @
     ''ls -1t /snapshots/*.tar.gz | tail -n +$((RETENTION+1)) | xargs -r rm -f''"

definition restoreScript :: "string \<Rightarrow> string" where
  "restoreScript snapshotArchive =
     (let restorePath = shellQuote ''/workspace'' in
      ''[ -z '' @ dquote @ ''$(ls -A '' @ restorePath @ '' 2>/dev/null)'' @ dquote @ '' ] || { echo '' @ dquote @
      ''restore aborted: public workspace target not empty (exit code 78)'' @ dquote @ '' >&2; exit 78; }'' @ line_break @
      ''tar xzf '' @ restoreArchivePath snapshotArchive @ '' '' @ excludes ''.'' @ excludes ''*'' @
      ''-C '' @ restorePath)"

definition backupPodSpec :: "TypeClawInstance \<Rightarrow> string \<Rightarrow> string \<Rightarrow> bool \<Rightarrow> env_var list \<Rightarrow> pod_spec" where
  "backupPodSpec inst containerName script agentReadOnly extraEnv =
     \<lparr>podRestartPolicy = ''OnFailure'', podAutomountToken = False, podServiceAccount = '''', podGracePeriod = None,
      podRunAsNonRoot = True, podRunAsUser = RuntimeUID, podRunAsGroup = RuntimeGID, podFSGroup = RuntimeGID,
      podSeccomp = SeccompLocalhost SeccompLocalhostProfile,
      podContainers =
        [\<lparr>ctName = containerName, ctImage = ''busybox:1.37.0'', ctPullPolicy = '''', ctCommand = [''/bin/sh'', ''-ec'', script],
          ctArgs = [], ctEnv = extraEnv, ctPorts = [], ctLiveness = None, ctReadiness = None, ctTerminationPath = '''',
          ctSecurity = hardened,
          ctMounts = [\<lparr>mountName = ''agent-folder'', mountPath = ''/workspace'', mountSubPath = ''workspace'',
                       mountReadOnly = agentReadOnly\<rparr>, mount ''snapshots'' ''/snapshots'' False]\<rparr>],
      podVolumes =
        [\<lparr>volName = ''agent-folder'', volSource = PVCVolume (''agent-folder-'' @ instName inst @ ''-0'')\<rparr>,
         \<lparr>volName = ''snapshots'', volSource = PVCVolume (SnapshotPVCName (instName inst))\<rparr>]\<rparr>"

definition BackupCronJob :: "TypeClawInstance \<Rightarrow> BackupSpec \<Rightarrow> cron_job" where
  "BackupCronJob inst backup =
     (let labels = Labels inst @ [(componentLabelKey, ''backup'')];
          env = [EnvValue ''RETENTION'' (Itoa (Retention backup)), EnvField ''JOB_NAME'' ''metadata.name''] in
      \<lparr>cjName = BackupCronJobName (instName inst), cjNamespace = instNamespace inst, cjLabels = labels,
       cjSchedule = Schedule backup, cjConcurrency = ''Forbid'', cjSuccessfulHistory = 3, cjFailedHistory = 1,
       cjSuspend = Suspend (Spec inst), cjJobLabels = labels, cjPodLabels = labels,
       cjPod = backupPodSpec inst ''snapshot'' backupScript True env\<rparr>)"

definition RestoreJob :: "(string \<Rightarrow> nat list) \<Rightarrow> TypeClawInstance \<Rightarrow> string \<Rightarrow> job" where
  "RestoreJob sha256 inst snapshotArchive =
     (let labels = Labels inst @ [(componentLabelKey, ''restore'')] in
      \<lparr>jobName = RestoreJobName sha256 (instName inst) snapshotArchive, jobNamespace = instNamespace inst,
       jobLabels = labels, jobAnnotations = [], jobBackoffLimit = None, jobTTLSeconds = None, jobActiveDeadline = None,
       jobPodLabels = labels,
       jobPod = backupPodSpec inst ''restore'' (restoreScript snapshotArchive) False []\<rparr>)"

end
