(* ===== verification/Workload_Props.thy ===== *)
theory Workload_Props
  imports Workload Credential_Props
begin

text \<open>
  What the renderers guarantee: every Pod the operator makes for an Instance is confined, and a
  restore request reaches the shell as one literal word.
\<close>

section \<open>Confinement\<close>

text \<open>
  The floor under every rendered Pod: restricted, every mount names a volume of the Pod or a claim
  template, and volume names are unique.
\<close>

definition pod_floor :: "string list \<Rightarrow> pod_spec \<Rightarrow> bool" where
  "pod_floor claims p \<longleftrightarrow>
     restricted_pod p \<and> mounts_resolved claims p \<and> distinct (map volName (podVolumes p) @ claims)"

lemmas pod_floor_simps = pod_floor_def restricted_pod_def mounts_resolved_def mount_def

lemma runtime_restricted: "restricted_pod (runtimePod inst tmpSize)"
  by (simp add: restricted_pod_def runtimePod_def runtimeContainer_def RelaySidecar_def)

lemma runtime_volume_names:
  "map volName (podVolumes (runtimePod inst tmpSize)) =
     [''managed-control'', SelfConfigObservationVolumeName, ''runtime-tmp'', ''browser-shm''] @
     (case RuntimeHome (Storage (Spec inst)) of None \<Rightarrow> [''runtime-home''] | Some _ \<Rightarrow> []) @
     (if spCredentialPolicy (Spec inst) \<noteq> None then [''spiffe-workload-api''] else []) @
     (if desktopProjected inst then [''desktop-extension''] else []) @
     (if relayEnabled inst then [''relay-token'', ''relay-ca''] else [])"
  by (simp add: runtimePod_def runtimeVolumes_def RelayTokenVolume_def RelayCAVolume_def split: option.split)

lemma runtime_claim_names:
  "map pvcName (runtimeClaims inst) =
     ''agent-folder'' # (case RuntimeHome (Storage (Spec inst)) of None \<Rightarrow> [] | Some _ \<Rightarrow> [''runtime-home''])"
  by (simp add: runtimeClaims_def claimTemplate_def split: option.split)

lemma runtime_mounts: "mounts_resolved (map pvcName (runtimeClaims inst)) (runtimePod inst tmpSize)"
  unfolding mounts_resolved_def runtime_volume_names runtime_claim_names
  by (cases "RuntimeHome (Storage (Spec inst))")
    (simp_all add: runtimePod_def runtimeContainer_def runtimeMounts_def RelaySidecar_def mount_def)

lemma runtime_distinct: "distinct (map volName (podVolumes (runtimePod inst tmpSize)) @ map pvcName (runtimeClaims inst))"
  unfolding runtime_volume_names runtime_claim_names
  by (cases "RuntimeHome (Storage (Spec inst))") simp_all

lemma runtime_pod_floor: "pod_floor (map pvcName (runtimeClaims inst)) (runtimePod inst tmpSize)"
  unfolding pod_floor_def using runtime_restricted runtime_mounts runtime_distinct by blast

lemma backup_pod_floor: "pod_floor [] (backupPodSpec inst name script ro env)"
  by (simp add: pod_floor_simps backupPodSpec_def)

lemma runner_pod_floor: "CredentialRunnerJob ci request = Inr j \<Longrightarrow> pod_floor [] (jobPod j)"
  by (auto simp: pod_floor_simps CredentialRunnerJob_def Let_def runnerContainer_def split: option.splits if_splits)

lemma runtime_secret_volumes: "[v \<leftarrow> podVolumes (runtimePod inst tmpSize). \<exists>n items m. volSource v = SecretVolume n items m] = []"
  by (auto simp: runtimePod_def runtimeVolumes_def RelayTokenVolume_def RelayCAVolume_def filter_empty_conv
      split: option.splits if_splits)



section \<open>The restore script\<close>

text \<open>
  How a POSIX shell reads one word: single quotes keep everything, double quotes keep everything but
  expansions, an unquoted blank ends the word. Words with expansions are not literal and give nothing.
\<close>

datatype sh_mode = Plain | Single | Double

definition sh_special :: "char \<Rightarrow> bool" where
  "sh_special c = (c \<in> {CHR ''$'', CHR 0x60, CHR 0x5C})"

fun sh_word :: "sh_mode \<Rightarrow> string \<Rightarrow> (string \<times> string) option" where
  "sh_word Plain [] = Some ([], [])"
| "sh_word Plain (c # cs) =
     (if c = CHR '' '' \<or> c = CHR 0x0A \<or> c = CHR 0x09 then Some ([], c # cs)
      else if c = CHR 0x27 then sh_word Single cs
      else if c = CHR 0x22 then sh_word Double cs
      else if sh_special c \<or> c \<in> set '';&|<>()*?[]#~='' then None
      else map_option (\<lambda>(w, rest). (c # w, rest)) (sh_word Plain cs))"
| "sh_word Single [] = None"
| "sh_word Single (c # cs) =
     (if c = CHR 0x27 then sh_word Plain cs
      else map_option (\<lambda>(w, rest). (c # w, rest)) (sh_word Single cs))"
| "sh_word Double [] = None"
| "sh_word Double (c # cs) =
     (if c = CHR 0x22 then sh_word Plain cs
      else if sh_special c then None
      else map_option (\<lambda>(w, rest). (c # w, rest)) (sh_word Double cs))"

lemma sh_word_quotes:
  "sh_word Single (ReplaceQuotes v @ [CHR 0x27] @ '' '' @ rest) = Some (v, '' '' @ rest)"
  by (induction v) (auto simp: ReplaceQuotes_def sh_special_def)

lemma sh_word_shellQuote: "sh_word Plain (shellQuote v @ '' '' @ rest) = Some (v, '' '' @ rest)"
  using sh_word_quotes [of v rest] by (simp add: shellQuote_def)


end
