(* ===== verification/Backup.thy ===== *)
theory Backup
  imports Workload "HOL-Library.Char_ord"
begin

text \<open>
  The backup controller (\<^verbatim>\<open>internal/controller/backup_controller.go\<close>): snapshot resources, the observation
  of snapshot Jobs and guarded one-shot restores. One reconciliation is a function of the cluster's
  answers; it yields the queue result, the status it stored and the calls that change the cluster, in order.
  A dereference of a missing completion time is a panic.
\<close>

section \<open>Data\<close>

record job_condition =
  jcType :: string
  jcTrue :: bool
  jcMessage :: string

record snapshot_job =
  sjName :: string
  sjCreated :: int
  sjCompletion :: "int option"
  sjConditions :: "job_condition list"

datatype backup_call =
    ApplyPVC pvc
  | ApplyCronJob cron_job
  | DeletePVC string
  | DeleteCronJob string
  | CreateJob job

record ('e) backup_lib =
  blCall :: "backup_call \<Rightarrow> 'e option"
  blListJobs :: "(string \<times> string) list \<Rightarrow> 'e + snapshot_job list"
  blGetJob :: "string \<Rightarrow> 'e + snapshot_job"
  blSetOwner :: "'e option"
  blPatchStatus :: "TypeClawInstanceStatus \<Rightarrow> 'e option"
  blIsNotFound :: "'e \<Rightarrow> bool"
  blIsAlreadyExists :: "'e \<Rightarrow> bool"
  blText :: "'e \<Rightarrow> string"
  blNow :: int
  blSha :: "string \<Rightarrow> nat list"

datatype 'e backup_error = BackupApi string 'e | NilPanic

datatype backup_queue = BackupRequeue | BackupDone

abbreviation ConditionBackupReady :: string where "ConditionBackupReady \<equiv> ''BackupReady''"
abbreviation RestoreAnnotation :: string where "RestoreAnnotation \<equiv> ''typeclaw.fml09.io/restore''"

section \<open>Snapshot Jobs\<close>

definition backupJobConditionTrue :: "snapshot_job \<Rightarrow> string \<Rightarrow> bool" where
  "backupJobConditionTrue j want = list_ex (\<lambda>c. jcType c = want \<and> jcTrue c) (sjConditions j)"

definition backupJobFailedWithExitCode :: "snapshot_job \<Rightarrow> string \<Rightarrow> bool" where
  "backupJobFailedWithExitCode j needle =
     list_ex (\<lambda>c. jcType c = ''Failed'' \<and> jcTrue c \<and> Contains (jcMessage c) needle) (sjConditions j)"

definition backupNewer :: "snapshot_job \<Rightarrow> snapshot_job \<Rightarrow> bool" where
  "backupNewer a b =
     (if sjCreated a \<noteq> sjCreated b then sjCreated b < sjCreated a else sjName b < sjName a)"

definition backupCompletedAfter :: "snapshot_job \<Rightarrow> snapshot_job \<Rightarrow> bool option" where
  "backupCompletedAfter a b =
     (if sjCompletion a \<noteq> sjCompletion b
      then (case (sjCompletion a, sjCompletion b) of
          (Some t, Some u) \<Rightarrow> Some (u < t)
        | _ \<Rightarrow> None)
      else Some (sjName b < sjName a))"

fun scanSnapshots ::
  "snapshot_job option \<Rightarrow> snapshot_job option \<Rightarrow> snapshot_job list
     \<Rightarrow> (snapshot_job option \<times> snapshot_job option) option" where
  "scanSnapshots latest succeeded [] = Some (latest, succeeded)"
| "scanSnapshots latest succeeded (j # jobs) =
     (let latest' = (case latest of None \<Rightarrow> Some j | Some l \<Rightarrow> if backupNewer j l then Some j else latest) in
      if \<not> backupJobConditionTrue j ''Complete'' then scanSnapshots latest' succeeded jobs
      else (case succeeded of
          None \<Rightarrow> scanSnapshots latest' (Some j) jobs
        | Some s \<Rightarrow>
           (case backupCompletedAfter j s of
              None \<Rightarrow> None
            | Some True \<Rightarrow> scanSnapshots latest' (Some j) jobs
            | Some False \<Rightarrow> scanSnapshots latest' succeeded jobs)))"

definition quoted :: "string \<Rightarrow> string" where
  "quoted s = dquote @ s @ dquote"

definition snapshotCondition ::
  "int \<Rightarrow> int \<Rightarrow> snapshot_job option \<Rightarrow> TypeClawInstanceStatus \<Rightarrow> TypeClawInstanceStatus" where
  "snapshotCondition now gnr latest =
     (case latest of
        None \<Rightarrow> setCondition now gnr ConditionBackupReady False ''BackupPending'' ''BackupPending''
          ''waiting for the first scheduled snapshot Job''
      | Some j \<Rightarrow>
          if backupJobConditionTrue j ''Complete''
          then setCondition now gnr ConditionBackupReady True ''BackupsHealthy'' ''BackupFailed''
                 (''snapshot '' @ quoted (sjName j) @ '' completed'')
          else if backupJobConditionTrue j ''Failed''
          then setCondition now gnr ConditionBackupReady False ''BackupFailed'' ''BackupFailed''
                 (''snapshot '' @ quoted (sjName j) @ '' failed'')
          else setCondition now gnr ConditionBackupReady False ''BackupPending'' ''BackupPending''
                 (''snapshot '' @ quoted (sjName j) @ '' still running''))"

definition observeSnapshots ::
  "'e backup_lib \<Rightarrow> TypeClawInstance \<Rightarrow> TypeClawInstanceStatus \<Rightarrow> 'e backup_error + TypeClawInstanceStatus" where
  "observeSnapshots lib inst st =
     (case blListJobs lib (Labels inst @ [(componentLabelKey, ''backup'')]) of
        Inl err \<Rightarrow> Inl (BackupApi ''list snapshot Jobs'' err)
      | Inr jobs \<Rightarrow>
         (case scanSnapshots None None jobs of
            None \<Rightarrow> Inl NilPanic
          | Some (latest, succeeded) \<Rightarrow>
              Inr ((snapshotCondition (blNow lib) (instGeneration inst) latest st)
                \<lparr>stBackup := map_option (\<lambda>j. \<lparr>LatestSnapshot = sjName j, LastSnapshotTime = sjCompletion j\<rparr>) succeeded\<rparr>)))"

section \<open>Snapshot resources\<close>

definition applySnapshotResources ::
  "'e backup_lib \<Rightarrow> TypeClawInstance \<Rightarrow> BackupSpec \<Rightarrow> 'e backup_error option \<times> backup_call list" where
  "applySnapshotResources lib inst backup =
     (let claim = ApplyPVC (SnapshotPVC inst backup); cron = ApplyCronJob ((BackupCronJob inst backup)\<lparr>cjLabels := Labels inst\<rparr>) in
      case blSetOwner lib of
        Some err \<Rightarrow> (Some (BackupApi ''apply snapshot PVC'' err), [])
      | None \<Rightarrow>
         (case blCall lib claim of
            Some err \<Rightarrow> (Some (BackupApi ''apply snapshot PVC'' err), [claim])
          | None \<Rightarrow>
             (case blCall lib cron of
                Some err \<Rightarrow> (Some (BackupApi ''apply backup CronJob'' err), [claim, cron])
              | None \<Rightarrow> (None, [claim, cron]))))"

definition deleteSnapshotResources ::
  "'e backup_lib \<Rightarrow> TypeClawInstance \<Rightarrow> 'e backup_error option \<times> backup_call list" where
  "deleteSnapshotResources lib inst =
     (let claim = DeletePVC (SnapshotPVCName (instName inst)); cron = DeleteCronJob (BackupCronJobName (instName inst));
          failed = (\<lambda>c. case blCall lib c of None \<Rightarrow> None | Some err \<Rightarrow> if blIsNotFound lib err then None else Some err) in
      case failed claim of
        Some err \<Rightarrow> (Some (BackupApi ''remove snapshot PVC'' err), [claim])
      | None \<Rightarrow>
         (case failed cron of
            Some err \<Rightarrow> (Some (BackupApi ''remove backup CronJob'' err), [claim, cron])
          | None \<Rightarrow> (None, [claim, cron])))"

section \<open>Restores\<close>

definition observeRestore ::
  "'e backup_lib \<Rightarrow> TypeClawInstance \<Rightarrow> string \<Rightarrow> TypeClawInstanceStatus
     \<Rightarrow> 'e backup_error + TypeClawInstanceStatus" where
  "observeRestore lib inst value st =
     (case blGetJob lib (RestoreJobName (blSha lib) (instName inst) value) of
        Inl err \<Rightarrow> if blIsNotFound lib err then Inr st else Inl (BackupApi '''' err)
      | Inr j \<Rightarrow>
          if backupJobFailedWithExitCode j ''exit code 78''
          then Inr (setCondition (blNow lib) (instGeneration inst) ConditionBackupReady False ''RestoreTargetNotEmpty''
                 ''RestoreTargetNotEmpty''
                 (''restore of '' @ quoted value @ '' aborted: public workspace target not empty (exit code 78)'') st)
          else Inr st)"

definition processRestore ::
  "'e backup_lib \<Rightarrow> TypeClawInstance \<Rightarrow> TypeClawInstanceStatus
     \<Rightarrow> ('e backup_error + TypeClawInstanceStatus) \<times> backup_call list" where
  "processRestore lib inst st =
     (let value = (case map_of (instAnnotations inst) RestoreAnnotation of None \<Rightarrow> '''' | Some v \<Rightarrow> v) in
      if value = '''' then (Inr st, [])
      else if value = RestoreLastProcessed st then (observeRestore lib inst value st, [])
      else if \<not> Suspend (Spec inst)
      then (Inr (setCondition (blNow lib) (instGeneration inst) ConditionBackupReady False ''RestoreBlockedSuspended''
              ''RestoreBlockedSuspended''
              (''restore of '' @ quoted value @ '' refused: suspend the TypeClaw Instance before restoring'') st), [])
      else (case blSetOwner lib of
          Some err \<Rightarrow> (Inl (BackupApi '''' err), [])
        | None \<Rightarrow>
            let call = CreateJob ((RestoreJob (blSha lib) inst value)\<lparr>jobLabels := Labels inst\<rparr>) in
            (case blCall lib call of
               Some err \<Rightarrow>
                 if \<not> blIsAlreadyExists lib err then (Inl (BackupApi ''create restore Job'' err), [call])
                 else (observeRestore lib inst value (st\<lparr>RestoreLastProcessed := value\<rparr>), [call])
             | None \<Rightarrow> (observeRestore lib inst value (st\<lparr>RestoreLastProcessed := value\<rparr>), [call]))))"

section \<open>Reconciliation\<close>

definition removeBackupCondition :: "TypeClawInstanceStatus \<Rightarrow> TypeClawInstanceStatus" where
  "removeBackupCondition st = st\<lparr>Conditions := filter (\<lambda>c. condType c \<noteq> ConditionBackupReady) (Conditions st)\<rparr>"

type_synonym 'e backup_outcome =
  "('e backup_error + backup_queue) \<times> TypeClawInstanceStatus option \<times> backup_call list"

definition storeStatus ::
  "'e backup_lib \<Rightarrow> backup_call list \<Rightarrow> TypeClawInstanceStatus \<Rightarrow> 'e backup_outcome" where
  "storeStatus lib calls st =
     (case blPatchStatus lib st of
        Some err \<Rightarrow> (Inr BackupRequeue, None, calls)
      | None \<Rightarrow> (Inr BackupDone, Some st, calls))"

definition restorePhase ::
  "'e backup_lib \<Rightarrow> TypeClawInstance \<Rightarrow> backup_call list \<Rightarrow> TypeClawInstanceStatus \<Rightarrow> 'e backup_outcome" where
  "restorePhase lib inst calls st =
     (case processRestore lib inst st of
        (Inl err, new) \<Rightarrow> (Inl err, None, calls @ new)
      | (Inr st', new) \<Rightarrow> storeStatus lib (calls @ new) st')"

definition errorText :: "'e backup_lib \<Rightarrow> 'e backup_error \<Rightarrow> string" where
  "errorText lib err = (case err of BackupApi what e \<Rightarrow> what @ '': '' @ blText lib e | NilPanic \<Rightarrow> '''')"

definition backupReconcile :: "'e backup_lib \<Rightarrow> 'e + TypeClawInstance \<Rightarrow> 'e backup_outcome" where
  "backupReconcile lib got =
     (case got of
        Inl err \<Rightarrow> (if blIsNotFound lib err then Inr BackupDone else Inl (BackupApi '''' err), None, [])
      | Inr inst \<Rightarrow>
          let st = (Status inst)\<lparr>ObservedGeneration := instGeneration inst\<rparr> in
          (case spBackup (Spec inst) of
             None \<Rightarrow>
              (case deleteSnapshotResources lib inst of
                 (Some err, calls) \<Rightarrow> (Inl err, None, calls)
               | (None, calls) \<Rightarrow> storeStatus lib calls ((removeBackupCondition st)\<lparr>stBackup := None\<rparr>))
           | Some backup \<Rightarrow>
              (case applySnapshotResources lib inst backup of
                 (Some err, calls) \<Rightarrow>
                   restorePhase lib inst calls
                     (setCondition (blNow lib) (instGeneration inst) ConditionBackupReady False ''BackupPending''
                        ''ResourceError'' (errorText lib err) st)
               | (None, calls) \<Rightarrow>
                  (case observeSnapshots lib inst st of
                     Inl err \<Rightarrow> (Inl err, None, calls)
                   | Inr st' \<Rightarrow> restorePhase lib inst calls st'))))"

section \<open>Properties\<close>

definition creates :: "backup_call \<Rightarrow> bool" where
  "creates c = (case c of CreateJob _ \<Rightarrow> True | _ \<Rightarrow> False)"

lemma snapshot_calls:
  "\<forall>c \<in> set (snd (applySnapshotResources lib inst backup)). \<not> creates c"
  "\<forall>c \<in> set (snd (deleteSnapshotResources lib inst)). \<not> creates c"
  by (auto simp: applySnapshotResources_def deleteSnapshotResources_def creates_def Let_def split: option.splits)

lemma setCondition_keeps [simp]:
  "RestoreLastProcessed (setCondition now gnr t p r1 r2 m st) = RestoreLastProcessed st"
  by (simp add: setCondition_def)

lemma snapshotCondition_keeps [simp]:
  "RestoreLastProcessed (snapshotCondition now gnr latest st) = RestoreLastProcessed st"
  by (simp add: snapshotCondition_def split: option.split)

lemma observeSnapshots_keeps: "observeSnapshots lib inst st = Inr st' \<Longrightarrow> RestoreLastProcessed st' = RestoreLastProcessed st"
  by (auto simp: observeSnapshots_def split: sum.splits option.splits)

lemma observeRestore_keeps: "observeRestore lib inst want st = Inr st' \<Longrightarrow> RestoreLastProcessed st' = RestoreLastProcessed st"
  by (auto simp: observeRestore_def split: sum.splits if_splits)

lemma processRestore_create:
  assumes "processRestore lib inst st = (r, calls)" "c \<in> set calls"
  shows "\<exists>want. map_of (instAnnotations inst) RestoreAnnotation = Some want \<and> want \<noteq> '''' \<and>
    want \<noteq> RestoreLastProcessed st \<and> Suspend (Spec inst) \<and>
    calls = [CreateJob ((RestoreJob (blSha lib) inst want)\<lparr>jobLabels := Labels inst\<rparr>)] \<and>
    (\<forall>st'. r = Inr st' \<longrightarrow> RestoreLastProcessed st' = want)"
  using assms
  by (auto simp: processRestore_def Let_def split: if_splits option.splits dest!: observeRestore_keeps)

lemma restorePhase_create:
  assumes "restorePhase lib inst calls st = (res, stored, all)" "\<forall>c \<in> set calls. \<not> creates c" "c \<in> set all" "creates c"
  shows "\<exists>want. map_of (instAnnotations inst) RestoreAnnotation = Some want \<and> want \<noteq> '''' \<and>
    want \<noteq> RestoreLastProcessed st \<and> Suspend (Spec inst) \<and>
    filter creates all = [CreateJob ((RestoreJob (blSha lib) inst want)\<lparr>jobLabels := Labels inst\<rparr>)] \<and>
    (\<forall>st'. stored = Some st' \<longrightarrow> RestoreLastProcessed st' = want)"
proof -
  obtain r new where p: "processRestore lib inst st = (r, new)" by fastforce
  have all: "all = calls @ new" and st: "\<And>st'. stored = Some st' \<Longrightarrow> r = Inr st'"
    using assms(1) p by (auto simp: restorePhase_def storeStatus_def split: sum.splits option.splits)
  have "c \<in> set new" using assms(2-4) all by auto
  from processRestore_create [OF p this] obtain want where v:
    "map_of (instAnnotations inst) RestoreAnnotation = Some want" "want \<noteq> ''''" "want \<noteq> RestoreLastProcessed st"
    "Suspend (Spec inst)" "new = [CreateJob ((RestoreJob (blSha lib) inst want)\<lparr>jobLabels := Labels inst\<rparr>)]"
    "\<forall>st'. r = Inr st' \<longrightarrow> RestoreLastProcessed st' = want"
    by blast
  have "filter creates all = [CreateJob ((RestoreJob (blSha lib) inst want)\<lparr>jobLabels := Labels inst\<rparr>)]"
    using assms(2) all v(5) by (simp add: filter_empty_conv creates_def)
  with v st show ?thesis by blast
qed

lemma backupReconcile_create:
  assumes "backupReconcile lib (Inr inst) = (res, stored, calls)" "c \<in> set calls" "creates c"
  shows "\<exists>want. map_of (instAnnotations inst) RestoreAnnotation = Some want \<and> want \<noteq> '''' \<and>
    want \<noteq> RestoreLastProcessed (Status inst) \<and> Suspend (Spec inst) \<and>
    filter creates calls = [CreateJob ((RestoreJob (blSha lib) inst want)\<lparr>jobLabels := Labels inst\<rparr>)] \<and>
    (\<forall>st'. stored = Some st' \<longrightarrow> RestoreLastProcessed st' = want)"
proof -
  have none: "False" if "deleteSnapshotResources lib inst = (e, cs)" "c \<in> set cs" for e cs
    using that snapshot_calls(2) [of lib inst] assms(3) by auto
  have none': "False" if "applySnapshotResources lib inst b = (e, cs)" "c \<in> set cs" for e cs b
    using that snapshot_calls(1) [of lib inst b] assms(3) by auto
  obtain st cs where "restorePhase lib inst cs st = (res, stored, calls)" "\<forall>x \<in> set cs. \<not> creates x"
    "RestoreLastProcessed st = RestoreLastProcessed (Status inst)"
  proof (cases "spBackup (Spec inst)")
    case None
    then show thesis
      using assms(1,2) none by (auto simp: backupReconcile_def Let_def storeStatus_def split: prod.splits option.splits)
  next
    case (Some backup)
    obtain e cs where a: "applySnapshotResources lib inst backup = (e, cs)" by fastforce
    then have quiet: "\<forall>x \<in> set cs. \<not> creates x" using snapshot_calls(1) [of lib inst backup] by simp
    show thesis
    proof (cases e)
      case None
      then obtain st' where st': "observeSnapshots lib inst ((Status inst)\<lparr>ObservedGeneration := instGeneration inst\<rparr>) = Inr st'"
        using assms a Some none' by (cases "observeSnapshots lib inst ((Status inst)\<lparr>ObservedGeneration := instGeneration inst\<rparr>)")
          (auto simp: backupReconcile_def Let_def)
      then have "restorePhase lib inst cs st' = (res, stored, calls)"
        using assms(1) a Some None by (simp add: backupReconcile_def Let_def)
      from that [OF this quiet] show thesis using observeSnapshots_keeps [OF st'] by simp
    next
      case (Some err)
      from assms(1) a \<open>spBackup (Spec inst) = Some backup\<close> Some have
        "restorePhase lib inst cs (setCondition (blNow lib) (instGeneration inst) ConditionBackupReady False ''BackupPending''
           ''ResourceError'' (errorText lib err) ((Status inst)\<lparr>ObservedGeneration := instGeneration inst\<rparr>)) = (res, stored, calls)"
        by (simp add: backupReconcile_def Let_def)
      from that [OF this quiet] show thesis by simp
    qed
  qed
  from restorePhase_create [OF this(1,2) assms(2,3)] this(3) show ?thesis by simp
qed


text \<open>
  The snapshot the status reports: the latest Job by creation time and name decides the condition,
  and the recorded snapshot is a completed Job that no completed Job finished after.
\<close>

lemma backupNewer_trans: "\<not> backupNewer b a \<Longrightarrow> \<not> backupNewer c b \<Longrightarrow> \<not> backupNewer c a"
  by (auto simp: backupNewer_def split: if_splits)

lemma backupNewer_asym: "backupNewer a b \<Longrightarrow> \<not> backupNewer b a"
  by (auto simp: backupNewer_def split: if_splits)

lemma scanSnapshots_latest:
  assumes "scanSnapshots latest succeeded jobs = Some (l, s)"
  shows "(\<forall>x. latest = Some x \<longrightarrow> (\<exists>y. l = Some y \<and> \<not> backupNewer x y)) \<and>
    (\<forall>j \<in> set jobs. \<exists>y. l = Some y \<and> \<not> backupNewer j y) \<and>
    (\<forall>y. l = Some y \<longrightarrow> latest = Some y \<or> y \<in> set jobs)"
  using assms
proof (induction jobs arbitrary: latest succeeded)
  case Nil
  then show ?case using backupNewer_asym by auto
next
  case (Cons j jobs)
  define latest' where "latest' = (case latest of None \<Rightarrow> Some j | Some x \<Rightarrow> if backupNewer j x then Some j else latest)"
  obtain succeeded' where run: "scanSnapshots latest' succeeded' jobs = Some (l, s)"
    using Cons.prems by (auto simp: latest'_def Let_def split: if_splits option.splits bool.splits)
  from Cons.IH [OF run] have ih: "\<forall>x. latest' = Some x \<longrightarrow> (\<exists>y. l = Some y \<and> \<not> backupNewer x y)"
    "\<forall>j \<in> set jobs. \<exists>y. l = Some y \<and> \<not> backupNewer j y" "\<forall>y. l = Some y \<longrightarrow> latest' = Some y \<or> y \<in> set jobs"
    by auto
  obtain x where x: "latest' = Some x" "\<not> backupNewer j x" "\<forall>z. latest = Some z \<longrightarrow> \<not> backupNewer z x"
    "x = j \<or> latest = Some x"
  proof (cases latest)
    case None
    then show thesis using that [of j] backupNewer_asym by (auto simp: latest'_def)
  next
    case (Some a)
    have irrefl: "\<not> backupNewer z z" for z using backupNewer_asym by blast
    from Some that [of j] that [of a] irrefl backupNewer_asym [of j a] show thesis
      by (cases "backupNewer j a") (simp_all add: latest'_def)
  qed
  from ih(1) x(1) obtain y where y: "l = Some y" "\<not> backupNewer x y" by blast
  have "\<not> backupNewer j y" "\<forall>z. latest = Some z \<longrightarrow> \<not> backupNewer z y"
    using x(2,3) y(2) backupNewer_trans by blast+
  with y ih(2,3) x(1,4) show ?case by auto
qed

text \<open>
  While the last snapshot is healthy and a restore is refused, every reconciliation sets the condition
  to true and then to false again, so the time of the last transition is renewed each time although
  the stored status never changes.
\<close>

lemma restore_refusal_restamps:
  assumes "spBackup (Spec inst) = Some backup" and "applySnapshotResources lib inst backup = (None, cs)"
    and "blListJobs lib (Labels inst @ [(componentLabelKey, ''backup'')]) = Inr jobs"
    and "scanSnapshots None None jobs = Some (Some j, s)" and "backupJobConditionTrue j ''Complete''"
    and "map_of (instAnnotations inst) RestoreAnnotation = Some want" and "want \<noteq> ''''"
    and "want \<noteq> RestoreLastProcessed (Status inst)" and "\<not> Suspend (Spec inst)"
    and "backupReconcile lib (Inr inst) = (res, Some st, calls)"
  shows "\<exists>c. condition_of ConditionBackupReady st = Some c \<and> \<not> condStatus c \<and>
    condReason c = ''RestoreBlockedSuspended'' \<and> LastTransitionTime c = Some (blNow lib)"
proof -
  let ?st = "(snapshotCondition (blNow lib) (instGeneration inst) (Some j)
      ((Status inst)\<lparr>ObservedGeneration := instGeneration inst\<rparr>))
      \<lparr>stBackup := map_option (\<lambda>j. \<lparr>LatestSnapshot = sjName j, LastSnapshotTime = sjCompletion j\<rparr>) s\<rparr>"
  have "st = setCondition (blNow lib) (instGeneration inst) ConditionBackupReady False ''RestoreBlockedSuspended''
      ''RestoreBlockedSuspended'' (''restore of '' @ quoted want @ '' refused: suspend the TypeClaw Instance before restoring'') ?st"
    using assms
    by (auto simp: backupReconcile_def observeSnapshots_def restorePhase_def processRestore_def storeStatus_def Let_def
        split: option.splits)
  moreover have "condition_of ConditionBackupReady ?st = condition_of ConditionBackupReady
      (snapshotCondition (blNow lib) (instGeneration inst) (Some j) ((Status inst)\<lparr>ObservedGeneration := instGeneration inst\<rparr>))"
    by (simp add: condition_of_def)
  ultimately show ?thesis
    using assms(5) by (simp add: condition_of_setCondition snapshotCondition_def)
qed

text \<open>A suspended Instance with a restore request.\<close>

definition restore_inst :: TypeClawInstance where
  "restore_inst = (sample_inst (sample_istatus None))
     \<lparr>instAnnotations := [(RestoreAnnotation, ''s.tar.gz'')],
      Spec := sample_ispec\<lparr>Suspend := True, spBackup := Some \<lparr>Schedule = ''@daily'', SnapshotVolume = claim0, Retention = 3\<rparr>\<rparr>\<rparr>"

definition restore_lib :: "unit backup_lib" where
  "restore_lib = \<lparr>blCall = (\<lambda>_. None), blListJobs = (\<lambda>_. Inr []), blGetJob = (\<lambda>_. Inl ()), blSetOwner = None,
     blPatchStatus = (\<lambda>_. None), blIsNotFound = (\<lambda>_. True), blIsAlreadyExists = (\<lambda>_. False), blText = (\<lambda>_. ''''),
     blNow = 0, blSha = (\<lambda>s. [length s, 1, 2, 3])\<rparr>"

lemma restore_run:
  "\<exists>st calls. backupReconcile restore_lib (Inr restore_inst) = (Inr BackupDone, Some st, calls) \<and>
     CreateJob ((RestoreJob (blSha restore_lib) restore_inst ''s.tar.gz'')\<lparr>jobLabels := Labels restore_inst\<rparr>) \<in> set calls"
proof -
  have sel: "spBackup (Spec restore_inst) = Some \<lparr>Schedule = ''@daily'', SnapshotVolume = claim0, Retention = 3\<rparr>"
    "Suspend (Spec restore_inst)" "map_of (instAnnotations restore_inst) RestoreAnnotation = Some ''s.tar.gz''"
    "RestoreLastProcessed (Status restore_inst) = ''''"
    by (simp_all add: restore_inst_def sample_istatus_def)
  have lib: "blCall restore_lib c = None" "blListJobs restore_lib ls = Inr []" "blGetJob restore_lib n = Inl ()"
    "blSetOwner restore_lib = None" "blPatchStatus restore_lib st = None" "blIsNotFound restore_lib ()" for c ls n st
    by (simp_all add: restore_lib_def)
  show ?thesis
    by (simp add: backupReconcile_def sel lib applySnapshotResources_def observeSnapshots_def restorePhase_def
        processRestore_def observeRestore_def storeStatus_def Let_def)
qed


end
