(* ===== verification/Network.thy ===== *)
theory Network
  imports Workload
begin

text \<open>
  The traffic boundaries: the NetworkPolicy of an Instance (\<^verbatim>\<open>internal/resources/networkpolicy.go\<close>,
  \<^verbatim>\<open>internal/netblocks\<close>), of its Desktop Gateway (\<^verbatim>\<open>internal/desktop/networkpolicy.go\<close>) and the
  controller that applies the first (\<^verbatim>\<open>internal/controller/networkpolicy_controller.go\<close>), with the
  meaning of a NetworkPolicy for IPv4 destinations as Kubernetes documents it.
\<close>

section \<open>Address blocks\<close>

definition PublicWebV4Except :: "string list" where
  "PublicWebV4Except =
     [''10.0.0.0/8'', ''172.16.0.0/12'', ''192.168.0.0/16'', ''169.254.0.0/16'', ''100.64.0.0/10'',
      ''127.0.0.0/8'', ''0.0.0.0/8'', ''192.0.0.0/24'', ''198.18.0.0/15'', ''224.0.0.0/4'']"

definition PublicWebV6Except :: "string list" where
  "PublicWebV6Except = [''::1/128'', ''fc00::/7'', ''fe80::/10'']"

section \<open>Rules\<close>

abbreviation GatewayAgentPort :: int where "GatewayAgentPort \<equiv> 8080"
abbreviation GatewayConsolePort :: int where "GatewayConsolePort \<equiv> 8081"
abbreviation GuestAgentPort :: int where "GuestAgentPort \<equiv> 9876"
abbreviation DomainLabel :: string where "DomainLabel \<equiv> ''kubevirt.io/domain''"
abbreviation TailscaleParentResourceLabel :: string where
  "TailscaleParentResourceLabel \<equiv> ''tailscale.com/parent-resource''"
abbreviation EgressUnrestricted :: string where "EgressUnrestricted \<equiv> ''Unrestricted''"

definition namespaceSelector :: "string \<Rightarrow> (string \<times> string) list option" where
  "namespaceSelector namespace = Some [(''kubernetes.io/metadata.name'', namespace)]"

definition tcpPort :: "int \<Rightarrow> string \<times> int" where
  "tcpPort port = (''TCP'', port)"

definition ipPeers :: "string list \<Rightarrow> np_peer list" where
  "ipPeers ips = map (\<lambda>ip. BlockPeer (ip @ ''/32'') []) (filter (\<lambda>ip. ip \<noteq> '''') ips)"

definition RuntimeGatewayEgressRule :: "TypeClawInstance \<Rightarrow> string \<Rightarrow> np_rule" where
  "RuntimeGatewayEgressRule inst gatewayServiceIP =
     \<lparr>rulePeers =
        PodPeer (namespaceSelector (nsNamespace (Names inst)))
          (Some [(''app.kubernetes.io/name'', ''typeclaw-desktop-gateway''), (''app.kubernetes.io/instance'', instName inst)])
        # (if gatewayServiceIP \<noteq> '''' then [BlockPeer (gatewayServiceIP @ ''/32'') []] else []),
      rulePorts = [tcpPort GatewayAgentPort]\<rparr>"

definition netIngressRules :: "TypeClawInstance \<Rightarrow> np_rule list" where
  "netIngressRules inst =
     \<lparr>rulePeers = [PodPeer None (Some [])], rulePorts = [('''', ContainerPort)]\<rparr> #
     map (\<lambda>cidr. \<lparr>rulePeers = [BlockPeer cidr []], rulePorts = [('''', ContainerPort)]\<rparr>)
       (filter (\<lambda>cidr. cidr \<noteq> '''') (IngressCIDRs (spNetwork (Spec inst))))"

definition clusterDNS :: np_rule where
  "clusterDNS =
     \<lparr>rulePeers = [PodPeer (Some [(''kubernetes.io/metadata.name'', ''kube-system'')]) (Some [(''k8s-app'', ''kube-dns'')])],
      rulePorts = [(''UDP'', 53), (''TCP'', 53)]\<rparr>"

definition publicWeb :: np_rule where
  "publicWeb =
     \<lparr>rulePeers = [BlockPeer ''0.0.0.0/0'' PublicWebV4Except, BlockPeer ''::/0'' PublicWebV6Except], rulePorts = []\<rparr>"

definition netEgressRules :: "string \<Rightarrow> string list \<Rightarrow> np_rule list" where
  "netEgressRules egress apiServerIPs =
     (if egress = EgressUnrestricted
      then [\<lparr>rulePeers = [BlockPeer ''0.0.0.0/0'' [], BlockPeer ''::/0'' []], rulePorts = []\<rparr>]
      else [clusterDNS, publicWeb]) @
     (if apiServerIPs \<noteq> []
      then [\<lparr>rulePeers = map (\<lambda>ip. BlockPeer (ip @ ''/32'') []) apiServerIPs, rulePorts = [(''TCP'', 443)]\<rparr>]
      else [])"

definition NetworkPolicy :: "TypeClawInstance \<Rightarrow> string list \<Rightarrow> string \<Rightarrow> network_policy" where
  "NetworkPolicy inst apiServerIPs desktopGatewayIP =
     \<lparr>npName = instName inst, npNamespace = instNamespace inst, npLabels = Labels inst, npAnnotations = [],
      npSelector = Labels inst, npTypes = [''Ingress'', ''Egress''], npIngress = netIngressRules inst,
      npEgress = netEgressRules (Egress (spNetwork (Spec inst))) apiServerIPs @
        (if Enabled inst then [RuntimeGatewayEgressRule inst desktopGatewayIP] else [])\<rparr>"

definition TailscaleProxyPodSelector :: "TypeClawInstance \<Rightarrow> (string \<times> string) list" where
  "TailscaleProxyPodSelector inst = [(TailscaleParentResourceLabel, nsConsoleIngress (Names inst))]"

definition GatewayNetworkPolicy ::
  "TypeClawInstance \<Rightarrow> (string \<times> string) list \<Rightarrow> string list \<Rightarrow> string \<Rightarrow> network_policy" where
  "GatewayNetworkPolicy inst runtimeSelector apiServerIPs agentServiceIP =
     (let names = Names inst; spec = spPersonalDesktop (Spec inst); access = TailscaleAccess spec in
      \<lparr>npName = nsGateway names, npNamespace = nsNamespace names, npLabels = DesktopLabels inst, npAnnotations = [],
       npSelector = GatewayLabels inst, npTypes = [''Ingress'', ''Egress''],
       npIngress =
         \<lparr>rulePeers = [PodPeer (namespaceSelector (nsInstanceNamespace names)) (Some runtimeSelector)],
          rulePorts = [tcpPort GatewayAgentPort]\<rparr> #
         (if access \<noteq> None \<and> \<not> ConsoleSidecar spec
          then [\<lparr>rulePeers = [PodPeer (namespaceSelector (TailscaleOperatorNamespace access))
                               (Some (TailscaleProxyPodSelector inst))],
                 rulePorts = [tcpPort GatewayConsolePort]\<rparr>]
          else []),
       npEgress =
         [\<lparr>rulePeers = [PodPeer (namespaceSelector ''kube-system'') (Some [(''k8s-app'', ''kube-dns'')])],
           rulePorts = [(''UDP'', 53), (''TCP'', 53)]\<rparr>,
          \<lparr>rulePeers = PodPeer None (Some [(DomainLabel, nsDesktop names)]) #
             (if agentServiceIP \<noteq> '''' then [BlockPeer (agentServiceIP @ ''/32'') []] else []),
           rulePorts = [tcpPort GuestAgentPort]\<rparr>] @
         (if ipPeers apiServerIPs \<noteq> []
          then [\<lparr>rulePeers = ipPeers apiServerIPs, rulePorts = [tcpPort 443]\<rparr>] else []) @
         (if ConsoleSidecar spec then [publicWeb] else [])\<rparr>)"

section \<open>The controller\<close>

text \<open>
  What the cluster answers: the address lists of the subsets of the API server's endpoints, the
  cluster address of its Service and of the Gateway's, and the outcome of applying a policy.
\<close>

record ('e) network_lib =
  nlEndpoints :: "'e + string list list"
  nlAPIService :: "'e + string"
  nlService :: "string \<Rightarrow> string \<Rightarrow> 'e + string"
  nlSetOwner :: "'e option"
  nlApply :: "network_policy \<Rightarrow> 'e option"
  nlIsNotFound :: "'e \<Rightarrow> bool"

definition discoverAPIServerIPs :: "'e network_lib \<Rightarrow> string list" where
  "discoverAPIServerIPs lib =
     (case nlEndpoints lib of Inl _ \<Rightarrow> [] | Inr subsets \<Rightarrow> concat subsets) @
     (case nlAPIService lib of Inl _ \<Rightarrow> [] | Inr ip \<Rightarrow> if ip \<noteq> '''' then [ip] else [])"

datatype 'e network_error = GetInstanceFailed 'e | ApplyPolicyFailed 'e

definition networkReconcile ::
  "'e network_lib \<Rightarrow> 'e + TypeClawInstance \<Rightarrow> ('e network_error + unit) \<times> network_policy option" where
  "networkReconcile lib got =
     (case got of
        Inl err \<Rightarrow> (if nlIsNotFound lib err then Inr () else Inl (GetInstanceFailed err), None)
      | Inr inst \<Rightarrow>
          let apiServerIPs = (if relayEnabled inst \<or> spSelfConfig (Spec inst) \<noteq> None
                              then discoverAPIServerIPs lib else []);
              gatewayIP = (if Enabled inst
                           then (case nlService lib (nsGateway (Names inst)) (nsNamespace (Names inst)) of
                                   Inl _ \<Rightarrow> '''' | Inr ip \<Rightarrow> ip)
                           else '''');
              policy = NetworkPolicy inst apiServerIPs gatewayIP in
          case nlSetOwner lib of
            Some err \<Rightarrow> (Inl (ApplyPolicyFailed err), None)
          | None \<Rightarrow>
             (case nlApply lib policy of
                Some err \<Rightarrow> (Inl (ApplyPolicyFailed err), Some policy)
              | None \<Rightarrow> (Inr (), Some policy)))"

section \<open>What a policy admits\<close>

text \<open>
  An IPv4 address in dotted decimals and an address block. Octets have no leading zeros.
\<close>

definition octet :: "string \<Rightarrow> nat option" where
  "octet s =
     (if s = [] \<or> 1 < length s \<and> hd s = CHR ''0'' then None
      else (case digits_value 0 s of None \<Rightarrow> None | Some n \<Rightarrow> if n < 256 then Some n else None))"

definition ipv4 :: "string \<Rightarrow> 32 word option" where
  "ipv4 s =
     (case map octet (split_on CHR ''.'' s) of
        [Some a, Some b, Some c, Some d] \<Rightarrow> Some (word_of_nat (((a * 256 + b) * 256 + c) * 256 + d))
      | _ \<Rightarrow> None)"

definition cidr4 :: "string \<Rightarrow> (32 word \<times> nat) option" where
  "cidr4 s =
     (case split_on CHR ''/'' s of
        [address, bits] \<Rightarrow>
          (case (ipv4 address, octet bits) of
             (Some a, Some n) \<Rightarrow> if n \<le> 32 then Some (a, n) else None
           | _ \<Rightarrow> None)
      | _ \<Rightarrow> None)"

definition in_block :: "string \<Rightarrow> 32 word \<Rightarrow> bool" where
  "in_block s address =
     (case cidr4 s of None \<Rightarrow> False | Some (a, n) \<Rightarrow> drop_bit (32 - n) address = drop_bit (32 - n) a)"

text \<open>
  A peer of a connection: its address and, for a Pod, the name and the further labels of its
  namespace and its labels. The API server labels every namespace with its name.
\<close>

record endpoint =
  epAddress :: "32 word"
  epPod :: "(string \<times> (string \<times> string) list \<times> (string \<times> string) list) option"

definition selects :: "(string \<times> string) list \<Rightarrow> (string \<times> string) list \<Rightarrow> bool" where
  "selects sel labels = list_all (\<lambda>(k, v). map_of labels k = Some v) sel"

definition peer_matches :: "string \<Rightarrow> endpoint \<Rightarrow> np_peer \<Rightarrow> bool" where
  "peer_matches namespace ep peer =
     (case peer of
        BlockPeer cidr except \<Rightarrow> in_block cidr (epAddress ep) \<and> \<not> list_ex (\<lambda>b. in_block b (epAddress ep)) except
      | PodPeer nsSel podSel \<Rightarrow>
         (case epPod ep of
            None \<Rightarrow> False
          | Some (ns, nsLabels, labels) \<Rightarrow>
              (case nsSel of None \<Rightarrow> ns = namespace
               | Some sel \<Rightarrow> selects sel ((''kubernetes.io/metadata.name'', ns) # nsLabels)) \<and>
              (case podSel of None \<Rightarrow> True | Some sel \<Rightarrow> selects sel labels)))"

definition rule_admits :: "string \<Rightarrow> endpoint \<Rightarrow> string \<Rightarrow> int \<Rightarrow> np_rule \<Rightarrow> bool" where
  "rule_admits namespace ep proto port r =
     ((rulePeers r = [] \<or> list_ex (peer_matches namespace ep) (rulePeers r)) \<and>
      (rulePorts r = [] \<or> list_ex (\<lambda>(p, n). (if p = '''' then ''TCP'' else p) = proto \<and> n = port) (rulePorts r)))"

definition admits_egress :: "network_policy \<Rightarrow> endpoint \<Rightarrow> string \<Rightarrow> int \<Rightarrow> bool" where
  "admits_egress pol ep proto port = list_ex (rule_admits (npNamespace pol) ep proto port) (npEgress pol)"

definition admits_ingress :: "network_policy \<Rightarrow> endpoint \<Rightarrow> string \<Rightarrow> int \<Rightarrow> bool" where
  "admits_ingress pol ep proto port = list_ex (rule_admits (npNamespace pol) ep proto port) (npIngress pol)"

section \<open>Facts\<close>

lemma cidr4_blocks:
  "cidr4 ''10.0.0.0/8'' = Some (0x0A000000, 8)" "cidr4 ''172.16.0.0/12'' = Some (0xAC100000, 12)"
  "cidr4 ''192.168.0.0/16'' = Some (0xC0A80000, 16)" "cidr4 ''169.254.0.0/16'' = Some (0xA9FE0000, 16)"
  "cidr4 ''100.64.0.0/10'' = Some (0x64400000, 10)" "cidr4 ''127.0.0.0/8'' = Some (0x7F000000, 8)"
  "cidr4 ''0.0.0.0/8'' = Some (0, 8)" "cidr4 ''192.0.0.0/24'' = Some (0xC0000000, 24)"
  "cidr4 ''198.18.0.0/15'' = Some (0xC6120000, 15)" "cidr4 ''224.0.0.0/4'' = Some (0xE0000000, 4)"
  "cidr4 ''0.0.0.0/0'' = Some (0, 0)" "cidr4 ''::/0'' = None"
  by (simp_all add: cidr4_def ipv4_def octet_def digit_value_def)

lemma unat_drop_bit:
  fixes a :: "'a::len word"
  shows "unat (drop_bit k a) = unat a div 2 ^ k"
  by (subst unat_drop_bit_eq) (simp only: drop_bit_eq_div)

lemma in_block_range:
  assumes "cidr4 s = Some (a, n)" and "unat a = c * 2 ^ (32 - n)"
  shows "in_block s address \<longleftrightarrow> c * 2 ^ (32 - n) \<le> unat address \<and> unat address < (c + 1) * 2 ^ (32 - n)"
proof -
  have "in_block s address \<longleftrightarrow> unat address div 2 ^ (32 - n) = c"
    using assms by (simp add: in_block_def word_unat_eq_iff unat_drop_bit del: unat_drop_bit_eq)
  also have "\<dots> \<longleftrightarrow> c * 2 ^ (32 - n) \<le> unat address \<and> unat address < (c + 1) * 2 ^ (32 - n)"
    by (metis Suc_eq_plus1 div_nat_eqI less_eq_div_iff_mult_less_eq div_less_iff_less_mult less_Suc_eq_le order_refl le_antisym mult.commute zero_less_power zero_less_numeral)
  finally show ?thesis .
qed

lemma in_block_bounds:
  assumes "cidr4 s = Some (a, n)" and "unat a = c * 2 ^ (32 - n)" and "Suc (unat hi) = (c + 1) * 2 ^ (32 - n)"
  shows "in_block s x \<longleftrightarrow> a \<le> x \<and> x \<le> hi"
  using in_block_range [OF assms(1,2), of x] assms(2,3) by (simp add: word_le_nat_alt) arith

text \<open>The special-use ranges, as first and last addresses.\<close>

definition special_use :: "32 word \<Rightarrow> bool" where
  "special_use a =
     list_ex (\<lambda>(lo, hi). lo \<le> a \<and> a \<le> hi)
       [(0x00000000, 0x00FFFFFF), (0x0A000000, 0x0AFFFFFF), (0x64400000, 0x647FFFFF), (0x7F000000, 0x7FFFFFFF),
        (0xA9FE0000, 0xA9FEFFFF), (0xAC100000, 0xAC1FFFFF), (0xC0000000, 0xC00000FF), (0xC0A80000, 0xC0A8FFFF),
        (0xC6120000, 0xC613FFFF), (0xE0000000, 0xEFFFFFFF)]"

lemma block_ranges:
  "in_block ''10.0.0.0/8'' x \<longleftrightarrow> 0x0A000000 \<le> x \<and> x \<le> 0x0AFFFFFF"
  "in_block ''172.16.0.0/12'' x \<longleftrightarrow> 0xAC100000 \<le> x \<and> x \<le> 0xAC1FFFFF"
  "in_block ''192.168.0.0/16'' x \<longleftrightarrow> 0xC0A80000 \<le> x \<and> x \<le> 0xC0A8FFFF"
  "in_block ''169.254.0.0/16'' x \<longleftrightarrow> 0xA9FE0000 \<le> x \<and> x \<le> 0xA9FEFFFF"
  "in_block ''100.64.0.0/10'' x \<longleftrightarrow> 0x64400000 \<le> x \<and> x \<le> 0x647FFFFF"
  "in_block ''127.0.0.0/8'' x \<longleftrightarrow> 0x7F000000 \<le> x \<and> x \<le> 0x7FFFFFFF"
  "in_block ''0.0.0.0/8'' x \<longleftrightarrow> 0x00000000 \<le> x \<and> x \<le> 0x00FFFFFF"
  "in_block ''192.0.0.0/24'' x \<longleftrightarrow> 0xC0000000 \<le> x \<and> x \<le> 0xC00000FF"
  "in_block ''198.18.0.0/15'' x \<longleftrightarrow> 0xC6120000 \<le> x \<and> x \<le> 0xC613FFFF"
  "in_block ''224.0.0.0/4'' x \<longleftrightarrow> 0xE0000000 \<le> x \<and> x \<le> 0xEFFFFFFF"
  by (rule in_block_bounds [OF cidr4_blocks(1), where c = 10] in_block_bounds [OF cidr4_blocks(2), where c = 2753]
      in_block_bounds [OF cidr4_blocks(3), where c = "0xC0A8"] in_block_bounds [OF cidr4_blocks(4), where c = "0xA9FE"]
      in_block_bounds [OF cidr4_blocks(5), where c = 401] in_block_bounds [OF cidr4_blocks(6), where c = 127]
      in_block_bounds [OF cidr4_blocks(7), where c = 0] in_block_bounds [OF cidr4_blocks(8), where c = "0xC00000"]
      in_block_bounds [OF cidr4_blocks(9), where c = "0x6309"] in_block_bounds [OF cidr4_blocks(10), where c = 14]; simp)+

lemma special_use_blocks: "list_ex (\<lambda>b. in_block b a) PublicWebV4Except = special_use a"
  unfolding PublicWebV4Except_def special_use_def list_ex_Cons_iff list_ex_Nil_iff block_ranges prod.case by blast

lemma in_all: "in_block ''0.0.0.0/0'' a" "\<not> in_block ''::/0'' a"
  by (simp_all add: in_block_def cidr4_blocks)

lemma octet_digits: "octet s = Some n \<Longrightarrow> c \<in> set s \<Longrightarrow> digit_value c \<noteq> None"
  by (auto simp: octet_def split: if_splits option.splits dest: digits_value_digits)

lemma ipv4_chars:
  assumes "ipv4 s = Some a"
  shows "CHR ''/'' \<notin> set s"
proof
  assume "CHR ''/'' \<in> set s"
  then obtain w where w: "w \<in> set (split_on CHR ''.'' s)" "CHR ''/'' \<in> set w"
    using set_join_with [of "CHR ''.''" "split_on CHR ''.'' s"] by (auto simp: join_split)
  from assms have "None \<notin> set (map octet (split_on CHR ''.'' s))"
    by (auto simp: ipv4_def split: list.splits option.splits)
  then obtain n where "octet w = Some n" using w(1) by (metis image_eqI not_None_eq set_map)
  from octet_digits [OF this w(2)] show False by (simp add: digit_value_def)
qed

lemma in_block_host: "in_block (ip @ ''/32'') a \<longleftrightarrow> ipv4 ip = Some a"
proof (cases "CHR ''/'' \<in> set ip")
  case True
  then have "2 < length (split_on CHR ''/'' (ip @ ''/32''))"
    using count_list_0_iff [of ip "CHR ''/''"] by (simp add: length_split_on)
  then have "cidr4 (ip @ ''/32'') = None"
    by (auto simp: cidr4_def split: list.splits)
  then show ?thesis using True ipv4_chars by (auto simp: in_block_def)
next
  case False
  then have "split_on CHR ''/'' (ip @ ''/32'') = [ip, ''32'']"
    using split_on_append_sep [of "CHR ''/''" ip "''32''"] by simp
  moreover have "octet ''32'' = Some 32" by (simp add: octet_def digit_value_def)
  ultimately have "cidr4 (ip @ ''/32'') = map_option (\<lambda>w. (w, 32)) (ipv4 ip)"
    by (simp add: cidr4_def split: option.splits)
  then show ?thesis by (auto simp: in_block_def split: option.splits)
qed

lemma peer_matches_simps [simp]:
  "peer_matches namespace ep (BlockPeer cidr except) \<longleftrightarrow>
     in_block cidr (epAddress ep) \<and> \<not> list_ex (\<lambda>b. in_block b (epAddress ep)) except"
  "peer_matches namespace ep (PodPeer (namespaceSelector ns) (Some sel)) \<longleftrightarrow>
     (\<exists>nl labels. epPod ep = Some (ns, nl, labels) \<and> selects sel labels)"
  "peer_matches namespace ep (PodPeer None (Some sel)) \<longleftrightarrow>
     (\<exists>nl labels. epPod ep = Some (namespace, nl, labels) \<and> selects sel labels)"
  by (auto simp: peer_matches_def namespaceSelector_def selects_def split: option.splits)

lemma rule_admits_publicWeb [simp]: "rule_admits namespace ep proto port publicWeb \<longleftrightarrow> \<not> special_use (epAddress ep)"
  by (simp add: rule_admits_def publicWeb_def special_use_blocks in_all)

definition dns_peer :: "endpoint \<Rightarrow> bool" where
  "dns_peer ep \<longleftrightarrow> (\<exists>nl labels. epPod ep = Some (''kube-system'', nl, labels) \<and> map_of labels ''k8s-app'' = Some ''kube-dns'')"

lemma clusterDNS_eq:
  "clusterDNS = \<lparr>rulePeers = [PodPeer (namespaceSelector ''kube-system'') (Some [(''k8s-app'', ''kube-dns'')])],
      rulePorts = [(''UDP'', 53), (''TCP'', 53)]\<rparr>"
  by (simp add: clusterDNS_def namespaceSelector_def)

lemma rule_admits_clusterDNS [simp]:
  "rule_admits namespace ep proto port clusterDNS \<longleftrightarrow> dns_peer ep \<and> port = 53 \<and> (proto = ''UDP'' \<or> proto = ''TCP'')"
  by (auto simp: rule_admits_def clusterDNS_eq dns_peer_def selects_def)

lemma rule_admits_hosts:
  "ips \<noteq> [] \<Longrightarrow>
     rule_admits namespace ep proto port \<lparr>rulePeers = map (\<lambda>ip. BlockPeer (ip @ ''/32'') []) ips, rulePorts = [(''TCP'', p)]\<rparr> \<longleftrightarrow>
     proto = ''TCP'' \<and> port = p \<and> (\<exists>ip \<in> set ips. ipv4 ip = Some (epAddress ep))"
  by (auto simp: rule_admits_def in_block_host list_ex_iff)

lemma ipv4_empty [simp]: "ipv4 '''' = None"
  by (simp add: ipv4_def octet_def)

definition gateway_peer :: "TypeClawInstance \<Rightarrow> endpoint \<Rightarrow> bool" where
  "gateway_peer inst ep \<longleftrightarrow> (\<exists>nl labels. epPod ep = Some (Namespace inst, nl, labels) \<and>
     map_of labels ''app.kubernetes.io/name'' = Some ''typeclaw-desktop-gateway'' \<and>
     map_of labels ''app.kubernetes.io/instance'' = Some (instName inst))"

lemma rule_admits_gateway [simp]:
  "rule_admits namespace ep proto port (RuntimeGatewayEgressRule inst ip) \<longleftrightarrow>
     proto = ''TCP'' \<and> port = 8080 \<and> (gateway_peer inst ep \<or> ipv4 ip = Some (epAddress ep))"
  by (auto simp: rule_admits_def RuntimeGatewayEgressRule_def gateway_peer_def in_block_host tcpPort_def selects_def
      Names_def Let_def)

lemma egress_universe:
  assumes "Egress (spNetwork (Spec inst)) \<noteq> EgressUnrestricted"
  shows "admits_egress (NetworkPolicy inst ips gw) ep proto port \<longleftrightarrow>
    \<not> special_use (epAddress ep) \<or>
    dns_peer ep \<and> port = 53 \<and> (proto = ''UDP'' \<or> proto = ''TCP'') \<or>
    proto = ''TCP'' \<and> port = 443 \<and> (\<exists>ip \<in> set ips. ipv4 ip = Some (epAddress ep)) \<or>
    Enabled inst \<and> proto = ''TCP'' \<and> port = 8080 \<and> (gateway_peer inst ep \<or> ipv4 gw = Some (epAddress ep))"
proof -
  have "list_ex (rule_admits namespace ep proto port) (netEgressRules (Egress (spNetwork (Spec inst))) ips) \<longleftrightarrow>
    \<not> special_use (epAddress ep) \<or>
    dns_peer ep \<and> port = 53 \<and> (proto = ''UDP'' \<or> proto = ''TCP'') \<or>
    proto = ''TCP'' \<and> port = 443 \<and> (\<exists>ip \<in> set ips. ipv4 ip = Some (epAddress ep))" for namespace
    using assms rule_admits_hosts [of ips namespace ep proto port 443]
    by (cases "ips = []") (auto simp: netEgressRules_def)
  then show ?thesis by (auto simp: admits_egress_def NetworkPolicy_def)
qed


lemma ipPeers_rule:
  "ipPeers ips \<noteq> [] \<Longrightarrow> rule_admits namespace ep proto port \<lparr>rulePeers = ipPeers ips, rulePorts = [tcpPort p]\<rparr> \<longleftrightarrow>
     proto = ''TCP'' \<and> port = p \<and> (\<exists>ip \<in> set ips. ipv4 ip = Some (epAddress ep))"
  by (auto simp: ipPeers_def tcpPort_def rule_admits_hosts)

lemma ipPeers_none: "ipPeers ips = [] \<Longrightarrow> ip \<in> set ips \<Longrightarrow> ipv4 ip = None"
  by (auto simp: ipPeers_def filter_empty_conv)

lemma gateway_ingress:
  "admits_ingress (GatewayNetworkPolicy inst sel apiServerIPs agentServiceIP) ep proto port \<longleftrightarrow>
      proto = ''TCP'' \<and> port = 8080 \<and>
        (\<exists>nl labels. epPod ep = Some (instNamespace inst, nl, labels) \<and> selects sel labels) \<or>
      proto = ''TCP'' \<and> port = 8081 \<and> \<not> ConsoleSidecar (spPersonalDesktop (Spec inst)) \<and>
        (\<exists>access nl labels. TailscaleAccess (spPersonalDesktop (Spec inst)) = Some access \<and>
           epPod ep = Some (TailscaleOperatorNamespace (Some access), nl, labels) \<and>
           map_of labels TailscaleParentResourceLabel = Some (instName inst @ ''-desktop-console''))"
  by (auto simp: admits_ingress_def GatewayNetworkPolicy_def rule_admits_def Let_def Names_def tcpPort_def
      TailscaleProxyPodSelector_def selects_def [of "[_]"])

lemma gateway_egress:
  "admits_egress (GatewayNetworkPolicy inst sel apiServerIPs agentServiceIP) ep proto port \<longleftrightarrow>
      dns_peer ep \<and> port = 53 \<and> (proto = ''UDP'' \<or> proto = ''TCP'') \<or>
      proto = ''TCP'' \<and> port = 9876 \<and>
        ((\<exists>nl labels. epPod ep = Some (Namespace inst, nl, labels) \<and>
            map_of labels DomainLabel = Some (instName inst @ ''-desktop'')) \<or>
         ipv4 agentServiceIP = Some (epAddress ep)) \<or>
      proto = ''TCP'' \<and> port = 443 \<and> (\<exists>ip \<in> set apiServerIPs. ipv4 ip = Some (epAddress ep)) \<or>
      ConsoleSidecar (spPersonalDesktop (Spec inst)) \<and> \<not> special_use (epAddress ep)"
proof -
  let ?ns = "Namespace inst"
  have guest: "rule_admits ?ns ep proto port
      \<lparr>rulePeers = PodPeer None (Some [(DomainLabel, instName inst @ ''-desktop'')]) #
         (if agentServiceIP \<noteq> '''' then [BlockPeer (agentServiceIP @ ''/32'') []] else []), rulePorts = [tcpPort GuestAgentPort]\<rparr> \<longleftrightarrow>
    proto = ''TCP'' \<and> port = 9876 \<and>
        ((\<exists>nl labels. epPod ep = Some (?ns, nl, labels) \<and> map_of labels DomainLabel = Some (instName inst @ ''-desktop'')) \<or>
         ipv4 agentServiceIP = Some (epAddress ep))"
    by (auto simp: rule_admits_def tcpPort_def selects_def in_block_host)
  have api: "list_ex (rule_admits ?ns ep proto port)
      (if ipPeers apiServerIPs \<noteq> [] then [\<lparr>rulePeers = ipPeers apiServerIPs, rulePorts = [tcpPort 443]\<rparr>] else []) \<longleftrightarrow>
    proto = ''TCP'' \<and> port = 443 \<and> (\<exists>ip \<in> set apiServerIPs. ipv4 ip = Some (epAddress ep))"
    using ipPeers_rule [of apiServerIPs ?ns ep proto port 443] ipPeers_none [of apiServerIPs] by auto
  have names: "nsNamespace (Names inst) = ?ns" "nsDesktop (Names inst) = instName inst @ ''-desktop''"
    by (simp_all add: Names_def Let_def)
  show ?thesis
    unfolding admits_egress_def GatewayNetworkPolicy_def Let_def names network_policy.simps list_ex_append api
    by (simp only: list_ex_Nil_iff list_ex_Cons_iff guest clusterDNS_eq [symmetric] rule_admits_clusterDNS if_distrib [of "list_ex _"]
        rule_admits_publicWeb) auto
qed


text \<open>
  The carve-outs are the ten listed ranges and no more: addresses of other special-use ranges (the
  reserved block above 240.0.0.0, the documentation networks) count as public.
\<close>

lemma reserved_not_special:
  "\<not> special_use 0xF0000001" "\<not> special_use 0xC0000201" "\<not> special_use 0xC6336401" "\<not> special_use 0xCB007101"
  by (simp_all add: special_use_def)

lemma unrestricted_universe:
  assumes "Egress (spNetwork (Spec inst)) = EgressUnrestricted"
  shows "admits_egress (NetworkPolicy inst ips gw) ep proto port"
  using assms by (simp add: admits_egress_def NetworkPolicy_def netEgressRules_def rule_admits_def in_all)

text \<open>An Instance with a desktop, and a cluster whose API server has one endpoint.\<close>

definition sample_desktop :: PersonalDesktopSpec where
  "sample_desktop = \<lparr>pdEnabled = True, pdOS = '''', pdNamespace = ''d'', pdOwnerIssuer = '''', pdOwnerSubject = ''o'',
     pdAccess = None, pdImage = \<lparr>GoldenDataVolume = ''g'', imgImport = None\<rparr>,
     pdRootVolume = \<lparr>rvSize = 0, rvStorageClass = None, ExistingDataVolume = '''', rvOnInstanceDeletion = ''''\<rparr>,
     pdCPUCores = 0, pdMemory = 0, pdNodeSelector = [], pdScreen = None, pdMACAddress = '''', pdLinux = None,
     pdWindows = None, pdGateway = None\<rparr>"

definition desktop_inst :: TypeClawInstance where
  "desktop_inst = (sample_inst (sample_istatus None))\<lparr>Spec := sample_ispec\<lparr>spPersonalDesktop := Some sample_desktop\<rparr>\<rparr>"

lemma desktop_inst_simps [simp]:
  "instName desktop_inst = ''i''" "instNamespace desktop_inst = ''n''" "Namespace desktop_inst = ''d''" "Enabled desktop_inst"
  "spPersonalDesktop (Spec desktop_inst) = Some sample_desktop" "spNetwork (Spec desktop_inst) = \<lparr>Egress = '''', IngressCIDRs = []\<rparr>"
  "TmpSizeLimit (Storage (Spec desktop_inst)) = None"
  "RestartRelay (Spec desktop_inst) = None" "TailscaleAccess (Some sample_desktop) = None"
  by (simp_all add: desktop_inst_def sample_desktop_def Namespace_def Enabled_def sample_ispec_def TailscaleAccess_def)

definition sample_network :: "unit network_lib" where
  "sample_network = \<lparr>nlEndpoints = Inr [[''10.1.2.3'']], nlAPIService = Inr ''10.96.0.1'', nlService = (\<lambda>_ _. Inr ''10.96.0.9''),
     nlSetOwner = None, nlApply = (\<lambda>_. None), nlIsNotFound = (\<lambda>_. False)\<rparr>"

lemma sample_ipv4: "ipv4 ''10.1.2.3'' = Some 0x0A010203" "ipv4 ''10.96.0.1'' = Some 0x0A600001" "ipv4 ''10.96.0.9'' = Some 0x0A600009"
  by (simp_all add: ipv4_def octet_def digit_value_def)



end
