(* ===== verification/Instance_Control.thy ===== *)
theory Instance_Control
  imports Workload
begin

text \<open>
  The Instance controller (\<^verbatim>\<open>internal/controller/typeclawinstance_controller.go\<close>): it applies the
  workload, its Service and the identity of the relay, and reports three conditions. One
  reconciliation is a function of the cluster's answers; it yields the queue result, the status it
  stored and the calls that change the cluster, in order.
\<close>

section \<open>Calls\<close>

datatype instance_call =
    ApplyStatefulSet stateful_set
  | ApplyService service
  | ApplyServiceAccount service_account
  | ApplyRole role
  | ApplyRoleBinding role_binding
  | RemoveService string
  | RemoveRoleBinding string
  | RemoveRole string
  | RemoveServiceAccount string

fun removes :: "instance_call \<Rightarrow> bool" where
  "removes (RemoveService _) = True"
| "removes (RemoveRoleBinding _) = True"
| "removes (RemoveRole _) = True"
| "removes (RemoveServiceAccount _) = True"
| "removes _ = False"

record ('e) instance_lib =
  icLive :: "'e + stateful_set"
  icCall :: "instance_call \<Rightarrow> 'e option"
  icSetOwner :: "'e option"
  icReadyReplicas :: "'e + int"
  icPatchStatus :: "TypeClawInstanceStatus \<Rightarrow> 'e option"
  icIsNotFound :: "'e \<Rightarrow> bool"
  icText :: "'e \<Rightarrow> string"
  icNow :: int

datatype 'e instance_error = RenderFailed string | CallFailed string 'e

datatype instance_queue = InstanceRequeue | InstanceDone

definition instanceErrorText :: "'e instance_lib \<Rightarrow> 'e instance_error \<Rightarrow> string" where
  "instanceErrorText lib err =
     (case err of RenderFailed why \<Rightarrow> ''render StatefulSet: '' @ why | CallFailed what e \<Rightarrow> what @ '': '' @ icText lib e)"

text \<open>
  One call: an object is applied with its owner reference, which may fail first; removing an object
  that is not there is no failure.
\<close>

definition callOutcome :: "'e instance_lib \<Rightarrow> instance_call \<Rightarrow> 'e option \<times> instance_call list" where
  "callOutcome lib c =
     (if removes c
      then (case icCall lib c of
              None \<Rightarrow> (None, [c])
            | Some err \<Rightarrow> (if icIsNotFound lib err then None else Some err, [c]))
      else (case icSetOwner lib of
              Some err \<Rightarrow> (Some err, [])
            | None \<Rightarrow> (icCall lib c, [c])))"

fun callAll ::
  "'e instance_lib \<Rightarrow> (string \<times> instance_call) list \<Rightarrow> 'e instance_error option \<times> instance_call list" where
  "callAll lib [] = (None, [])"
| "callAll lib ((what, c) # rest) =
     (case callOutcome lib c of
        (Some err, made) \<Rightarrow> (Some (CallFailed what err), made)
      | (None, made) \<Rightarrow> (case callAll lib rest of (res, more_calls) \<Rightarrow> (res, made @ more_calls)))"

section \<open>Resources\<close>

text \<open>
  The StatefulSet as it is written: the rendered one when none exists, otherwise the rendered one with
  the selector, service name and claim templates of the live object.
\<close>

definition keepImmutable :: "stateful_set option \<Rightarrow> stateful_set \<Rightarrow> stateful_set" where
  "keepImmutable live desired =
     (case live of
        None \<Rightarrow> desired
      | Some l \<Rightarrow> desired\<lparr>ssSelector := ssSelector l, ssServiceName := ssServiceName l, ssClaims := ssClaims l\<rparr>)"

definition exposed :: "TypeClawInstance \<Rightarrow> bool" where
  "exposed inst = (case ExposeTUI (Spec inst) of None \<Rightarrow> True | Some b \<Rightarrow> b)"

definition deleteService :: "TypeClawInstance \<Rightarrow> (string \<times> instance_call) list" where
  "deleteService inst = [(''remove TUI Service'', RemoveService (instName inst))]"

definition deleteRelayRBAC :: "TypeClawInstance \<Rightarrow> (string \<times> instance_call) list" where
  "deleteRelayRBAC inst =
     (let name = instName inst @ ''-relay'' in
      [(''remove relay RBAC *v1.RoleBinding'', RemoveRoleBinding name),
       (''remove relay RBAC *v1.Role'', RemoveRole name),
       (''remove relay RBAC *v1.ServiceAccount'', RemoveServiceAccount name)])"

definition desiredCalls :: "TypeClawInstance \<Rightarrow> stateful_set \<Rightarrow> (string \<times> instance_call) list" where
  "desiredCalls inst sts =
     [(''apply StatefulSet'', ApplyStatefulSet sts)] @
     (if exposed inst then [(''apply Service'', ApplyService (Service inst))] else deleteService inst) @
     (if relayEnabled inst
      then [(''apply relay RBAC *v1.ServiceAccount'', ApplyServiceAccount (RelayServiceAccount inst)),
            (''apply relay RBAC *v1.Role'', ApplyRole (RelayRole inst)),
            (''apply relay RBAC *v1.RoleBinding'', ApplyRoleBinding (RelayRoleBinding inst))]
      else deleteRelayRBAC inst)"

definition applyResources ::
  "'e instance_lib \<Rightarrow> TypeClawInstance \<Rightarrow> 'e instance_error option \<times> instance_call list" where
  "applyResources lib inst =
     (case StatefulSet inst of
        Inl why \<Rightarrow> (Some (RenderFailed why), [])
      | Inr desired \<Rightarrow>
         (case icLive lib of
            Inl err \<Rightarrow>
              if icIsNotFound lib err then callAll lib (desiredCalls inst (keepImmutable None desired))
              else (Some (CallFailed ''apply StatefulSet'' err), [])
          | Inr live \<Rightarrow> callAll lib (desiredCalls inst (keepImmutable (Some live) desired))))"

section \<open>Status\<close>

abbreviation ConditionResourcesReady :: string where "ConditionResourcesReady \<equiv> ''ResourcesReady''"
abbreviation ConditionRuntimeReady :: string where "ConditionRuntimeReady \<equiv> ''RuntimeReady''"
abbreviation ConditionSelfConfigCompliant :: string where "ConditionSelfConfigCompliant \<equiv> ''SelfConfigCompliant''"

definition resourcesCondition ::
  "'e instance_lib \<Rightarrow> TypeClawInstance \<Rightarrow> 'e instance_error option \<Rightarrow> TypeClawInstanceStatus \<Rightarrow> TypeClawInstanceStatus" where
  "resourcesCondition lib inst failure =
     setCondition (icNow lib) (instGeneration inst) ConditionResourcesReady (failure = None) ''ResourcesApplied'' ''ResourceError''
       (case failure of None \<Rightarrow> ''desired workload resources are applied'' | Some err \<Rightarrow> instanceErrorText lib err)"

definition runtimeCondition ::
  "'e instance_lib \<Rightarrow> TypeClawInstance \<Rightarrow> bool \<Rightarrow> TypeClawInstanceStatus \<Rightarrow> TypeClawInstanceStatus" where
  "runtimeCondition lib inst runtimeReady =
     (let set = setCondition (icNow lib) (instGeneration inst) ConditionRuntimeReady in
      if Suspend (Spec inst)
      then set False ''Suspended'' ''Suspended'' ''workload scaled to zero by request; Agent Folder retained''
      else if runtimeReady
      then set True ''RuntimeAvailable'' ''RuntimeNotReady'' ''managed runtime crossed the readiness boundary''
      else set False ''RuntimeNotReady'' ''RuntimeNotReady'' ''managed runtime has not reported ready replicas'')"

text \<open>A list of strings as \<^verbatim>\<open>%v\<close> prints it.\<close>

definition listText :: "string list \<Rightarrow> string" where
  "listText xs = ''['' @ join_with CHR '' '' xs @ '']''"

definition selfConfigCondition ::
  "'e instance_lib \<Rightarrow> TypeClawInstance \<Rightarrow> TypeClawInstanceStatus \<Rightarrow> TypeClawInstanceStatus" where
  "selfConfigCondition lib inst st =
     (case spSelfConfig (Spec inst) of
        None \<Rightarrow> st
      | Some _ \<Rightarrow>
          let violation = (case stSelfConfig st of None \<Rightarrow> False | Some u \<Rightarrow> ProtectedViolation u) in
          setCondition (icNow lib) (instGeneration inst) ConditionSelfConfigCompliant (\<not> violation) ''Compliant''
            ''ProtectedPathChanged''
            (case stSelfConfig st of
               Some u \<Rightarrow> if violation then ''agent changed protected typeclaw.json keys '' @ listText (ChangedPaths u)
                          else ''agent config observations are within protected-path policy''
             | None \<Rightarrow> ''agent config observations are within protected-path policy'') st)"

definition instanceStatus ::
  "'e instance_lib \<Rightarrow> TypeClawInstance \<Rightarrow> 'e instance_error option \<Rightarrow> bool \<Rightarrow> TypeClawInstanceStatus" where
  "instanceStatus lib inst failure runtimeReady =
     selfConfigCondition lib inst
       (runtimeCondition lib inst runtimeReady
         (resourcesCondition lib inst failure ((Status inst)\<lparr>ObservedGeneration := instGeneration inst\<rparr>)))"

definition instanceReconcile ::
  "'e instance_lib \<Rightarrow> 'e + TypeClawInstance
     \<Rightarrow> ('e instance_error + instance_queue) \<times> TypeClawInstanceStatus option \<times> instance_call list" where
  "instanceReconcile lib got =
     (case got of
        Inl err \<Rightarrow> (if icIsNotFound lib err then Inr InstanceDone else Inl (CallFailed '''' err), None, [])
      | Inr inst \<Rightarrow>
         (case applyResources lib inst of
            (failure, calls) \<Rightarrow>
              let store = (\<lambda>runtimeReady.
                    let st = instanceStatus lib inst failure runtimeReady in
                    case icPatchStatus lib st of
                      None \<Rightarrow> (Inr InstanceDone, Some st, calls)
                    | Some _ \<Rightarrow> (Inr InstanceRequeue, None, calls)) in
              if failure \<noteq> None then store False
              else (case icReadyReplicas lib of
                  Inl err \<Rightarrow> if icIsNotFound lib err then store False else (Inl (CallFailed '''' err), None, calls)
                | Inr ready \<Rightarrow> store (\<not> Suspend (Spec inst) \<and> 0 < ready))))"

section \<open>Facts\<close>

lemma callAll_success:
  "callAll lib cs = (None, made) \<Longrightarrow> made = map snd cs"
  by (induction cs arbitrary: made) (auto simp: callOutcome_def split: if_splits option.splits prod.splits)

lemma callAll_made: "snd (callAll lib cs) = map snd (take (length (snd (callAll lib cs))) cs)"
proof (induction cs)
  case (Cons p cs)
  then show ?case
    by (cases p) (auto simp: callOutcome_def split: option.splits prod.splits)
qed simp

lemma callAll_calls: "callAll lib cs = (res, made) \<Longrightarrow> c \<in> set made \<Longrightarrow> c \<in> snd ` set cs"
  using callAll_made [of lib cs] set_take_subset [of _ cs] by (metis image_mono list.set_map snd_conv subsetD)

definition liveObject :: "'e instance_lib \<Rightarrow> stateful_set option" where
  "liveObject lib = (case icLive lib of Inl _ \<Rightarrow> None | Inr l \<Rightarrow> Some l)"

lemma desired_statefulset: "(a, ApplyStatefulSet s) \<in> set (desiredCalls inst t) \<longleftrightarrow> a = ''apply StatefulSet'' \<and> s = t"
  by (auto simp: desiredCalls_def deleteService_def deleteRelayRBAC_def Let_def)

lemma applyResources_cases:
  assumes "applyResources lib inst = (failure, calls)"
  obtains "calls = []" "failure \<noteq> None"
  | desired where "StatefulSet inst = Inr desired" "callAll lib (desiredCalls inst (keepImmutable (liveObject lib) desired)) = (failure, calls)"
  using assms by (auto simp: applyResources_def liveObject_def split: sum.splits if_splits)

lemma applied_statefulset:
  assumes "applyResources lib inst = (failure, calls)" and "ApplyStatefulSet s \<in> set calls"
  shows "\<exists>desired. StatefulSet inst = Inr desired \<and> s = keepImmutable (liveObject lib) desired"
  using assms(1)
proof (cases rule: applyResources_cases)
  case 1
  then show ?thesis using assms(2) by simp
next
  case (2 desired)
  then show ?thesis using callAll_calls [OF 2(2) assms(2)] by (auto simp: desired_statefulset)
qed

lemma applied_all:
  assumes "applyResources lib inst = (None, calls)"
  shows "\<exists>desired. StatefulSet inst = Inr desired \<and> calls = map snd (desiredCalls inst (keepImmutable (liveObject lib) desired))"
  using assms
proof (cases rule: applyResources_cases)
  case (2 desired)
  then show ?thesis using callAll_success [OF 2(2)] by blast
qed simp

lemma instanceReconcile_stored:
  assumes "instanceReconcile lib (Inr inst) = (res, Some st, calls)"
  obtains failure ready where "applyResources lib inst = (failure, calls)" "st = instanceStatus lib inst failure ready"
    "ready \<longleftrightarrow> failure = None \<and> \<not> Suspend (Spec inst) \<and> (\<exists>n > 0. icReadyReplicas lib = Inr n)"
proof -
  obtain failure made where a: "applyResources lib inst = (failure, made)" by fastforce
  show thesis
    using assms a that [of failure]
    by (cases "icReadyReplicas lib") (auto simp: instanceReconcile_def Let_def split: if_splits option.splits)
qed

lemma setCondition_fields:
  "(setCondition now gnr ty positive r1 r2 message st)\<lparr>Conditions := cs\<rparr> = st\<lparr>Conditions := cs\<rparr>"
  "stSelfConfig (setCondition now gnr ty positive r1 r2 message st) = stSelfConfig st"
  by (simp_all add: setCondition_def Let_def)

lemma condition_fields:
  "(resourcesCondition lib inst failure st)\<lparr>Conditions := cs\<rparr> = st\<lparr>Conditions := cs\<rparr>"
  "(runtimeCondition lib inst ready st)\<lparr>Conditions := cs\<rparr> = st\<lparr>Conditions := cs\<rparr>"
  "(selfConfigCondition lib inst st)\<lparr>Conditions := cs\<rparr> = st\<lparr>Conditions := cs\<rparr>"
  "stSelfConfig (resourcesCondition lib inst failure st) = stSelfConfig st"
  "stSelfConfig (runtimeCondition lib inst ready st) = stSelfConfig st"
  by (simp_all add: resourcesCondition_def runtimeCondition_def selfConfigCondition_def Let_def setCondition_fields split: option.split)

lemma resources_conditions:
  "t \<noteq> ConditionResourcesReady \<Longrightarrow> condition_of t (resourcesCondition lib inst failure st) = condition_of t st"
  "\<exists>c. condition_of ConditionResourcesReady (resourcesCondition lib inst failure st) = Some c \<and> (condStatus c \<longleftrightarrow> failure = None)"
  by (simp_all add: resourcesCondition_def condition_of_setCondition)

lemma runtime_conditions:
  "t \<noteq> ConditionRuntimeReady \<Longrightarrow> condition_of t (runtimeCondition lib inst ready st) = condition_of t st"
  "\<exists>c. condition_of ConditionRuntimeReady (runtimeCondition lib inst ready st) = Some c \<and>
     (condStatus c \<longleftrightarrow> \<not> Suspend (Spec inst) \<and> ready)"
  by (simp_all add: runtimeCondition_def condition_of_setCondition Let_def)

lemma self_config_conditions:
  "t \<noteq> ConditionSelfConfigCompliant \<or> spSelfConfig (Spec inst) = None \<Longrightarrow>
     condition_of t (selfConfigCondition lib inst st) = condition_of t st"
  "spSelfConfig (Spec inst) \<noteq> None \<Longrightarrow>
     \<exists>c. condition_of ConditionSelfConfigCompliant (selfConfigCondition lib inst st) = Some c \<and>
       (condStatus c \<longleftrightarrow> \<not> (\<exists>u. stSelfConfig st = Some u \<and> ProtectedViolation u))"
  by (auto simp: selfConfigCondition_def condition_of_setCondition Let_def split: option.split)

lemma condition_of_generation [simp]: "condition_of t (st\<lparr>ObservedGeneration := g\<rparr>) = condition_of t st"
  by (simp add: condition_of_def)


text \<open>A healthy cluster without a live workload, and an Instance whose relay reported a violation.\<close>

definition healthy_lib :: "unit instance_lib" where
  "healthy_lib = \<lparr>icLive = Inl (), icCall = (\<lambda>_. None), icSetOwner = None, icReadyReplicas = Inr 1, icPatchStatus = (\<lambda>_. None),
     icIsNotFound = (\<lambda>_. True), icText = (\<lambda>_. ''''), icNow = 5\<rparr>"

definition violating_inst :: TypeClawInstance where
  "violating_inst = (sample_inst ((sample_istatus None)\<lparr>stSelfConfig := Some \<lparr>ObservedDigest = ''d'', ObservedAt = Some 1,
      Revision = 1, ChangedPaths = [''k''], ProtectedViolation = True\<rparr>\<rparr>))\<lparr>Spec := sample_ispec\<lparr>spSelfConfig := Some [''k'']\<rparr>\<rparr>"


end
