(* ===== verification/Relay.thy ===== *)
theory Relay
  imports Instance "HOL-Library.Char_ord" "HOL-Library.List_Lexorder"
begin

text \<open>
  The restart relay, the sidecar of an Instance's Pod: the watcher that turns restart requests dropped
  into a directory into a deletion of its own Pod (\<^verbatim>\<open>internal/relay/watch.go\<close>), the watcher that reports
  changes of the agent's configuration (\<^verbatim>\<open>internal/relay/config.go\<close>), and the process around them
  (\<^verbatim>\<open>cmd/relay/main.go\<close>). Every file operation and every cluster call is an event of a log; what it
  answers may depend on the log so far. The control directory's own name is clean and has no pattern characters.
\<close>

section \<open>Restart requests\<close>

record RestartRequest =
  SchemaVersion :: int
  rrKind :: string
  RequestID :: string
  rrRuntimeID :: string
  RequestedAt :: string

record Watcher =
  wControlDir :: string
  wRuntimeID :: string
  wPodName :: string
  wNamespace :: string

datatype relay_event =
    RlRead string
  | RlRemove string
  | RlStat string
  | RlDelete string string string
  | RlMkdir string
  | RlRename string string bool

record relay_state =
  rsFiles :: "(string, string) gomap"
  rsLog :: "relay_event list"

record ('e) relay_lib =
  rlFails :: "relay_event list \<Rightarrow> relay_event \<Rightarrow> bool"
  rlDeletePod :: "relay_event list \<Rightarrow> string \<Rightarrow> string \<Rightarrow> 'e option"
  rlIsNotFound :: "'e \<Rightarrow> bool"
  rlDecode :: "string \<Rightarrow> RestartRequest option"

definition note_event :: "relay_event \<Rightarrow> relay_state \<Rightarrow> relay_state" where
  "note_event e st = st\<lparr>rsLog := rsLog st @ [e]\<rparr>"

definition readFile :: "'e relay_lib \<Rightarrow> string \<Rightarrow> relay_state \<Rightarrow> string option" where
  "readFile lib path st = (if rlFails lib (rsLog st) (RlRead path) then None else mget (rsFiles st) path)"

definition statFile :: "'e relay_lib \<Rightarrow> string \<Rightarrow> relay_state \<Rightarrow> bool" where
  "statFile lib path st \<longleftrightarrow> \<not> rlFails lib (rsLog st) (RlStat path) \<and> mget (rsFiles st) path \<noteq> None"

definition drop_file :: "'e relay_lib \<Rightarrow> string \<Rightarrow> relay_state \<Rightarrow> relay_state" where
  "drop_file lib path st =
     note_event (RlRemove path)
       (if rlFails lib (rsLog st) (RlRemove path) then st else st\<lparr>rsFiles := mdel path (rsFiles st)\<rparr>)"

definition consumedPath :: "Watcher \<Rightarrow> string \<Rightarrow> string" where
  "consumedPath w requestID = wControlDir w @ ''/consumed/restart-'' @ requestID @ ''.json''"

definition archive :: "'e relay_lib \<Rightarrow> string \<Rightarrow> string \<Rightarrow> relay_state \<Rightarrow> relay_state" where
  "archive lib src marker st =
     (let dir = RlMkdir marker; st1 = note_event dir st in
      if rlFails lib (rsLog st) dir then st1
      else (case mget (rsFiles st1) src of
          None \<Rightarrow> note_event (RlRename src marker False) st1
        | Some data \<Rightarrow>
            if rlFails lib (rsLog st1) (RlRename src marker True) then note_event (RlRename src marker False) st1
            else note_event (RlRename src marker True)
                   (st1\<lparr>rsFiles := mput marker data (mdel src (rsFiles st1))\<rparr>)))"

definition restartAccepted :: "Watcher \<Rightarrow> RestartRequest \<Rightarrow> bool" where
  "restartAccepted w req \<longleftrightarrow>
     (if SchemaVersion req \<noteq> 1 then False
      else if rrKind req \<noteq> ''restart'' then False
      else if RequestID req = '''' \<or> ContainsAny (RequestID req) [CHR ''/'', CHR 0x5C] then False
      else if rrRuntimeID req \<noteq> wRuntimeID w then False
      else True)"

definition consume :: "'e relay_lib \<Rightarrow> Watcher \<Rightarrow> string \<Rightarrow> relay_state \<Rightarrow> relay_state" where
  "consume lib w path st =
     (let st1 = note_event (RlRead path) st in
      case readFile lib path st of
        None \<Rightarrow> drop_file lib path st1
      | Some data \<Rightarrow>
         (case rlDecode lib data of
            None \<Rightarrow> drop_file lib path st1
          | Some req \<Rightarrow>
              if \<not> restartAccepted w req then drop_file lib path st1
              else
                let marker = consumedPath w (RequestID req); st2 = note_event (RlStat marker) st1 in
                if statFile lib marker st1 then drop_file lib path st2
                else
                  let st3 = note_event (RlDelete (wPodName w) (wNamespace w) (RequestID req)) st2 in
                  case rlDeletePod lib (rsLog st2) (wPodName w) (wNamespace w) of
                    None \<Rightarrow> archive lib path marker st3
                  | Some err \<Rightarrow> if \<not> rlIsNotFound lib err then st3 else archive lib path marker st3))"

text \<open>The names the pattern \<^verbatim>\<open>restart-*.json\<close> matches in the control directory.\<close>

definition isDrop :: "Watcher \<Rightarrow> string \<Rightarrow> bool" where
  "isDrop w path \<longleftrightarrow>
     (let prefix = wControlDir w @ ''/restart-''; rest = drop (length prefix) path in
      HasPrefix path prefix \<and> HasSuffix rest ''.json'' \<and> CHR ''/'' \<notin> set rest)"

definition pollMatches :: "Watcher \<Rightarrow> relay_state \<Rightarrow> string list" where
  "pollMatches w st = sort (remdups (filter (isDrop w) (map fst (rsFiles st))))"

definition pollOnce :: "'e relay_lib \<Rightarrow> Watcher \<Rightarrow> relay_state \<Rightarrow> relay_state" where
  "pollOnce lib w st = fold (consume lib w) (pollMatches w st) st"

section \<open>Configuration observations\<close>

record ConfigObservation =
  obDigest :: string
  obAt :: int
  obRevision :: int
  obChangedPaths :: "string list"
  obProtectedViolation :: bool

record ConfigObservationDocument =
  docDigest :: string
  docValues :: "(string, string) gomap"

record ConfigWatcher =
  cwInstance :: TypeClawInstance
  lastDigest :: string
  lastValues :: "(string, string) gomap"

datatype 'e observation_error =
    ReadFailed 'e
  | TooLarge
  | DecodeFailed
  | DigestRequired
  | DigestNotSha256
  | EmptyKey
  | KeyDigestNotSha256
  | PatchFailed 'e

text \<open>
  The library of the configuration watcher: the content of the observation file, the JSON decoder, the
  clock, the outcome of the status patch, and what decoding the patch's answer leaves in the Instance.
\<close>

record ('e) observation_lib =
  olRead :: "'e + string"
  olIsNotExist :: "'e \<Rightarrow> bool"
  olDecode :: "string \<Rightarrow> (string \<times> (string, string) gomap option) option"
  olNow :: int
  olPatch :: "'e option"
  olAnswer :: "TypeClawInstance \<Rightarrow> SelfConfigStatus option \<Rightarrow> TypeClawInstance"

abbreviation maxObservationBytes :: nat where "maxObservationBytes \<equiv> 2 ^ 20"

definition readObservation :: "'e observation_lib \<Rightarrow> 'e observation_error + string" where
  "readObservation lib =
     (case olRead lib of
        Inl err \<Rightarrow> Inl (ReadFailed err)
      | Inr content \<Rightarrow>
          let raw = take (maxObservationBytes + 1) content in
          if maxObservationBytes < length raw then Inl TooLarge else Inr raw)"

definition hexDecodable :: "string \<Rightarrow> bool" where
  "hexDecodable s \<longleftrightarrow>
     even (length s) \<and> list_all (\<lambda>c. CHR ''0'' \<le> c \<and> c \<le> CHR ''9'' \<or> CHR ''a'' \<le> c \<and> c \<le> CHR ''f'' \<or>
       CHR ''A'' \<le> c \<and> c \<le> CHR ''F'') s"

fun checkValues :: "(string, string) gomap \<Rightarrow> 'e observation_error option" where
  "checkValues [] = None"
| "checkValues ((key, digest) # rest) =
     (if key = '''' then Some EmptyKey
      else if length digest \<noteq> 16 then Some KeyDigestNotSha256
      else if \<not> hexDecodable digest then Some KeyDigestNotSha256
      else checkValues rest)"

definition decodeObservationDocument ::
  "'e observation_lib \<Rightarrow> string \<Rightarrow> 'e observation_error + ConfigObservationDocument" where
  "decodeObservationDocument lib raw =
     (case olDecode lib raw of
        None \<Rightarrow> Inl DecodeFailed
      | Some (digest, values) \<Rightarrow>
          if digest = '''' then Inl DigestRequired
          else if length digest \<noteq> 64 then Inl DigestNotSha256
          else if \<not> hexDecodable digest then Inl DigestNotSha256
          else
            let vals = (case values of None \<Rightarrow> [] | Some vs \<Rightarrow> vs) in
            case checkValues vals of
              Some err \<Rightarrow> Inl err
            | None \<Rightarrow> Inr \<lparr>docDigest = digest, docValues = vals\<rparr>)"

definition currentRevision :: "ConfigWatcher \<Rightarrow> int" where
  "currentRevision w = (case stSelfConfig (Status (cwInstance w)) of Some u \<Rightarrow> Revision u | None \<Rightarrow> 0)"

definition protectedPaths :: "ConfigWatcher \<Rightarrow> string list" where
  "protectedPaths w = (case spSelfConfig (Spec (cwInstance w)) of Some paths \<Rightarrow> paths | None \<Rightarrow> [])"

definition changedKeys :: "(string, string) gomap \<Rightarrow> (string, string) gomap \<Rightarrow> string list" where
  "changedKeys prev new =
     sort (map fst (filter (\<lambda>(k, v). mget prev k \<noteq> Some v) new) @
           map fst (filter (\<lambda>(k, _). mget new k = None) prev))"

definition intersects :: "string list \<Rightarrow> string list \<Rightarrow> bool" where
  "intersects policy changed = list_ex (\<lambda>c. c \<in> set policy) changed"

text \<open>
  A JSON merge patch of the self-configuration block: the fields in which the object differs from
  its base are sent and replace the server's; an absent block has empty fields.
\<close>

definition noSelfConfig :: SelfConfigStatus where
  "noSelfConfig = \<lparr>ObservedDigest = '''', ObservedAt = None, Revision = 0, ChangedPaths = [], ProtectedViolation = False\<rparr>"

definition orEmpty :: "SelfConfigStatus option \<Rightarrow> SelfConfigStatus" where
  "orEmpty s = (case s of None \<Rightarrow> noSelfConfig | Some u \<Rightarrow> u)"

definition mergePatch ::
  "SelfConfigStatus option \<Rightarrow> SelfConfigStatus option \<Rightarrow> SelfConfigStatus option \<Rightarrow> SelfConfigStatus option" where
  "mergePatch base new server =
     (let b = orEmpty base; n = orEmpty new; s = orEmpty server in
      if b = n then server
      else Some \<lparr>ObservedDigest = (if ObservedDigest b = ObservedDigest n then ObservedDigest s else ObservedDigest n),
                 ObservedAt = (if ObservedAt b = ObservedAt n then ObservedAt s else ObservedAt n),
                 Revision = (if Revision b = Revision n then Revision s else Revision n),
                 ChangedPaths = (if ChangedPaths b = ChangedPaths n then ChangedPaths s else ChangedPaths n),
                 ProtectedViolation =
                   (if ProtectedViolation b = ProtectedViolation n then ProtectedViolation s else ProtectedViolation n)\<rparr>)"

text \<open>The client observer: the error if any, the Instance it leaves in memory and the server's block.\<close>

definition Observe ::
  "'e observation_lib \<Rightarrow> TypeClawInstance \<Rightarrow> ConfigObservation \<Rightarrow> SelfConfigStatus option
     \<Rightarrow> 'e observation_error option \<times> TypeClawInstance \<times> SelfConfigStatus option" where
  "Observe lib inst obs server =
     (let base = stSelfConfig (Status inst);
          new = Some \<lparr>ObservedDigest = obDigest obs, ObservedAt = Some (obAt obs), Revision = obRevision obs,
                 ChangedPaths = obChangedPaths obs, ProtectedViolation = obProtectedViolation obs\<rparr>;
          changed = inst\<lparr>Status := (Status inst)\<lparr>stSelfConfig := new\<rparr>\<rparr> in
      case olPatch lib of
        Some err \<Rightarrow> (Some (PatchFailed err), changed, server)
      | None \<Rightarrow> (None, olAnswer lib changed (mergePatch base new server), mergePatch base new server))"

definition configObservation :: "'e observation_lib \<Rightarrow> ConfigWatcher \<Rightarrow> ConfigObservationDocument \<Rightarrow> ConfigObservation" where
  "configObservation lib w doc =
     (if lastDigest w = ''''
      then \<lparr>obDigest = docDigest doc, obAt = olNow lib, obRevision = 0, obChangedPaths = [], obProtectedViolation = False\<rparr>
      else
        let changed = changedKeys (lastValues w) (docValues doc) in
        \<lparr>obDigest = docDigest doc, obAt = olNow lib, obRevision = int64 (currentRevision w + 1), obChangedPaths = changed,
         obProtectedViolation = intersects (protectedPaths w) changed\<rparr>)"

definition configPoll ::
  "'e observation_lib \<Rightarrow> ConfigWatcher \<Rightarrow> SelfConfigStatus option
     \<Rightarrow> 'e observation_error option \<times> ConfigWatcher \<times> SelfConfigStatus option" where
  "configPoll lib w server =
     (case readObservation lib of
        Inl (ReadFailed err) \<Rightarrow> (if olIsNotExist lib err then None else Some (ReadFailed err), w, server)
      | Inl err \<Rightarrow> (Some err, w, server)
      | Inr raw \<Rightarrow>
         (case decodeObservationDocument lib raw of
            Inl err \<Rightarrow> (Some err, w, server)
          | Inr doc \<Rightarrow>
              if docDigest doc = lastDigest w then (None, w, server)
              else
                (case Observe lib (cwInstance w) (configObservation lib w doc) server of
                   (Some err, inst, server') \<Rightarrow> (Some err, w\<lparr>cwInstance := inst\<rparr>, server')
                 | (None, inst, server') \<Rightarrow>
                     (None, w\<lparr>cwInstance := inst, lastDigest := docDigest doc, lastValues := docValues doc\<rparr>, server'))))"

section \<open>The process\<close>

abbreviation DefaultInterval :: int where "DefaultInterval \<equiv> 500000000"

definition envOr :: "(string \<Rightarrow> string) \<Rightarrow> string \<Rightarrow> string \<Rightarrow> string" where
  "envOr env key fallback = (if env key \<noteq> '''' then env key else fallback)"

datatype relay_start_error = MissingEnv "string list" | BadInterval string

definition intervalFromEnv :: "(string \<Rightarrow> int option) \<Rightarrow> string \<Rightarrow> relay_start_error + int" where
  "intervalFromEnv durationOf raw =
     (if raw = '''' then Inr DefaultInterval
      else (case durationOf raw of
          None \<Rightarrow> Inl (BadInterval raw)
        | Some d \<Rightarrow> if d \<le> 0 then Inl (BadInterval raw) else Inr d))"

definition relayStart ::
  "(string \<Rightarrow> string) \<Rightarrow> (string \<Rightarrow> int option) \<Rightarrow> relay_start_error + (Watcher \<times> int \<times> string)" where
  "relayStart env durationOf =
     (let missing = filter (\<lambda>name. TrimSpace (env name) = '''') [''TYPECLAW_RUNTIME_ID'', ''POD_NAME'', ''POD_NAMESPACE''] in
      if missing \<noteq> [] then Inl (MissingEnv missing)
      else (case intervalFromEnv durationOf (env ''TYPECLAW_RELAY_INTERVAL'') of
          Inl err \<Rightarrow> Inl err
        | Inr interval \<Rightarrow>
            Inr (\<lparr>wControlDir = envOr env ''TYPECLAW_MANAGED_CONTROL_DIR'' ''/run/typeclaw-managed'',
                  wRuntimeID = env ''TYPECLAW_RUNTIME_ID'', wPodName = env ''POD_NAME'', wNamespace = env ''POD_NAMESPACE''\<rparr>,
                 interval, TrimSuffix (env ''POD_NAME'') ''-0'')))"

section \<open>Restarts happen once\<close>

lemma consumedPath_inj: "consumedPath w a = consumedPath w b \<longleftrightarrow> a = b"
  by (simp add: consumedPath_def)

lemma isDrop_not_marker: "isDrop w path \<Longrightarrow> path \<noteq> consumedPath w req"
  by (auto simp: isDrop_def Let_def HasPrefix_iff consumedPath_def)

lemma note_event_simps [simp]:
  "rsFiles (note_event e st) = rsFiles st" "rsLog (note_event e st) = rsLog st @ [e]"
  by (simp_all add: note_event_def)

text \<open>The requests whose drop was archived, and a log in which no archived request deletes the Pod again.\<close>

definition archived :: "Watcher \<Rightarrow> string \<Rightarrow> relay_event list \<Rightarrow> bool" where
  "archived w req log \<longleftrightarrow> (\<exists>src. RlRename src (consumedPath w req) True \<in> set log)"

definition delete_fresh :: "Watcher \<Rightarrow> relay_event list \<Rightarrow> relay_event \<Rightarrow> bool" where
  "delete_fresh w before e \<longleftrightarrow>
     (\<forall>name ns req. e = RlDelete name ns req \<longrightarrow>
        name = wPodName w \<and> ns = wNamespace w \<and> req \<noteq> '''' \<and> \<not> archived w req before)"

definition deletes_fresh :: "Watcher \<Rightarrow> relay_event list \<Rightarrow> bool" where
  "deletes_fresh w log \<longleftrightarrow> (\<forall>l1 e l2. log = l1 @ e # l2 \<longrightarrow> delete_fresh w l1 e)"

lemma archived_append [simp]: "archived w req (l @ l') \<longleftrightarrow> archived w req l \<or> archived w req l'"
  by (auto simp: archived_def)

lemma archived_Cons [simp]: "archived w req (e # e' # l) \<longleftrightarrow> archived w req [e] \<or> archived w req (e' # l)"
  by (auto simp: archived_def)

lemma archived_events [simp]:
  "\<not> archived w req []" "\<not> archived w req [RlRead p]" "\<not> archived w req [RlRemove p]" "\<not> archived w req [RlStat p]"
  "\<not> archived w req [RlDelete n ns r]" "\<not> archived w req [RlMkdir p]" "\<not> archived w req [RlRename s m False]"
  "archived w req [RlRename s (consumedPath w r) True] \<longleftrightarrow> req = r"
  by (auto simp: archived_def consumedPath_inj)

lemma deletes_fresh_snoc [simp]: "deletes_fresh w (l @ [e]) \<longleftrightarrow> deletes_fresh w l \<and> delete_fresh w l e"
  unfolding deletes_fresh_def split_snoc by blast

lemma deletes_fresh_snoc2 [simp]:
  "deletes_fresh w (l @ [a, b]) \<longleftrightarrow> deletes_fresh w l \<and> delete_fresh w l a \<and> delete_fresh w (l @ [a]) b"
  "deletes_fresh w (l @ [a, b, c]) \<longleftrightarrow>
     deletes_fresh w l \<and> delete_fresh w l a \<and> delete_fresh w (l @ [a]) b \<and> delete_fresh w (l @ [a, b]) c"
  using deletes_fresh_snoc [of w "l @ [a]" b] deletes_fresh_snoc [of w "l @ [a, b]" c] by auto

lemma delete_fresh_simps [simp]:
  "delete_fresh w l (RlRead p)" "delete_fresh w l (RlRemove p)" "delete_fresh w l (RlStat p)"
  "delete_fresh w l (RlMkdir p)" "delete_fresh w l (RlRename s m b)"
  "delete_fresh w l (RlDelete name ns req) \<longleftrightarrow>
     name = wPodName w \<and> ns = wNamespace w \<and> req \<noteq> '''' \<and> \<not> archived w req l"
  by (auto simp: delete_fresh_def)

text \<open>
  The relay and its surroundings: polls, and changes of the files by the other containers of the
  Pod, which leave the directory of consumed requests alone.
\<close>

inductive relay_reach :: "'e relay_lib \<Rightarrow> Watcher \<Rightarrow> relay_state \<Rightarrow> bool" for lib w where
  start: "relay_reach lib w \<lparr>rsFiles = files, rsLog = []\<rparr>"
| poll: "relay_reach lib w st \<Longrightarrow> relay_reach lib w (pollOnce lib w st)"
| others: "relay_reach lib w st \<Longrightarrow> (\<And>req. mget files (consumedPath w req) = mget (rsFiles st) (consumedPath w req)) \<Longrightarrow>
     relay_reach lib w (st\<lparr>rsFiles := files\<rparr>)"

definition relay_inv :: "Watcher \<Rightarrow> relay_state \<Rightarrow> bool" where
  "relay_inv w st \<longleftrightarrow> deletes_fresh w (rsLog st) \<and>
     (\<forall>req. archived w req (rsLog st) \<longrightarrow> mget (rsFiles st) (consumedPath w req) \<noteq> None)"

lemma drop_file_inv: "relay_inv w st \<Longrightarrow> isDrop w path \<Longrightarrow> relay_inv w (drop_file lib path st)"
  by (auto simp: relay_inv_def drop_file_def dest: isDrop_not_marker)

lemma archive_inv: "relay_inv w st \<Longrightarrow> isDrop w path \<Longrightarrow> relay_inv w (archive lib path (consumedPath w req) st)"
  by (auto simp: relay_inv_def archive_def Let_def consumedPath_inj dest: isDrop_not_marker split: option.splits)

lemma note_inv: "relay_inv w st \<Longrightarrow> relay_inv w (note_event (RlRead p) st)" "relay_inv w st \<Longrightarrow> relay_inv w (note_event (RlStat p) st)"
  by (simp_all add: relay_inv_def)

lemma consume_inv:
  assumes "relay_inv w st" "isDrop w path" "\<And>l p. \<not> rlFails lib l (RlStat p)"
  shows "relay_inv w (consume lib w path st)"
proof -
  let ?st1 = "note_event (RlRead path) st"
  have inv: "relay_inv w ?st1" "relay_inv w (note_event (RlStat p) ?st1)" for p
    using assms(1) by (simp_all add: note_inv)
  have del: "relay_inv w (note_event (RlDelete (wPodName w) (wNamespace w) (RequestID req))
      (note_event (RlStat (consumedPath w (RequestID req))) ?st1))"
    if "restartAccepted w req" "\<not> statFile lib (consumedPath w (RequestID req)) ?st1" for req
    using that inv(1) assms(3) by (auto simp: relay_inv_def statFile_def restartAccepted_def split: if_splits)
  show ?thesis
    using inv del assms(2) by (auto simp: consume_def Let_def intro!: drop_file_inv archive_inv split: option.splits)
qed

lemma relay_reach_inv:
  assumes "relay_reach lib w st" "\<And>l p. \<not> rlFails lib l (RlStat p)"
  shows "relay_inv w st"
  using assms(1)
proof induction
  case (start files)
  show ?case by (simp add: relay_inv_def deletes_fresh_def)
next
  case (poll st)
  then show ?case
    unfolding pollOnce_def by (intro fold_inv [where P = "relay_inv w"] consume_inv assms(2)) (auto simp: pollMatches_def)
next
  case (others st files)
  then show ?case by (simp add: relay_inv_def)
qed

lemma drop_file_mget:
  "\<not> rlFails lib (rsLog st) (RlRemove path) \<Longrightarrow>
     mget (rsFiles (drop_file lib path st)) p = (if p = path then None else mget (rsFiles st) p)"
  by (simp add: drop_file_def)

lemma archive_mget:
  assumes "\<And>l e. \<not> rlFails lib l e" and "mget (rsFiles st) path = Some data"
  shows "mget (rsFiles (archive lib path marker st)) p =
    (if p = marker then Some data else if p = path then None else mget (rsFiles st) p)"
  using assms by (simp add: archive_def Let_def)

text \<open>No file operation fails and the Pod is deleted or already gone.\<close>

definition relay_healthy :: "'e relay_lib \<Rightarrow> bool" where
  "relay_healthy lib \<longleftrightarrow> (\<forall>l e. \<not> rlFails lib l e) \<and>
     (\<forall>l n ns err. rlDeletePod lib l n ns = Some err \<longrightarrow> rlIsNotFound lib err)"

text \<open>One drop, when nothing fails: it is gone afterwards, and a valid one has left its marker.\<close>

lemma consume_effect:
  assumes "isDrop w path" "relay_healthy lib"
  shows "mget (rsFiles (consume lib w path st)) path = None"
    and "isDrop w p \<Longrightarrow> p \<noteq> path \<Longrightarrow> mget (rsFiles (consume lib w path st)) p = mget (rsFiles st) p"
    and "mget (rsFiles st) (consumedPath w req) \<noteq> None \<Longrightarrow>
       mget (rsFiles (consume lib w path st)) (consumedPath w req) \<noteq> None"
    and "mget (rsFiles st) path = Some data \<Longrightarrow> rlDecode lib data = Some r \<Longrightarrow> restartAccepted w r \<Longrightarrow>
       mget (rsFiles (consume lib w path st)) (consumedPath w (RequestID r)) \<noteq> None"
proof -
  have neq: "path \<noteq> consumedPath w x" "consumedPath w x \<noteq> path" for x using isDrop_not_marker [OF assms(1)] by metis+
  have ok: "\<not> rlFails lib l e" "rlDeletePod lib l n ns = Some err \<Longrightarrow> rlIsNotFound lib err" for l e n ns err
    using assms(2) by (auto simp: relay_healthy_def)
  note eff = consume_def Let_def readFile_def statFile_def drop_file_mget archive_mget ok(1) neq
  show "mget (rsFiles (consume lib w path st)) path = None"
    using ok(2) by (auto simp: eff split: option.splits)
  show "mget (rsFiles (consume lib w path st)) p = mget (rsFiles st) p" if "isDrop w p" "p \<noteq> path"
    using ok(2) that isDrop_not_marker [OF that(1)] by (auto simp: eff split: option.splits)
  show "mget (rsFiles (consume lib w path st)) (consumedPath w req) \<noteq> None" if "mget (rsFiles st) (consumedPath w req) \<noteq> None"
    using ok(2) that by (auto simp: eff consumedPath_inj split: option.splits)
  show "mget (rsFiles (consume lib w path st)) (consumedPath w (RequestID r)) \<noteq> None"
    if "mget (rsFiles st) path = Some data" "rlDecode lib data = Some r" "restartAccepted w r"
    using ok(2) that by (auto simp: eff split: option.splits)
qed

lemma fold_consume_drops:
  assumes "relay_healthy lib" "\<forall>x \<in> set xs. isDrop w x" "isDrop w p"
  shows "mget (rsFiles (fold (consume lib w) xs st)) p = (if p \<in> set xs then None else mget (rsFiles st) p)"
  using assms(2)
  by (induction xs arbitrary: st) (auto simp: consume_effect(1) [OF _ assms(1)] consume_effect(2) [OF _ assms(1,3)])

lemma fold_consume_markers:
  assumes "relay_healthy lib" "\<forall>x \<in> set xs. isDrop w x" "mget (rsFiles st) (consumedPath w req) \<noteq> None"
  shows "mget (rsFiles (fold (consume lib w) xs st)) (consumedPath w req) \<noteq> None"
  using assms(2,3) consume_effect(3) [OF _ assms(1)] by (induction xs arbitrary: st) auto

lemma fold_consume_accepts:
  assumes "relay_healthy lib" "\<forall>x \<in> set xs. isDrop w x" "path \<in> set xs" "mget (rsFiles st) path = Some data"
    and "rlDecode lib data = Some r" "restartAccepted w r"
  shows "mget (rsFiles (fold (consume lib w) xs st)) (consumedPath w (RequestID r)) \<noteq> None"
  using assms(2-4)
proof (induction xs arbitrary: st)
  case (Cons x xs)
  show ?case
  proof (cases "path = x")
    case True
    have "mget (rsFiles (consume lib w x st)) (consumedPath w (RequestID r)) \<noteq> None"
      using Cons.prems True assms(5,6) by (intro consume_effect(4) [OF _ assms(1)]) auto
    then show ?thesis using fold_consume_markers [OF assms(1)] Cons.prems(1) by simp
  next
    case False
    then show ?thesis
      using Cons.prems Cons.IH [of "consume lib w x st"] consume_effect(2) [OF _ assms(1), of w x path st] by auto
  qed
qed simp

lemma pollMatches_set: "set (pollMatches w st) = {p. isDrop w p \<and> mget (rsFiles st) p \<noteq> None}"
  by (auto simp: pollMatches_def map_of_eq_None_iff)

text \<open>
  C32. A restart happens once: along every run of polls, in which the other containers may write and
  remove files but leave the consumed requests alone, every deletion the relay asks for is of
  its own Pod, belongs to a named request, and comes before that request's drop is archived; after that no copy
  of the request deletes the Pod again. (The hypothesis is that looking for a marker does not fail.)
\<close>

theorem restart_once:
  assumes "relay_reach lib w st" and "\<And>l p. \<not> rlFails lib l (RlStat p)"
    and "rsLog st = before @ RlDelete name ns req # later"
  shows "name = wPodName w \<and> ns = wNamespace w \<and> req \<noteq> '''' \<and>
    (\<forall>src. RlRename src (consumedPath w req) True \<notin> set before)"
proof -
  have "delete_fresh w before (RlDelete name ns req)"
    using relay_reach_inv [OF assms(1,2)] assms(3) unfolding relay_inv_def deletes_fresh_def by blast
  then show ?thesis by (simp add: archived_def)
qed

text \<open>
  Every poll ends with an empty spool: when no file operation fails and the Pod is deleted or
  already gone, one poll leaves no drop behind, whatever was in it, and every valid request
  for this runtime has its marker afterwards, so that it will not be served again.
\<close>

lemma poll_drains:
  assumes "relay_healthy lib"
  shows "pollMatches w (pollOnce lib w st) = [] \<and>
    (\<forall>path data r. isDrop w path \<longrightarrow> mget (rsFiles st) path = Some data \<longrightarrow> rlDecode lib data = Some r \<longrightarrow>
       restartAccepted w r \<longrightarrow> mget (rsFiles (pollOnce lib w st)) (consumedPath w (RequestID r)) \<noteq> None)"
proof (intro conjI allI impI)
  have drops: "\<forall>x \<in> set (pollMatches w st). isDrop w x" by (simp add: pollMatches_set)
  have "set (pollMatches w (pollOnce lib w st)) = {}"
    unfolding pollMatches_set pollOnce_def
    using fold_consume_drops [OF assms drops, of _ st] pollMatches_set [of w st] by (auto split: if_splits)
  then show "pollMatches w (pollOnce lib w st) = []" by simp
  show "mget (rsFiles (pollOnce lib w st)) (consumedPath w (RequestID r)) \<noteq> None"
    if "isDrop w path" "mget (rsFiles st) path = Some data" "rlDecode lib data = Some r" "restartAccepted w r"
    for path data r
    unfolding pollOnce_def using that by (intro fold_consume_accepts [OF assms drops]) (auto simp: pollMatches_set)
qed

section \<open>Configuration observations\<close>

lemma in_changedKeys:
  "k \<in> set (changedKeys prev new) \<longleftrightarrow>
     (\<exists>v. (k, v) \<in> set new \<and> mget prev k \<noteq> Some v) \<or> (\<exists>v. (k, v) \<in> set prev) \<and> mget new k = None"
  by (force simp: changedKeys_def)

lemma set_changedKeys:
  assumes "distinct (map fst prev)" "distinct (map fst new)"
  shows "set (changedKeys prev new) = {k. mget prev k \<noteq> mget new k}"
proof -
  have "k \<in> set (changedKeys prev new) \<longleftrightarrow> mget prev k \<noteq> mget new k" for k
    unfolding in_changedKeys map_of_eq_Some_iff [OF assms(1), symmetric] map_of_eq_Some_iff [OF assms(2), symmetric]
    by (cases "mget prev k"; cases "mget new k") auto
  then show ?thesis by blast
qed

lemma sorted_changedKeys: "sorted (changedKeys prev new)"
  by (simp add: changedKeys_def)

lemma mergePatch_in_sync: "ObservedDigest n \<noteq> '''' \<Longrightarrow> mergePatch server (Some n) server = Some n"
  by (cases server) (auto simp: mergePatch_def Let_def orEmpty_def noSelfConfig_def)

text \<open>A poll that reads a valid document with a new digest reports it.\<close>

lemma configPoll_new:
  assumes "readObservation lib = Inr raw" "decodeObservationDocument lib raw = Inr doc" "docDigest doc \<noteq> lastDigest w"
  shows "configPoll lib w server =
    (case Observe lib (cwInstance w) (configObservation lib w doc) server of
       (Some err, inst, server') \<Rightarrow> (Some err, w\<lparr>cwInstance := inst\<rparr>, server')
     | (None, inst, server') \<Rightarrow>
         (None, w\<lparr>cwInstance := inst, lastDigest := docDigest doc, lastValues := docValues doc\<rparr>, server'))"
  using assms by (simp add: configPoll_def)

lemma decode_digest: "decodeObservationDocument lib raw = Inr doc \<Longrightarrow> docDigest doc \<noteq> ''''"
  by (auto simp: decodeObservationDocument_def Let_def split: option.splits if_splits)

text \<open>
  What the relay reports: while the Instance in memory agrees with the server, a poll whose
  patch succeeds stores exactly the document's digest; the first report after a start has
  revision 0 and neither changes nor a violation, a later one has the next revision, the sorted keys whose
  digests differ from the last report's, and a violation exactly if one of them is protected;
  the next poll of the same document does nothing.
\<close>

lemma observation_recorded:
  assumes "readObservation lib = Inr raw" "decodeObservationDocument lib raw = Inr doc" "docDigest doc \<noteq> lastDigest w"
    and "stSelfConfig (Status (cwInstance w)) = server" and "olPatch lib = None"
    and "distinct (map fst (lastValues w))" "distinct (map fst (docValues doc))"
  shows "\<exists>w' u. configPoll lib w server = (None, w', Some u) \<and> ObservedDigest u = docDigest doc \<and>
    ObservedAt u = Some (olNow lib) \<and> configPoll lib w' (Some u) = (None, w', Some u) \<and>
    (if lastDigest w = '''' then Revision u = 0 \<and> ChangedPaths u = [] \<and> \<not> ProtectedViolation u
     else Revision u = int64 ((case server of None \<Rightarrow> 0 | Some s \<Rightarrow> Revision s) + 1) \<and> sorted (ChangedPaths u) \<and>
       set (ChangedPaths u) = {k. mget (lastValues w) k \<noteq> mget (docValues doc) k} \<and>
       (ProtectedViolation u \<longleftrightarrow> (\<exists>k \<in> set (protectedPaths w). mget (lastValues w) k \<noteq> mget (docValues doc) k)))"
proof -
  let ?obs = "configObservation lib w doc"
  define u where "u = \<lparr>ObservedDigest = obDigest ?obs, ObservedAt = Some (obAt ?obs), Revision = obRevision ?obs,
     ChangedPaths = obChangedPaths ?obs, ProtectedViolation = obProtectedViolation ?obs\<rparr>"
  have digest: "ObservedDigest u = docDigest doc" by (simp add: u_def configObservation_def Let_def)
  then have merged: "mergePatch server (Some u) server = Some u"
    using decode_digest [OF assms(2)] by (simp add: mergePatch_in_sync)
  obtain w' where w': "configPoll lib w server = (None, w', Some u)" "lastDigest w' = docDigest doc"
    using assms(4,5) merged by (simp add: configPoll_new [OF assms(1-3)] Observe_def Let_def u_def [symmetric])
  have "configPoll lib w' (Some u) = (None, w', Some u)"
    using assms(1,2) w'(2) by (simp add: configPoll_def)
  moreover have "ProtectedViolation u \<longleftrightarrow> (\<exists>k \<in> set (protectedPaths w). k \<in> set (changedKeys (lastValues w) (docValues doc)))"
    if "lastDigest w \<noteq> ''''"
    using that by (auto simp: u_def configObservation_def Let_def intersects_def list_ex_iff)
  ultimately show ?thesis
    using w'(1) digest set_changedKeys [OF assms(6,7)] sorted_changedKeys [of "lastValues w" "docValues doc"] assms(4)
    by (auto simp: u_def configObservation_def Let_def currentRevision_def)
qed

text \<open>
  C33. A report whose patch fails is lost: the Instance in memory already carries it, so the retry on the
  next poll sends only the fields that changed since the failed attempt. Afterwards the server has a
  new time and a revision two higher, but still the old digest, changed keys and violation, and the watcher takes
  the document for reported.
\<close>

theorem failed_observation_lost:
  assumes "readObservation lib = Inr raw" "decodeObservationDocument lib raw = Inr doc" "docDigest doc \<noteq> lastDigest w"
    and "lastDigest w \<noteq> ''''" "stSelfConfig (Status (cwInstance w)) = Some s" "0 \<le> Revision s" "Revision s < 2 ^ 62"
    and "olPatch lib = Some err" "later \<noteq> olNow lib"
  shows "\<exists>w1 w2. configPoll lib w (Some s) = (Some (PatchFailed err), w1, Some s) \<and>
    configPoll (lib\<lparr>olPatch := None, olNow := later\<rparr>) w1 (Some s) =
      (None, w2, Some (s\<lparr>ObservedAt := Some later, Revision := Revision s + 2\<rparr>)) \<and>
    lastDigest w2 = docDigest doc"
proof -
  let ?retry = "lib\<lparr>olPatch := None, olNow := later\<rparr>" and ?obs = "configObservation lib w doc"
  define w1 where "w1 = w\<lparr>cwInstance := (cwInstance w)\<lparr>Status := (Status (cwInstance w))\<lparr>stSelfConfig :=
     Some \<lparr>ObservedDigest = obDigest ?obs, ObservedAt = Some (obAt ?obs), Revision = obRevision ?obs,
       ChangedPaths = obChangedPaths ?obs, ProtectedViolation = obProtectedViolation ?obs\<rparr>\<rparr>\<rparr>\<rparr>"
  have one: "configPoll lib w (Some s) = (Some (PatchFailed err), w1, Some s)"
    using assms(8) by (simp add: configPoll_new [OF assms(1-3)] Observe_def Let_def w1_def)
  have bounds: "int64 (Revision s + 1) = Revision s + 1" "int64 (2 + Revision s) = Revision s + 2"
    using assms(6,7) by (simp_all add: int64_id)
  have mem: "lastDigest w1 = lastDigest w" "lastValues w1 = lastValues w" "protectedPaths w1 = protectedPaths w"
    "stSelfConfig (Status (cwInstance w1)) = Some \<lparr>ObservedDigest = docDigest doc, ObservedAt = Some (olNow lib),
       Revision = Revision s + 1, ChangedPaths = changedKeys (lastValues w) (docValues doc),
       ProtectedViolation = intersects (protectedPaths w) (changedKeys (lastValues w) (docValues doc))\<rparr>"
    using assms(4,5) bounds by (simp_all add: w1_def protectedPaths_def configObservation_def Let_def currentRevision_def)
  have reads: "readObservation ?retry = Inr raw" "decodeObservationDocument ?retry raw = Inr doc" "docDigest doc \<noteq> lastDigest w1"
    using assms(1-3) mem(1) by (simp_all add: readObservation_def decodeObservationDocument_def)
  have obs: "configObservation ?retry w1 doc = \<lparr>obDigest = docDigest doc, obAt = later, obRevision = Revision s + 2,
      obChangedPaths = changedKeys (lastValues w) (docValues doc),
      obProtectedViolation = intersects (protectedPaths w) (changedKeys (lastValues w) (docValues doc))\<rparr>"
    using assms(4) bounds mem by (simp add: configObservation_def Let_def currentRevision_def)
  obtain w2 where "configPoll ?retry w1 (Some s) = (None, w2, Some (s\<lparr>ObservedAt := Some later, Revision := Revision s + 2\<rparr>))"
    "lastDigest w2 = docDigest doc"
    using assms(9) mem(4) by (simp add: configPoll_new [OF reads] Observe_def Let_def obs mergePatch_def orEmpty_def)
  with one show ?thesis by blast
qed

section \<open>Witnesses\<close>

definition sample_watcher :: Watcher where
  "sample_watcher = \<lparr>wControlDir = ''c'', wRuntimeID = ''r'', wPodName = ''i-0'', wNamespace = ''n''\<rparr>"

definition sample_relay :: "unit relay_lib" where
  "sample_relay = \<lparr>rlFails = (\<lambda>_ _. False), rlDeletePod = (\<lambda>_ _ _. None), rlIsNotFound = (\<lambda>_. False),
     rlDecode = (\<lambda>_. Some \<lparr>SchemaVersion = 1, rrKind = ''restart'', RequestID = ''a'', rrRuntimeID = ''r'', RequestedAt = ''''\<rparr>)\<rparr>"

definition spool :: relay_state where
  "spool = \<lparr>rsFiles = [(''c/restart-1.json'', ''x'')], rsLog = []\<rparr>"

lemma spool_poll:
  "pollOnce sample_relay sample_watcher spool =
     \<lparr>rsFiles = [(''c/consumed/restart-a.json'', ''x'')],
      rsLog = [RlRead ''c/restart-1.json'', RlStat ''c/consumed/restart-a.json'', RlDelete ''i-0'' ''n'' ''a'',
        RlMkdir ''c/consumed/restart-a.json'', RlRename ''c/restart-1.json'' ''c/consumed/restart-a.json'' True]\<rparr>"
  by (simp add: pollOnce_def pollMatches_def isDrop_def sample_relay_def sample_watcher_def spool_def HasSuffix_def
      consume_def Let_def readFile_def statFile_def restartAccepted_def ContainsAny_def consumedPath_def archive_def
      note_event_def)

lemma healthy_sample: "relay_healthy sample_relay" "\<not> rlFails sample_relay l e"
  by (simp_all add: relay_healthy_def sample_relay_def)

theorem restart_once_witness:
  "\<exists>st before later. relay_reach sample_relay sample_watcher st \<and> rsLog st = before @ RlDelete ''i-0'' ''n'' ''a'' # later \<and>
     wPodName sample_watcher = ''i-0'' \<and> (\<forall>src. RlRename src (consumedPath sample_watcher ''a'') True \<notin> set before)"
proof -
  let ?st = "pollOnce sample_relay sample_watcher spool"
  have reach: "relay_reach sample_relay sample_watcher ?st"
    unfolding spool_def by (intro relay_reach.poll relay_reach.start)
  have log: "rsLog ?st = [RlRead ''c/restart-1.json'', RlStat ''c/consumed/restart-a.json''] @ RlDelete ''i-0'' ''n'' ''a'' #
      [RlMkdir ''c/consumed/restart-a.json'', RlRename ''c/restart-1.json'' ''c/consumed/restart-a.json'' True]"
    by (simp add: spool_poll)
  from restart_once [OF reach healthy_sample(2) log] reach log show ?thesis by metis
qed

lemma poll_drains_witness:
  "pollMatches sample_watcher spool = [''c/restart-1.json''] \<and>
   pollMatches sample_watcher (pollOnce sample_relay sample_watcher spool) = [] \<and>
   mget (rsFiles (pollOnce sample_relay sample_watcher spool)) (consumedPath sample_watcher ''a'') \<noteq> None"
proof -
  have "pollMatches sample_watcher spool = [''c/restart-1.json'']"
    by (simp add: pollMatches_def isDrop_def sample_watcher_def spool_def HasSuffix_def Let_def)
  moreover have "isDrop sample_watcher ''c/restart-1.json''"
    by (simp add: isDrop_def sample_watcher_def HasSuffix_def Let_def)
  moreover have "mget (rsFiles spool) ''c/restart-1.json'' = Some ''x''" by (simp add: spool_def)
  moreover have "rlDecode sample_relay ''x'' = Some \<lparr>SchemaVersion = 1, rrKind = ''restart'', RequestID = ''a'', rrRuntimeID = ''r'', RequestedAt = ''''\<rparr>"
    "restartAccepted sample_watcher \<lparr>SchemaVersion = 1, rrKind = ''restart'', RequestID = ''a'', rrRuntimeID = ''r'', RequestedAt = ''''\<rparr>"
    by (simp_all add: sample_relay_def restartAccepted_def sample_watcher_def ContainsAny_def)
  ultimately show ?thesis
    using poll_drains [OF healthy_sample(1), of sample_watcher spool] by fastforce
qed

definition sample_self :: SelfConfigStatus where
  "sample_self = noSelfConfig\<lparr>ObservedDigest := ''x'', Revision := 1\<rparr>"

definition sample_config_watcher :: ConfigWatcher where
  "sample_config_watcher =
     \<lparr>cwInstance = (sample_inst (sample_istatus None))
        \<lparr>Spec := sample_ispec\<lparr>spSelfConfig := Some [''k'']\<rparr>, Status := (sample_istatus None)\<lparr>stSelfConfig := Some sample_self\<rparr>\<rparr>,
      lastDigest = ''x'', lastValues = []\<rparr>"

definition sample_document :: ConfigObservationDocument where
  "sample_document = \<lparr>docDigest = replicate 64 (CHR ''0''), docValues = [(''k'', replicate 16 (CHR ''0''))]\<rparr>"

definition sample_observations :: "unit option \<Rightarrow> unit observation_lib" where
  "sample_observations failure = \<lparr>olRead = Inr '''', olIsNotExist = (\<lambda>_. False),
     olDecode = (\<lambda>_. Some (docDigest sample_document, Some (docValues sample_document))), olNow = 1, olPatch = failure,
     olAnswer = (\<lambda>inst server. inst\<lparr>Status := (Status inst)\<lparr>stSelfConfig := server\<rparr>\<rparr>)\<rparr>"

lemma sample_digest: "docDigest sample_document \<noteq> ''x''"
  by (rule notI, drule arg_cong [where f = length], simp add: sample_document_def)

lemma sample_observation_facts:
  "readObservation (sample_observations f) = Inr ''''" "decodeObservationDocument (sample_observations f) '''' = Inr sample_document"
  "docDigest sample_document \<noteq> lastDigest sample_config_watcher" "lastDigest sample_config_watcher \<noteq> ''''"
  "stSelfConfig (Status (cwInstance sample_config_watcher)) = Some sample_self" "lastValues sample_config_watcher = []"
  "protectedPaths sample_config_watcher = [''k'']" "distinct (map fst (docValues sample_document))"
  "mget (docValues sample_document) ''k'' \<noteq> None" "olPatch (sample_observations f) = f" "olNow (sample_observations f) = 1"
  using sample_digest
  by (simp_all add: readObservation_def sample_observations_def decodeObservationDocument_def sample_document_def Let_def
      hexDecodable_def sample_config_watcher_def protectedPaths_def list_all_iff)

lemma observation_recorded_witness:
  "\<exists>w' u. configPoll (sample_observations None) sample_config_watcher (Some sample_self) = (None, w', Some u) \<and>
     Revision u = 2 \<and> ProtectedViolation u"
proof -
  note facts = sample_observation_facts
  have "distinct (map fst (lastValues sample_config_watcher))" by (simp add: facts)
  from observation_recorded [OF facts(1-3,5,10) this facts(8)] facts show ?thesis
    by (fastforce simp: sample_self_def noSelfConfig_def int64_def)
qed

theorem failed_observation_lost_witness:
  "\<exists>w1 w2. configPoll (sample_observations (Some ())) sample_config_watcher (Some sample_self) =
       (Some (PatchFailed ()), w1, Some sample_self) \<and>
     configPoll ((sample_observations (Some ()))\<lparr>olPatch := None, olNow := 2\<rparr>) w1 (Some sample_self) =
       (None, w2, Some (sample_self\<lparr>ObservedAt := Some 2, Revision := 3\<rparr>)) \<and>
     lastDigest w2 = docDigest sample_document"
proof -
  note facts = sample_observation_facts
  have rev: "Revision sample_self = 1" by (simp add: sample_self_def)
  from failed_observation_lost [OF facts(1-5) _ _ facts(10), of 2] show ?thesis
    by (simp add: rev facts(11))
qed

end
