(* ===== verification/VNC_Stream.thy ===== *)
theory VNC_Stream
  imports Gateway "HOL-Library.Sublist"
begin

text \<open>
  The byte path of the console (\<^verbatim>\<open>internal/desktopgateway/kubevirtclient.go\<close> and the relay of
  \<^verbatim>\<open>vnc.go\<close>): the client that reaches KubeVirt, the adapter that turns a websocket into a byte
  stream, the copy loop in each direction, and the goroutines of the dial and of the relay as step
  relations. The websocket library is a record of operations over the state \<open>'c\<close> of a connection;
  what the code relies on of it is stated once, in \<open>websocket_law\<close>.
\<close>

section \<open>The KubeVirt client\<close>

abbreviation subresourceAPIPath :: string where
  "subresourceAPIPath \<equiv> ''/apis/subresources.kubevirt.io/v1''"

definition vmSubresourcePath :: "string \<Rightarrow> string \<Rightarrow> string list \<Rightarrow> string" where
  "vmSubresourcePath namespace name subresources =
     join_with (CHR ''/'')
       ([subresourceAPIPath, ''namespaces'', namespace, ''virtualmachines'', name] @ subresources)"

definition vmiSubresourcePath :: "string \<Rightarrow> string \<Rightarrow> string list \<Rightarrow> string" where
  "vmiSubresourcePath namespace name subresources =
     join_with (CHR ''/'')
       ([subresourceAPIPath, ''namespaces'', namespace, ''virtualmachineinstances'', name] @ subresources)"

text \<open>
  client-go: the dynamic client's read of one object, and the REST client's verbs, an answer being
  an error or, for a stream, the bytes of the body and an error that ends it early.
\<close>

datatype gvr = virtualMachineGVR | virtualMachineInstanceGVR

text \<open>Their group, version and resource.\<close>

definition gvrParts :: "gvr \<Rightarrow> string \<times> string \<times> string" where
  "gvrParts r =
     (case r of
        virtualMachineGVR \<Rightarrow> (''kubevirt.io'', ''v1'', ''virtualmachines'')
      | virtualMachineInstanceGVR \<Rightarrow> (''kubevirt.io'', ''v1'', ''virtualmachineinstances''))"

record ('w, 'm, 'e) kube_rest =
  DynamicGet :: "gvr \<Rightarrow> string \<Rightarrow> string \<Rightarrow> 'w \<Rightarrow> ('e + 'm) \<times> 'w"
  VerbDo :: "string \<Rightarrow> string \<Rightarrow> 'w \<Rightarrow> 'e option \<times> 'w"
  VerbStream :: "string \<Rightarrow> string \<Rightarrow> (string \<times> string) list \<Rightarrow> 'w \<Rightarrow> ('e + string \<times> 'e option) \<times> 'w"
  DecodeFailed :: "'e decode_error \<Rightarrow> 'e"

definition getDecoded ::
  "('w, 'm, 'e) kube_rest \<Rightarrow> ('m option \<Rightarrow> 'e decode_error + 'a) \<Rightarrow> gvr \<Rightarrow> string \<Rightarrow> string \<Rightarrow> 'w
    \<Rightarrow> ('e + 'a) \<times> 'w" where
  "getDecoded kube decode r namespace name w =
     (case DynamicGet kube r namespace name w of
        (Inl err, w') \<Rightarrow> (Inl err, w')
      | (Inr object, w') \<Rightarrow>
         (case decode (Some object) of
            Inl err \<Rightarrow> (Inl (DecodeFailed kube err), w')
          | Inr vm \<Rightarrow> (Inr vm, w')))"

definition rawScreenshot ::
  "('w, 'm, 'e) kube_rest \<Rightarrow> string \<Rightarrow> string \<Rightarrow> 'w \<Rightarrow> ('e + string) \<times> 'w" where
  "rawScreenshot kube namespace name w =
     (case VerbStream kube ''GET'' (vmiSubresourcePath namespace name [''vnc'', ''screenshot''])
             [(''moveCursor'', ''false'')] w of
        (Inl err, w') \<Rightarrow> (Inl err, w')
      | (Inr (body, early), w') \<Rightarrow>
         (if length body \<le> maxScreenshotRawBytes \<and> early \<noteq> None then (Inl (the early), w')
          else (Inr (take (maxScreenshotRawBytes + 1) body), w')))"

definition clusterKubeVirtClient ::
  "('w, 'm, 'e) kube_rest \<Rightarrow> ('m, 'v, 'e) unstructured_lib
    \<Rightarrow> (string \<Rightarrow> string \<Rightarrow> 'w \<Rightarrow> 'e option \<times> 'w) \<Rightarrow> ('w, 'e) KubeVirtClient" where
  "clusterKubeVirtClient kube lib dial =
     \<lparr>GetVM = getDecoded kube (decodeVirtualMachine lib) virtualMachineGVR,
      GetVMI = getDecoded kube (decodeVirtualMachineInstance lib) virtualMachineInstanceGVR,
      StartVM = (\<lambda>namespace name. VerbDo kube ''PUT'' (vmSubresourcePath namespace name [''start''])),
      StopVM = (\<lambda>namespace name. VerbDo kube ''PUT'' (vmSubresourcePath namespace name [''stop''])),
      ScreenshotVM = rawScreenshot kube,
      DialVNC = dial\<rparr>"

text \<open>
  The construction of that client. The configuration has the fields the constructor sets; the
  clients themselves, the codecs and the group version of client-go's metadata are client-go's.
\<close>

record ('g, 's) rest_config =
  Host :: string
  APIPath :: string
  GroupVersion :: "'g option"
  NegotiatedSerializer :: "'s option"

record ('g, 's, 'd, 'r) kubevirt_clients =
  kcConfig :: "('g, 's) rest_config"
  kcDynamic :: 'd
  kcRest :: 'r

datatype 'e client_error = ConfigRequired | BuildDynamic 'e | BuildSubresource 'e

definition NewKubeVirtClient ::
  "(('g, 's) rest_config \<Rightarrow> 'e + 'd) \<Rightarrow> (('g, 's) rest_config \<Rightarrow> 'e + 'r) \<Rightarrow> 'g \<Rightarrow> 's
    \<Rightarrow> ('g, 's) rest_config option \<Rightarrow> 'e client_error + ('g, 's, 'd, 'r) kubevirt_clients" where
  "NewKubeVirtClient newDynamic restClientFor metaVersion serializer restConfig =
     (case restConfig of
        None \<Rightarrow> Inl ConfigRequired
      | Some cfg \<Rightarrow>
         (case newDynamic cfg of
            Inl err \<Rightarrow> Inl (BuildDynamic err)
          | Inr dynamicClient \<Rightarrow>
              let subresourceConfig = cfg\<lparr>APIPath := ''/apis'', GroupVersion := Some metaVersion,
                    NegotiatedSerializer := Some serializer\<rparr> in
              case restClientFor subresourceConfig of
                Inl err \<Rightarrow> Inl (BuildSubresource err)
              | Inr restClient \<Rightarrow> Inr \<lparr>kcConfig = cfg, kcDynamic = dynamicClient, kcRest = restClient\<rparr>))"

text \<open>
  The endpoint of the VNC stream, and the wrapping of a failed upgrade: its status, and its text
  with at most 1024 bytes of the body.
\<close>

datatype vnc_url_error = NoHost | ParseHost | UnsupportedScheme string

definition vncURL :: "netlib \<Rightarrow> string \<Rightarrow> string \<Rightarrow> string \<Rightarrow> vnc_url_error + url" where
  "vncURL lib host namespace name =
     (let endpoint = (\<lambda>u. u\<lparr>urlPath := vmiSubresourcePath namespace name [''vnc''],
                              RawQuery := ''preserveSession=true''\<rparr>) in
      if TrimSpace host = '''' then Inl NoHost
      else (case urlParse lib host of
          None \<Rightarrow> Inl ParseHost
        | Some parsed \<Rightarrow>
            if Scheme parsed = ''https'' \<or> Scheme parsed = ''wss'' then Inr (endpoint (parsed\<lparr>Scheme := ''wss''\<rparr>))
            else if Scheme parsed = ''http'' \<or> Scheme parsed = ''ws'' then Inr (endpoint (parsed\<lparr>Scheme := ''ws''\<rparr>))
            else if Scheme parsed = '''' then
              (case urlParse lib (''wss://'' @ host) of
                 None \<Rightarrow> Inl ParseHost
               | Some parsed' \<Rightarrow> Inr (endpoint parsed'))
            else Inl (UnsupportedScheme (Scheme parsed))))"

record upgrade_response =
  upgradeStatusCode :: int
  upgradeStatus :: string
  upgradeBody :: "string option"

definition enrichVNCDialError :: "string \<Rightarrow> upgrade_response \<Rightarrow> string" where
  "enrichVNCDialError cause response =
     (let excerpt = (case upgradeBody response of
          None \<Rightarrow> ''''
        | Some body \<Rightarrow> TrimSpace (take 1024 body))
      in if excerpt = '''' then cause @ '' ('' @ upgradeStatus response @ '')''
         else cause @ '' ('' @ upgradeStatus response @ '': '' @ excerpt @ '')'')"

record 'e vncOpenError =
  statusCode :: int
  openErr :: 'e
  openText :: string

definition openFailure :: "('e \<Rightarrow> string) \<Rightarrow> 'e \<Rightarrow> upgrade_response option \<Rightarrow> 'e vncOpenError" where
  "openFailure errorText roundTripErr response =
     (case response of
        None \<Rightarrow> \<lparr>statusCode = 0, openErr = roundTripErr, openText = errorText roundTripErr\<rparr>
      | Some resp \<Rightarrow> \<lparr>statusCode = upgradeStatusCode resp, openErr = roundTripErr,
          openText = enrichVNCDialError (errorText roundTripErr) resp\<rparr>)"

section \<open>Websockets as byte streams\<close>

abbreviation BinaryMessage :: int where "BinaryMessage \<equiv> 2"
abbreviation CloseNormalClosure :: int where "CloseNormalClosure \<equiv> 1000"
abbreviation CloseGoingAway :: int where "CloseGoingAway \<equiv> 1001"

text \<open>
  A connection: the next message (its type, or the error that ends the connection), a read of at
  most \<open>n\<close> bytes of the message at hand (the bytes and an error), and a write of one message.
\<close>

record ('c, 'e) wsconn =
  NextReader :: "'c \<Rightarrow> ('e + int) \<times> 'c"
  ReadCurrent :: "nat \<Rightarrow> 'c \<Rightarrow> (string \<times> 'e option) \<times> 'c"
  WriteMessage :: "int \<Rightarrow> string \<Rightarrow> 'c \<Rightarrow> 'e option \<times> 'c"

record 'e stream_errors =
  ioEOF :: 'e
  IsEOF :: "'e \<Rightarrow> bool"
  AsCloseError :: "'e \<Rightarrow> int option"
  ErrShortWrite :: 'e
  errInvalidWrite :: 'e

definition closeAsEOF :: "'e stream_errors \<Rightarrow> 'e \<Rightarrow> 'e" where
  "closeAsEOF lib err =
     (case AsCloseError lib err of
        None \<Rightarrow> err
      | Some c \<Rightarrow> if c = CloseNormalClosure \<or> c = CloseGoingAway then ioEOF lib else err)"

text \<open>
  \<open>Read\<close> of \<^verbatim>\<open>binaryWebSocketReader\<close>: the flag says that there is a message at hand. Whether the
  loop ends is up to the connection, so not ending is the value \<^const>\<open>None\<close>.
\<close>

partial_function (option) readLoop ::
  "('c, 'e) wsconn \<Rightarrow> 'e stream_errors \<Rightarrow> nat \<Rightarrow> 'c \<Rightarrow> bool \<Rightarrow> ((string \<times> 'e option) \<times> 'c \<times> bool) option" where
  "readLoop conn lib n c current =
     (if \<not> current
      then (case NextReader conn c of
          (Inl err, c') \<Rightarrow> Some (('''', Some (closeAsEOF lib err)), c', False)
        | (Inr messageType, c') \<Rightarrow>
            if messageType \<noteq> BinaryMessage then readLoop conn lib n c' False
            else readLoop conn lib n c' True)
      else (case ReadCurrent conn n c of
          ((bytes, None), c') \<Rightarrow> Some ((bytes, None), c', True)
        | ((bytes, Some err), c') \<Rightarrow>
            if IsEOF lib err
            then (if 0 < length bytes then Some ((bytes, None), c', False)
                  else readLoop conn lib n c' False)
            else Some ((bytes, Some (closeAsEOF lib err)), c', True)))"

definition binaryWrite :: "('c, 'e) wsconn \<Rightarrow> string \<Rightarrow> 'c \<Rightarrow> (int \<times> 'e option) \<times> 'c" where
  "binaryWrite conn payload c =
     (case WriteMessage conn BinaryMessage payload c of
        (Some err, c') \<Rightarrow> ((0, Some err), c')
      | (None, c') \<Rightarrow> ((int (length payload), None), c'))"

text \<open>\<^verbatim>\<open>io.Copy\<close>, with the buffer of the standard library, from such a reader to such a writer.\<close>

abbreviation copyBuffer :: nat where "copyBuffer \<equiv> 32768"

definition writeChunk ::
  "('d, 'e) wsconn \<Rightarrow> 'e stream_errors \<Rightarrow> string \<Rightarrow> 'd \<Rightarrow> 'e option \<times> 'd" where
  "writeChunk dst lib bytes d =
     (if bytes = [] then (None, d)
      else (case binaryWrite dst bytes d of
          ((nw, ew), d') \<Rightarrow>
            (let invalid = (nw < 0 \<or> int (length bytes) < nw);
                 nw' = (if invalid then 0 else nw);
                 ew' = (if invalid \<and> ew = None then Some (errInvalidWrite lib) else ew)
             in if ew' \<noteq> None then (ew', d')
                else if int (length bytes) \<noteq> nw' then (Some (ErrShortWrite lib), d')
                else (None, d'))))"

partial_function (option) copyLoop ::
  "('c, 'e) wsconn \<Rightarrow> ('d, 'e) wsconn \<Rightarrow> 'e stream_errors \<Rightarrow> 'c \<Rightarrow> bool \<Rightarrow> 'd \<Rightarrow> ('e option \<times> 'c \<times> 'd) option" where
  "copyLoop src dst lib c current d =
     Option.bind (readLoop src lib copyBuffer c current) (\<lambda>((bytes, er), c', current').
       case writeChunk dst lib bytes d of
         (Some err, d') \<Rightarrow> Some (Some err, c', d')
       | (None, d') \<Rightarrow>
          (case er of
             None \<Rightarrow> copyLoop src dst lib c' current' d'
           | Some err \<Rightarrow> Some (if err = ioEOF lib then None else Some err, c', d')))"

text \<open>
  What the library documents of a connection whose peer sends the messages \<open>pending c\<close> after the
  unread part \<open>rest c\<close> of the message at hand, and then ends it with the error \<open>final c\<close>, possibly
  inside the last message (\<open>cutoff c\<close>): \<^verbatim>\<open>NextReader\<close> gives the messages in order and then the error; a read
  into a non-empty buffer gives some of the unread bytes, and the end of the message or the error
  only at its end.
\<close>

definition websocket_law ::
  "('c, 'e) wsconn \<Rightarrow> 'e stream_errors \<Rightarrow> ('c \<Rightarrow> (int \<times> string) list) \<Rightarrow> ('c \<Rightarrow> string) \<Rightarrow> ('c \<Rightarrow> 'e)
    \<Rightarrow> ('c \<Rightarrow> bool) \<Rightarrow> bool" where
  "websocket_law conn lib pending rest final cutoff \<longleftrightarrow>
     IsEOF lib (ioEOF lib) \<and>
     (\<forall>c. cutoff c \<longrightarrow> \<not> IsEOF lib (final c)) \<and>
     (\<forall>c. pending c = [] \<longrightarrow>
        (\<exists>c'. NextReader conn c = (Inl (final c), c') \<and> pending c' = [] \<and> final c' = final c)) \<and>
     (\<forall>c t p ms. pending c = (t, p) # ms \<longrightarrow>
        (\<exists>c'. NextReader conn c = (Inr t, c') \<and> pending c' = ms \<and> rest c' = p \<and> final c' = final c)) \<and>
     (\<forall>n c. 0 < n \<longrightarrow>
        (\<exists>k e c'. ReadCurrent conn n c = ((take k (rest c), e), c') \<and> k \<le> n \<and>
           rest c' = drop k (rest c) \<and> pending c' = pending c \<and> final c' = final c \<and>
           (e = None \<and> 0 < k \<and> rest c \<noteq> []
            \<or> e = Some (ioEOF lib) \<and> length (rest c) \<le> k
            \<or> e = Some (final c) \<and> length (rest c) \<le> k \<and> cutoff c \<and> pending c = [])))"

text \<open>The bytes a reader still has to deliver: those of the binary messages, in order.\<close>

definition stream_of :: "('c \<Rightarrow> (int \<times> string) list) \<Rightarrow> ('c \<Rightarrow> string) \<Rightarrow> 'c \<Rightarrow> bool \<Rightarrow> string" where
  "stream_of pending rest c current =
     (if current then rest c else []) @
     concat (map snd (filter (\<lambda>m. fst m = BinaryMessage) (pending c)))"

lemma read_step:
  assumes "websocket_law conn lib pending rest final cutoff" "0 < n"
  obtains k e c' where "ReadCurrent conn n c = ((take k (rest c), e), c')" "k \<le> n"
    "rest c' = drop k (rest c)" "pending c' = pending c" "final c' = final c"
    "e = None \<and> 0 < k \<and> rest c \<noteq> [] \<or> e = Some (ioEOF lib) \<and> length (rest c) \<le> k
     \<or> e = Some (final c) \<and> length (rest c) \<le> k \<and> cutoff c \<and> pending c = []"
  using assms unfolding websocket_law_def by blast

lemma next_step:
  assumes "websocket_law conn lib pending rest final cutoff"
  shows "pending c = [] \<Longrightarrow>
      \<exists>c'. NextReader conn c = (Inl (final c), c') \<and> pending c' = [] \<and> final c' = final c"
    and "pending c = (t, p) # ms \<Longrightarrow>
      \<exists>c'. NextReader conn c = (Inr t, c') \<and> pending c' = ms \<and> rest c' = p \<and> final c' = final c"
  using assms unfolding websocket_law_def by blast+

text \<open>What a \<open>Read\<close> of at most \<open>n\<close> bytes gives: the next bytes of the stream, or none and the end of the connection.\<close>

definition delivered ::
  "'e stream_errors \<Rightarrow> ('c \<Rightarrow> (int \<times> string) list) \<Rightarrow> ('c \<Rightarrow> string) \<Rightarrow> ('c \<Rightarrow> 'e) \<Rightarrow> nat \<Rightarrow> 'c \<Rightarrow> bool
     \<Rightarrow> string \<Rightarrow> 'e option \<Rightarrow> 'c \<Rightarrow> bool \<Rightarrow> bool" where
  "delivered lib pending rest final n c current bytes e c' current' \<longleftrightarrow>
     stream_of pending rest c current = bytes @ stream_of pending rest c' current' \<and>
     length bytes \<le> n \<and> final c' = final c \<and> (e = None \<longrightarrow> bytes \<noteq> []) \<and>
     (\<forall>err. e = Some err \<longrightarrow> err = closeAsEOF lib (final c) \<and> stream_of pending rest c' current' = [])"

text \<open>With no message at hand the loop turns to the next one, if there is one.\<close>

lemma readLoop_next:
  assumes law: "websocket_law conn lib pending rest final cutoff"
  shows "(\<exists>c'. readLoop conn lib n c False = Some (([], Some (closeAsEOF lib (final c))), c', False) \<and>
      delivered lib pending rest final n c False [] (Some (closeAsEOF lib (final c))) c' False) \<or>
    (\<exists>c' current'. readLoop conn lib n c False = readLoop conn lib n c' current' \<and> final c' = final c \<and>
      length (pending c') < length (pending c) \<and> stream_of pending rest c False = stream_of pending rest c' current')"
proof (cases "pending c")
  case Nil
  with next_step(1) [OF law, of c] obtain c' where "NextReader conn c = (Inl (final c), c')"
      "pending c' = []" "final c' = final c" by auto
  with Nil show ?thesis by (subst readLoop.simps) (auto simp: stream_of_def delivered_def)
next
  case (Cons m ms)
  obtain t p where m: "m = (t, p)" by fastforce
  with next_step(2) [OF law, of c t p ms] Cons obtain c' where nr: "NextReader conn c = (Inr t, c')"
      and c': "pending c' = ms" "rest c' = p" "final c' = final c" by auto
  have "readLoop conn lib n c False = readLoop conn lib n c' (t = BinaryMessage)"
    using nr by (subst readLoop.simps) simp
  moreover have "stream_of pending rest c False = stream_of pending rest c' (t = BinaryMessage)"
    using Cons c' m by (simp add: stream_of_def)
  moreover have "length (pending c') < length (pending c)" using Cons c' by simp
  ultimately show ?thesis using c'(3) by blast
qed

text \<open>With a message at hand the loop delivers bytes of it, or leaves it when it is used up.\<close>

lemma readLoop_current:
  assumes law: "websocket_law conn lib pending rest final cutoff" and n: "0 < n"
  shows "(\<exists>bytes e c' current'. readLoop conn lib n c True = Some ((bytes, e), c', current') \<and>
      delivered lib pending rest final n c True bytes e c' current') \<or>
    (\<exists>c'. readLoop conn lib n c True = readLoop conn lib n c' False \<and> final c' = final c \<and> pending c' = pending c \<and>
      stream_of pending rest c True = stream_of pending rest c' False)"
proof -
  have eof: "IsEOF lib (ioEOF lib)" and cutoffEOF: "\<And>c. cutoff c \<Longrightarrow> \<not> IsEOF lib (final c)"
    using law unfolding websocket_law_def by blast+
  obtain k e c' where rd: "ReadCurrent conn n c = ((take k (rest c), e), c')" "k \<le> n"
    "rest c' = drop k (rest c)" "pending c' = pending c" "final c' = final c"
    and e: "e = None \<and> 0 < k \<and> rest c \<noteq> [] \<or> e = Some (ioEOF lib) \<and> length (rest c) \<le> k
      \<or> e = Some (final c) \<and> length (rest c) \<le> k \<and> cutoff c \<and> pending c = []"
    using read_step [OF law n, of c] by metis
  from e consider (more) "e = None" "0 < k" "rest c \<noteq> []"
    | (ended) "e = Some (ioEOF lib)" "length (rest c) \<le> k" "rest c \<noteq> []"
    | (skip) "e = Some (ioEOF lib)" "rest c = []"
    | (broken) "e = Some (final c)" "length (rest c) \<le> k" "cutoff c" "pending c = []"
    by auto
  then show ?thesis
  proof cases
    case more
    then have "readLoop conn lib n c True = Some ((take k (rest c), None), c', True)"
      using rd by (subst readLoop.simps) simp
    moreover have "delivered lib pending rest final n c True (take k (rest c)) None c' True"
      using more rd by (simp add: delivered_def stream_of_def flip: append.assoc)
    ultimately show ?thesis by blast
  next
    case ended
    then have "readLoop conn lib n c True = Some ((rest c, None), c', False)"
      using rd eof by (subst readLoop.simps) simp
    moreover have "delivered lib pending rest final n c True (rest c) None c' False"
      using ended rd by (simp add: delivered_def stream_of_def)
    ultimately show ?thesis by blast
  next
    case skip
    then have "readLoop conn lib n c True = readLoop conn lib n c' False"
      using rd eof by (subst readLoop.simps) simp
    then show ?thesis using skip rd by (auto simp: stream_of_def)
  next
    case broken
    then have "readLoop conn lib n c True = Some ((rest c, Some (closeAsEOF lib (final c))), c', True)"
      using rd cutoffEOF by (subst readLoop.simps) simp
    moreover have "delivered lib pending rest final n c True (rest c) (Some (closeAsEOF lib (final c))) c' True"
      using broken rd by (simp add: delivered_def stream_of_def)
    ultimately show ?thesis by blast
  qed
qed

text \<open>So one \<open>Read\<close> ends, and it takes the next bytes of the stream.\<close>

lemma readLoop_delivers:
  assumes law: "websocket_law conn lib pending rest final cutoff" and n: "0 < n"
  shows "\<exists>bytes e c' current'. readLoop conn lib n c current = Some ((bytes, e), c', current') \<and>
    delivered lib pending rest final n c current bytes e c' current'"
proof (induction "2 * length (pending c) + of_bool current" arbitrary: c current rule: less_induct)
  case less
  have skip: ?case
    if "readLoop conn lib n c current = readLoop conn lib n c1 current1" "final c1 = final c"
      "stream_of pending rest c current = stream_of pending rest c1 current1"
      "2 * length (pending c1) + of_bool current1 < 2 * length (pending c) + (of_bool current :: nat)" for c1 current1
    using less [OF that(4)] that(1-3) by (simp add: delivered_def)
  show ?case
  proof (cases current)
    case True
    then show ?thesis using readLoop_current [OF law n, of c] skip [of _ False] by fastforce
  next
    case False
    then show ?thesis
      using readLoop_next [OF law, of n c]
      by (elim disjE exE conjE) (fastforce, rule skip, simp_all, linarith?)
  qed
qed

text \<open>
  The receiving connection: a write that succeeds adds one message to what its peer received, a
  write that fails adds none.
\<close>

definition sink_law :: "('d, 'e) wsconn \<Rightarrow> ('d \<Rightarrow> (int \<times> string) list) \<Rightarrow> bool" where
  "sink_law conn received \<longleftrightarrow>
     (\<forall>t p d. case WriteMessage conn t p d of
        (None, d') \<Rightarrow> received d' = received d @ [(t, p)]
      | (Some err, d') \<Rightarrow> received d' = received d)"

lemma writeChunk_cases:
  assumes "sink_law dst received"
  obtains "bytes = []" "writeChunk dst lib bytes d = (None, d)"
  | d' where "bytes \<noteq> []" "writeChunk dst lib bytes d = (None, d')"
      "received d' = received d @ [(BinaryMessage, bytes)]"
  | d' err where "bytes \<noteq> []" "writeChunk dst lib bytes d = (Some err, d')" "received d' = received d"
      "fst (WriteMessage dst BinaryMessage bytes d) \<noteq> None"
proof -
  obtain e d' where w: "WriteMessage dst BinaryMessage bytes d = (e, d')" by fastforce
  have sends: "case WriteMessage dst BinaryMessage bytes d of
        (None, d') \<Rightarrow> received d' = received d @ [(BinaryMessage, bytes)]
      | (Some err, d') \<Rightarrow> received d' = received d"
    using assms by (simp only: sink_law_def)
  show thesis
  proof (cases "bytes = []")
    case True
    then show ?thesis using that(1) by (simp add: writeChunk_def)
  next
    case bytes: False
    show ?thesis
    proof (cases e)
      case None
      with w sends bytes show ?thesis
        using that(2) [of d'] by (simp add: writeChunk_def binaryWrite_def)
    next
      case (Some err)
      with w sends bytes show ?thesis
        using that(3) [of err d'] by (simp add: writeChunk_def binaryWrite_def)
    qed
  qed
qed

text \<open>
  The messages a copy has written when it ends, and how it ends: a prefix of the stream, all of it
  after a clean end, and all of it with the peer's own end when no write fails.
\<close>

definition copied ::
  "('d, 'e) wsconn \<Rightarrow> 'e stream_errors \<Rightarrow> ('d \<Rightarrow> (int \<times> string) list) \<Rightarrow> 'd \<Rightarrow> string \<Rightarrow> 'e \<Rightarrow> 'e option \<Rightarrow> 'd \<Rightarrow> string list \<Rightarrow> bool" where
  "copied dst lib received d pendingBytes final result d' ps \<longleftrightarrow>
     received d' = received d @ map (Pair BinaryMessage) ps \<and>
     (\<forall>p \<in> set ps. p \<noteq> [] \<and> length p \<le> copyBuffer) \<and>
     prefix (concat ps) pendingBytes \<and>
     (result = None \<longrightarrow> concat ps = pendingBytes \<and> closeAsEOF lib final = ioEOF lib) \<and>
     ((\<forall>p d. fst (WriteMessage dst BinaryMessage p d) = None) \<longrightarrow>
        concat ps = pendingBytes \<and>
        result = (if closeAsEOF lib final = ioEOF lib then None else Some (closeAsEOF lib final)))"

lemma copied_Cons:
  assumes "copied dst lib received dm left final result d' ps" "received dm = received d @ [(BinaryMessage, bytes)]"
    "bytes \<noteq> []" "length bytes \<le> copyBuffer"
  shows "copied dst lib received d (bytes @ left) final result d' (bytes # ps)"
proof -
  note c = assms(1) [unfolded copied_def]
  show ?thesis
    unfolding copied_def
  proof (intro conjI impI)
    show "received d' = received d @ map (Pair BinaryMessage) (bytes # ps)" using c [THEN conjunct1] assms(2) by simp
    show "\<forall>p \<in> set (bytes # ps). p \<noteq> [] \<and> length p \<le> copyBuffer" using c assms(3,4) by (metis set_ConsD)
    show "prefix (concat (bytes # ps)) (bytes @ left)" using c by (metis concat.simps(2) same_prefix_prefix)
  qed (use c in \<open>metis concat.simps(2)\<close>)+
qed

lemma copied_end:
  "copied dst lib received d [] final (if closeAsEOF lib final = ioEOF lib then None else Some (closeAsEOF lib final)) d []"
  by (simp add: copied_def)

text \<open>One round of the loop: a read, a write, and the end or the next round.\<close>

lemma copyLoop_round:
  assumes law: "websocket_law src lib pending rest final cutoff" and sink: "sink_law dst received"
  shows "(\<exists>result c' d' ps. copyLoop src dst lib c current d = Some (result, c', d') \<and>
      copied dst lib received d (stream_of pending rest c current) (final c) result d' ps) \<or>
    (\<exists>bytes c1 current1 d1. copyLoop src dst lib c current d = copyLoop src dst lib c1 current1 d1 \<and>
      bytes \<noteq> [] \<and> length bytes \<le> copyBuffer \<and> received d1 = received d @ [(BinaryMessage, bytes)] \<and>
      stream_of pending rest c current = bytes @ stream_of pending rest c1 current1 \<and> final c1 = final c)"
proof -
  obtain bytes e c1 current1 where rd: "readLoop src lib copyBuffer c current = Some ((bytes, e), c1, current1)"
    and dlv: "delivered lib pending rest final copyBuffer c current bytes e c1 current1"
    using readLoop_delivers [OF law, of copyBuffer c current] by auto
  have unroll: "copyLoop src dst lib c current d =
      (case writeChunk dst lib bytes d of
         (Some err, d') \<Rightarrow> Some (Some err, c1, d')
       | (None, d') \<Rightarrow>
          (case e of
             None \<Rightarrow> copyLoop src dst lib c1 current1 d'
           | Some err \<Rightarrow> Some (if err = ioEOF lib then None else Some err, c1, d')))"
    by (subst copyLoop.simps) (simp add: rd)
  show ?thesis
  proof (rule writeChunk_cases [OF sink, of bytes lib d])
    assume "bytes = []" "writeChunk dst lib bytes d = (None, d)"
    then show ?thesis using unroll dlv copied_end [of dst lib received d "final c"] by (auto simp: delivered_def)
  next
    fix d' err
    assume "writeChunk dst lib bytes d = (Some err, d')" "received d' = received d"
      "fst (WriteMessage dst BinaryMessage bytes d) \<noteq> None"
    then show ?thesis using unroll by (intro disjI1 exI [of _ "Some err"] exI [of _ c1] exI [of _ d'] exI [of _ "[]"]) (auto simp: copied_def)
  next
    fix d1
    assume w: "bytes \<noteq> []" "writeChunk dst lib bytes d = (None, d1)" "received d1 = received d @ [(BinaryMessage, bytes)]"
    note glue = copied_Cons [where received = received and d = d and dm = d1, OF _ w(3,1)]
    show ?thesis
    proof (cases e)
      case None
      then have "copyLoop src dst lib c current d = copyLoop src dst lib c1 current1 d1" using unroll w by simp
      then show ?thesis using None w dlv by (intro disjI2) (fastforce simp: delivered_def)
    next
      case (Some err)
      then show ?thesis
        using unroll w dlv glue [OF copied_end, of dst lib "final c"]
        by (intro disjI1 exI [of _ "if err = ioEOF lib then None else Some err"] exI [of _ c1] exI [of _ d1] exI [of _ "[bytes]"])
          (simp add: delivered_def split: if_splits)
    qed
  qed
qed

lemma copyLoop_copies:
  assumes law: "websocket_law src lib pending rest final cutoff" and sink: "sink_law dst received"
  shows "\<exists>result c' d' ps. copyLoop src dst lib c current d = Some (result, c', d') \<and>
    copied dst lib received d (stream_of pending rest c current) (final c) result d' ps"
proof (induction "length (stream_of pending rest c current)" arbitrary: c current d rule: less_induct)
  case less
  show ?case
    using copyLoop_round [OF law sink, of c current d]
  proof (elim disjE exE conjE)
    fix bytes c1 current1 d1
    assume same: "copyLoop src dst lib c current d = copyLoop src dst lib c1 current1 d1"
      and bytes: "bytes \<noteq> []" "length bytes \<le> copyBuffer" "received d1 = received d @ [(BinaryMessage, bytes)]"
      and stream: "stream_of pending rest c current = bytes @ stream_of pending rest c1 current1" "final c1 = final c"
    have "length (stream_of pending rest c1 current1) < length (stream_of pending rest c current)"
      using stream bytes by simp
    from less [OF this, of d1] obtain result c' d' ps where
      "copyLoop src dst lib c1 current1 d1 = Some (result, c', d')"
      "copied dst lib received d1 (stream_of pending rest c1 current1) (final c) result d' ps"
      unfolding stream(2) by blast
    with copied_Cons [OF this(2) bytes(3,1,2)] show ?thesis unfolding same stream(1) by blast
  qed blast
qed

text \<open>
  C34. Each direction of the console relay ends, and it moves exactly the peer's byte stream. For
  any connection that keeps to the library's contract, with binary and other messages of any
  length, empty ones and a last one that is cut off included, \<^verbatim>\<open>io.Copy\<close> over the websocket
  reader returns. What it wrote are binary messages of 1 to 32768 bytes whose concatenation is a
  prefix of the bytes of the binary messages in their order. If it returns without an error then
  all of them were written and the peer closed the connection in an orderly way (or ended it with
  EOF); and if no write failed, all of them were written and the result is the error that ended
  the connection, with an orderly close, and only that, turned into a clean end.
\<close>

theorem console_bytes_copied:
  assumes "websocket_law src lib pending rest final cutoff" and "sink_law dst received"
  shows "\<exists>result c' d' ps. copyLoop src dst lib c current d = Some (result, c', d') \<and>
    received d' = received d @ map (Pair BinaryMessage) ps \<and>
    (\<forall>p \<in> set ps. 0 < length p \<and> length p \<le> 32768) \<and>
    prefix (concat ps) (stream_of pending rest c current) \<and>
    (result = None \<longrightarrow> concat ps = stream_of pending rest c current \<and>
       (final c = ioEOF lib \<or> AsCloseError lib (final c) \<in> {Some 1000, Some 1001})) \<and>
    ((\<forall>p d. fst (WriteMessage dst BinaryMessage p d) = None) \<longrightarrow>
       concat ps = stream_of pending rest c current \<and>
       result = (if final c = ioEOF lib \<or> AsCloseError lib (final c) \<in> {Some 1000, Some 1001}
                 then None else Some (final c)))"
proof -
  let ?orderly = "final c = ioEOF lib \<or> AsCloseError lib (final c) \<in> {Some 1000, Some 1001}"
  have orderly: "closeAsEOF lib (final c) = ioEOF lib \<longleftrightarrow> ?orderly"
    by (auto simp: closeAsEOF_def split: option.splits)
  have kept: "closeAsEOF lib (final c) \<noteq> ioEOF lib \<Longrightarrow> closeAsEOF lib (final c) = final c"
    by (auto simp: closeAsEOF_def split: option.splits if_splits)
  then have same: "(if ?orderly then None else Some (closeAsEOF lib (final c))) =
      (if ?orderly then None else Some (final c))"
    using orderly by auto
  from copyLoop_copies [OF assms, of c current d] obtain result c' d' ps where
    run: "copyLoop src dst lib c current d = Some (result, c', d')"
    and cop: "copied dst lib received d (stream_of pending rest c current) (final c) result d' ps"
    by blast
  have "\<forall>p \<in> set ps. 0 < length p \<and> length p \<le> 32768"
    using cop by (simp add: copied_def)
  with run cop show ?thesis
    unfolding copied_def orderly same by blast
qed

text \<open>A connection that plays a script: what its peer sends before a normal close, and what it gets.\<close>

definition scripted_conn :: "((int \<times> string) list \<times> string \<times> (int \<times> string) list, nat) wsconn" where
  "scripted_conn =
     \<lparr>NextReader = (\<lambda>(ms, r, out). case ms of
          [] \<Rightarrow> (Inl 1000, ([], r, out))
        | (t, p) # ms' \<Rightarrow> (Inr t, (ms', p, out))),
      ReadCurrent = (\<lambda>n (ms, r, out).
          if r = [] then (([], Some 0), (ms, r, out)) else ((take n r, None), (ms, drop n r, out))),
      WriteMessage = (\<lambda>t p (ms, r, out). (None, (ms, r, out @ [(t, p)])))\<rparr>"

definition scripted_errors :: "nat stream_errors" where
  "scripted_errors = \<lparr>ioEOF = 0, IsEOF = (\<lambda>e. e = 0),
     AsCloseError = (\<lambda>e. if e = 0 then None else Some (int e)), ErrShortWrite = 1, errInvalidWrite = 2\<rparr>"

lemma scripted_conn_law:
  "websocket_law scripted_conn scripted_errors fst (\<lambda>c. fst (snd c)) (\<lambda>c. 1000) (\<lambda>c. False)"
proof -
  have "\<exists>k e c'. ReadCurrent scripted_conn n c = ((take k (fst (snd c)), e), c') \<and> k \<le> n \<and>
      fst (snd c') = drop k (fst (snd c)) \<and> fst c' = fst c \<and>
      (e = None \<and> 0 < k \<and> fst (snd c) \<noteq> [] \<or> e = Some 0 \<and> length (fst (snd c)) \<le> k)"
    if "0 < n" for n c
    using that by (cases c; cases "fst (snd c) = []") (auto simp: scripted_conn_def intro!: exI [of _ n])
  then show ?thesis
    unfolding websocket_law_def scripted_errors_def
    by (intro conjI allI impI) (auto simp: scripted_conn_def)
qed

lemma scripted_sink_law: "sink_law scripted_conn (\<lambda>d. snd (snd d))"
  by (simp add: sink_law_def scripted_conn_def split: prod.splits)

theorem console_bytes_copied_witness:
  "\<exists>c' d' ps. copyLoop scripted_conn scripted_conn scripted_errors
      ([(1, ''text''), (2, ''RFB ''), (2, ''''), (2, ''003'')], [], []) False ([], [], []) = Some (None, c', d') \<and>
    snd (snd d') = map (Pair 2) ps \<and> concat ps = ''RFB 003''"
  using console_bytes_copied [OF scripted_conn_law scripted_sink_law,
      of "([(1, ''text''), (2, ''RFB ''), (2, ''''), (2, ''003'')], [], [])" False "([], [], [])"]
  by (auto simp: stream_of_def scripted_conn_def scripted_errors_def)

section \<open>The goroutines of the relay\<close>

text \<open>
  \<^verbatim>\<open>relayVNC\<close>: the watcher goroutine, the two copies and the function itself, which share the
  sockets, the \<^verbatim>\<open>failures\<close> channel (capacity 2) and the \<^verbatim>\<open>done\<close> channel. \<open>clientCloses\<close> and
  \<open>upstreamCloses\<close> count the calls of \<^verbatim>\<open>Close\<close>. What a
  copy moves is the subject of the section above; here it matters that it can end at any time, in
  particular once its sockets are closed.
\<close>

record 'e vnc_relay =
  revoked :: bool
  onceDone :: bool
  clientCloses :: nat
  upstreamCloses :: nat
  closeFrames :: nat
  watching :: bool
  doneChClosed :: bool
  inputCopy :: bool
  outputCopy :: bool
  failures :: "'e option list"
  relayResult :: "'e option option"

definition relayBegin :: "'e vnc_relay" where
  "relayBegin = \<lparr>revoked = False, onceDone = False, clientCloses = 0, upstreamCloses = 0, closeFrames = 0,
     watching = True, doneChClosed = False, inputCopy = True, outputCopy = True, failures = [],
     relayResult = None\<rparr>"

definition closeRelay :: "'e vnc_relay \<Rightarrow> 'e vnc_relay" where
  "closeRelay s =
     (if onceDone s then s
      else s\<lparr>onceDone := True, clientCloses := Suc (clientCloses s), upstreamCloses := Suc (upstreamCloses s)\<rparr>)"

datatype relay_action =
    LeaseRevoked      \<comment> \<open>the context of the lease ends\<close>
  | PingSent          \<comment> \<open>the ticker fires and the ping is written\<close>
  | WatcherRevokes | PingFailed | WatcherStops | InputEnds | OutputEnds | RelayReturns

inductive relayVNC :: "'e vnc_relay \<Rightarrow> relay_action \<Rightarrow> 'e vnc_relay \<Rightarrow> bool" where
  leaseRevoked: "relayVNC s LeaseRevoked (s\<lparr>revoked := True\<rparr>)"
| pingSent: "watching s \<Longrightarrow> relayVNC s PingSent s"
| watcherRevokes: "watching s \<Longrightarrow> revoked s \<Longrightarrow>
     relayVNC s WatcherRevokes (closeRelay (s\<lparr>closeFrames := Suc (closeFrames s), watching := False\<rparr>))"
| pingFailed: "watching s \<Longrightarrow> relayVNC s PingFailed (closeRelay (s\<lparr>watching := False\<rparr>))"
| watcherStops: "watching s \<Longrightarrow> doneChClosed s \<Longrightarrow> relayVNC s WatcherStops (s\<lparr>watching := False\<rparr>)"
| inputEnds: "inputCopy s \<Longrightarrow> length (failures s) < 2 \<Longrightarrow>
     relayVNC s InputEnds (s\<lparr>inputCopy := False, failures := failures s @ [err]\<rparr>)"
| outputEnds: "outputCopy s \<Longrightarrow> length (failures s) < 2 \<Longrightarrow>
     relayVNC s OutputEnds (s\<lparr>outputCopy := False, failures := failures s @ [err]\<rparr>)"
| relayReturns: "relayResult s = None \<Longrightarrow> failures s = err # rest \<Longrightarrow>
     relayVNC s RelayReturns
       (closeRelay ((closeRelay (s\<lparr>failures := rest\<rparr>))\<lparr>relayResult := Some err, doneChClosed := True\<rparr>))"

text \<open>The steps that make the relay end; the others wait on the outside.\<close>

definition ending :: "relay_action \<Rightarrow> bool" where
  "ending a \<longleftrightarrow> a \<notin> {LeaseRevoked, PingSent}"

inductive_cases relayVNC_E: "relayVNC s a s'"

definition session_inv :: "'e vnc_relay \<Rightarrow> bool" where
  "session_inv s \<longleftrightarrow>
     clientCloses s = (if onceDone s then 1 else 0) \<and> upstreamCloses s = clientCloses s \<and>
     (closeFrames s = 0 \<or> onceDone s \<and> closeFrames s = 1 \<and> \<not> watching s \<and> revoked s) \<and>
     (doneChClosed s \<longleftrightarrow> relayResult s \<noteq> None) \<and>
     (relayResult s \<noteq> None \<longrightarrow> onceDone s) \<and>
     (\<not> watching s \<longrightarrow> onceDone s) \<and>
     length (failures s) + (if inputCopy s then 1 else 0) + (if outputCopy s then 1 else 0)
       + (if relayResult s = None then 0 else 1) = 2"

lemma session_inv_start: "session_inv relayBegin"
  by (simp add: session_inv_def relayBegin_def)

lemma session_inv_step: "relayVNC s a s' \<Longrightarrow> session_inv s \<Longrightarrow> session_inv s'"
  by (erule relayVNC_E) (auto simp: session_inv_def closeRelay_def split: if_splits)

text \<open>Each ending step uses up one of the four things that keep a relay going.\<close>

definition relay_left :: "'e vnc_relay \<Rightarrow> nat" where
  "relay_left s = (if watching s then 1 else 0) + (if inputCopy s then 1 else 0)
     + (if outputCopy s then 1 else 0) + (if relayResult s = None then 1 else 0)"

lemma ending_step: "relayVNC s a s' \<Longrightarrow> ending a \<Longrightarrow> Suc (relay_left s') = relay_left s"
  by (erule relayVNC_E) (auto simp: ending_def relay_left_def closeRelay_def)

lemma revoked_keeps: "relayVNC s a s' \<Longrightarrow> revoked s \<Longrightarrow> revoked s'"
  by (erule relayVNC_E) (auto simp: closeRelay_def)

text \<open>A revoked relay that has not ended has an ending step to take.\<close>

lemma revoked_progress:
  assumes "session_inv s" "revoked s" "0 < relay_left s"
  shows "\<exists>a s'. relayVNC s a s' \<and> ending a"
proof -
  have "length (failures s) < 2" if "inputCopy s \<or> outputCopy s"
    using assms(1) that by (auto simp: session_inv_def split: if_splits)
  moreover have "failures s \<noteq> []" if "\<not> inputCopy s" "\<not> outputCopy s" "relayResult s = None"
    using assms(1) that by (auto simp: session_inv_def)
  moreover have "watching s \<or> inputCopy s \<or> outputCopy s \<or>
      \<not> inputCopy s \<and> \<not> outputCopy s \<and> relayResult s = None"
    using assms(3) by (auto simp: relay_left_def split: if_splits)
  ultimately consider "watching s" | "inputCopy s" "length (failures s) < 2"
    | "outputCopy s" "length (failures s) < 2" | err rest where "relayResult s = None" "failures s = err # rest"
    by (metis neq_Nil_conv)
  then show ?thesis
  proof cases
    case 1
    have "ending WatcherRevokes" by (simp add: ending_def)
    with watcherRevokes [OF 1 assms(2)] show ?thesis by blast
  next
    case 2
    have "ending InputEnds" by (simp add: ending_def)
    with inputEnds [OF 2] show ?thesis by blast
  next
    case 3
    have "ending OutputEnds" by (simp add: ending_def)
    with outputEnds [OF 3] show ?thesis by blast
  next
    case (4 err rest)
    have "ending RelayReturns" by (simp add: ending_def)
    with relayReturns [OF 4] show ?thesis by blast
  qed
qed

interpretation vnc_session: event_progress relayVNC session_inv ending relay_left revoked
  by unfold_locales (metis session_inv_step, metis revoked_keeps, metis ending_step lessI, metis revoked_progress)


text \<open>A browser session that is revoked: the watcher acts, the copy of the input reports, the relay returns.\<close>

definition revoked_session :: "string vnc_relay" where
  "revoked_session = relayBegin\<lparr>revoked := True\<rparr>"

definition ended_session :: "string vnc_relay" where
  "ended_session = \<lparr>revoked = True, onceDone = True, clientCloses = 1, upstreamCloses = 1, closeFrames = 1,
     watching = False, doneChClosed = True, inputCopy = False, outputCopy = False, failures = [None],
     relayResult = Some (Some ''closed'')\<rparr>"

lemmas relay_Cons = run_Cons [where step = relayVNC]
lemmas relay_Nil = run_Nil [where step = relayVNC]

lemma revoked_session_runs:
  "run relayVNC relayBegin [PingSent, LeaseRevoked] revoked_session"
  "run relayVNC revoked_session [WatcherRevokes, InputEnds, RelayReturns, OutputEnds] ended_session"
  using relay_Cons [OF pingSent relay_Cons [OF leaseRevoked relay_Nil], of "relayBegin :: string vnc_relay"]
    relay_Cons [OF watcherRevokes relay_Cons [OF inputEnds relay_Cons [OF relayReturns
      relay_Cons [OF outputEnds relay_Nil]]], of revoked_session "Some ''closed''" "Some ''closed''" "[]" None]
  by (simp_all add: revoked_session_def ended_session_def relayBegin_def closeRelay_def)


section \<open>The goroutines of the dial\<close>

text \<open>
  \<^verbatim>\<open>dialKubeVirtVNC\<close>: the preparation, which can fail at each call; then the goroutine that runs
  the round trip (\<^verbatim>\<open>vncDialRoundTripper.RoundTrip\<close>) and the caller that selects between the
  connection, the error and the end of its context.
\<close>

record 'e dial_setup =
  tlsConfig :: "'e option"
  httpWrappers :: "'e option"
  newRequestErr :: "'e option"

datatype 'e setup_error = NoConfig | TLSFailed 'e | URLFailed vnc_url_error | WrapFailed 'e | RequestFailed 'e

definition dialPrepare ::
  "netlib \<Rightarrow> string option \<Rightarrow> 'e dial_setup \<Rightarrow> string \<Rightarrow> string \<Rightarrow> 'e setup_error + url" where
  "dialPrepare lib host setup namespace name =
     (case host of
        None \<Rightarrow> Inl NoConfig
      | Some h \<Rightarrow>
         (case tlsConfig setup of
            Some err \<Rightarrow> Inl (TLSFailed err)
          | None \<Rightarrow>
             (case vncURL lib h namespace name of
                Inl err \<Rightarrow> Inl (URLFailed err)
              | Inr target \<Rightarrow>
                 (case httpWrappers setup of
                    Some err \<Rightarrow> Inl (WrapFailed err)
                  | None \<Rightarrow>
                     (case newRequestErr setup of
                        Some err \<Rightarrow> Inl (RequestFailed err)
                      | None \<Rightarrow> Inr target)))))"

datatype 'e dial_error = ContextError ctx_error | EndedEarly | DialFailed "'e vncOpenError"

definition dialFailure :: "ctx_error option \<Rightarrow> bool \<Rightarrow> 'e vncOpenError option \<Rightarrow> 'e dial_error" where
  "dialFailure ctx timedOut dialErr =
     (case ctx of
        Some e \<Rightarrow> ContextError e
      | None \<Rightarrow>
         (case dialErr of
            None \<Rightarrow> EndedEarly
          | Some e \<Rightarrow> if timedOut then ContextError DeadlineExceeded else DialFailed e))"

datatype trip = Dialing | Offering | Holding | TripEnded
datatype socket = NotOpened | Opened | Closed
datatype 'e dial_caller = Selecting | Received | HasStream | Refused "'e dial_error"

record 'e vnc_dial =
  dialCtx :: "ctx_error option"
  trip :: trip
  conn :: socket
  streamClosed :: bool
  errorsFromDial :: "'e vncOpenError option option"
  dialCaller :: "'e dial_caller"

definition dialStart :: "'e vnc_dial" where
  "dialStart = \<lparr>dialCtx = None, trip = Dialing, conn = NotOpened, streamClosed = False,
     errorsFromDial = None, dialCaller = Selecting\<rparr>"

datatype dial_action =
    CtxEnds | StreamCloses | CallerTakes | CallerFails | CallerCancelled | HandOver
  | TripFails | TripConnects | OfferCancelled | HoldEnds

inductive dialStep :: "'e vnc_dial \<Rightarrow> dial_action \<Rightarrow> 'e vnc_dial \<Rightarrow> bool" where
  ctxEnds: "dialCtx s = None \<Longrightarrow> dialStep s CtxEnds (s\<lparr>dialCtx := Some e\<rparr>)"
| tripFails: "trip s = Dialing \<Longrightarrow>
     dialStep s TripFails (s\<lparr>trip := TripEnded, errorsFromDial := Some (Some (openFailure txt err response))\<rparr>)"
| tripConnects: "trip s = Dialing \<Longrightarrow> dialStep s TripConnects (s\<lparr>trip := Offering, conn := Opened\<rparr>)"
| handOver: "trip s = Offering \<Longrightarrow> dialCaller s = Selecting \<Longrightarrow>
     dialStep s HandOver (s\<lparr>trip := Holding, dialCaller := Received\<rparr>)"
| offerCancelled: "trip s = Offering \<Longrightarrow> dialCtx s \<noteq> None \<Longrightarrow>
     dialStep s OfferCancelled (s\<lparr>trip := TripEnded, conn := Closed,
       errorsFromDial := Some (Some (openFailure txt err response))\<rparr>)"
| callerTakes: "dialCaller s = Received \<Longrightarrow> dialCtx s = None \<Longrightarrow>
     dialStep s CallerTakes (s\<lparr>dialCaller := HasStream\<rparr>)"
| callerRefuses: "dialCaller s = Received \<Longrightarrow> dialCtx s = Some e \<Longrightarrow>
     dialStep s CallerTakes (s\<lparr>dialCaller := Refused (ContextError e), streamClosed := True, conn := Closed\<rparr>)"
| callerFails: "dialCaller s = Selecting \<Longrightarrow> errorsFromDial s = Some dialErr \<Longrightarrow>
     dialStep s CallerFails (s\<lparr>dialCaller := Refused (dialFailure (dialCtx s) timedOut dialErr)\<rparr>)"
| callerCancelled: "dialCaller s = Selecting \<Longrightarrow> dialCtx s = Some e \<Longrightarrow>
     dialStep s CallerCancelled (s\<lparr>dialCaller := Refused (ContextError e)\<rparr>)"
| streamCloses: "dialCaller s = HasStream \<Longrightarrow>
     dialStep s StreamCloses (s\<lparr>streamClosed := True, conn := Closed\<rparr>)"
| holdEnds: "trip s = Holding \<Longrightarrow> streamClosed s \<Longrightarrow>
     dialStep s HoldEnds (s\<lparr>trip := TripEnded, conn := Closed, errorsFromDial := Some None\<rparr>)"

inductive_cases dialStep_E: "dialStep s a s'"

text \<open>The steps of the goroutine that runs the round trip.\<close>

definition trip_action :: "dial_action \<Rightarrow> bool" where
  "trip_action a \<longleftrightarrow> a \<in> {TripFails, TripConnects, OfferCancelled, HoldEnds}"

definition dial_inv :: "'e vnc_dial \<Rightarrow> bool" where
  "dial_inv s =
     (case trip s of
        Holding \<Rightarrow> errorsFromDial s = None \<and>
          (case dialCaller s of
             Selecting \<Rightarrow> False
           | Received \<Rightarrow> conn s = Opened \<and> \<not> streamClosed s
           | HasStream \<Rightarrow> conn s = (if streamClosed s then Closed else Opened)
           | Refused e \<Rightarrow> streamClosed s \<and> conn s = Closed \<and> e \<noteq> EndedEarly)
      | TripEnded \<Rightarrow> conn s \<noteq> Opened \<and>
          (case dialCaller s of
             Selecting \<Rightarrow> (case errorsFromDial s of Some (Some e) \<Rightarrow> True | _ \<Rightarrow> False)
           | Received \<Rightarrow> False
           | HasStream \<Rightarrow> streamClosed s \<and> conn s = Closed
           | Refused e \<Rightarrow> e \<noteq> EndedEarly)
      | early \<Rightarrow> conn s = (if early = Dialing then NotOpened else Opened) \<and> errorsFromDial s = None \<and> \<not> streamClosed s \<and>
          (case dialCaller s of
             Selecting \<Rightarrow> True
           | Refused e \<Rightarrow> dialCtx s \<noteq> None \<and> e \<noteq> EndedEarly
           | other \<Rightarrow> False))"

lemma dial_inv_step: "dialStep s a s' \<Longrightarrow> dial_inv s \<Longrightarrow> dial_inv s'"
  by (induction rule: dialStep.induct) (auto simp: dial_inv_def dialFailure_def split: trip.splits dial_caller.splits option.splits if_splits)

lemma dial_inv_start: "dial_inv dialStart"
  by (simp add: dial_inv_def dialStart_def)

text \<open>
  The dial is settled when its caller was refused or has closed the stream it got; the round trip
  then has at most two steps to take.
\<close>

definition dial_settled :: "'e vnc_dial \<Rightarrow> bool" where
  "dial_settled s =
     (case dialCaller s of Refused e \<Rightarrow> True | HasStream \<Rightarrow> streamClosed s | _ \<Rightarrow> False)"

definition trip_left :: "'e vnc_dial \<Rightarrow> nat" where
  "trip_left s = (case trip s of Dialing \<Rightarrow> 2 | Offering \<Rightarrow> 1 | Holding \<Rightarrow> 1 | TripEnded \<Rightarrow> 0)"

lemma dial_settled_step: "dial_settled s \<Longrightarrow> dialStep s a s' \<Longrightarrow> dial_settled s'"
  by (erule dialStep_E) (auto simp: dial_settled_def split: dial_caller.splits)

lemma trip_step: "dialStep s a s' \<Longrightarrow> trip_action a \<Longrightarrow> trip_left s' < trip_left s"
  by (erule dialStep_E) (auto simp: trip_action_def trip_left_def)

lemma trip_progress:
  assumes "dial_inv s" "dial_settled s" "0 < trip_left s"
  shows "\<exists>a s'. dialStep s a s' \<and> trip_action a"
proof -
  have "trip s = Dialing \<or> trip s = Offering \<and> dialCtx s \<noteq> None \<or> trip s = Holding \<and> streamClosed s"
    using assms by (auto simp: dial_inv_def dial_settled_def trip_left_def split: trip.splits dial_caller.splits)
  then show ?thesis
    using tripConnects [of s] offerCancelled [of s] holdEnds [of s] unfolding trip_action_def by blast
qed

interpretation vnc_dial: event_progress dialStep dial_inv trip_action trip_left dial_settled
  by unfold_locales (metis dial_inv_step, metis dial_settled_step, metis trip_step, metis trip_progress)

text \<open>
  C36. Opening the console stream never leaks a connection and never reports an impossible failure.
  However the dial, the hand-over, the cancellation and the closing of the stream interleave: once
  the caller was refused or has closed its stream, at most two steps of the round trip are left, and
  when it can take none of them it has ended and the connection was never opened or is closed;
  while the caller has a stream it has not closed, the connection is open and the round trip still
  holds it. The caller never sees the error for a transport that ended without a connection.
\<close>

theorem vnc_connection_not_leaked:
  assumes "run dialStep dialStart as s"
  shows "dialCaller s \<noteq> Refused EndedEarly \<and>
    (dialCaller s = HasStream \<and> \<not> streamClosed s \<longrightarrow> conn s = Opened \<and> trip s = Holding) \<and>
    ((\<exists>e. dialCaller s = Refused e) \<or> dialCaller s = HasStream \<and> streamClosed s \<longrightarrow>
       (\<forall>bs s'. run dialStep s bs s' \<and> list_all trip_action bs \<longrightarrow> length bs \<le> 2 \<and>
          ((\<nexists>a s''. dialStep s' a s'' \<and> trip_action a) \<longrightarrow> trip s' = TripEnded \<and> conn s' \<noteq> Opened)))"
proof -
  have inv: "dial_inv s" by (rule vnc_dial.run_inv [OF assms dial_inv_start])
  have "length bs \<le> 2 \<and> ((\<nexists>a s''. dialStep s' a s'' \<and> trip_action a) \<longrightarrow> trip s' = TripEnded \<and> conn s' \<noteq> Opened)"
    if "dial_settled s" and bs: "run dialStep s bs s'" "list_all trip_action bs" for bs s'
  proof -
    have inv': "dial_inv s'" by (rule vnc_dial.run_inv [OF bs(1) inv])
    have "trip_left s \<le> 2" by (simp add: trip_left_def split: trip.splits)
    with vnc_dial.ends_run [OF bs(1) inv bs(2)] have "length bs \<le> 2" by linarith
    moreover have "trip s' = TripEnded \<and> conn s' \<noteq> Opened" if "\<nexists>a s''. dialStep s' a s'' \<and> trip_action a"
      using vnc_dial.stuck_ended [OF bs(1) inv \<open>dial_settled s\<close> that] inv'
      by (auto simp: trip_left_def dial_inv_def split: trip.splits)
    ultimately show ?thesis by blast
  qed
  moreover have "dial_settled s" if "(\<exists>e. dialCaller s = Refused e) \<or> dialCaller s = HasStream \<and> streamClosed s"
    using that by (auto simp: dial_settled_def)
  moreover have "dialCaller s \<noteq> Refused EndedEarly"
    "dialCaller s = HasStream \<and> \<not> streamClosed s \<longrightarrow> conn s = Opened \<and> trip s = Holding"
    using inv by (auto simp: dial_inv_def split: trip.splits dial_caller.splits if_splits)
  ultimately show ?thesis by blast
qed

text \<open>A caller that gives up while the connection is being handed over, and the round trip that closes it.\<close>

definition cancelled_dial :: "string vnc_dial" where
  "cancelled_dial = \<lparr>dialCtx = Some Canceled, trip = Offering, conn = Opened, streamClosed = False,
     errorsFromDial = None, dialCaller = Refused (ContextError Canceled)\<rparr>"

definition closed_dial :: "string vnc_dial" where
  "closed_dial = cancelled_dial\<lparr>trip := TripEnded, conn := Closed,
     errorsFromDial := Some (Some (openFailure id ''bad handshake'' None))\<rparr>"

lemmas dial_Cons = run_Cons [where step = dialStep]
lemmas dial_Nil = run_Nil [where step = dialStep]

lemma cancelled_dial_runs:
  "run dialStep dialStart [TripConnects, CtxEnds, CallerCancelled] cancelled_dial"
  "run dialStep cancelled_dial [OfferCancelled] closed_dial"
  using dial_Cons [OF tripConnects dial_Cons [OF ctxEnds dial_Cons [OF callerCancelled dial_Nil]],
      of "dialStart :: string vnc_dial" Canceled Canceled]
    dial_Cons [OF offerCancelled dial_Nil, of cancelled_dial id "''bad handshake''" None]
  by (simp_all add: cancelled_dial_def closed_dial_def dialStart_def)

theorem vnc_connection_not_leaked_witness:
  "trip closed_dial = TripEnded \<and> conn closed_dial \<noteq> Opened \<and> length [OfferCancelled] \<le> (2 :: nat) \<and>
   dialCaller cancelled_dial \<noteq> Refused EndedEarly"
proof -
  have stuck: "\<nexists>a s''. dialStep closed_dial a s'' \<and> trip_action a"
    by (auto simp: closed_dial_def cancelled_dial_def trip_action_def elim: dialStep_E)
  have "dialCaller cancelled_dial = Refused (ContextError Canceled)" "list_all trip_action [OfferCancelled]"
    by (simp_all add: cancelled_dial_def trip_action_def)
  then show ?thesis
    using vnc_connection_not_leaked [OF cancelled_dial_runs(1)] cancelled_dial_runs(2) stuck
    by (metis dial_error.distinct(1) dial_caller.inject)
qed

end
