(* ===== verification/Gateway_Server.thy ===== *)
theory Gateway_Server
  imports Gateway Control_Steps
begin

text \<open>
  The life of the Desktop Gateway process: binding the two listeners and serving them until a
  signal or a failure (\<^verbatim>\<open>internal/desktopgateway/server.go\<close>), and the start of the process
  (\<^verbatim>\<open>cmd/desktop-gateway/main.go\<close>). What the process does to the outside is a list of calls in
  their order; what the handlers did to the registry while the servers ran is the argument
  \<open>served\<close>.
\<close>

datatype 'l gateway_call =
    Bind string
  | CloseListener 'l
  | ServeAgent 'l
  | ServeConsole 'l
  | RevokeAll "nat list"
  | ShutdownAgent
  | ShutdownConsole

datatype 'e serve_error =
    BindAgentFailed 'e
  | BindConsoleFailed 'e
  | ConsoleNotLoopback
  | ServerFailed 'e
  | ShutdownAgentFailed 'e
  | ShutdownConsoleFailed 'e

text \<open>\<open>listen\<close> is \<^verbatim>\<open>net.Listen\<close> on TCP.\<close>

definition Listen ::
  "(string \<Rightarrow> 'e + 'l) \<Rightarrow> Config \<Rightarrow> 'l gateway_call list \<times> ('e serve_error + 'l \<times> 'l)" where
  "Listen listen cfg =
     (case listen (AgentListenAddress cfg) of
        Inl err \<Rightarrow> ([Bind (AgentListenAddress cfg)], Inl (BindAgentFailed err))
      | Inr agent \<Rightarrow>
         (case listen (ConsoleListenAddress cfg) of
            Inl err \<Rightarrow> ([Bind (AgentListenAddress cfg), Bind (ConsoleListenAddress cfg), CloseListener agent],
                        Inl (BindConsoleFailed err))
          | Inr console \<Rightarrow>
              ([Bind (AgentListenAddress cfg), Bind (ConsoleListenAddress cfg)], Inr (agent, console))))"

text \<open>How the serving ends: the first server to return, with its error, or the context.\<close>

datatype 'e serve_end = ServerReturned "'e option" | ContextDone

record 'e serve_world =
  IsServerClosed :: "'e \<Rightarrow> bool"
  serveEnd :: "'e serve_end"
  shutdownAgentErr :: "'e option"
  shutdownConsoleErr :: "'e option"

definition runErr :: "'e serve_world \<Rightarrow> 'e serve_error option" where
  "runErr env =
     (let e0 = (case serveEnd env of
          ServerReturned (Some err) \<Rightarrow> if IsServerClosed env err then None else Some (ServerFailed err)
        | _ \<Rightarrow> None);
          e1 = (case (shutdownAgentErr env, e0) of (Some err, None) \<Rightarrow> Some (ShutdownAgentFailed err) | _ \<Rightarrow> e0)
      in case (shutdownConsoleErr env, e1) of (Some err, None) \<Rightarrow> Some (ShutdownConsoleFailed err) | _ \<Rightarrow> e1)"

definition Serve ::
  "netlib \<Rightarrow> ('l \<Rightarrow> string option) \<Rightarrow> 'e serve_world \<Rightarrow> (controlRegistry \<Rightarrow> controlRegistry)
    \<Rightarrow> gateway \<Rightarrow> 'l \<Rightarrow> 'l \<Rightarrow> controlRegistry
    \<Rightarrow> 'l gateway_call list \<times> 'e serve_error option \<times> controlRegistry" where
  "Serve lib boundIP env served g agentListener consoleListener r =
     (case serveGuard lib (boundIP consoleListener) g of
        None \<Rightarrow> ([], Some ConsoleNotLoopback, r)
      | Some g' \<Rightarrow>
         (let (revoked, r') = revokeAll (served r)
          in ([ServeAgent agentListener, ServeConsole consoleListener, RevokeAll revoked, ShutdownAgent, ShutdownConsole],
              runErr env, r')))"

text \<open>
  \<^verbatim>\<open>main\<close>: the exit status and the calls. The configuration of the Kubernetes client prefers the
  Pod's own credential and looks for a kubeconfig only outside a cluster.
\<close>

definition kubernetesConfig :: "('e \<Rightarrow> bool) \<Rightarrow> 'e + 'k \<Rightarrow> 'e + 'k \<Rightarrow> 'e + 'k" where
  "kubernetesConfig isNotInCluster inCluster deferred =
     (case inCluster of
        Inr cfg \<Rightarrow> Inr cfg
      | Inl err \<Rightarrow> if \<not> isNotInCluster err then Inl err else deferred)"

record ('l, 'e, 'k) process =
  getenv :: "string \<Rightarrow> string"
  restConfig :: "'e + 'k"
  newClient :: "'k \<Rightarrow> 'e option"
  freshBootID :: "'e + string"
  bindTCP :: "string \<Rightarrow> 'e + 'l"
  boundIP :: "'l \<Rightarrow> string option"
  outcome_of :: "'e serve_world"

abbreviation exitConfiguration :: nat where "exitConfiguration \<equiv> 2"

definition gatewayMain ::
  "netlib \<Rightarrow> ('l, 'e, 'k) process \<Rightarrow> (controlRegistry \<Rightarrow> controlRegistry)
    \<Rightarrow> nat \<times> 'l gateway_call list \<times> controlRegistry" where
  "gatewayMain lib p served =
     (case LoadConfig lib (getenv p) of
        Inl err \<Rightarrow> (exitConfiguration, [], newControlRegistry)
      | Inr cfg \<Rightarrow>
         (case restConfig p of
            Inl err \<Rightarrow> (exitConfiguration, [], newControlRegistry)
          | Inr k \<Rightarrow>
             (case (newClient p k, freshBootID p) of
                (None, Inr bootId) \<Rightarrow>
                  (case Listen (bindTCP p) cfg of
                     (calls, Inl err) \<Rightarrow> (exitConfiguration, calls, newControlRegistry)
                   | (calls, Inr (agent, console)) \<Rightarrow>
                      (case Serve lib (boundIP p) (outcome_of p) served (New cfg bootId) agent console newControlRegistry of
                         (calls', err, r) \<Rightarrow> (if err = None then 0 else 1, calls @ calls', r)))
              | _ \<Rightarrow> (exitConfiguration, [], newControlRegistry))))"

text \<open>
  Both listeners are bound before anything is served, a half-bound gateway gives its listener
  back, dev mode is served on a loopback console listener only, and whatever ends the serving,
  the registry is draining before either server is shut down.
\<close>

lemma gatewayMain_serves:
  assumes "gatewayMain lib p served = (exit, calls, r)" and "ServeConsole console \<in> set calls"
  obtains cfg agent where "LoadConfig lib (getenv p) = Inr cfg"
    "bindTCP p (AgentListenAddress cfg) = Inr agent" "bindTCP p (ConsoleListenAddress cfg) = Inr console"
    "calls = [Bind (AgentListenAddress cfg), Bind (ConsoleListenAddress cfg), ServeAgent agent,
       ServeConsole console, RevokeAll (fst (revokeAll (served newControlRegistry))), ShutdownAgent, ShutdownConsole]"
    "cfgConsoleAuthMode cfg = ConsoleAuthDev \<longrightarrow> RequireLoopbackConsoleListener lib (boundIP p console)"
    "r = snd (revokeAll (served newControlRegistry))"
  using assms
  by (auto simp: gatewayMain_def Listen_def Serve_def serveGuard_def New_def
      split: sum.splits option.splits prod.splits if_splits)

lemma gatewayMain_drained:
  assumes "gatewayMain lib p served = (exit, calls, r)" and "ServeConsole console \<in> set calls"
  shows "draining r"
proof -
  obtain cs r' where rv: "revokeAll (served newControlRegistry) = (cs, r')" by fastforce
  from gatewayMain_serves [OF assms] have "r = r'"
    using rv by (metis snd_conv)
  with revokeAll_effect [OF rv] show ?thesis by simp
qed

lemma gatewayMain_listener_returned:
  assumes "gatewayMain lib p served = (exit, calls, r)" and "exit = exitConfiguration"
    and "LoadConfig lib (getenv p) = Inr cfg" and "bindTCP p (AgentListenAddress cfg) = Inr agent"
    and "calls \<noteq> []"
  shows "CloseListener agent \<in> set calls"
  using assms
  by (auto simp: gatewayMain_def Listen_def Serve_def split: sum.splits option.splits prod.splits if_splits)

end
