(* ===== verification/Desktop_Objects.thy ===== *)
theory Desktop_Objects
  imports Network
begin

text \<open>
  The objects of a Personal Desktop: the KubeVirt and CDI objects, which the operator builds and
  reads as untyped trees (\<^verbatim>\<open>internal/desktop/kubevirt.go\<close>, \<^verbatim>\<open>datavolume.go\<close>, \<^verbatim>\<open>vm.go\<close>), the
  Desktop Gateway (\<^verbatim>\<open>gateway.go\<close>), the console publication (\<^verbatim>\<open>ingress.go\<close>) and the plugin
  (\<^verbatim>\<open>extension.go\<close>). The textual form of a resource quantity is the library's and an argument.
\<close>

section \<open>Untyped objects\<close>

record gvk =
  gvkGroup :: string
  gvkVersion :: string
  gvkKind :: string

definition VirtualMachineGVK :: gvk where
  "VirtualMachineGVK = \<lparr>gvkGroup = ''kubevirt.io'', gvkVersion = ''v1'', gvkKind = ''VirtualMachine''\<rparr>"

definition VirtualMachineInstanceGVK :: gvk where
  "VirtualMachineInstanceGVK = \<lparr>gvkGroup = ''kubevirt.io'', gvkVersion = ''v1'', gvkKind = ''VirtualMachineInstance''\<rparr>"

definition DataVolumeGVK :: gvk where
  "DataVolumeGVK = \<lparr>gvkGroup = ''cdi.kubevirt.io'', gvkVersion = ''v1beta1'', gvkKind = ''DataVolume''\<rparr>"

definition RequiredGVKs :: "gvk list" where
  "RequiredGVKs = [VirtualMachineGVK, DataVolumeGVK]"

text \<open>The type and the metadata the operator sets, and every other top-level field.\<close>

record unstructured =
  uGVK :: gvk
  uName :: string
  uNamespace :: string
  uLabels :: "(string \<times> string) list"
  uFields :: "(string, json) gomap"

definition NewObject :: "gvk \<Rightarrow> string \<Rightarrow> string \<Rightarrow> unstructured" where
  "NewObject kind name namespace =
     \<lparr>uGVK = kind, uName = name, uNamespace = namespace, uLabels = [], uFields = []\<rparr>"

text \<open>A missing field, a field of another type on the way and a value that is no string all read as empty.\<close>

fun nestedField :: "(string, json) gomap \<Rightarrow> string list \<Rightarrow> string" where
  "nestedField m [] = ''''"
| "nestedField m [f] = (case mget m f of Some (JString s) \<Rightarrow> s | _ \<Rightarrow> '''')"
| "nestedField m (f # g # fs) = (case mget m f of Some (JObject m') \<Rightarrow> nestedField m' (g # fs) | _ \<Rightarrow> '''')"

definition VMPrintableStatusOf :: "unstructured option \<Rightarrow> string" where
  "VMPrintableStatusOf obj =
     (case obj of None \<Rightarrow> '''' | Some u \<Rightarrow> nestedField (uFields u) [''status'', ''printableStatus''])"

definition DataVolumePhase :: "unstructured option \<Rightarrow> string" where
  "DataVolumePhase obj = (case obj of None \<Rightarrow> '''' | Some u \<Rightarrow> nestedField (uFields u) [''status'', ''phase''])"

definition DataVolumeSucceeded :: "unstructured option \<Rightarrow> bool" where
  "DataVolumeSucceeded obj \<longleftrightarrow> DataVolumePhase obj = ''Succeeded''"

definition SetSpec :: "(string, json) gomap \<Rightarrow> unstructured \<Rightarrow> unstructured" where
  "SetSpec spec u = u\<lparr>uFields := mput ''spec'' (JObject spec) (uFields u)\<rparr>"

definition specOf :: "unstructured option \<Rightarrow> (string, json) gomap" where
  "specOf obj =
     (case obj of
        None \<Rightarrow> []
      | Some u \<Rightarrow> (case mget (uFields u) ''spec'' of Some (JObject spec) \<Rightarrow> spec | _ \<Rightarrow> []))"

definition toAnyMap :: "(string \<times> string) list \<Rightarrow> (string, json) gomap" where
  "toAnyMap m = map (\<lambda>(k, v). (k, JString v)) m"

section \<open>Disks\<close>

definition storageSpec :: "string \<Rightarrow> string option \<Rightarrow> json" where
  "storageSpec sz storageClassName =
     JObject ([(''accessModes'', JArray [JString ''ReadWriteOnce'']),
       (''resources'', JObject [(''requests'', JObject [(''storage'', JString sz)])]),
       (''volumeMode'', JString ''Filesystem'')] @
       (case storageClassName of
          Some cls \<Rightarrow> if cls \<noteq> '''' then [(''storageClassName'', JString cls)] else []
        | None \<Rightarrow> []))"

definition GoldenDataVolumeObject :: "(int \<Rightarrow> string) \<Rightarrow> TypeClawInstance \<Rightarrow> unstructured option" where
  "GoldenDataVolumeObject quantity inst =
     (case spPersonalDesktop (Spec inst) of
        None \<Rightarrow> None
      | Some spec \<Rightarrow>
         (case imgImport (pdImage spec) of
            None \<Rightarrow> None
          | Some imp \<Rightarrow>
              Some (SetSpec
                [(''source'', JObject [(''http'', JObject [(''url'', JString (importURL imp)),
                    (''checksum'', JString (Checksum imp))])]),
                 (''storage'', storageSpec (quantity (GoldenVolumeSize (Some imp))) (importStorageClass imp))]
                ((NewObject DataVolumeGVK (nsGoldenVolume (Names inst)) (nsNamespace (Names inst)))
                   \<lparr>uLabels := DesktopLabels inst\<rparr>))))"

definition RootDataVolumeObject :: "(int \<Rightarrow> string) \<Rightarrow> TypeClawInstance \<Rightarrow> unstructured option" where
  "RootDataVolumeObject quantity inst =
     (case spPersonalDesktop (Spec inst) of
        None \<Rightarrow> None
      | Some spec \<Rightarrow>
          if ExistingDataVolume (pdRootVolume spec) \<noteq> '''' then None
          else Some (SetSpec
            [(''source'', JObject [(''pvc'', JObject [(''name'', JString (nsGoldenVolume (Names inst))),
                (''namespace'', JString (nsNamespace (Names inst)))])]),
             (''storage'', storageSpec (quantity (RootVolumeSize (Some spec))) (rvStorageClass (pdRootVolume spec)))]
            ((NewObject DataVolumeGVK (nsRootVolume (Names inst)) (nsNamespace (Names inst)))
               \<lparr>uLabels := DesktopLabels inst\<rparr>)))"

section \<open>The virtual machine\<close>

definition desktopInterface :: "PersonalDesktopSpec option \<Rightarrow> json" where
  "desktopInterface spec =
     JObject ([(''name'', JString ''default''), (''masquerade'', JObject []),
       (''ports'', JArray [JObject [(''name'', JString ''desktop-agent''), (''protocol'', JString ''TCP''),
          (''port'', JInt GuestAgentPort)]])] @
       (case spec of
          Some s \<Rightarrow> if pdMACAddress s \<noteq> '''' then [(''macAddress'', JString (pdMACAddress s))] else []
        | None \<Rightarrow> []))"

definition namedDisk :: "string \<Rightarrow> string \<Rightarrow> string \<Rightarrow> json" where
  "namedDisk name kind bus = JObject [(''name'', JString name), (kind, JObject [(''bus'', JString bus)])]"

definition diskDevices :: "PersonalDesktopSpec option \<Rightarrow> json list" where
  "diskDevices spec =
     namedDisk ''rootdisk'' ''disk'' ''virtio'' #
     (if OS spec = OSWindows
      then [namedDisk ''virtiocontainerdisk'' ''cdrom'' ''sata'', namedDisk ''sysprep'' ''cdrom'' ''sata'']
      else [namedDisk ''cloudinit'' ''disk'' ''virtio''])"

definition vmVolumes :: "TypeClawInstance \<Rightarrow> json list" where
  "vmVolumes inst =
     (let spec = spPersonalDesktop (Spec inst); names = Names inst;
          named = (\<lambda>s. JObject [(''name'', JString s)]) in
      JObject [(''name'', JString ''rootdisk''), (''dataVolume'', named (nsRootVolume names))] #
      (if OS spec = OSWindows
       then [JObject [(''name'', JString ''virtiocontainerdisk''),
               (''containerDisk'', JObject [(''image'', JString (EffectiveVirtioDisk spec))])],
             JObject [(''name'', JString ''sysprep''),
               (''sysprep'', JObject [(''secret'', named (nsSysprep names))])]]
       else [JObject [(''name'', JString ''cloudinit''),
               (''cloudInitNoCloud'', JObject [(''secretRef'', named (nsCloudInit names)),
                  (''networkDataSecretRef'', named (nsCloudInit names))])]]))"

text \<open>The domain before and after the settings of the guest's platform.\<close>

definition guestDevices :: "PersonalDesktopSpec option \<Rightarrow> (string, json) gomap" where
  "guestDevices spec =
     [(''autoattachGraphicsDevice'', JBool True), (''disks'', JArray (diskDevices spec)),
      (''inputs'', JArray [JObject [(''name'', JString ''tablet''), (''type'', JString ''tablet''), (''bus'', JString ''usb'')]]),
      (''interfaces'', JArray [desktopInterface spec])]"

definition applyGuestPlatform ::
  "PersonalDesktopSpec option \<Rightarrow> (string, json) gomap \<Rightarrow> (string, json) gomap" where
  "applyGuestPlatform spec domain =
     (if OS spec \<noteq> OSWindows then mput ''features'' (JObject [(''acpi'', JObject [])]) domain
      else mput ''clock'' (JObject [(''utc'', JObject []),
             (''timer'', JObject [(''hpet'', JObject [(''present'', JBool False)]),
                (''pit'', JObject [(''tickPolicy'', JString ''delay'')]),
                (''rtc'', JObject [(''tickPolicy'', JString ''catchup'')]), (''hyperv'', JObject [])])])
          (mput ''features'' (JObject [(''acpi'', JObject []), (''apic'', JObject []),
             (''hyperv'', JObject [(''relaxed'', JObject []), (''vapic'', JObject []),
                (''spinlocks'', JObject [(''spinlocks'', JInt 8191)])])])
          (mput ''devices'' (case mget domain ''devices'' of
               Some (JObject devices) \<Rightarrow> JObject (mput ''tpm'' (JObject []) devices)
             | _ \<Rightarrow> JObject [])
          (mput ''firmware'' (JObject [(''bootloader'', JObject [(''efi'', JObject [(''secureBoot'', JBool False)])])])
             domain))))"

definition vmDomain :: "(int \<Rightarrow> string) \<Rightarrow> PersonalDesktopSpec option \<Rightarrow> (string, json) gomap" where
  "vmDomain quantity spec =
     applyGuestPlatform spec
       [(''cpu'', JObject [(''cores'', JInt (CPUCores spec))]), (''devices'', JObject (guestDevices spec)),
        (''machine'', JObject [(''type'', JString ''q35'')]),
        (''resources'', JObject [(''requests'', JObject [(''memory'', JString (quantity (Memory spec)))])])]"

definition VM :: "(int \<Rightarrow> string) \<Rightarrow> TypeClawInstance \<Rightarrow> unstructured" where
  "VM quantity inst =
     (let spec = spPersonalDesktop (Spec inst); names = Names inst;
          templateLabels = mput DomainLabel (nsDesktop names) (DesktopLabels inst);
          selector = (case spec of Some s \<Rightarrow> pdNodeSelector s | None \<Rightarrow> []);
          template = JObject [(''metadata'', JObject [(''labels'', JObject (toAnyMap templateLabels))]),
            (''spec'', JObject ([(''architecture'', JString ''amd64''), (''domain'', JObject (vmDomain quantity spec)),
               (''networks'', JArray [JObject [(''name'', JString ''default''), (''pod'', JObject [])]]),
               (''terminationGracePeriodSeconds'', JInt 90), (''volumes'', JArray (vmVolumes inst))] @
               (if selector \<noteq> [] then [(''nodeSelector'', JObject (toAnyMap selector))] else [])))]
      in SetSpec [(''runStrategy'', JString ''Manual''), (''template'', template)]
           ((NewObject VirtualMachineGVK (nsDesktop names) (nsNamespace names))\<lparr>uLabels := DesktopLabels inst\<rparr>))"

definition AgentService :: "TypeClawInstance \<Rightarrow> service" where
  "AgentService inst =
     \<lparr>svcName = nsAgentService (Names inst), svcNamespace = nsNamespace (Names inst), svcLabels = DesktopLabels inst,
      svcType = ''ClusterIP'', svcSelector = [(DomainLabel, nsDesktop (Names inst))],
      svcPorts = [(''desktop-agent'', GuestAgentPort, PortNumber GuestAgentPort)]\<rparr>"

section \<open>The Desktop Gateway\<close>

definition GatewayImage :: "TypeClawInstance \<Rightarrow> string \<Rightarrow> string" where
  "GatewayImage inst operatorImage =
     (case spPersonalDesktop (Spec inst) of
        None \<Rightarrow> operatorImage
      | Some spec \<Rightarrow>
         (case pdGateway spec of
            None \<Rightarrow> operatorImage
          | Some g \<Rightarrow> if gwImage g \<noteq> '''' then gwImage g else operatorImage))"

definition GatewayServiceAccount :: "TypeClawInstance \<Rightarrow> service_account" where
  "GatewayServiceAccount inst =
     \<lparr>saName = nsGateway (Names inst), saNamespace = nsNamespace (Names inst), saLabels = DesktopLabels inst\<rparr>"

definition GatewayRole :: "TypeClawInstance \<Rightarrow> role" where
  "GatewayRole inst =
     (let desktop = [nsDesktop (Names inst)] in
      \<lparr>roleName = nsGateway (Names inst), roleNamespace = nsNamespace (Names inst), roleLabels = DesktopLabels inst,
       roleRules =
         [\<lparr>prGroups = [''kubevirt.io''], prResources = [''virtualmachines'', ''virtualmachineinstances''],
           prNames = desktop, prVerbs = [''get'']\<rparr>,
          \<lparr>prGroups = [''subresources.kubevirt.io''],
           prResources = [''virtualmachineinstances/vnc'', ''virtualmachineinstances/vnc/screenshot''],
           prNames = desktop, prVerbs = [''get'']\<rparr>,
          \<lparr>prGroups = [''subresources.kubevirt.io''], prResources = [''virtualmachines/start'', ''virtualmachines/stop''],
           prNames = desktop, prVerbs = [''update'']\<rparr>]\<rparr>)"

definition GatewayRoleBinding :: "TypeClawInstance \<Rightarrow> role_binding" where
  "GatewayRoleBinding inst =
     \<lparr>rbName = nsGateway (Names inst), rbNamespace = nsNamespace (Names inst), rbLabels = DesktopLabels inst,
      rbRole = nsGateway (Names inst), rbSubject = (nsGateway (Names inst), nsNamespace (Names inst))\<rparr>"

text \<open>Empty entries are left out of a list joined with commas.\<close>

definition joinNonEmpty :: "string list \<Rightarrow> string" where
  "joinNonEmpty values =
     fold (\<lambda>v joined. if v = '''' then joined
       else (if joined \<noteq> '''' then joined @ '','' else joined) @ v) values ''''"

definition ownerSubject :: "PersonalDesktopSpec option \<Rightarrow> string" where
  "ownerSubject spec = (case spec of None \<Rightarrow> '''' | Some s \<Rightarrow> pdOwnerSubject s)"

definition gatewayEnv :: "TypeClawInstance \<Rightarrow> string \<Rightarrow> env_var list" where
  "gatewayEnv inst consoleURL =
     (let spec = spPersonalDesktop (Spec inst); names = Names inst in
      [EnvValue ''DESKTOP_NAMESPACE'' (nsNamespace names), EnvValue ''DESKTOP_NAME'' (nsDesktop names),
       EnvValue ''DESKTOP_OS'' (GuestOSName spec), EnvValue ''OWNER_ISSUER'' (OwnerIssuer spec),
       EnvValue ''OWNER_SUBJECT'' (ownerSubject spec), EnvValue ''CONSOLE_AUTH_MODE'' ''tailscale'',
       EnvValue ''LISTEN_ADDRESS'' ('':'' @ Itoa GatewayAgentPort),
       EnvValue ''CONSOLE_LISTEN_ADDRESS'' (ConsoleListenAddress spec),
       EnvValue ''AGENT_LEASE_TTL'' (Itoa (EffectiveLeaseTTLSeconds spec) @ ''s''),
       EnvSecretKey ''AGENT_TOKEN'' (nsTokens names) TokenKeyAgent,
       EnvSecretKey ''GUEST_AGENT_TOKEN'' (nsTokens names) TokenKeyGuest] @
      (case TailscaleAccess spec of
         Some access \<Rightarrow> if tsAllowedLogins access \<noteq> []
           then [EnvValue ''TAILSCALE_ALLOWED_LOGINS'' (joinNonEmpty (tsAllowedLogins access))] else []
       | None \<Rightarrow> []) @
      (if consoleURL \<noteq> '''' then [EnvValue ''CONSOLE_URL'' consoleURL] else []))"

definition gatewayContainerPorts :: "TypeClawInstance \<Rightarrow> (string \<times> int) list" where
  "gatewayContainerPorts inst =
     (''agent'', GatewayAgentPort) #
     (if \<not> ConsoleSidecar (spPersonalDesktop (Spec inst)) then [(''console'', GatewayConsolePort)] else [])"

definition gatewayProbe :: probe where
  "gatewayProbe = \<lparr>probePath = ''/healthz'', probePort = PortName ''agent'', probePeriod = 10, probeInitialDelay = 0\<rparr>"

definition gatewayContainer :: "TypeClawInstance \<Rightarrow> string \<Rightarrow> string \<Rightarrow> container" where
  "gatewayContainer inst operatorImage consoleURL =
     \<lparr>ctName = ''gateway'', ctImage = GatewayImage inst operatorImage, ctPullPolicy = ''IfNotPresent'',
      ctCommand = [''/desktop-gateway''], ctArgs = [], ctEnv = gatewayEnv inst consoleURL,
      ctPorts = gatewayContainerPorts inst, ctLiveness = Some gatewayProbe, ctReadiness = Some gatewayProbe,
      ctTerminationPath = '''', ctSecurity = hardened, ctMounts = []\<rparr>"

definition TailscaleImage :: "TypeClawInstance \<Rightarrow> string" where
  "TailscaleImage inst =
     (case TailscaleAccess (spPersonalDesktop (Spec inst)) of
        Some access \<Rightarrow> if tsImage access \<noteq> '''' then tsImage access else ''tailscale/tailscale:v1.102.2''
      | None \<Rightarrow> ''tailscale/tailscale:v1.102.2'')"

definition sidecarEnv :: "PersonalDesktopTailscaleAccessSpec \<Rightarrow> env_var list" where
  "sidecarEnv access =
     [EnvValue ''TS_USERSPACE'' ''true'', EnvValue ''TS_HOSTNAME'' (tsHostname access),
      EnvValue ''TS_STATE_DIR'' ''/var/lib/tailscale/state'', EnvValue ''TS_KUBE_SECRET'' '''',
      EnvValue ''TS_SERVE_CONFIG'' ''/etc/tailscaled/serve-config''] @
     map (\<lambda>key. EnvOptionalSecretKey key (AuthSecret access) key) [''TS_AUTHKEY'', ''TS_CLIENT_ID'', ''TS_CLIENT_SECRET''] @
     (let tags = joinNonEmpty (Tags access) in
      if tags \<noteq> '''' then [EnvValue ''TS_EXTRA_ARGS'' (''--advertise-tags='' @ tags)] else [])"

definition tailscaleSidecar :: "TypeClawInstance \<Rightarrow> container option" where
  "tailscaleSidecar inst =
     (case (ConsoleSidecar (spPersonalDesktop (Spec inst)), TailscaleAccess (spPersonalDesktop (Spec inst))) of
        (True, Some access) \<Rightarrow>
          Some \<lparr>ctName = ''tailscale'', ctImage = TailscaleImage inst, ctPullPolicy = ''IfNotPresent'',
                ctCommand = [], ctArgs = [], ctEnv = sidecarEnv access, ctPorts = [], ctLiveness = None,
                ctReadiness = None, ctTerminationPath = '''', ctSecurity = hardened,
                ctMounts = [mount ''serve-config'' ''/etc/tailscaled'' True,
                  mount ''tailscale-state'' ''/var/lib/tailscale'' False, mount ''tailscale-tmp'' ''/tmp'' False]\<rparr>
      | _ \<Rightarrow> None)"

definition gatewayContainers :: "TypeClawInstance \<Rightarrow> string \<Rightarrow> string \<Rightarrow> container list" where
  "gatewayContainers inst operatorImage consoleURL =
     gatewayContainer inst operatorImage consoleURL #
     (case tailscaleSidecar inst of None \<Rightarrow> [] | Some sidecar \<Rightarrow> [sidecar])"

definition gatewayVolumes :: "TypeClawInstance \<Rightarrow> volume list" where
  "gatewayVolumes inst =
     (if \<not> ConsoleSidecar (spPersonalDesktop (Spec inst)) then []
      else [\<lparr>volName = ''serve-config'', volSource = ConfigMapVolume (nsServeConfig (Names inst)) [] None\<rparr>,
            \<lparr>volName = ''tailscale-state'', volSource = PVCVolume (nsGatewayState (Names inst))\<rparr>,
            \<lparr>volName = ''tailscale-tmp'', volSource = EmptyDirVolume None None\<rparr>])"

definition GatewayDeployment :: "TypeClawInstance \<Rightarrow> string \<Rightarrow> string \<Rightarrow> deployment" where
  "GatewayDeployment inst operatorImage consoleURL =
     \<lparr>dpName = nsGateway (Names inst), dpNamespace = nsNamespace (Names inst), dpLabels = DesktopLabels inst,
      dpReplicas = 1, dpStrategy = ''Recreate'', dpSelector = GatewayLabels inst, dpPodLabels = GatewayLabels inst,
      dpPod = \<lparr>podRestartPolicy = '''', podAutomountToken = True, podServiceAccount = nsGateway (Names inst),
        podGracePeriod = None, podRunAsNonRoot = True, podRunAsUser = 65532, podRunAsGroup = 65532, podFSGroup = 65532,
        podSeccomp = SeccompRuntimeDefault, podContainers = gatewayContainers inst operatorImage consoleURL,
        podVolumes = gatewayVolumes inst\<rparr>\<rparr>"

definition GatewayService :: "TypeClawInstance \<Rightarrow> service" where
  "GatewayService inst =
     \<lparr>svcName = nsGateway (Names inst), svcNamespace = nsNamespace (Names inst), svcLabels = DesktopLabels inst,
      svcType = ''ClusterIP'', svcSelector = GatewayLabels inst,
      svcPorts = (''agent'', GatewayAgentPort, PortName ''agent'') #
        (if \<not> ConsoleSidecar (spPersonalDesktop (Spec inst))
         then [(''console'', GatewayConsolePort, PortName ''console'')] else [])\<rparr>"

definition GatewayServeConfig :: "TypeClawInstance \<Rightarrow> config_map option" where
  "GatewayServeConfig inst =
     (if \<not> ConsoleSidecar (spPersonalDesktop (Spec inst)) then None
      else Some \<lparr>cmName = nsServeConfig (Names inst), cmNamespace = nsNamespace (Names inst), cmLabels = DesktopLabels inst,
        cmData = [(''serve-config'',
          ''{\"TCP\":{\"443\":{\"HTTPS\":true}},\"Web\":{\"${TS_CERT_DOMAIN}:443\":{\"Handlers\":{\"/\":{\"Proxy\":\"http://127.0.0.1:'' @
          Itoa GatewayConsolePort @ ''/\"}}}}}'')]\<rparr>)"

definition GatewayStateClaim :: "TypeClawInstance \<Rightarrow> pvc option" where
  "GatewayStateClaim inst =
     (if \<not> ConsoleSidecar (spPersonalDesktop (Spec inst)) then None
      else Some \<lparr>pvcName = nsGatewayState (Names inst), pvcNamespace = nsNamespace (Names inst),
        pvcLabels = DesktopLabels inst, pvcAccessModes = [''ReadWriteOnce''], pvcSize = 2 ^ 30, pvcStorageClass = None\<rparr>)"

section \<open>The console and the plugin\<close>

definition ConsoleIngress :: "TypeClawInstance \<Rightarrow> ingress option" where
  "ConsoleIngress inst =
     (case TailscaleAccess (spPersonalDesktop (Spec inst)) of
        None \<Rightarrow> None
      | Some access \<Rightarrow>
          if tsHostname access = '''' \<or> ConsoleSidecar (spPersonalDesktop (Spec inst)) then None
          else Some \<lparr>ingName = nsConsoleIngress (Names inst), ingNamespace = nsNamespace (Names inst),
            ingLabels = DesktopLabels inst,
            ingAnnotations = (let tags = joinNonEmpty (Tags access) in
              if tags \<noteq> '''' then [(''tailscale.com/tags'', tags)] else []),
            ingClass = ''tailscale'', ingTLSHosts = [tsHostname access],
            ingBackend = (nsGateway (Names inst), ''console'')\<rparr>)"

text \<open>The source of the plugin is embedded in the operator's image.\<close>

definition ExtensionConfigMap :: "string \<Rightarrow> TypeClawInstance \<Rightarrow> config_map" where
  "ExtensionConfigMap pluginSource inst =
     \<lparr>cmName = nsExtension (Names inst), cmNamespace = nsInstanceNamespace (Names inst),
      cmLabels = DesktopLabels inst, cmData = [(''index.ts'', pluginSource)]\<rparr>"

end
