(* ===== verification/Guest_Payload.thy ===== *)
theory Guest_Payload
  imports Desktop_Names
begin

text \<open>
  What a desktop's guest receives at its first boot: the cloud-init documents of a Linux guest
  (\<^verbatim>\<open>internal/desktop/cloudinit.go\<close>) and the answer file, script and files of a Windows guest
  (\<^verbatim>\<open>sysprep.go\<close>). The standard library's encoders are written out over bytes: UTF-8 sequences,
  JSON strings, standard base64 and XML text. The assets embedded in the operator are arguments.
\<close>

section \<open>UTF-8\<close>

text \<open>The length of the well-formed UTF-8 sequence a string starts with, 0 if it starts with none.\<close>

definition between :: "nat \<Rightarrow> nat \<Rightarrow> char \<Rightarrow> bool" where
  "between lo hi c \<longleftrightarrow> lo \<le> (of_char c :: nat) \<and> (of_char c :: nat) \<le> hi"

abbreviation cont :: "char \<Rightarrow> bool" where "cont \<equiv> between 0x80 0xBF"

definition lead2 :: "char \<Rightarrow> char \<Rightarrow> bool" where
  "lead2 a b \<longleftrightarrow> between 0xC2 0xDF a \<and> cont b"

definition lead3 :: "char \<Rightarrow> char \<Rightarrow> char \<Rightarrow> bool" where
  "lead3 a b c \<longleftrightarrow> cont c \<and>
     (between 0xE0 0xE0 a \<and> between 0xA0 0xBF b \<or> between 0xED 0xED a \<and> between 0x80 0x9F b
      \<or> (between 0xE1 0xEC a \<or> between 0xEE 0xEF a) \<and> cont b)"

definition lead4 :: "char \<Rightarrow> char \<Rightarrow> char \<Rightarrow> char \<Rightarrow> bool" where
  "lead4 a b c d \<longleftrightarrow> cont c \<and> cont d \<and>
     (between 0xF0 0xF0 a \<and> between 0x90 0xBF b \<or> between 0xF4 0xF4 a \<and> between 0x80 0x8F b
      \<or> between 0xF1 0xF3 a \<and> cont b)"

fun runeLen :: "string \<Rightarrow> nat" where
  "runeLen [] = 0"
| "runeLen [a] = (if between 0 0x7F a then 1 else 0)"
| "runeLen [a, b] = (if between 0 0x7F a then 1 else if lead2 a b then 2 else 0)"
| "runeLen [a, b, c] =
     (if between 0 0x7F a then 1 else if lead2 a b then 2 else if lead3 a b c then 3 else 0)"
| "runeLen (a # b # c # d # s) =
     (if between 0 0x7F a then 1 else if lead2 a b then 2 else if lead3 a b c then 3
      else if lead4 a b c d then 4 else 0)"

lemma runeLen_le: "runeLen s \<le> length s"
  by (induction s rule: runeLen.induct) auto

text \<open>A string as the decoder of the standard library sees it: sequences and stray bytes.\<close>

function runes :: "string \<Rightarrow> (char + string) list" where
  "runes [] = []"
| "runes (c # cs) =
     (if runeLen (c # cs) = 0 then Inl c # runes cs
      else Inr (take (runeLen (c # cs)) (c # cs)) # runes (drop (runeLen (c # cs)) (c # cs)))"
  by pat_completeness auto
termination
  by (relation "measure length") auto

definition validUTF8 :: "string \<Rightarrow> bool" where
  "validUTF8 s \<longleftrightarrow> list_all (\<lambda>r. case r of Inl _ \<Rightarrow> False | Inr _ \<Rightarrow> True) (runes s)"

abbreviation replacementChar :: string where
  "replacementChar \<equiv> [CHR 0xEF, CHR 0xBF, CHR 0xBD]"

text \<open>The bytes a decoded string stands for: a stray byte becomes the replacement character.\<close>

definition runeText :: "char + string \<Rightarrow> string" where
  "runeText r = (case r of Inl _ \<Rightarrow> replacementChar | Inr bs \<Rightarrow> bs)"

definition toValidUTF8 :: "string \<Rightarrow> string" where
  "toValidUTF8 s = concat (map runeText (runes s))"

section \<open>JSON strings\<close>

definition jsonRune :: "char + string \<Rightarrow> string" where
  "jsonRune r =
     (case r of
        Inl _ \<Rightarrow> [CHR 0x5C] @ ''ufffd''
      | Inr [c] \<Rightarrow>
          if c = CHR 0x5C \<or> c = CHR 0x22 then [CHR 0x5C, c]
          else if c = CHR 0x08 then [CHR 0x5C, CHR ''b'']
          else if c = CHR 0x0C then [CHR 0x5C, CHR ''f'']
          else if c = CHR 0x0A then [CHR 0x5C, CHR ''n'']
          else if c = CHR 0x0D then [CHR 0x5C, CHR ''r'']
          else if c = CHR 0x09 then [CHR 0x5C, CHR ''t'']
          else if between 0 0x1F c \<or> c \<in> {CHR ''<'', CHR ''>'', CHR ''&''}
          then [CHR 0x5C] @ ''u00'' @ [hex_digit (of_char c div 16), hex_digit (of_char c mod 16)]
          else [c]
      | Inr bs \<Rightarrow>
          if bs = [CHR 0xE2, CHR 0x80, CHR 0xA8] then [CHR 0x5C] @ ''u2028''
          else if bs = [CHR 0xE2, CHR 0x80, CHR 0xA9] then [CHR 0x5C] @ ''u2029''
          else bs)"

text \<open>\<^verbatim>\<open>json.Marshal\<close> of a string never fails, so the fall-back of \<^verbatim>\<open>yamlString\<close> is never taken.\<close>

definition yamlString :: "string \<Rightarrow> string" where
  "yamlString s = [CHR 0x22] @ concat (map jsonRune (runes s)) @ [CHR 0x22]"

section \<open>Base64\<close>

text \<open>\<^verbatim>\<open>base64.StdEncoding\<close>: the standard alphabet, padded to a multiple of four characters.\<close>

definition stdChar :: "char \<Rightarrow> char" where
  "stdChar c = (if c = CHR ''-'' then CHR ''+'' else if c = CHR ''_'' then CHR ''/'' else c)"

definition stdEncode :: "string \<Rightarrow> string" where
  "stdEncode s =
     (let body = map stdChar (b64_encode (map of_char s))
      in body @ replicate ((4 - length body mod 4) mod 4) (CHR ''=''))"

section \<open>Linux: cloud-init\<close>

record guest_assets =
  DesktopAgentSource :: string
  LinuxSessionScript :: string
  WindowsSetupScript :: string
  WindowsUnattend :: "(string + string) list"

function ReplaceAll :: "string \<Rightarrow> string \<Rightarrow> string \<Rightarrow> string" where
  "ReplaceAll [] old new = []"
| "ReplaceAll (c # cs) old new =
     (if old \<noteq> [] \<and> HasPrefix (c # cs) old then new @ ReplaceAll (drop (length old) (c # cs)) old new
      else c # ReplaceAll cs old new)"
  by pat_completeness auto
termination
  by (relation "measure (\<lambda>(s, _, _). length s)") (auto simp: neq_Nil_conv)

record guest_file =
  gfPath :: string
  gfOwner :: string
  gfPermissions :: string
  gfContent :: string
  gfDeferred :: bool

definition lightdmConfig :: "string \<Rightarrow> string" where
  "lightdmConfig username =
     ''[Seat:*]'' @ [CHR 0x0A] @ ''autologin-user='' @ username @ [CHR 0x0A] @ ''autologin-user-timeout=0'' @ [CHR 0x0A] @
     ''user-session=xfce'' @ [CHR 0x0A] @ ''xserver-command=X -s 0 -dpms'' @ [CHR 0x0A]"

definition linuxSessionScript :: "guest_assets \<Rightarrow> int \<Rightarrow> int \<Rightarrow> string" where
  "linuxSessionScript assets width height =
     ReplaceAll (ReplaceAll (LinuxSessionScript assets) ''@@SCREEN_WIDTH@@'' (Itoa width)) ''@@SCREEN_HEIGHT@@'' (Itoa height)"

definition autostartEntry :: string where
  "autostartEntry =
     ''[Desktop Entry]'' @ [CHR 0x0A] @ ''Type=Application'' @ [CHR 0x0A] @ ''Name=TypeClaw Personal Desktop'' @ [CHR 0x0A] @
     ''Comment=Typed computer-use actions for the TypeClaw agent'' @ [CHR 0x0A] @
     ''Exec=/usr/local/bin/personal-desktop-session.sh'' @ [CHR 0x0A] @ ''Terminal=false'' @ [CHR 0x0A]"

definition blankingAutostartEntries :: "(string \<times> string) list" where
  "blankingAutostartEntries =
     [(''light-locker.desktop'', ''Light Locker''), (''xfce4-screensaver.desktop'', ''Screensaver''),
      (''xfce4-power-manager.desktop'', ''Power Manager'')]"

definition userAutostartPath :: "string \<Rightarrow> string \<Rightarrow> string" where
  "userAutostartPath username file = ''/home/'' @ username @ ''/.config/autostart/'' @ file"

definition hiddenAutostartEntry :: "string \<Rightarrow> string" where
  "hiddenAutostartEntry name =
     ''[Desktop Entry]'' @ [CHR 0x0A] @ ''Type=Application'' @ [CHR 0x0A] @ ''Name='' @ name @ [CHR 0x0A] @ ''Hidden=true'' @ [CHR 0x0A]"

text \<open>The document is written line by line; \<open>unlines\<close> ends each with a line feed.\<close>

definition unlines :: "string list \<Rightarrow> string" where
  "unlines ls = concat (map (\<lambda>l. l @ [CHR 0x0A]) ls)"

definition writeFile :: "guest_file \<Rightarrow> string list" where
  "writeFile f =
     [''  - path: '' @ yamlString (gfPath f), ''    owner: '' @ yamlString (gfOwner f),
      ''    permissions: '' @ yamlString (gfPermissions f), ''    encoding: b64''] @
     (if gfDeferred f then [''    defer: true''] else []) @
     [''    content: '' @ yamlString (stdEncode (gfContent f))]"

definition linuxPackages :: "string list" where
  "linuxPackages = [''dbus-x11'', ''firefox'', ''lightdm'', ''qemu-guest-agent'', ''scrot'', ''wmctrl'', ''xdotool'', ''xfce4'',
     ''xfce4-goodies'']"

text \<open>The files of the guest, in the order the document lists them.\<close>

definition guestFiles :: "guest_assets \<Rightarrow> PersonalDesktopSpec option \<Rightarrow> string \<Rightarrow> guest_file list" where
  "guestFiles assets spec guestToken =
     (let username = Username spec; own = username @ '':'' @ username; (width, height) = Screen spec;
          file = (\<lambda>path owner perms content deferred. \<lparr>gfPath = path, gfOwner = owner, gfPermissions = perms,
            gfContent = content, gfDeferred = deferred\<rparr>) in
      [file ''/usr/local/bin/desktop-agent.py'' ''root:root'' ''0755'' (DesktopAgentSource assets) False,
       file ''/usr/local/bin/personal-desktop-session.sh'' ''root:root'' ''0755'' (linuxSessionScript assets width height) False,
       file ''/etc/personal-desktop/agent-token'' own ''0600'' guestToken True,
       file ''/etc/lightdm/lightdm.conf.d/50-personal-desktop.conf'' ''root:root'' ''0644'' (lightdmConfig username) False,
       file ''/etc/xdg/autostart/typeclaw-desktop-agent.desktop'' ''root:root'' ''0644'' autostartEntry False] @
      map (\<lambda>(entry, name). file (userAutostartPath username entry) own ''0644'' (hiddenAutostartEntry name) True)
        blankingAutostartEntries)"

definition userLines :: "TypeClawInstance \<Rightarrow> string list" where
  "userLines inst =
     (let spec = spPersonalDesktop (Spec inst) in
      [''#cloud-config'', ''hostname: '' @ yamlString (nsDesktop (Names inst)), ''manage_etc_hosts: true'', ''users:'',
       ''  - default'', ''  - name: '' @ yamlString (Username spec), ''    gecos: Personal Desktop'',
       ''    groups: [adm, audio, cdrom, dialout, dip, floppy, nopasswdlogin, plugdev, sudo, video]'',
       ''    lock_passwd: true'', ''    shell: /bin/bash'', ''    sudo: ALL=(ALL) NOPASSWD:ALL''] @
      (case spec of
         Some s \<Rightarrow>
          (case pdLinux s of
             Some lin \<Rightarrow>
               if SSHAuthorizedKeys lin \<noteq> []
               then ''    ssh_authorized_keys:'' # map (\<lambda>key. ''      - '' @ yamlString key) (SSHAuthorizedKeys lin)
               else []
           | None \<Rightarrow> [])
       | None \<Rightarrow> []) @
      [''package_update: true'', ''package_upgrade: false'', ''packages:''] @ map (\<lambda>pkg. ''  - '' @ pkg) linuxPackages)"

definition commandLines :: "string \<Rightarrow> string list" where
  "commandLines username =
     [''bootcmd:'',
      ''  - [sh, -c, \"echo '' @ [CHR 0x27] @ ''lightdm shared/default-x-display-manager select lightdm'' @ [CHR 0x27] @
        '' | debconf-set-selections\"]'',
      ''runcmd:'', ''  - [usermod, -aG, nopasswdlogin, '' @ yamlString username @ '']'',
      ''  - [systemctl, enable, qemu-guest-agent.service]'', ''  - [systemctl, start, qemu-guest-agent.service]'',
      ''  - [systemctl, set-default, graphical.target]'', ''  - [systemctl, enable, lightdm.service]'',
      ''power_state:'', ''  delay: now'', ''  mode: reboot'', ''  message: Reboot after first-boot desktop installation'',
      ''  condition: true'']"

definition CloudInitUserData :: "guest_assets \<Rightarrow> TypeClawInstance \<Rightarrow> string \<Rightarrow> string" where
  "CloudInitUserData assets inst guestToken =
     (let spec = spPersonalDesktop (Spec inst) in
      unlines (userLines inst @ [''write_files:''] @ concat (map writeFile (guestFiles assets spec guestToken)) @
        commandLines (Username spec)))"

definition CloudInitNetworkData :: string where
  "CloudInitNetworkData =
     unlines [''version: 2'', ''ethernets:'', ''  primary:'', ''    match:'', ''      name: \"en*\"'', ''    dhcp4: true'',
       ''    dhcp6: false'']"

definition CloudInitSecret :: "guest_assets \<Rightarrow> TypeClawInstance \<Rightarrow> string \<Rightarrow> secret" where
  "CloudInitSecret assets inst guestToken =
     \<lparr>secName = nsCloudInit (Names inst), secNamespace = nsNamespace (Names inst), secLabels = DesktopLabels inst,
      secData = [(''userdata'', CloudInitUserData assets inst guestToken), (''networkdata'', CloudInitNetworkData)]\<rparr>"

section \<open>Windows: the sysprep disk\<close>

text \<open>\<^verbatim>\<open>xml.EscapeText\<close>: markup, line breaks and tabs as references, anything XML cannot carry replaced.\<close>

definition xmlRune :: "char + string \<Rightarrow> string" where
  "xmlRune r =
     (case r of
        Inl _ \<Rightarrow> replacementChar
      | Inr [c] \<Rightarrow>
          if c = CHR 0x22 then ''&#34;'' else if c = CHR 0x27 then ''&#39;'' else if c = CHR ''&'' then ''&amp;''
          else if c = CHR ''<'' then ''&lt;'' else if c = CHR ''>'' then ''&gt;'' else if c = CHR 0x09 then ''&#x9;''
          else if c = CHR 0x0A then ''&#xA;'' else if c = CHR 0x0D then ''&#xD;''
          else if between 0 0x1F c then replacementChar else [c]
      | Inr bs \<Rightarrow> if bs \<in> {[CHR 0xEF, CHR 0xBF, CHR 0xBE], [CHR 0xEF, CHR 0xBF, CHR 0xBF]} then replacementChar else bs)"

definition xmlEscape :: "string \<Rightarrow> string" where
  "xmlEscape s = concat (map xmlRune (runes s))"

definition netbiosName :: "string \<Rightarrow> string" where
  "netbiosName name = (if length name \<le> 15 then name else trim_right_byte (CHR ''-'') (take 15 name))"

text \<open>The answer file is a template of literal texts and named fields.\<close>

definition unattendFields :: "string \<Rightarrow> string \<Rightarrow> string \<Rightarrow> int \<Rightarrow> int \<Rightarrow> (string \<times> string) list" where
  "unattendFields username password hostname width height =
     [(''Username'', xmlEscape username), (''Password'', xmlEscape password), (''Width'', Itoa width),
      (''Height'', Itoa height), (''Hostname'', xmlEscape (netbiosName hostname))]"

fun executeTemplate :: "(string \<times> string) list \<Rightarrow> (string + string) list \<Rightarrow> string + string" where
  "executeTemplate values [] = Inr ''''"
| "executeTemplate values (segment # rest) =
     (case (case segment of Inl lit \<Rightarrow> Some lit | Inr field \<Rightarrow> map_of values field) of
        None \<Rightarrow> Inl ''render Windows answer file''
      | Some out \<Rightarrow>
         (case executeTemplate values rest of Inl err \<Rightarrow> Inl err | Inr more_text \<Rightarrow> Inr (out @ more_text)))"

definition renderUnattend ::
  "guest_assets \<Rightarrow> string \<Rightarrow> string \<Rightarrow> string \<Rightarrow> int \<Rightarrow> int \<Rightarrow> string + string" where
  "renderUnattend assets username password hostname width height =
     executeTemplate (unattendFields username password hostname width height) (WindowsUnattend assets)"

definition windowsSetupScript :: "guest_assets \<Rightarrow> string \<times> string \<Rightarrow> string" where
  "windowsSetupScript assets installer =
     ReplaceAll (ReplaceAll (WindowsSetupScript assets) ''@@PD_PYTHON_URL@@'' (fst installer))
       ''@@PD_PYTHON_SHA256@@'' (snd installer)"

definition SysprepSecret :: "guest_assets \<Rightarrow> TypeClawInstance \<Rightarrow> string \<Rightarrow> string \<Rightarrow> string + secret" where
  "SysprepSecret assets inst guestToken password =
     (let spec = spPersonalDesktop (Spec inst); (width, height) = Screen spec in
      case renderUnattend assets (Username spec) password (nsDesktop (Names inst)) width height of
        Inl err \<Rightarrow> Inl err
      | Inr unattend \<Rightarrow>
          Inr \<lparr>secName = nsSysprep (Names inst), secNamespace = nsNamespace (Names inst), secLabels = DesktopLabels inst,
               secData = [(''unattend.xml'', unattend),
                 (''setup.ps1'', windowsSetupScript assets (EffectivePythonInstaller spec)),
                 (''desktop_agent.py'', DesktopAgentSource assets), (''agent-token'', guestToken)]\<rparr>)"

section \<open>Reading a document back\<close>

text \<open>
  How a YAML double-quoted scalar reads, from behind its opening quote: the text and what follows
  the closing quote. A control character ends the reading, as the scalar would fold or be refused.
\<close>

definition hex_value :: "char \<Rightarrow> nat option" where
  "hex_value c = map_of (zip ''0123456789abcdef'' [0..<16]) c"

definition hex4 :: "char \<Rightarrow> char \<Rightarrow> char \<Rightarrow> char \<Rightarrow> nat option" where
  "hex4 a b c d =
     (case (hex_value a, hex_value b, hex_value c, hex_value d) of
        (Some w, Some x, Some y, Some z) \<Rightarrow> Some (((w * 16 + x) * 16 + y) * 16 + z)
      | _ \<Rightarrow> None)"

definition utf8_encode :: "nat \<Rightarrow> string" where
  "utf8_encode n =
     (if n < 0x80 then [char_of n]
      else if n < 0x800 then [char_of (0xC0 + n div 64), char_of (0x80 + n mod 64)]
      else [char_of (0xE0 + n div 4096), char_of (0x80 + n div 64 mod 64), char_of (0x80 + n mod 64)])"

definition escape_value :: "char \<Rightarrow> char option" where
  "escape_value e = map_of [(CHR 0x5C, CHR 0x5C), (CHR 0x22, CHR 0x22), (CHR ''b'', CHR 0x08), (CHR ''f'', CHR 0x0C),
     (CHR ''n'', CHR 0x0A), (CHR ''r'', CHR 0x0D), (CHR ''t'', CHR 0x09)] e"

definition before :: "string \<Rightarrow> (string \<times> string) option \<Rightarrow> (string \<times> string) option" where
  "before t res = map_option (\<lambda>(v, rest). (t @ v, rest)) res"

fun readScalar :: "string \<Rightarrow> (string \<times> string) option" where
  "readScalar [] = None"
| "readScalar (c # s) =
     (if c = CHR 0x22 then Some ([], s)
      else if c = CHR 0x5C
      then (case s of
          [] \<Rightarrow> None
        | e # s1 \<Rightarrow>
            if e = CHR ''u''
            then (case s1 of
                h1 # h2 # h3 # h4 # s2 \<Rightarrow>
                  (case hex4 h1 h2 h3 h4 of
                     None \<Rightarrow> None
                   | Some n \<Rightarrow> before (utf8_encode n) (readScalar s2))
              | _ \<Rightarrow> None)
            else (case escape_value e of None \<Rightarrow> None | Some x \<Rightarrow> before [x] (readScalar s1)))
      else if between 0 0x1F c then None
      else before [c] (readScalar s))"

lemma before_before [simp]: "before s (before t res) = before (s @ t) res"
  by (cases res) (auto simp: before_def)

lemma before_Some [simp]: "before t (Some (v, rest)) = Some (t @ v, rest)"
  by (simp add: before_def)

lemma before_Nil [simp]: "before [] res = res"
  by (cases res) (auto simp: before_def)

lemma hex_value_digit: "d < 16 \<Longrightarrow> hex_value (hex_digit d) = Some d"
proof -
  assume "d < 16"
  moreover have "list_all (\<lambda>d. hex_value (hex_digit d) = Some d) [0..<16]"
    by (simp add: upt_rec hex_value_def hex_digit_def)
  ultimately show ?thesis by (simp add: list_all_iff)
qed

lemma readScalar_raw:
  "\<forall>c \<in> set bs. c \<noteq> CHR 0x22 \<and> c \<noteq> CHR 0x5C \<and> \<not> between 0 0x1F c \<Longrightarrow>
     readScalar (bs @ s) = before bs (readScalar s)"
  by (induction bs) auto

text \<open>A sequence of more than one byte has no byte below 128.\<close>

lemma lead_high:
  "lead2 a b \<Longrightarrow> between 0x80 0xFF a \<and> between 0x80 0xFF b"
  "lead3 a b c \<Longrightarrow> between 0x80 0xFF a \<and> between 0x80 0xFF b \<and> between 0x80 0xFF c"
  "lead4 a b c d \<Longrightarrow> between 0x80 0xFF a \<and> between 0x80 0xFF b \<and> between 0x80 0xFF c \<and> between 0x80 0xFF d"
  using nat_of_char_less_256 [of a]
  by (auto simp: lead2_def lead3_def lead4_def between_def)

lemma runeLen_high: "1 < runeLen s \<Longrightarrow> list_all (between 0x80 0xFF) (take (runeLen s) s)"
  by (cases s rule: runeLen.cases) (auto dest: lead_high split: if_splits)

lemma runes_wf:
  "Inr bs \<in> set (runes s) \<Longrightarrow>
     (\<exists>c. bs = [c] \<and> between 0 0x7F c) \<or> 1 < length bs \<and> (\<forall>c \<in> set bs. between 0x80 0xFF c)"
proof (induction s rule: runes.induct)
  case 1
  then show ?case by simp
next
  case (2 c cs)
  have one: "runeLen (c # cs) = 1 \<Longrightarrow> between 0 0x7F c"
    by (cases "c # cs" rule: runeLen.cases) (auto split: if_splits)
  have many: "\<forall>x \<in> set (take (runeLen (c # cs)) (c # cs)). between 0x80 0xFF x" if "1 < runeLen (c # cs)"
    using runeLen_high [OF that] by (simp only: list_all_iff)
  have len: "length (take (runeLen (c # cs)) (c # cs)) = runeLen (c # cs)"
    using runeLen_le [of "c # cs"] by simp
  consider "runeLen (c # cs) = 0" | "runeLen (c # cs) = 1" | "1 < runeLen (c # cs)" by linarith
  then show ?case
    using 2 one many len by cases auto
qed

lemma runes_concat: "concat (map (\<lambda>r. case r of Inl c \<Rightarrow> [c] | Inr bs \<Rightarrow> bs) (runes s)) = s"
  by (induction s rule: runes.induct) auto

lemma toValidUTF8_id: "validUTF8 s \<Longrightarrow> toValidUTF8 s = s"
proof -
  assume "validUTF8 s"
  then have "map runeText (runes s) = map (\<lambda>r. case r of Inl c \<Rightarrow> [c] | Inr bs \<Rightarrow> bs) (runes s)"
    by (auto simp: validUTF8_def runeText_def list_all_iff split: sum.splits)
  then show ?thesis unfolding toValidUTF8_def by (metis runes_concat)
qed

text \<open>Reading undoes writing, rune by rune.\<close>

lemma readScalar_hex:
  assumes "hex4 h1 h2 h3 h4 = Some n"
  shows "readScalar ([CHR 0x5C, CHR ''u'', h1, h2, h3, h4] @ s) = before (utf8_encode n) (readScalar s)"
  using assms by simp

lemma readScalar_escape:
  assumes "escape_value e = Some x" "e \<noteq> CHR ''u''"
  shows "readScalar ([CHR 0x5C, e] @ s) = before [x] (readScalar s)"
  using assms by simp

lemma readScalar_plain:
  assumes "c \<noteq> CHR 0x22" "c \<noteq> CHR 0x5C" "\<not> between 0 0x1F c"
  shows "readScalar ([c] @ s) = before [c] (readScalar s)"
  using assms by simp

lemma readScalar_quote: "readScalar (CHR 0x22 # s) = Some ([], s)"
  by simp

declare readScalar.simps [simp del]

lemma escape_values:
  "escape_value (CHR 0x5C) = Some (CHR 0x5C)" "escape_value (CHR 0x22) = Some (CHR 0x22)"
  "escape_value (CHR ''b'') = Some (CHR 0x08)" "escape_value (CHR ''f'') = Some (CHR 0x0C)"
  "escape_value (CHR ''n'') = Some (CHR 0x0A)" "escape_value (CHR ''r'') = Some (CHR 0x0D)"
  "escape_value (CHR ''t'') = Some (CHR 0x09)"
  by (simp_all add: escape_value_def)

lemma jsonRune_short:
  "jsonRune (Inr [CHR 0x5C]) = [CHR 0x5C, CHR 0x5C]" "jsonRune (Inr [CHR 0x22]) = [CHR 0x5C, CHR 0x22]"
  "jsonRune (Inr [CHR 0x08]) = [CHR 0x5C, CHR ''b'']" "jsonRune (Inr [CHR 0x0C]) = [CHR 0x5C, CHR ''f'']"
  "jsonRune (Inr [CHR 0x0A]) = [CHR 0x5C, CHR ''n'']" "jsonRune (Inr [CHR 0x0D]) = [CHR 0x5C, CHR ''r'']"
  "jsonRune (Inr [CHR 0x09]) = [CHR 0x5C, CHR ''t'']"
  by (simp_all add: jsonRune_def)

lemmas readScalar_short = escape_values [THEN readScalar_escape, simplified]

lemma hex4_byte:
  assumes "n < 256"
  shows "hex4 (CHR ''0'') (CHR ''0'') (hex_digit (n div 16)) (hex_digit (n mod 16)) = Some n"
proof -
  have "hex_value (CHR ''0'') = Some 0" by (simp add: hex_value_def upt_rec)
  with assms show ?thesis by (simp add: hex4_def hex_value_digit)
qed

lemma readScalar_ascii:
  assumes "between 0 0x7F c"
  shows "readScalar (jsonRune (Inr [c]) @ s) = before [c] (readScalar s)"
proof -
  let ?short = "c = CHR 0x5C \<or> c = CHR 0x22 \<or> c = CHR 0x08 \<or> c = CHR 0x0C \<or> c = CHR 0x0A \<or> c = CHR 0x0D \<or> c = CHR 0x09"
  let ?hex = "between 0 0x1F c \<or> c \<in> {CHR ''<'', CHR ''>'', CHR ''&''}"
  show ?thesis
  proof (cases "?short")
    case True
    then show ?thesis
      by (elim disjE) (simp_all add: jsonRune_short readScalar_short)
  next
    case short: False
    show ?thesis
    proof (cases "?hex")
      case True
      have "jsonRune (Inr [c]) = [CHR 0x5C, CHR ''u'', CHR ''0'', CHR ''0'', hex_digit (of_char c div 16), hex_digit (of_char c mod 16)]"
        using short True by (simp add: jsonRune_def)
      moreover have "utf8_encode (of_char c) = [c]"
        using assms by (simp add: utf8_encode_def between_def)
      ultimately show ?thesis
        using readScalar_hex [OF hex4_byte [of "of_char c"], of s] by simp
    next
      case False
      then have "jsonRune (Inr [c]) = [c]" using short by (simp add: jsonRune_def)
      with short False show ?thesis using readScalar_plain [of c s] by simp
    qed
  qed
qed

lemma jsonRune_multi:
  assumes "1 < length bs"
  shows "jsonRune (Inr bs) =
    (if bs = [CHR 0xE2, CHR 0x80, CHR 0xA8] then [CHR 0x5C] @ ''u2028''
     else if bs = [CHR 0xE2, CHR 0x80, CHR 0xA9] then [CHR 0x5C] @ ''u2029'' else bs)"
proof -
  obtain a b cs where "bs = a # b # cs"
    using assms by (cases bs; cases "tl bs") auto
  then show ?thesis by (simp add: jsonRune_def)
qed

lemma hex4_constants:
  "hex4 (CHR ''2'') (CHR ''0'') (CHR ''2'') (CHR ''8'') = Some 0x2028"
  "hex4 (CHR ''2'') (CHR ''0'') (CHR ''2'') (CHR ''9'') = Some 0x2029"
  "hex4 (CHR ''f'') (CHR ''f'') (CHR ''f'') (CHR ''d'') = Some 0xFFFD"
  by (simp_all add: hex4_def hex_value_def upt_rec)

lemma utf8_constants:
  "utf8_encode 0x2028 = [CHR 0xE2, CHR 0x80, CHR 0xA8]" "utf8_encode 0x2029 = [CHR 0xE2, CHR 0x80, CHR 0xA9]"
  "utf8_encode 0xFFFD = replacementChar"
  by (simp_all add: utf8_encode_def char_of_def bit_0)

lemma readScalar_rune:
  assumes "r \<in> set (runes t)"
  shows "readScalar (jsonRune r @ s) = before (runeText r) (readScalar s)"
proof (cases r)
  case (Inl c)
  then show ?thesis
    using readScalar_hex [OF hex4_constants(3), of s] by (simp add: jsonRune_def runeText_def utf8_constants)
next
  case (Inr bs)
  from runes_wf [of bs t] assms Inr
  consider (ascii) c where "bs = [c]" "between 0 0x7F c" | (high) "1 < length bs" "\<forall>c \<in> set bs. between 0x80 0xFF c"
    by auto
  then show ?thesis
  proof cases
    case ascii
    with Inr show ?thesis using readScalar_ascii by (simp add: runeText_def)
  next
    case high
    have raw: "\<forall>c \<in> set bs. c \<noteq> CHR 0x22 \<and> c \<noteq> CHR 0x5C \<and> \<not> between 0 0x1F c"
      using high(2) by (fastforce simp: between_def)
    show ?thesis
      using Inr jsonRune_multi [OF high(1)] readScalar_raw [OF raw, of s]
        readScalar_hex [OF hex4_constants(1), of s] readScalar_hex [OF hex4_constants(2), of s]
      by (simp add: runeText_def utf8_constants)
  qed
qed

lemma readScalar_runes:
  "set rs \<subseteq> set (runes t) \<Longrightarrow>
     readScalar (concat (map jsonRune rs) @ s) = before (concat (map runeText rs)) (readScalar s)"
  by (induction rs) (simp_all add: readScalar_rune [where t = t])

lemma readScalar_yamlString:
  "readScalar (tl (yamlString v) @ rest) = Some (toValidUTF8 v, rest)"
  using readScalar_runes [of "runes v" v "CHR 0x22 # rest"] by (simp add: yamlString_def toValidUTF8_def readScalar_quote)

text \<open>A scalar has no control character, so it stays on its line.\<close>

lemma hex_digit_visible: "n < 16 \<Longrightarrow> visible (hex_digit n)"
proof -
  assume "n < 16"
  moreover have "list_all (\<lambda>n. visible (hex_digit n)) [0..<16]"
    by (simp add: upt_rec hex_digit_def visible_def)
  ultimately show ?thesis by (simp add: list_all_iff)
qed

lemma visible_no_control: "visible c \<Longrightarrow> \<not> between 0 0x1F c"
  by (simp add: visible_def between_def Let_def)

lemma jsonRune_no_control:
  assumes "r \<in> set (runes t)" "x \<in> set (jsonRune r)"
  shows "\<not> between 0 0x1F x"
proof (cases r)
  case (Inl c)
  then have "x \<in> set ([CHR 0x5C] @ ''ufffd'')" using assms(2) by (simp add: jsonRune_def)
  then show ?thesis by (auto simp: between_def)
next
  case (Inr bs)
  from runes_wf [of bs t] assms(1) Inr
  consider (ascii) c where "bs = [c]" "between 0 0x7F c" | (high) "1 < length bs" "\<forall>c \<in> set bs. between 0x80 0xFF c"
    by auto
  then show ?thesis
  proof cases
    case ascii
    have "(of_char c :: nat) div 16 < 16" using nat_of_char_less_256 [of c] by linarith
    then have digits: "\<not> between 0 0x1F (hex_digit (of_char c div 16))" "\<not> between 0 0x1F (hex_digit (of_char c mod 16))"
      by (simp_all add: visible_no_control hex_digit_visible)
    have "x \<in> {CHR 0x5C, CHR 0x22, CHR ''b'', CHR ''f'', CHR ''n'', CHR ''r'', CHR ''t'', CHR ''u'', CHR ''0'',
        hex_digit (of_char c div 16), hex_digit (of_char c mod 16)} \<or> x = c \<and> \<not> between 0 0x1F c"
      using assms(2) Inr ascii(1) by (auto simp: jsonRune_def split: if_splits)
    then show ?thesis using digits by (auto simp: between_def)
  next
    case high
    have "x \<in> set ([CHR 0x5C] @ ''u2028'') \<or> x \<in> set ([CHR 0x5C] @ ''u2029'') \<or> x \<in> set bs"
      using assms(2) Inr jsonRune_multi [OF high(1)] by (auto split: if_splits)
    then show ?thesis using high(2) by (auto simp: between_def)
  qed
qed

lemma yamlString_no_control: "c \<in> set (yamlString v) \<Longrightarrow> \<not> between 0 0x1F c"
  using jsonRune_no_control [of _ v c] by (auto simp: yamlString_def between_def)

lemma yamlString_no_newline: "CHR 0x0A \<notin> set (yamlString v)"
  using yamlString_no_control [of "CHR 0x0A" v] by (auto simp: between_def)

lemma split_unlines:
  assumes "\<forall>l \<in> set ls. CHR 0x0A \<notin> set l"
  shows "split_on (CHR 0x0A) (unlines ls) = ls @ [[]]"
  using assms by (induction ls) (simp_all add: unlines_def split_on_append_sep)

text \<open>Standard base64 decodes to what was encoded.\<close>

definition urlChar :: "char \<Rightarrow> char" where
  "urlChar c = (if c = CHR ''+'' then CHR ''-'' else if c = CHR ''/'' then CHR ''_'' else c)"

definition stdDecode :: "string \<Rightarrow> string option" where
  "stdDecode s =
     (if length s mod 4 \<noteq> 0 then None
      else map_option (map char_of) (b64_decode (map urlChar (trim_right_byte (CHR ''='') s))))"

lemma b64_encode_chars:
  assumes "\<forall>b \<in> set bs. b < 256" "c \<in> set (b64_encode bs)"
  shows "c \<in> set b64_alphabet"
proof -
  obtain vs where "map b64_value (b64_encode bs) = map Some vs"
    using b64_encode_values [OF assms(1)] by blast
  then have "b64_value c \<in> Some ` set vs" using assms(2) by (metis image_eqI list.set_map)
  then obtain n where "map_of (zip b64_alphabet [0..<64]) c = Some n" by (auto simp: b64_value_def)
  then show ?thesis by (auto dest!: map_of_SomeD elim: in_set_zipE)
qed

lemma alphabet_url: "c \<in> set b64_alphabet \<Longrightarrow> urlChar (stdChar c) = c \<and> stdChar c \<noteq> CHR ''=''"
  by (auto simp: b64_alphabet_def urlChar_def stdChar_def)

lemma trim_replicate:
  "x \<notin> set xs \<Longrightarrow> trim_right_byte x (xs @ replicate n x) = xs"
proof -
  assume x: "x \<notin> set xs"
  have "dropWhile (\<lambda>y. y = x) (replicate n x @ rev xs) = dropWhile (\<lambda>y. y = x) (rev xs)"
    by (induction n) auto
  also have "\<dots> = rev xs" using x by (cases "rev xs") auto
  finally show ?thesis by (simp add: trim_right_byte_def)
qed

lemma pad4: "(n + (4 - n mod 4) mod 4) mod 4 = (0 :: nat)"
proof -
  have "n mod 4 = 0 \<or> n mod 4 = 1 \<or> n mod 4 = 2 \<or> n mod 4 = 3" by linarith
  moreover have "(n + k) mod 4 = (n mod 4 + k) mod 4" for k by (rule mod_add_left_eq [symmetric])
  ultimately show ?thesis by auto
qed

lemma stdDecode_stdEncode: "stdDecode (stdEncode s) = Some s"
proof -
  let ?bs = "map of_char s :: nat list"
  let ?body = "map stdChar (b64_encode ?bs)"
  have bytes: "\<forall>b \<in> set ?bs. b < 256" by auto
  have url: "urlChar (stdChar c) = c \<and> stdChar c \<noteq> CHR ''=''" if "c \<in> set (b64_encode ?bs)" for c
    using alphabet_url [OF b64_encode_chars [OF bytes that]] .
  then have "CHR ''='' \<notin> set ?body" by (metis imageE list.set_map)
  moreover have "map (\<lambda>c. urlChar (stdChar c)) (b64_encode ?bs) = b64_encode ?bs"
    using url by (intro map_idI) simp
  then have "map urlChar ?body = b64_encode ?bs" by (simp add: comp_def)
  moreover have "length (stdEncode s) mod 4 = 0"
    using pad4 [of "length ?body"] by (simp add: stdEncode_def Let_def)
  moreover have "map char_of ?bs = s" by (simp add: comp_def)
  ultimately show ?thesis
    using b64_roundtrip [OF bytes] by (simp add: stdDecode_def stdEncode_def Let_def trim_replicate)
qed

text \<open>
  The reader of the document's files: from the line behind \<^verbatim>\<open>write_files:\<close>, one entry after the
  other, each a fixed sequence of lines with a double-quoted scalar that ends its line.
\<close>

definition readField :: "string \<Rightarrow> string \<Rightarrow> string option" where
  "readField key l =
     (if HasPrefix l (key @ [CHR 0x22])
      then (case readScalar (drop (Suc (length key)) l) of
          Some (v, rest) \<Rightarrow> if rest = [] then Some v else None
        | None \<Rightarrow> None)
      else None)"

definition readEntry :: "string list \<Rightarrow> (guest_file \<times> string list) option" where
  "readEntry ls =
     (case ls of
        l1 # l2 # l3 # l4 # l5 # rest \<Rightarrow>
          (let deferred = (l5 = ''    defer: true'');
               (l6, rest') = (case rest of l # r \<Rightarrow> if deferred then (l, r) else (l5, rest) | [] \<Rightarrow> (l5, []))
           in case (readField ''  - path: '' l1, readField ''    owner: '' l2, readField ''    permissions: '' l3,
                    Option.bind (readField ''    content: '' l6) stdDecode) of
             (Some path, Some owner, Some perms, Some content) \<Rightarrow>
               if l4 = ''    encoding: b64''
               then Some (\<lparr>gfPath = path, gfOwner = owner, gfPermissions = perms, gfContent = content, gfDeferred = deferred\<rparr>, rest')
               else None
           | _ \<Rightarrow> None)
      | _ \<Rightarrow> None)"

fun readFiles :: "nat \<Rightarrow> string list \<Rightarrow> guest_file list" where
  "readFiles 0 ls = []"
| "readFiles (Suc n) ls =
     (case readEntry ls of None \<Rightarrow> [] | Some (f, rest) \<Rightarrow> f # readFiles n rest)"

definition readDocument :: "string \<Rightarrow> guest_file list" where
  "readDocument doc =
     (let ls = split_on (CHR 0x0A) doc
      in readFiles (length ls) (drop 1 (dropWhile (\<lambda>l. l \<noteq> ''write_files:'') ls)))"

definition fileText :: "guest_file \<Rightarrow> guest_file" where
  "fileText f = f\<lparr>gfPath := toValidUTF8 (gfPath f), gfOwner := toValidUTF8 (gfOwner f),
     gfPermissions := toValidUTF8 (gfPermissions f)\<rparr>"

lemma readField_yamlString: "readField key (key @ yamlString v) = Some (toValidUTF8 v)"
proof -
  obtain w where w: "yamlString v = CHR 0x22 # w" by (simp add: yamlString_def)
  then have "readScalar w = Some (toValidUTF8 v, [])"
    using readScalar_yamlString [of v "[]"] by simp
  moreover have "HasPrefix (key @ CHR 0x22 # w) (key @ [CHR 0x22])" by (simp add: HasPrefix_iff)
  ultimately show ?thesis unfolding w by (simp add: readField_def)
qed
lemma runeLen_append: "0 < runeLen x \<Longrightarrow> runeLen (x @ y) = runeLen x"
proof (cases x rule: runeLen.cases)
  case (2 a)
  moreover assume "0 < runeLen x"
  ultimately show ?thesis by (cases "[a] @ y" rule: runeLen.cases) (auto split: if_splits)
next
  case (3 a b)
  moreover assume "0 < runeLen x"
  ultimately show ?thesis by (cases "[a, b] @ y" rule: runeLen.cases) (auto split: if_splits)
next
  case (4 a b c)
  moreover assume "0 < runeLen x"
  ultimately show ?thesis by (cases y) (auto split: if_splits)
qed simp_all

lemma validUTF8_Cons:
  "validUTF8 (c # cs) \<longleftrightarrow> 0 < runeLen (c # cs) \<and> validUTF8 (drop (runeLen (c # cs)) (c # cs))"
  by (simp add: validUTF8_def)

lemma validUTF8_append: "validUTF8 x \<Longrightarrow> validUTF8 y \<Longrightarrow> validUTF8 (x @ y)"
proof (induction x rule: runes.induct)
  case 1
  then show ?case by simp
next
  case (2 c cs)
  have len: "0 < runeLen (c # cs)" and rest: "validUTF8 (drop (runeLen (c # cs)) (c # cs))"
    using "2.prems"(1) by (simp_all add: validUTF8_Cons)
  have "validUTF8 (drop (runeLen (c # cs)) (c # cs) @ y)"
    using "2.IH"(2) len rest "2.prems"(2) by blast
  moreover have "runeLen (c # cs @ y) = runeLen (c # cs)" using runeLen_append [OF len, of y] by simp
  moreover have "drop (runeLen (c # cs)) (c # cs @ y) = drop (runeLen (c # cs)) (c # cs) @ y"
    using runeLen_le [of "c # cs"] by (metis append_Cons diff_is_0_eq' drop0 drop_append)
  ultimately show ?case using len validUTF8_Cons [of c "cs @ y"] by simp
qed

lemma validUTF8_ascii: "list_all (between 0 0x7F) s \<Longrightarrow> validUTF8 s"
proof (induction s)
  case Nil
  then show ?case by (simp add: validUTF8_def)
next
  case (Cons c cs)
  then have "runeLen (c # cs) = 1" by (cases "c # cs" rule: runeLen.cases) auto
  with Cons show ?case by (simp add: validUTF8_Cons)
qed

lemma stdEncode_valid: "validUTF8 (stdEncode s)"
proof (rule validUTF8_ascii)
  have "c \<in> set b64_alphabet" if "c \<in> set (b64_encode (map of_char s))" for c
    by (rule b64_encode_chars [OF _ that]) auto
  moreover have "between 0 0x7F (stdChar c)" if "c \<in> set b64_alphabet" for c
    using that by (auto simp: b64_alphabet_def stdChar_def between_def)
  ultimately show "list_all (between 0 0x7F) (stdEncode s)"
    by (auto simp: stdEncode_def Let_def list_all_iff between_def [of _ _ "CHR ''=''"])
qed

text \<open>The content of a file: base64 inside a scalar, which is the text of its field.\<close>

interpretation file_content: coding_chain stdEncode stdDecode "\<lambda>_. True"
    "\<lambda>v. ''    content: '' @ yamlString v" "readField ''    content: ''" validUTF8
  by unfold_locales (simp_all only: stdDecode_stdEncode readField_yamlString toValidUTF8_id stdEncode_valid)

text \<open>Entries of the document and their lines.\<close>

lemma readEntry_writeFile: "readEntry (writeFile f @ rest) = Some (fileText f, rest)"
proof -
  have no_defer: "''    content: '' @ t \<noteq> ''    defer: true''" for t by simp
  note content = file_content.chain.decode_encode [OF TrueI, of "gfContent f"]
  note scalars = readField_yamlString [of "''  - path: ''", simplified]
    readField_yamlString [of "''    owner: ''", simplified] readField_yamlString [of "''    permissions: ''", simplified]
  show ?thesis
    by (cases "gfDeferred f") (simp_all add: readEntry_def writeFile_def scalars fileText_def content [simplified]
        split: list.splits)
qed

lemma readFiles_writeFiles:
  assumes "readEntry rest = None" "length fs < n"
  shows "readFiles n (concat (map writeFile fs) @ rest) = map fileText fs"
  using assms(2)
proof (induction fs arbitrary: n)
  case Nil
  then show ?case using assms(1) by (cases n) auto
next
  case (Cons f fs)
  then show ?case by (cases n) (simp_all add: readEntry_writeFile)
qed

lemma lines_clean:
  "\<forall>l \<in> set (userLines inst). CHR 0x0A \<notin> set l"
  "\<forall>l \<in> set (commandLines username). CHR 0x0A \<notin> set l"
  "\<forall>l \<in> set (concat (map writeFile fs)). CHR 0x0A \<notin> set l"
  by (auto simp: userLines_def commandLines_def writeFile_def linuxPackages_def Let_def yamlString_no_newline
      split: option.splits if_splits)

lemma userLines_no_marker: "''write_files:'' \<notin> set (userLines inst)"
  by (auto simp: userLines_def linuxPackages_def Let_def split: option.splits if_splits)

lemma commandLines_no_file: "readEntry (commandLines username @ rest) = None"
  by (simp add: readEntry_def commandLines_def readField_def HasPrefix.simps)

lemma document_lines:
  "split_on (CHR 0x0A) (CloudInitUserData assets inst tok) =
     userLines inst @ [''write_files:''] @
     concat (map writeFile (guestFiles assets (spPersonalDesktop (Spec inst)) tok)) @
     commandLines (Username (spPersonalDesktop (Spec inst))) @ [[]]"
proof -
  let ?ls = "userLines inst @ [''write_files:''] @
     concat (map writeFile (guestFiles assets (spPersonalDesktop (Spec inst)) tok)) @
     commandLines (Username (spPersonalDesktop (Spec inst)))"
  have "\<forall>l \<in> set ?ls. CHR 0x0A \<notin> set l"
    unfolding set_append using lines_clean by (auto simp del: set_concat)
  from split_unlines [OF this] show ?thesis by (simp add: CloudInitUserData_def Let_def)
qed

lemma guestFiles_text:
  assumes "validUTF8 (Username spec)" "f \<in> set (guestFiles assets spec tok)"
  shows "fileText f = f"
proof -
  let ?u = "Username spec"
  have own: "validUTF8 (?u @ CHR '':'' # ?u)"
    using validUTF8_append [OF assms(1) validUTF8_append [OF validUTF8_ascii assms(1)], of "'':''"] by (simp add: between_def)
  have path: "validUTF8 (userAutostartPath ?u entry)" if "list_all (between 0 0x7F) entry" for entry
    unfolding userAutostartPath_def
    by (intro validUTF8_append assms(1) validUTF8_ascii [OF that] validUTF8_ascii) (simp_all add: between_def)
  have "validUTF8 (gfPath f) \<and> validUTF8 (gfOwner f) \<and> validUTF8 (gfPermissions f)"
    using assms(2) by (auto simp: guestFiles_def Let_def blankingAutostartEntries_def own path validUTF8_ascii
        between_def split: prod.splits)
  then show ?thesis by (simp add: fileText_def toValidUTF8_id)
qed



text \<open>
  The Windows answer file: no string of the administrator's can open or close an element or an
  attribute, and the computer name is one Windows accepts, at most 15 bytes with no hyphen left at a cut.
\<close>

lemma xmlRune_no_markup:
  assumes "r \<in> set (runes t)" "x \<in> set (xmlRune r)"
  shows "x \<notin> {CHR ''<'', CHR ''>'', CHR 0x22, CHR 0x27} \<and> \<not> between 0 0x1F x"
proof (cases r)
  case (Inl c)
  then show ?thesis using assms(2) by (auto simp: xmlRune_def between_def)
next
  case (Inr bs)
  from runes_wf [of bs t] assms(1) Inr
  consider (ascii) c where "bs = [c]" | (high) "1 < length bs" "\<forall>c \<in> set bs. between 0x80 0xFF c"
    by auto
  then show ?thesis
  proof cases
    case ascii
    then have "x \<in> set (''&#34;'' @ ''&#39;'' @ ''&amp;'' @ ''&lt;'' @ ''&gt;'' @ ''&#x9;'' @ ''&#xA;'' @ ''&#xD;'' @ replacementChar) \<or>
        x = c \<and> c \<notin> {CHR ''<'', CHR ''>'', CHR 0x22, CHR 0x27} \<and> \<not> between 0 0x1F c"
      using assms(2) Inr by (auto simp: xmlRune_def split: if_splits)
    then show ?thesis by (auto simp: between_def)
  next
    case high
    obtain a b cs where "bs = a # b # cs" using high(1) by (cases bs; cases "tl bs") auto
    then have "x \<in> set replacementChar \<or> x \<in> set bs"
      using assms(2) Inr by (auto simp: xmlRune_def split: if_splits)
    then show ?thesis using high(2) by (auto simp: between_def)
  qed
qed

lemma xmlEscape_no_markup:
  "x \<in> set (xmlEscape s) \<Longrightarrow> x \<notin> {CHR ''<'', CHR ''>'', CHR 0x22, CHR 0x27} \<and> \<not> between 0 0x1F x"
  using xmlRune_no_markup [of _ s x] by (auto simp: xmlEscape_def)

lemma netbiosName_ok:
  "length (netbiosName name) \<le> 15 \<and>
   (15 < length name \<longrightarrow> netbiosName name = [] \<or> last (netbiosName name) \<noteq> CHR ''-'')"
proof -
  let ?t = "take 15 name"
  have "length (dropWhile (\<lambda>x. x = CHR ''-'') (rev ?t)) \<le> 15"
    using length_dropWhile_le [of "\<lambda>x. x = CHR ''-''" "rev ?t"] by (simp add: min_def split: if_splits)
  moreover have "d = [] \<or> last (rev d) \<noteq> CHR ''-''" if "d = dropWhile (\<lambda>x. x = CHR ''-'') (rev ?t)" for d
    using that hd_dropWhile [of "\<lambda>x. x = CHR ''-''" "rev ?t"] by (auto simp: last_rev)
  ultimately show ?thesis by (auto simp: netbiosName_def trim_right_byte_def)
qed

end
