(* ===== verification/Desktop_Config.thy ===== *)
theory Desktop_Config
  imports Desktop_Objects Guest_Payload Gateway_Props
begin

text \<open>
  The operator renders the environment of the Desktop Gateway (\<^verbatim>\<open>gatewayEnv\<close> in
  \<^verbatim>\<open>internal/desktop/gateway.go\<close>) and the gateway reads it (\<^verbatim>\<open>LoadConfig\<close> in
  \<^verbatim>\<open>internal/desktopgateway/config.go\<close>): the two ends of one interface, put together here.
\<close>

section \<open>The environment of a container\<close>

text \<open>The variables a container takes from keys of Secrets.\<close>

definition secret_source :: "secret list \<Rightarrow> env_var \<Rightarrow> (string \<times> string) option" where
  "secret_source secrets v =
     (case v of
        EnvSecretKey name sec key \<Rightarrow> Some (name, existingToken (find (\<lambda>s. secName s = sec) secrets) key)
      | EnvOptionalSecretKey name sec key \<Rightarrow> Some (name, existingToken (find (\<lambda>s. secName s = sec) secrets) key)
      | _ \<Rightarrow> None)"

text \<open>A text without surrounding space, line breaks and references, and of at most 512 bytes.\<close>

definition plain :: "string \<Rightarrow> bool" where
  "plain s \<longleftrightarrow> s \<noteq> [] \<and> visible (hd s) \<and> visible (last s) \<and> length s \<le> 512 \<and>
     CHR 0x0A \<notin> set s \<and> CHR 0x0D \<notin> set s \<and> CHR ''$'' \<notin> set s"

lemma plain_TrimSpace: "plain s \<Longrightarrow> TrimSpace s = s"
  by (simp add: plain_def TrimSpace_visible)

lemma plain_identity: "plain s \<Longrightarrow> identityCheck name s = Inr ()"
  by (auto simp: plain_def identityCheck_def validIdentityPart_def ContainsAny_def list_ex_iff)

lemma lower_alnum_visible: "lower_alnum c \<Longrightarrow> visible c"
  by (auto simp: lower_alnum_def visible_def Let_def)

lemma dnsLabel_TrimSpace:
  assumes "dnsLabelPattern s" shows "TrimSpace s = s"
proof (rule TrimSpace_visible)
  show "s \<noteq> []" using assms by (auto simp: dnsLabelPattern_def)
  then show "visible (hd s)" "visible (last s)"
    using assms by (auto simp: dnsLabelPattern_def lower_alnum_visible split: list.splits)
qed

lemma hexEncode_visible:
  "\<forall>b \<in> set bs. b < 256 \<Longrightarrow> c \<in> set (hexEncode bs) \<Longrightarrow> visible c"
  by (auto simp: hexEncode_def intro!: hex_digit_visible)

lemma randomToken_plain:
  assumes "randomToken (Inr bs) = Inr v" "length bs = 32" "\<forall>b \<in> set bs. b < 256"
  shows "length v = 64 \<and> TrimSpace v = v"
proof -
  have v: "v = hexEncode bs" using assms(1) by (simp add: randomToken_def)
  then have "length v = 64" using assms(2) by (simp add: hexEncode_length)
  moreover from this have "v \<noteq> []" by auto
  ultimately show ?thesis
    using hexEncode_visible [OF assms(3)] v by (auto intro!: TrimSpace_visible)
qed

lemma new_token:
  assumes "fillSlot rnd name True ('''', k) = Inr (v, k')"
    and "\<forall>k bs. rnd k = Inr bs \<longrightarrow> length bs = 32 \<and> (\<forall>b \<in> set bs. b < 256)"
  shows "length v = 64 \<and> TrimSpace v = v"
proof -
  from assms(1) obtain bs where "rnd k = Inr bs" "randomToken (Inr bs) = Inr v"
    by (auto simp: fillSlot_def randomToken_def split: sum.splits)
  moreover from this assms(2) have "length bs = 32" "\<forall>b \<in> set bs. b < 256" by blast+
  ultimately show ?thesis using randomToken_plain by blast
qed

section \<open>Allowed logins\<close>

lemma joinNonEmpty_fold:
  "fold (\<lambda>v joined. if v = '''' then joined else (if joined \<noteq> '''' then joined @ '','' else joined) @ v) vs acc =
     (if acc = '''' then join_with (CHR '','') (filter (\<lambda>v. v \<noteq> '''') vs)
      else acc @ concat (map (\<lambda>v. CHR '','' # v) (filter (\<lambda>v. v \<noteq> '''') vs)))"
proof (induction vs arbitrary: acc)
  case Nil
  then show ?case by simp
next
  case (Cons v vs)
  have "join_with (CHR '','') (w # ws) = w @ concat (map (\<lambda>v. CHR '','' # v) ws)" for w ws
    by (induction ws arbitrary: w) auto
  with Cons show ?case by simp
qed

lemma joinNonEmpty_join: "joinNonEmpty vs = join_with (CHR '','') (filter (\<lambda>v. v \<noteq> '''') vs)"
  by (simp add: joinNonEmpty_def joinNonEmpty_fold)

lemma join_with_ends:
  assumes "ws \<noteq> []" "\<forall>w \<in> set ws. w \<noteq> []"
  shows "join_with sep ws \<noteq> [] \<and> hd (join_with sep ws) = hd (hd ws) \<and> last (join_with sep ws) = last (last ws)"
  using assms by (induction sep ws rule: join_with.induct) auto

lemma parseLoginEntries_plain:
  "\<forall>w \<in> set ws. plain w \<Longrightarrow>
     \<exists>logins'. parseLoginEntries ws logins n = Inr (logins', n + length ws) \<and> set logins' = set logins \<union> set ws"
proof (induction ws arbitrary: logins n)
  case Nil
  then show ?case by simp
next
  case (Cons w ws)
  have ok: "TrimSpace w = w" "w \<noteq> ''''" "validIdentityPart ''TAILSCALE_ALLOWED_LOGINS'' w = None"
    using Cons.prems by (auto simp: plain_TrimSpace plain_def validIdentityPart_def ContainsAny_def list_ex_iff)
  have mem: "allowedLogin ls w \<longleftrightarrow> w \<in> set ls" for ls
    by (induction ls) auto
  show ?case
    using Cons.IH [of "if w \<in> set logins then logins else logins @ [w]" "Suc n"] Cons.prems ok mem
    by (auto simp: Let_def)
qed

lemma parseAllowedLogins_joined:
  assumes "\<forall>v \<in> set vs. v = '''' \<or> plain v \<and> CHR '','' \<notin> set v"
  shows "\<exists>logins. parseAllowedLogins (TrimSpace (joinNonEmpty vs)) owner = Inr logins \<and>
    set logins = insert owner {v \<in> set vs. v \<noteq> ''''}"
proof (cases "filter (\<lambda>v. v \<noteq> '''') vs = []")
  case True
  then have "\<forall>v \<in> set vs. v = ''''" by (simp add: filter_empty_conv)
  then show ?thesis
    unfolding joinNonEmpty_join True by (auto simp: parseAllowedLogins_def)
next
  case False
  let ?ws = "filter (\<lambda>v. v \<noteq> '''') vs"
  have ws: "\<forall>w \<in> set ?ws. plain w" "\<forall>w \<in> set ?ws. CHR '','' \<notin> set w" "\<forall>w \<in> set ?ws. w \<noteq> []"
    using assms by auto
  note ends = join_with_ends [OF False ws(3), of "CHR '',''"]
  have "plain (hd ?ws)" "plain (last ?ws)"
    using bspec [OF ws(1) hd_in_set [OF False]] bspec [OF ws(1) last_in_set [OF False]] by blast+
  then have trim: "TrimSpace (join_with (CHR '','') ?ws) = join_with (CHR '','') ?ws"
    using ends by (intro TrimSpace_visible) (auto simp: plain_def)
  have "split_on (CHR '','') (join_with (CHR '','') ?ws) = ?ws"
    using False ws(2) by (intro split_join) auto
  moreover obtain logins where "parseLoginEntries ?ws [owner] 0 = Inr (logins, 0 + length ?ws)"
      "set logins = {owner} \<union> set ?ws"
    using parseLoginEntries_plain [OF ws(1), of "[owner]" 0] by auto
  ultimately show ?thesis
    unfolding joinNonEmpty_join trim using ends False by (auto simp: parseAllowedLogins_def)
qed

section \<open>The rendered environment loads\<close>

lemma decimal_visible: "c \<in> set (decimal n) \<Longrightarrow> visible c"
proof (induction n rule: decimal.induct)
  case (1 n)
  have "visible (char_of (48 + d))" if "d < 10" for d :: nat
    using that by (simp add: visible_def)
  with 1 show ?case by (subst (asm) (2) decimal.simps) (auto split: if_splits)
qed

lemma decimal_no_dollar: "CHR ''$'' \<notin> set (decimal n)"
proof (induction n rule: decimal.induct)
  case (1 n)
  have "of_char (char_of (48 + d) :: char) \<noteq> (36 :: nat)" if "d < 10" for d :: nat
    using that by simp
  moreover have "of_char (CHR ''$'') = (36 :: nat)" by simp
  ultimately have "char_of (48 + d) \<noteq> CHR ''$''" if "d < 10" for d :: nat
    using that by metis
  note digit = this [symmetric]
  show ?case using 1 digit [of n] digit [of "n mod 10"] by (subst decimal.simps) auto
qed

lemma dnsLabel_no_dollar: "dnsLabelPattern s \<Longrightarrow> CHR ''$'' \<notin> set s"
proof (cases s)
  case (Cons c cs)
  moreover have "\<not> lower_alnum (CHR ''$'')" by (simp add: lower_alnum_def)
  moreover assume "dnsLabelPattern s"
  ultimately show ?thesis
    by (cases cs rule: rev_cases) (auto simp: dnsLabelPattern_def list_all_iff)
qed simp

lemma joined_no_dollar:
  "\<forall>v \<in> set vs. v = '''' \<or> plain v \<and> CHR '','' \<notin> set v \<Longrightarrow> CHR ''$'' \<notin> set (joinNonEmpty vs)"
  unfolding joinNonEmpty_join using set_join_with [of "CHR '',''" "filter (\<lambda>v. v \<noteq> '''') vs"]
  by (auto simp: plain_def)

definition gateway_environment ::
  "((string \<rightharpoonup> string) \<Rightarrow> string \<Rightarrow> string) \<Rightarrow> TypeClawInstance \<Rightarrow> TokenSet \<Rightarrow> string \<Rightarrow> string \<Rightarrow> string" where
  "gateway_environment expand inst tokens consoleURL =
     getenv (container_env expand (secret_source [TokensSecret inst tokens]) (gatewayEnv inst consoleURL) Map.empty)"

definition loginTexts :: "TypeClawInstance \<Rightarrow> string list" where
  "loginTexts inst = (case TailscaleAccess (spPersonalDesktop (Spec inst)) of None \<Rightarrow> [] | Some access \<Rightarrow> tsAllowedLogins access)"

definition no_references :: "TypeClawInstance \<Rightarrow> bool" where
  "no_references inst \<longleftrightarrow> list_all (\<lambda>s. CHR ''$'' \<notin> set s)
     [nsNamespace (Names inst), nsDesktop (Names inst), Desktop_Names.OwnerIssuer (spPersonalDesktop (Spec inst)),
      ownerSubject (spPersonalDesktop (Spec inst)), joinNonEmpty (loginTexts inst)]"

text \<open>Every variable but the console's address, when the texts of the spec have no dollar sign.\<close>

lemma gateway_environment_values:
  fixes expand inst tokens url
  defines "env \<equiv> gateway_environment expand inst tokens url" and "spec \<equiv> spPersonalDesktop (Spec inst)"
  assumes law: "expansion_law expand" and texts: "no_references inst"
  shows "env ''DESKTOP_NAMESPACE'' = nsNamespace (Names inst)" "env ''DESKTOP_NAME'' = nsDesktop (Names inst)"
    "env ''DESKTOP_OS'' = GuestOSName spec" "env ''OWNER_ISSUER'' = Desktop_Names.OwnerIssuer spec"
    "env ''OWNER_SUBJECT'' = ownerSubject spec" "env ''CONSOLE_AUTH_MODE'' = ''tailscale''"
    "env ''LISTEN_ADDRESS'' = '':8080''" "env ''CONSOLE_LISTEN_ADDRESS'' = Desktop_Names.ConsoleListenAddress spec"
    "env ''AGENT_LEASE_TTL'' = Itoa (EffectiveLeaseTTLSeconds spec) @ ''s''"
    "env ''AGENT_TOKEN'' = tokAgent tokens" "env ''GUEST_AGENT_TOKEN'' = tokGuest tokens"
    "env ''TAILSCALE_ALLOWED_LOGINS'' = joinNonEmpty (loginTexts inst)"
    "env ''GUEST_AGENT_ADDRESS'' = ''''" "env ''NOVNC_DIR'' = ''''"
    "env ''AUTH_PROXY_TOKEN'' = ''''" "env ''DEV_ACCESS_TOKEN'' = ''''" "env ''GUEST_AGENT_TIMEOUT'' = ''''"
    "env ''STATUS_TIMEOUT'' = ''''" "env ''SCREENSHOT_TIMEOUT'' = ''''" "env ''POWER_TIMEOUT'' = ''''"
    "env ''SCREENSHOT_CONCURRENCY'' = ''''"
proof -
  have plain: "\<And>env s. CHR ''$'' \<notin> set s \<Longrightarrow> expand env s = s" using law by (simp add: expansion_law_def)
  have port: "Itoa 8080 = ''8080''" by (simp add: Itoa_def decimal.simps char_of_def bit_0)
  have fixed: "CHR ''$'' \<notin> set (GuestOSName spec)" "CHR ''$'' \<notin> set (Desktop_Names.ConsoleListenAddress spec)"
    by (simp_all add: GuestOSName_def Desktop_Names.ConsoleListenAddress_def)
  have ttl: "CHR ''$'' \<notin> set (Itoa (EffectiveLeaseTTLSeconds spec))"
    using decimal_no_dollar by (simp add: Itoa_def)
  have none: "joinNonEmpty [] = ''''" by (simp add: joinNonEmpty_def)
  note facts = plain port fixed ttl none texts [unfolded no_references_def]
  show "env ''DESKTOP_NAMESPACE'' = nsNamespace (Names inst)" "env ''DESKTOP_NAME'' = nsDesktop (Names inst)"
    "env ''DESKTOP_OS'' = GuestOSName spec" "env ''OWNER_ISSUER'' = Desktop_Names.OwnerIssuer spec"
    "env ''OWNER_SUBJECT'' = ownerSubject spec" "env ''CONSOLE_AUTH_MODE'' = ''tailscale''"
    "env ''LISTEN_ADDRESS'' = '':8080''" "env ''CONSOLE_LISTEN_ADDRESS'' = Desktop_Names.ConsoleListenAddress spec"
    "env ''AGENT_LEASE_TTL'' = Itoa (EffectiveLeaseTTLSeconds spec) @ ''s''"
    "env ''AGENT_TOKEN'' = tokAgent tokens" "env ''GUEST_AGENT_TOKEN'' = tokGuest tokens"
    "env ''TAILSCALE_ALLOWED_LOGINS'' = joinNonEmpty (loginTexts inst)"
    "env ''GUEST_AGENT_ADDRESS'' = ''''" "env ''NOVNC_DIR'' = ''''"
    "env ''AUTH_PROXY_TOKEN'' = ''''" "env ''DEV_ACCESS_TOKEN'' = ''''" "env ''GUEST_AGENT_TIMEOUT'' = ''''"
    "env ''STATUS_TIMEOUT'' = ''''" "env ''SCREENSHOT_TIMEOUT'' = ''''" "env ''POWER_TIMEOUT'' = ''''"
    "env ''SCREENSHOT_CONCURRENCY'' = ''''"
    using facts unfolding spec_def loginTexts_def
    by (simp_all add: env_def gateway_environment_def gatewayEnv_def getenv_def secret_source_def existingToken_def
        TokensSecret_def Let_def split: option.splits)
qed

lemma drawn_tokens:
  assumes "NewTokenSet rnd inst None = Inr tokens" "\<forall>k bs. rnd k = Inr bs \<longrightarrow> length bs = 32 \<and> (\<forall>b \<in> set bs. b < 256)"
  shows "length (tokAgent tokens) = 64" "TrimSpace (tokAgent tokens) = tokAgent tokens"
    "length (tokGuest tokens) = 64" "TrimSpace (tokGuest tokens) = tokGuest tokens"
proof -
  obtain k1 k2 where "fillSlot rnd TokenKeyAgent True ('''', 0) = Inr (tokAgent tokens, k1)"
      "fillSlot rnd TokenKeyGuest True ('''', k1) = Inr (tokGuest tokens, k2)"
    using NewTokenSet_Inr [OF assms(1)] by (auto simp: existingToken_def)
  then show "length (tokAgent tokens) = 64" "TrimSpace (tokAgent tokens) = tokAgent tokens"
    "length (tokGuest tokens) = 64" "TrimSpace (tokGuest tokens) = tokGuest tokens"
    using new_token assms(2) by blast+
qed

lemma lease_seconds:
  assumes "0 < secs" "timeParseDuration lib (Itoa secs @ ''s'') = Some (secs * 1000000000)"
  shows "parseDuration lib ''AGENT_LEASE_TTL'' (TrimSpace (Itoa secs @ ''s'')) = Inr (secs * 1000000000)"
  using TrimSpace_visible [of "Itoa secs @ ''s''"] decimal_visible [where n = "nat secs"] assms
  by (simp add: parseDuration_def Itoa_def hd_append decimal_nonempty visible_def)

text \<open>The fields the gateway reads from the rendered environment before it checks them.\<close>

lemma environmentConfig_rendered:
  fixes expand inst tokens url
  defines "cfg \<equiv> environmentConfig (gateway_environment expand inst tokens url)" and "spec \<equiv> spPersonalDesktop (Spec inst)"
  assumes "expansion_law expand" "no_references inst"
    and "dnsLabelPattern (Namespace inst)" "dnsLabelPattern (instName inst @ ''-desktop'')"
    and "plain (Desktop_Names.OwnerIssuer spec)" "plain (ownerSubject spec)"
    and "TrimSpace (tokAgent tokens) = tokAgent tokens" "TrimSpace (tokGuest tokens) = tokGuest tokens"
  shows "cfgNamespace cfg = Namespace inst" "cfgName cfg = instName inst @ ''-desktop''" "cfgOS cfg = GuestOSName spec"
    "Config.OwnerIssuer cfg = Desktop_Names.OwnerIssuer spec" "OwnerSubject cfg = ownerSubject spec"
    "cfgConsoleAuthMode cfg = ConsoleAuthTailscale" "AgentListenAddress cfg = '':8080''"
    "Config.ConsoleListenAddress cfg = Desktop_Names.ConsoleListenAddress spec"
    "AgentToken cfg = tokAgent tokens" "GuestAgentToken cfg = tokGuest tokens"
    "GuestAgentAddress cfg = ''''" "NoVNCDir cfg = ''/opt/novnc''"
proof -
  have trims: "TrimSpace (nsNamespace (Names inst)) = Namespace inst"
      "TrimSpace (nsDesktop (Names inst)) = instName inst @ ''-desktop''"
      "TrimSpace (Desktop_Names.OwnerIssuer spec) = Desktop_Names.OwnerIssuer spec"
      "TrimSpace (ownerSubject spec) = ownerSubject spec"
    using assms(5-8) by (simp_all add: Names_def Let_def dnsLabel_TrimSpace plain_TrimSpace)
  have fixed: "TrimSpace (GuestOSName spec) = GuestOSName spec" "TrimSpace ''tailscale'' = ''tailscale''"
      "TrimSpace '':8080'' = '':8080''"
      "TrimSpace (Desktop_Names.ConsoleListenAddress spec) = Desktop_Names.ConsoleListenAddress spec"
    by (simp_all add: GuestOSName_def Desktop_Names.ConsoleListenAddress_def TrimSpace_visible visible_def)
  show "cfgNamespace cfg = Namespace inst" "cfgName cfg = instName inst @ ''-desktop''" "cfgOS cfg = GuestOSName spec"
    "Config.OwnerIssuer cfg = Desktop_Names.OwnerIssuer spec" "OwnerSubject cfg = ownerSubject spec"
    "cfgConsoleAuthMode cfg = ConsoleAuthTailscale" "AgentListenAddress cfg = '':8080''"
    "Config.ConsoleListenAddress cfg = Desktop_Names.ConsoleListenAddress spec"
    "AgentToken cfg = tokAgent tokens" "GuestAgentToken cfg = tokGuest tokens"
    "GuestAgentAddress cfg = ''''" "NoVNCDir cfg = ''/opt/novnc''"
    unfolding cfg_def environmentConfig_def Let_def Config.select_convs gateway_environment_values [OF assms(3,4)]
      trims [unfolded spec_def] fixed [unfolded spec_def] assms(9,10)
    by (simp_all add: spec_def GuestOSName_def ToLower_def ascii_lower_def consoleAuthMode_def
        Desktop_Names.ConsoleListenAddress_def assms(7) [unfolded plain_def spec_def])
qed

text \<open>
  C37. The gateway starts with the environment the operator renders for it. For a desktop whose
  namespace and name are DNS labels, whose owner and logins are plain texts (and the logins free
  of commas), with the tokens the operator draws: the gateway's own configuration check accepts the
  rendered environment, whatever the console address is, in Ingress and in Sidecar mode. The loaded
  configuration names the virtual machine the operator renders; its guest address is the rendered
  agent Service on its port, although the environment does not carry it; its listeners are the
  rendered ones; its tokens are the ones in the token Secret; the lease expires after the configured
  seconds; and the console admits exactly the owner and the listed logins. (Of the kubelet only the
  documented expansion of literal values is used; plain texts have nothing to expand.)
\<close>

theorem gateway_env_loads:
  assumes "dnsLabelPattern (Namespace inst)" "length (Namespace inst) \<le> 63"
    and "dnsLabelPattern (instName inst @ ''-desktop'')" "length (instName inst) \<le> 55"
    and "plain (Desktop_Names.OwnerIssuer (spPersonalDesktop (Spec inst)))"
    and "plain (ownerSubject (spPersonalDesktop (Spec inst)))"
    and "\<forall>access. TailscaleAccess (spPersonalDesktop (Spec inst)) = Some access \<longrightarrow>
      (\<forall>l \<in> set (tsAllowedLogins access). l = '''' \<or> plain l \<and> CHR '','' \<notin> set l)"
    and "timeParseDuration lib (Itoa (EffectiveLeaseTTLSeconds (spPersonalDesktop (Spec inst))) @ ''s'') =
      Some (EffectiveLeaseTTLSeconds (spPersonalDesktop (Spec inst)) * 1000000000)"
    and "NewTokenSet rnd inst None = Inr tokens"
    and "\<forall>k bs. rnd k = Inr bs \<longrightarrow> length bs = 32 \<and> (\<forall>b \<in> set bs. b < 256)"
    and "expansion_law expand"
  shows "\<exists>cfg. LoadConfig lib (gateway_environment expand inst tokens url) = Inr cfg \<and>
    cfgNamespace cfg = uNamespace (VM quantity inst) \<and> cfgName cfg = uName (VM quantity inst) \<and>
    GuestAgentAddress cfg = ''http://'' @ svcName (AgentService inst) @ ''.'' @ svcNamespace (AgentService inst) @ ''.svc:9876'' \<and>
    svcPorts (AgentService inst) = [(''desktop-agent'', 9876, PortNumber 9876)] \<and>
    AgentListenAddress cfg = '':8080'' \<and>
    Config.ConsoleListenAddress cfg =
      (if ConsoleSidecar (spPersonalDesktop (Spec inst)) then ''127.0.0.1:8081'' else '':8081'') \<and>
    cfgConsoleAuthMode cfg = ConsoleAuthTailscale \<and>
    AgentToken cfg = tokAgent tokens \<and> GuestAgentToken cfg = tokGuest tokens \<and>
    AgentLeaseTTL cfg = EffectiveLeaseTTLSeconds (spPersonalDesktop (Spec inst)) * 1000000000 \<and>
    0 < AgentLeaseTTL cfg \<and>
    set (AllowedLogins cfg) = insert (ownerSubject (spPersonalDesktop (Spec inst)))
      {l. l \<noteq> '''' \<and> (\<exists>access. TailscaleAccess (spPersonalDesktop (Spec inst)) = Some access \<and> l \<in> set (tsAllowedLogins access))}"
proof -
  let ?spec = "spPersonalDesktop (Spec inst)" and ?env = "gateway_environment expand inst tokens url"
  have plain_logins: "\<forall>v \<in> set (loginTexts inst). v = '''' \<or> plain v \<and> CHR '','' \<notin> set v"
    using assms(7) by (cases "TailscaleAccess (spPersonalDesktop (Spec inst))") (auto simp: loginTexts_def)
  have texts: "no_references inst"
    using assms(1,3,5,6) joined_no_dollar [OF plain_logins] dnsLabel_no_dollar [of "Namespace inst"]
      dnsLabel_no_dollar [of "instName inst @ ''-desktop''"]
    by (auto simp: no_references_def Names_def Let_def plain_def)
  define ttl where "ttl = EffectiveLeaseTTLSeconds ?spec"
  have ttl: "0 < ttl" by (auto simp: ttl_def EffectiveLeaseTTLSeconds_def split: option.splits)
  note tokens = drawn_tokens [OF assms(9,10)]
  obtain logins where logins: "parseAllowedLogins (TrimSpace (joinNonEmpty (loginTexts inst))) (ownerSubject ?spec) = Inr logins"
      "set logins = insert (ownerSubject ?spec) {v \<in> set (loginTexts inst). v \<noteq> ''''}"
    using parseAllowedLogins_joined [OF plain_logins] by blast
  note lease = lease_seconds [OF ttl assms(8) [folded ttl_def]]
  note env = environmentConfig_rendered [OF assms(11) texts assms(1,3,5,6) tokens(2,4), of url]
  have ok: "Namespace inst \<noteq> ''''" "cfgOS (environmentConfig ?env) \<in> {''linux'', ''windows'', ''macos''}"
    using assms(1) env(3) by (auto simp: dnsLabelPattern_def GuestOSName_def)
  have none: "parseDuration lib name '''' = Inr 0" "parseConcurrency '''' = Inr 0" for name
    by (simp_all add: parseDuration_def parseConcurrency_def)
  have load: "LoadConfig lib ?env = Inr ((environmentConfig ?env)\<lparr>AllowedLogins := logins,
      GuestAgentAddress := ''http://'' @ (instName inst @ ''-desktop'') @ ''-agent.'' @ Namespace inst @ ''.svc:9876'',
      GuestAgentTimeout := 0, AgentLeaseTTL := ttl * 1000000000, StatusTimeout := 0, ScreenshotTimeout := 0,
      PowerTimeout := 0, ScreenshotConcurrency := 0\<rparr>)"
    unfolding LoadConfig_def Let_def gateway_environment_values [OF assms(11) texts] TrimSpace_Nil env none
    using assms(1-6) ok(1) ok(2) [unfolded env] tokens(1,3) logins(1) lease [unfolded ttl_def]
    by (simp add: bindE_def guardE_def plain_identity consoleModeCheck_def env ttl_def)
  have "set logins = insert (ownerSubject ?spec)
      {l. l \<noteq> '''' \<and> (\<exists>access. TailscaleAccess ?spec = Some access \<and> l \<in> set (tsAllowedLogins access))}"
    unfolding logins(2) loginTexts_def by (cases "TailscaleAccess ?spec") auto
  with ttl show ?thesis
    unfolding load by (simp add: env VM_def Let_def AgentService_def Names_def NewObject_def SetSpec_def ttl_def
        Desktop_Names.ConsoleListenAddress_def)
qed

text \<open>A standard library that knows one duration, and a random source that always draws the same bytes.\<close>

definition seconds_lib :: netlib where
  "seconds_lib = \<lparr>urlParse = (\<lambda>_. None), ipIsLoopback = (\<lambda>_. False), SplitHostPort = (\<lambda>_. None),
     timeParseDuration = (\<lambda>s. if s = Itoa 120 @ ''s'' then Some (120 * 1000000000) else None)\<rparr>"

lemma sample_desktop_plain:
  "dnsLabelPattern ''d''" "dnsLabelPattern (''i'' @ ''-desktop'')"
  "plain (Desktop_Names.OwnerIssuer (Some sample_desktop))" "plain (ownerSubject (Some sample_desktop))"
  by (simp_all add: dnsLabelPattern_def lower_alnum_def plain_def visible_def Desktop_Names.OwnerIssuer_def
      ownerSubject_def sample_desktop_def)

theorem gateway_env_loads_witness:
  "\<exists>tokens cfg. NewTokenSet (\<lambda>k. Inr (replicate 32 7)) desktop_inst None = Inr tokens \<and>
     LoadConfig seconds_lib (gateway_environment expandRefs desktop_inst tokens ''https://desk.example'') = Inr cfg \<and>
     GuestAgentAddress cfg = ''http://i-desktop-agent.d.svc:9876'' \<and> AllowedLogins cfg \<noteq> []"
proof -
  obtain tokens where tokens: "NewTokenSet (\<lambda>k. Inr (replicate 32 7)) desktop_inst None = Inr tokens"
    by (simp add: NewTokenSet_def fillSlot_def existingToken_def randomToken_def OS_def sample_desktop_def)
  have ttl: "EffectiveLeaseTTLSeconds (Some sample_desktop) = 120"
    by (simp add: EffectiveLeaseTTLSeconds_def sample_desktop_def)
  have addr: "''http://'' @ svcName (AgentService desktop_inst) @ ''.'' @ svcNamespace (AgentService desktop_inst) @
      ''.svc:9876'' = ''http://i-desktop-agent.d.svc:9876''"
    by (simp add: AgentService_def Names_def Let_def)
  have "\<exists>cfg. LoadConfig seconds_lib (gateway_environment expandRefs desktop_inst tokens ''https://desk.example'') = Inr cfg \<and>
      GuestAgentAddress cfg = ''http://'' @ svcName (AgentService desktop_inst) @ ''.'' @
        svcNamespace (AgentService desktop_inst) @ ''.svc:9876'' \<and> set (AllowedLogins cfg) \<noteq> {}"
    using gateway_env_loads [of desktop_inst seconds_lib "\<lambda>k. Inr (replicate 32 7)" tokens expandRefs "''https://desk.example''"]
      expandRefs_law tokens sample_desktop_plain by (fastforce simp: ttl seconds_lib_def)
  with tokens show ?thesis unfolding addr set_empty2 by blast
qed

end
