(* ===== verification/Desktop_Control.thy ===== *)
theory Desktop_Control
  imports Desktop_Objects Guest_Payload
begin

text \<open>
  The Personal Desktop controller (\<^verbatim>\<open>internal/controller/personaldesktop_controller.go\<close>). One
  reconciliation is a function of the objects in the cluster and of the answers to its calls; it
  yields its result and the effects it had, in order, so that what a crash leaves behind is a
  prefix of them. Every object is read at most once and before it is written.
\<close>

section \<open>The cluster\<close>

datatype desk_kind =
    KConfigMap | KSecret | KIngress | KNetworkPolicy | KDeployment | KService | KRoleBinding | KRole
  | KServiceAccount | KPersistentVolumeClaim | KVirtualMachine | KDataVolume

text \<open>An object's key: its kind, namespace and name.\<close>

type_synonym key = "desk_kind \<times> string \<times> string"

datatype desk_payload =
    OData "(string \<times> string) list"
  | OIngress ingress
  | OPolicy network_policy
  | ODeployment deployment
  | OService service
  | OBinding role_binding
  | ORole role
  | OAccount
  | OClaim pvc
  | OSpec "(string, json) gomap"

record desk_object =
  stPayload :: desk_payload
  stOwned :: bool
  stLabels :: "(string \<times> string) list"

type_synonym desk_cluster = "key \<Rightarrow> desk_object option"

datatype effect =
    Put key desk_object
  | Del key
  | SetFinalizer bool
  | PatchStatus TypeClawInstanceStatus

datatype desk_op = GetOp key | WriteOp key | DeleteOp key | OwnOp key | UpdateInstanceOp | PatchOp

record 'e desk_env =
  fails :: "desk_op \<Rightarrow> 'e option"
  isNotFound :: "'e \<Rightarrow> bool"
  isConflict :: "'e \<Rightarrow> bool"
  isAlreadyExists :: "'e \<Rightarrow> bool"
  errText :: "'e \<Rightarrow> string"
  restMapping :: "gvk \<Rightarrow> bool"
  volumePhase :: "key \<Rightarrow> string"
  vmStatusText :: string
  agentIP :: string
  ingressHosts :: "string list"
  readyReplicas :: int
  envNetwork :: "'e network_lib"
  randomBytes :: random_source
  guestAssets :: guest_assets
  pluginSource :: string
  quantityText :: "int \<Rightarrow> string"
  OperatorImage :: string
  clock :: int

datatype 'e desk_error = Wrapped string 'e | RenderError string

definition deskErrorText :: "'e desk_env \<Rightarrow> 'e desk_error \<Rightarrow> string" where
  "deskErrorText env err =
     (case err of
        Wrapped what e \<Rightarrow> (if what = '''' then '''' else what @ '': '') @ errText env e
      | RenderError t \<Rightarrow> t)"

text \<open>A step yields an error or a value, and its effects; the first error ends a sequence.\<close>

type_synonym ('e, 'a) desk = "('e desk_error + 'a) \<times> effect list"

definition thenDesk :: "('e, 'a) desk \<Rightarrow> ('a \<Rightarrow> ('e, 'b) desk) \<Rightarrow> ('e, 'b) desk" where
  "thenDesk m f =
     (case m of
        (Inl err, es) \<Rightarrow> (Inl err, es)
      | (Inr x, es) \<Rightarrow> (case f x of (r, es') \<Rightarrow> (r, es @ es')))"

definition done' :: "'a \<Rightarrow> ('e, 'a) desk" where
  "done' x = (Inr x, [])"

section \<open>Writing and removing objects\<close>

definition readObject :: "'e desk_env \<Rightarrow> desk_cluster \<Rightarrow> key \<Rightarrow> 'e + desk_object option" where
  "readObject env s k =
     (case fails env (GetOp k) of
        None \<Rightarrow> Inr (s k)
      | Some err \<Rightarrow> if isNotFound env err then Inr None else Inl err)"

text \<open>\<^verbatim>\<open>controllerutil.CreateOrUpdate\<close>: nothing is written when the mutator changed nothing.\<close>

definition createOrUpdate ::
  "'e desk_env \<Rightarrow> desk_cluster \<Rightarrow> string \<Rightarrow> key \<Rightarrow> (desk_object option \<Rightarrow> 'e desk_error + desk_object) \<Rightarrow> ('e, unit) desk" where
  "createOrUpdate env s what k mutate =
     (case readObject env s k of
        Inl err \<Rightarrow> (Inl (Wrapped what err), [])
      | Inr live \<Rightarrow>
         (case mutate live of
            Inl err \<Rightarrow> (Inl err, [])
          | Inr obj \<Rightarrow>
              if live = Some obj then (Inr (), [])
              else (case fails env (WriteOp k) of
                  Some err \<Rightarrow> (Inl (Wrapped what err), [])
                | None \<Rightarrow> (Inr (), [Put k obj]))))"

definition labelDesktopObject :: "TypeClawInstance \<Rightarrow> desk_object option \<Rightarrow> desk_payload \<Rightarrow> desk_object" where
  "labelDesktopObject inst live p =
     \<lparr>stPayload = p, stOwned = (case live of Some o' \<Rightarrow> stOwned o' | None \<Rightarrow> False), stLabels = DesktopLabels inst\<rparr>"

definition ownDesktopObject ::
  "'e desk_env \<Rightarrow> TypeClawInstance \<Rightarrow> string \<Rightarrow> key \<Rightarrow> desk_object option \<Rightarrow> desk_payload \<Rightarrow> 'e desk_error + desk_object" where
  "ownDesktopObject env inst what k live p =
     (if fst (snd k) \<noteq> instNamespace inst then Inr (labelDesktopObject inst live p)
      else (case fails env (OwnOp k) of
          Some err \<Rightarrow> Inl (Wrapped what err)
        | None \<Rightarrow> Inr ((labelDesktopObject inst live p)\<lparr>stOwned := True\<rparr>)))"

definition livePayload :: "desk_object option \<Rightarrow> desk_payload option" where
  "livePayload live = map_option stPayload live"

definition applyDesktopObject ::
  "'e desk_env \<Rightarrow> TypeClawInstance \<Rightarrow> desk_cluster \<Rightarrow> string \<Rightarrow> key \<Rightarrow> (desk_payload option \<Rightarrow> desk_payload) \<Rightarrow> ('e, unit) desk" where
  "applyDesktopObject env inst s what k render =
     createOrUpdate env s what k (\<lambda>live. ownDesktopObject env inst what k live (render (livePayload live)))"

fun goType :: "desk_kind \<Rightarrow> string" where
  "goType KConfigMap = ''*v1.ConfigMap''"
| "goType KSecret = ''*v1.Secret''"
| "goType KIngress = ''*v1.Ingress''"
| "goType KNetworkPolicy = ''*v1.NetworkPolicy''"
| "goType KDeployment = ''*v1.Deployment''"
| "goType KService = ''*v1.Service''"
| "goType KRoleBinding = ''*v1.RoleBinding''"
| "goType KRole = ''*v1.Role''"
| "goType KServiceAccount = ''*v1.ServiceAccount''"
| "goType KPersistentVolumeClaim = ''*v1.PersistentVolumeClaim''"
| "goType KVirtualMachine = ''*unstructured.Unstructured''"
| "goType KDataVolume = ''*unstructured.Unstructured''"

definition removing :: "key \<Rightarrow> string" where
  "removing k = ''remove '' @ goType (fst k) @ '' '' @ fst (snd k) @ ''/'' @ snd (snd k)"

definition deleteDesktopObject :: "'e desk_env \<Rightarrow> string \<Rightarrow> key \<Rightarrow> ('e, unit) desk" where
  "deleteDesktopObject env what k =
     (case fails env (DeleteOp k) of
        None \<Rightarrow> (Inr (), [Del k])
      | Some err \<Rightarrow>
          if isNotFound env err then (Inr (), [])
          else (Inl (Wrapped ((if what = '''' then '''' else what @ '': '') @ removing k) err), []))"

definition ensureDataVolume ::
  "'e desk_env \<Rightarrow> TypeClawInstance \<Rightarrow> desk_cluster \<Rightarrow> string \<Rightarrow> unstructured option \<Rightarrow> string \<Rightarrow> ('e, string) desk" where
  "ensureDataVolume env inst s what desired name =
     (let k = (KDataVolume, nsNamespace (Names inst), name) in
      if name = '''' then done' ''''
      else (case readObject env s k of
          Inl err \<Rightarrow> (Inl (Wrapped what err), [])
        | Inr (Some live) \<Rightarrow> done' (volumePhase env k)
        | Inr None \<Rightarrow>
           (case desired of
              None \<Rightarrow> done' ''''
            | Some u \<Rightarrow>
               (case fails env (WriteOp k) of
                  Some err \<Rightarrow> if isAlreadyExists env err then done' '''' else (Inl (Wrapped what err), [])
                | None \<Rightarrow> (Inr '''', [Put k (labelDesktopObject inst None (OSpec (specOf (Some u))))])))))"

section \<open>Credentials and payload\<close>

definition tokensKey :: "TypeClawInstance \<Rightarrow> key" where
  "tokensKey inst = (KSecret, nsNamespace (Names inst), nsTokens (Names inst))"

definition storedSecret :: "TypeClawInstance \<Rightarrow> desk_object option \<Rightarrow> secret" where
  "storedSecret inst live =
     \<lparr>secName = nsTokens (Names inst), secNamespace = nsNamespace (Names inst),
      secLabels = (case live of Some o' \<Rightarrow> stLabels o' | None \<Rightarrow> []),
      secData = (case live of Some o' \<Rightarrow> (case stPayload o' of OData d \<Rightarrow> d | _ \<Rightarrow> []) | None \<Rightarrow> [])\<rparr>"

text \<open>The token Secret, without an owner reference, and the tokens it holds afterwards.\<close>

definition applyTokens :: "'e desk_env \<Rightarrow> TypeClawInstance \<Rightarrow> desk_cluster \<Rightarrow> ('e, TokenSet) desk" where
  "applyTokens env inst s =
     (case readObject env s (tokensKey inst) of
        Inl err \<Rightarrow> (Inl (Wrapped ''apply token Secret'' err), [])
      | Inr live \<Rightarrow>
         (case NewTokenSet (randomBytes env) inst (Some (storedSecret inst live)) of
            Inl err \<Rightarrow> (Inl (RenderError (''apply token Secret: '' @ err)), [])
          | Inr tokens \<Rightarrow>
              thenDesk (createOrUpdate env s ''apply token Secret'' (tokensKey inst)
                 (\<lambda>live'. Inr (labelDesktopObject inst live' (OData (secData (TokensSecret inst tokens))))))
              (\<lambda>_. done' tokens)))"

definition applyDesktopCredentials :: "'e desk_env \<Rightarrow> TypeClawInstance \<Rightarrow> desk_cluster \<Rightarrow> ('e, TokenSet) desk" where
  "applyDesktopCredentials env inst s =
     (let names = Names inst in
      thenDesk (applyDesktopObject env inst s ''apply extension ConfigMap'' (KConfigMap, nsInstanceNamespace names, nsExtension names)
          (\<lambda>_. OData (cmData (ExtensionConfigMap (pluginSource env) inst)))) (\<lambda>_.
      thenDesk (applyTokens env inst s) (\<lambda>tokens.
      thenDesk (if CrossNamespace inst
               then applyDesktopObject env inst s ''apply mirrored token Secret'' (KSecret, nsInstanceNamespace names, nsTokens names)
                      (\<lambda>_. OData (secData (MirroredAgentTokenSecret inst (tokAgent tokens))))
               else done' ()) (\<lambda>_.
      done' tokens))))"

definition applyGuestPayload :: "'e desk_env \<Rightarrow> TypeClawInstance \<Rightarrow> desk_cluster \<Rightarrow> TokenSet \<Rightarrow> ('e, unit) desk" where
  "applyGuestPayload env inst s tokens =
     (let names = Names inst; sysprepKey = (KSecret, nsNamespace names, nsSysprep names);
          cloudKey = (KSecret, nsNamespace names, nsCloudInit names) in
      if OS (spPersonalDesktop (Spec inst)) = OSWindows
      then (case SysprepSecret (guestAssets env) inst (tokGuest tokens) (tokWindowsPassword tokens) of
          Inl err \<Rightarrow> (Inl (RenderError (''render sysprep Secret: '' @ err)), [])
        | Inr sec \<Rightarrow>
            thenDesk (applyDesktopObject env inst s ''apply sysprep Secret'' sysprepKey (\<lambda>_. OData (secData sec)))
              (\<lambda>_. deleteDesktopObject env '''' cloudKey))
      else thenDesk (applyDesktopObject env inst s ''apply cloud-init Secret'' cloudKey
               (\<lambda>_. OData (secData (CloudInitSecret (guestAssets env) inst (tokGuest tokens)))))
             (\<lambda>_. deleteDesktopObject env '''' sysprepKey))"

section \<open>The console and the Gateway\<close>

definition applyConsoleIngress :: "'e desk_env \<Rightarrow> TypeClawInstance \<Rightarrow> desk_cluster \<Rightarrow> ('e, string) desk" where
  "applyConsoleIngress env inst s =
     (let k = (KIngress, nsNamespace (Names inst), nsConsoleIngress (Names inst)) in
      case ConsoleIngress inst of
        None \<Rightarrow> thenDesk (deleteDesktopObject env '''' k) (\<lambda>_. done' (ConsoleURL inst None))
      | Some ing \<Rightarrow>
          thenDesk (applyDesktopObject env inst s ''apply console Ingress'' k (\<lambda>_. OIngress ing))
            (\<lambda>_. done' (ConsoleURL inst (Some (ingressHosts env)))))"

definition gatewayImage :: "'e desk_env \<Rightarrow> string" where
  "gatewayImage env = (if OperatorImage env \<noteq> '''' then OperatorImage env else DefaultOperatorImage)"

text \<open>A live Deployment keeps its selector; a live claim is left alone.\<close>

definition keepSelector :: "desk_payload option \<Rightarrow> deployment \<Rightarrow> desk_payload" where
  "keepSelector live desired =
     (case live of Some (ODeployment d) \<Rightarrow> ODeployment (desired\<lparr>dpSelector := dpSelector d\<rparr>) | _ \<Rightarrow> ODeployment desired)"

definition applyServeConfig :: "'e desk_env \<Rightarrow> TypeClawInstance \<Rightarrow> desk_cluster \<Rightarrow> ('e, unit) desk" where
  "applyServeConfig env inst s =
     (let k = (KConfigMap, nsNamespace (Names inst), nsServeConfig (Names inst)) in
      case GatewayServeConfig inst of
        Some cm \<Rightarrow> applyDesktopObject env inst s ''apply gateway Serve config'' k (\<lambda>_. OData (cmData cm))
      | None \<Rightarrow> deleteDesktopObject env ''remove gateway Serve config'' k)"

definition applyStateClaim :: "'e desk_env \<Rightarrow> TypeClawInstance \<Rightarrow> desk_cluster \<Rightarrow> ('e, unit) desk" where
  "applyStateClaim env inst s =
     (case GatewayStateClaim inst of
        None \<Rightarrow> done' ()
      | Some claim \<Rightarrow>
          applyDesktopObject env inst s ''apply gateway state claim''
            (KPersistentVolumeClaim, nsNamespace (Names inst), nsGatewayState (Names inst))
            (\<lambda>live. case live of None \<Rightarrow> OClaim claim | Some p \<Rightarrow> p))"

definition applyGateway :: "'e desk_env \<Rightarrow> TypeClawInstance \<Rightarrow> desk_cluster \<Rightarrow> string \<Rightarrow> ('e, bool) desk" where
  "applyGateway env inst s consoleURL =
     (let names = Names inst; at = (\<lambda>kind. (kind, nsNamespace names, nsGateway names));
          put = applyDesktopObject env inst s in
      thenDesk (put ''apply gateway ServiceAccount'' (at KServiceAccount) (\<lambda>_. OAccount)) (\<lambda>_.
      thenDesk (put ''apply gateway Role'' (at KRole) (\<lambda>_. ORole (GatewayRole inst))) (\<lambda>_.
      thenDesk (put ''apply gateway RoleBinding'' (at KRoleBinding) (\<lambda>_. OBinding (GatewayRoleBinding inst))) (\<lambda>_.
      thenDesk (put ''apply gateway Service'' (at KService) (\<lambda>_. OService (GatewayService inst))) (\<lambda>_.
      thenDesk (applyStateClaim env inst s) (\<lambda>_.
      thenDesk (applyServeConfig env inst s) (\<lambda>_.
      thenDesk (put ''apply gateway Deployment'' (at KDeployment)
          (\<lambda>live. keepSelector live (GatewayDeployment inst (gatewayImage env) consoleURL))) (\<lambda>_.
      done' (0 < readyReplicas env)))))))))"

definition applyGatewayNetworkPolicy :: "'e desk_env \<Rightarrow> TypeClawInstance \<Rightarrow> desk_cluster \<Rightarrow> ('e, unit) desk" where
  "applyGatewayNetworkPolicy env inst s =
     applyDesktopObject env inst s ''apply gateway NetworkPolicy'' (KNetworkPolicy, nsNamespace (Names inst), nsGateway (Names inst))
       (\<lambda>_. OPolicy (GatewayNetworkPolicy inst (Labels inst) (discoverAPIServerIPs (envNetwork env)) (agentIP env)))"

section \<open>The whole desktop\<close>

record desktopOutcome =
  ocStatus :: PersonalDesktopStatus
  ocReady :: bool
  ocReason :: string
  ocMessage :: string

definition emptyDesktopStatus :: PersonalDesktopStatus where
  "emptyDesktopStatus = \<lparr>pdsPhase = '''', pdsDesktopName = '''', pdsNamespace = '''', GoldenImagePhase = '''',
     RootVolumePhase = '''', VMPrintableStatus = '''', GatewayReady = False, pdsConsoleURL = '''', pdsMessage = ''''\<rparr>"

definition namedStatus :: "TypeClawInstance \<Rightarrow> string \<Rightarrow> string \<Rightarrow> PersonalDesktopStatus" where
  "namedStatus inst phase message =
     emptyDesktopStatus\<lparr>pdsPhase := phase, pdsDesktopName := nsDesktop (Names inst),
       pdsNamespace := nsNamespace (Names inst), pdsMessage := message\<rparr>"

definition boolText :: "bool \<Rightarrow> string" where
  "boolText b = (if b then ''true'' else ''false'')"

text \<open>The message quotes the phase of the root volume; CDI phases need no escapes.\<close>

definition applyDesktop :: "'e desk_env \<Rightarrow> TypeClawInstance \<Rightarrow> desk_cluster \<Rightarrow> TokenSet \<Rightarrow> ('e, desktopOutcome) desk" where
  "applyDesktop env inst s tokens =
     (let names = Names inst in
      thenDesk (ensureDataVolume env inst s ''golden DataVolume'' (GoldenDataVolumeObject (quantityText env) inst) (nsGoldenVolume names)) (\<lambda>goldenPhase.
      thenDesk (ensureDataVolume env inst s ''root DataVolume'' (RootDataVolumeObject (quantityText env) inst) (nsRootVolume names)) (\<lambda>rootPhase.
      thenDesk (applyGuestPayload env inst s tokens) (\<lambda>_.
      thenDesk (applyDesktopObject env inst s ''apply VirtualMachine'' (KVirtualMachine, nsNamespace names, nsDesktop names)
          (\<lambda>_. OSpec (specOf (Some (VM (quantityText env) inst))))) (\<lambda>_.
      thenDesk (applyDesktopObject env inst s ''apply agent Service'' (KService, nsNamespace names, nsAgentService names)
          (\<lambda>_. OService (AgentService inst))) (\<lambda>_.
      thenDesk (applyConsoleIngress env inst s) (\<lambda>consoleURL.
      thenDesk (applyGateway env inst s consoleURL) (\<lambda>gatewayReady.
      thenDesk (applyGatewayNetworkPolicy env inst s) (\<lambda>_.
      (let status = (namedStatus inst '''' '''')\<lparr>GoldenImagePhase := goldenPhase, RootVolumePhase := rootPhase,
             VMPrintableStatus := vmStatusText env, pdsConsoleURL := consoleURL, GatewayReady := gatewayReady\<rparr>
       in done' (if gatewayReady \<and> rootPhase = ''Succeeded''
            then \<lparr>ocStatus = status\<lparr>pdsPhase := ''Ready''\<rparr>, ocReady = True, ocReason = ''Ready'',
                  ocMessage = ''Desktop Gateway is serving and the root volume is populated''\<rparr>
            else \<lparr>ocStatus = status\<lparr>pdsPhase := ''Provisioning''\<rparr>, ocReady = False, ocReason = ''Provisioning'',
                  ocMessage = ''root volume phase '' @ [CHR 0x22] @ rootPhase @ [CHR 0x22] @ '', gateway ready '' @ boolText gatewayReady\<rparr>)))))))))))"

definition kubeVirtAvailable :: "'e desk_env \<Rightarrow> bool" where
  "kubeVirtAvailable env = list_all (restMapping env) RequiredGVKs"

abbreviation desktopFinalizer :: string where "desktopFinalizer \<equiv> ''typeclaw.fml09.io/personal-desktop''"

definition ensureDesktopFinalizer :: "'e desk_env \<Rightarrow> TypeClawInstance \<Rightarrow> ('e, unit) desk" where
  "ensureDesktopFinalizer env inst =
     (if desktopFinalizer \<in> set (instFinalizers inst) then done' ()
      else (case fails env UpdateInstanceOp of
          Some err \<Rightarrow> (Inl (Wrapped '''' err), [])
        | None \<Rightarrow> (Inr (), [SetFinalizer True])))"

definition dropDesktopFinalizer :: "'e desk_env \<Rightarrow> TypeClawInstance \<Rightarrow> ('e, unit) desk" where
  "dropDesktopFinalizer env inst =
     (if desktopFinalizer \<notin> set (instFinalizers inst) then done' ()
      else (case fails env UpdateInstanceOp of
          Some err \<Rightarrow> (Inl (Wrapped '''' err), [])
        | None \<Rightarrow> (Inr (), [SetFinalizer False])))"

definition cleanupKeys :: "'e desk_env \<Rightarrow> TypeClawInstance \<Rightarrow> bool \<Rightarrow> key list" where
  "cleanupKeys env inst retainDisk =
     (let n = Names inst; ns = nsNamespace n in
      [(KIngress, ns, nsConsoleIngress n), (KNetworkPolicy, ns, nsGateway n), (KDeployment, ns, nsGateway n),
       (KService, ns, nsGateway n), (KRoleBinding, ns, nsGateway n), (KRole, ns, nsGateway n),
       (KServiceAccount, ns, nsGateway n), (KService, ns, nsAgentService n), (KSecret, ns, nsCloudInit n),
       (KSecret, ns, nsSysprep n), (KConfigMap, nsInstanceNamespace n, nsExtension n), (KConfigMap, ns, nsServeConfig n),
       (KPersistentVolumeClaim, ns, nsGatewayState n)] @
      (if CrossNamespace inst then [(KSecret, nsInstanceNamespace n, nsTokens n)] else []) @
      (if kubeVirtAvailable env then [(KVirtualMachine, ns, nsDesktop n)] else []) @
      (if \<not> retainDisk
       then (KSecret, ns, nsTokens n) #
            (if kubeVirtAvailable env \<and> RootDataVolumeObject (quantityText env) inst \<noteq> None
             then [(KDataVolume, ns, nsRootVolume n)] else [])
       else []))"

fun deleteAll :: "'e desk_env \<Rightarrow> key list \<Rightarrow> ('e, unit) desk" where
  "deleteAll env [] = done' ()"
| "deleteAll env (k # ks) = thenDesk (deleteDesktopObject env '''' k) (\<lambda>_. deleteAll env ks)"

definition desktopCleanup :: "'e desk_env \<Rightarrow> TypeClawInstance \<Rightarrow> bool \<Rightarrow> ('e, unit) desk" where
  "desktopCleanup env inst retainDisk = deleteAll env (cleanupKeys env inst retainDisk)"

definition desktopRetainsDisk :: "TypeClawInstance \<Rightarrow> bool" where
  "desktopRetainsDisk inst =
     (case spPersonalDesktop (Spec inst) of None \<Rightarrow> True | Some spec \<Rightarrow> rvOnInstanceDeletion (pdRootVolume spec) \<noteq> ''Delete'')"

definition degradedDesktop :: "'e desk_env \<Rightarrow> TypeClawInstance \<Rightarrow> string \<Rightarrow> desktopOutcome" where
  "degradedDesktop env inst message =
     \<lparr>ocStatus = namedStatus inst ''Degraded'' message, ocReady = False, ocReason = ''Error'', ocMessage = message\<rparr>"

definition deletingDesktop :: "TypeClawInstance \<Rightarrow> desktopOutcome" where
  "deletingDesktop inst =
     (let message = (if \<not> desktopRetainsDisk inst
          then ''personal desktop is being removed with the Instance; the root DataVolume is deleted''
          else ''personal desktop is being removed with the Instance; the root DataVolume is retained'')
      in \<lparr>ocStatus = namedStatus inst ''Deleting'' message, ocReady = False, ocReason = ''Disabled'', ocMessage = message\<rparr>)"

definition disabledDesktop :: desktopOutcome where
  "disabledDesktop =
     \<lparr>ocStatus = emptyDesktopStatus\<lparr>pdsPhase := ''Disabled''\<rparr>, ocReady = False, ocReason = ''Disabled'',
      ocMessage = ''personal desktop is disabled; the root DataVolume and the token Secret are retained''\<rparr>"

text \<open>A failed step of the enabled path becomes an observation; its effects stay.\<close>

definition observed :: "'e desk_env \<Rightarrow> TypeClawInstance \<Rightarrow> ('e, desktopOutcome) desk \<Rightarrow> ('e, desktopOutcome) desk" where
  "observed env inst m =
     (case m of
        (Inl err, es) \<Rightarrow> (Inr (degradedDesktop env inst (deskErrorText env err)), es)
      | (Inr oc, es) \<Rightarrow> (Inr oc, es))"

definition convergeDesktop :: "'e desk_env \<Rightarrow> TypeClawInstance \<Rightarrow> desk_cluster \<Rightarrow> ('e, desktopOutcome) desk" where
  "convergeDesktop env inst s =
     (if \<not> Enabled inst
      then thenDesk (desktopCleanup env inst True) (\<lambda>_. thenDesk (dropDesktopFinalizer env inst) (\<lambda>_. done' disabledDesktop))
      else (case Validate inst of
          Some err \<Rightarrow> done' (degradedDesktop env inst err)
        | None \<Rightarrow>
            if \<not> RuntimeSupportsExtensions inst
            then done' \<lparr>ocStatus = namedStatus inst ''Pending'' (RuntimeTooOldMessage inst), ocReady = False,
                   ocReason = ''RuntimeTooOld'', ocMessage = RuntimeTooOldMessage inst\<rparr>
            else thenDesk (ensureDesktopFinalizer env inst) (\<lambda>_.
              observed env inst (thenDesk (applyDesktopCredentials env inst s) (\<lambda>tokens.
                if \<not> kubeVirtAvailable env
                then (let message = ''cluster has no KubeVirt VirtualMachine or CDI DataVolume API; install KubeVirt and CDI''
                      in done' \<lparr>ocStatus = namedStatus inst ''Pending'' message, ocReady = False,
                           ocReason = ''KubeVirtUnavailable'', ocMessage = message\<rparr>)
                else applyDesktop env inst s tokens)))))"

abbreviation ConditionPersonalDesktopReady :: string where "ConditionPersonalDesktopReady \<equiv> ''PersonalDesktopReady''"

definition publishedStatus :: "'e desk_env \<Rightarrow> TypeClawInstance \<Rightarrow> desktopOutcome \<Rightarrow> TypeClawInstanceStatus" where
  "publishedStatus env inst oc =
     setCondition (clock env) (instGeneration inst) ConditionPersonalDesktopReady (ocReady oc) ''Ready'' (ocReason oc) (ocMessage oc)
       ((Status inst)\<lparr>stPersonalDesktop := Some (ocStatus oc)\<rparr>)"

definition publishDesktop :: "'e desk_env \<Rightarrow> TypeClawInstance \<Rightarrow> desktopOutcome \<Rightarrow> 'e option \<times> effect list" where
  "publishDesktop env inst oc =
     (case fails env PatchOp of
        Some err \<Rightarrow> (Some err, [])
      | None \<Rightarrow> (None, [PatchStatus (publishedStatus env inst oc)]))"

datatype desk_queue = DeskDone | DeskRequeue | DeskRequeueAfter int

abbreviation desktopRequeue :: int where "desktopRequeue \<equiv> 30"

definition desktopReconcile :: "'e desk_env \<Rightarrow> 'e + TypeClawInstance \<Rightarrow> desk_cluster \<Rightarrow> ('e, desk_queue) desk" where
  "desktopReconcile env got s =
     (case got of
        Inl err \<Rightarrow> if isNotFound env err then done' DeskDone else (Inl (Wrapped '''' err), [])
      | Inr inst \<Rightarrow>
          if instDeleting inst
          then (if desktopFinalizer \<notin> set (instFinalizers inst) then done' DeskDone
                else (case publishDesktop env inst (deletingDesktop inst) of
                    (_, es) \<Rightarrow>
                      (case thenDesk (desktopCleanup env inst (desktopRetainsDisk inst)) (\<lambda>_.
                              thenDesk (dropDesktopFinalizer env inst) (\<lambda>_. done' DeskDone)) of
                         (r, es') \<Rightarrow> (r, es @ es'))))
          else thenDesk (convergeDesktop env inst s) (\<lambda>oc.
            (case publishDesktop env inst oc of
               (Some err, es) \<Rightarrow> (if isConflict env err then Inr DeskRequeue else Inl (Wrapped '''' err), es)
             | (None, es) \<Rightarrow> (Inr (if Enabled inst then DeskRequeueAfter desktopRequeue else DeskDone), es))))"

end
