(* ===== verification/Desktop_Control_Props.thy ===== *)
theory Desktop_Control_Props
  imports Desktop_Control
begin

text \<open>
  Properties of the Personal Desktop controller: no object of a desktop outlives the finalizer that
  guards it, the owner's data is neither deleted nor owned by anything garbage collection follows,
  and a successful reconciliation leaves the cluster in the declared state.
\<close>

named_theorems desk_effects
  \<comment> \<open>what the effects of a step satisfy\<close>

section \<open>Effects on the cluster\<close>

record desk_state =
  objects :: desk_cluster
  finalized :: bool

fun execEffect :: "effect \<Rightarrow> desk_state \<Rightarrow> desk_state" where
  "execEffect (Put k obj) st = st\<lparr>objects := (objects st)(k \<mapsto> obj)\<rparr>"
| "execEffect (Del k) st = st\<lparr>objects := (objects st)(k := None)\<rparr>"
| "execEffect (SetFinalizer b) st = st\<lparr>finalized := b\<rparr>"
| "execEffect (PatchStatus x) st = st"

definition exec :: "effect list \<Rightarrow> desk_state \<Rightarrow> desk_state" where
  "exec es st = fold execEffect es st"

lemma exec_simps [simp]: "exec [] st = st" "exec (e # es) st = exec es (execEffect e st)"
  "exec (es @ es') st = exec es' (exec es st)"
  by (simp_all add: exec_def)

text \<open>
  The API server's answers are true: an object it reports missing is missing.
\<close>

definition truthful :: "'e desk_env \<Rightarrow> desk_cluster \<Rightarrow> bool" where
  "truthful env s \<longleftrightarrow>
     (\<forall>k err. (fails env (GetOp k) = Some err \<or> fails env (DeleteOp k) = Some err) \<and> isNotFound env err \<longrightarrow> s k = None)"

lemma truthfulD:
  "truthful env s \<Longrightarrow> fails env (GetOp k) = Some err \<Longrightarrow> isNotFound env err \<Longrightarrow> s k = None"
  "truthful env s \<Longrightarrow> fails env (DeleteOp k) = Some err \<Longrightarrow> isNotFound env err \<Longrightarrow> s k = None"
  unfolding truthful_def by blast+

lemma readObject_live: "truthful env s \<Longrightarrow> readObject env s k = Inr live \<Longrightarrow> live = s k"
  by (auto simp: readObject_def truthfulD split: option.splits if_splits)

lemma thenDesk_Inr:
  "thenDesk m f = (Inr y, es) \<longleftrightarrow>
     (\<exists>x es1 es2. m = (Inr x, es1) \<and> f x = (Inr y, es2) \<and> es = es1 @ es2)"
  by (cases m; cases "fst m") (auto simp: thenDesk_def split: prod.splits)

lemma done'_eq [simp]: "done' x = (r, es) \<longleftrightarrow> r = Inr x \<and> es = []"
  by (auto simp: done'_def)

lemma list_all_andThen [desk_effects]:
  assumes "list_all P (snd m)" "\<And>x. fst m = Inr x \<Longrightarrow> list_all P (snd (f x))"
  shows "list_all P (snd (thenDesk m f))"
  using assms by (cases m; cases "fst m") (auto simp: thenDesk_def split: prod.splits)

lemma list_all_done' [desk_effects, simp]: "list_all P (snd (done' x))"
  by (simp add: done'_def)

text \<open>What a step that succeeds does to the objects, and that it never touches the finalizer.\<close>

lemma apply_effects [desk_effects]:
  "(\<And>obj. ownDesktopObject env inst what k (case readObject env s k of Inr l \<Rightarrow> l) 
      (render (livePayload (case readObject env s k of Inr l \<Rightarrow> l))) = Inr obj \<Longrightarrow> P (Put k obj)) \<Longrightarrow>
   list_all P (snd (applyDesktopObject env inst s what k render))"
  by (auto simp: applyDesktopObject_def createOrUpdate_def split: sum.splits option.splits)

lemma delete_effects [desk_effects]: "P (Del k) \<Longrightarrow> list_all P (snd (deleteDesktopObject env what k))"
  by (auto simp: deleteDesktopObject_def split: option.splits)

lemma applyDesktopObject_Inr:
  assumes "applyDesktopObject env inst s what k render = (Inr u, es)" "truthful env s" "objects st k = s k"
  shows "\<exists>obj. ownDesktopObject env inst what k (s k) (render (livePayload (s k))) = Inr obj \<and>
    exec es st = st\<lparr>objects := (objects st)(k \<mapsto> obj)\<rparr>"
proof -
  obtain live where live: "readObject env s k = Inr live"
    using assms(1) by (auto simp: applyDesktopObject_def createOrUpdate_def split: sum.splits)
  then have "live = s k" by (rule readObject_live [OF assms(2)])
  moreover obtain obj where "ownDesktopObject env inst what k live (render (livePayload live)) = Inr obj"
      "live = Some obj \<and> es = [] \<or> es = [Put k obj]"
    using assms(1) live by (auto simp: applyDesktopObject_def createOrUpdate_def split: sum.splits option.splits if_splits)
  ultimately show ?thesis using assms(3) by (auto simp: fun_upd_idem)
qed

lemma deleteDesktopObject_Inr:
  assumes "deleteDesktopObject env what k = (Inr u, es)" "truthful env s" "objects st k = s k \<or> objects st k = None"
  shows "exec es st = st\<lparr>objects := (objects st)(k := None)\<rparr>"
  using assms by (auto simp: deleteDesktopObject_def truthfulD fun_upd_idem split: option.splits if_splits)

lemma ownDesktopObject_Inr:
  "ownDesktopObject env inst what k live p = Inr obj \<Longrightarrow>
     stPayload obj = p \<and> stLabels obj = DesktopLabels inst \<and>
     (stOwned obj \<longleftrightarrow> fst (snd k) = instNamespace inst \<or> (\<exists>l. live = Some l \<and> stOwned l))"
  by (auto simp: ownDesktopObject_def labelDesktopObject_def split: if_splits option.splits)

section \<open>The finalizer guards every object\<close>

definition removableKeys :: "TypeClawInstance \<Rightarrow> key list" where
  "removableKeys inst =
     (let n = Names inst; ns = nsNamespace n in
      [(KIngress, ns, nsConsoleIngress n), (KNetworkPolicy, ns, nsGateway n), (KDeployment, ns, nsGateway n),
       (KService, ns, nsGateway n), (KRoleBinding, ns, nsGateway n), (KRole, ns, nsGateway n),
       (KServiceAccount, ns, nsGateway n), (KService, ns, nsAgentService n), (KSecret, ns, nsCloudInit n),
       (KSecret, ns, nsSysprep n), (KConfigMap, nsInstanceNamespace n, nsExtension n), (KConfigMap, ns, nsServeConfig n),
       (KPersistentVolumeClaim, ns, nsGatewayState n)] @
      (if CrossNamespace inst then [(KSecret, nsInstanceNamespace n, nsTokens n)] else []) @
      [(KVirtualMachine, ns, nsDesktop n)])"

lemma cleanup_covers: "kubeVirtAvailable env \<Longrightarrow> set (removableKeys inst) \<subseteq> set (cleanupKeys env inst retain)"
  by (auto simp: cleanupKeys_def removableKeys_def Let_def)

text \<open>A run of effects is guarded in a state when it cannot leave a removable object without the finalizer.\<close>

definition guarded :: "key list \<Rightarrow> desk_state \<Rightarrow> bool" where
  "guarded ks st \<longleftrightarrow> (\<forall>k \<in> set ks. objects st k \<noteq> None \<longrightarrow> finalized st)"

fun guardedRun :: "key list \<Rightarrow> desk_state \<Rightarrow> effect list \<Rightarrow> bool" where
  "guardedRun ks st [] = True"
| "guardedRun ks st (e # es) =
     ((case e of
         Put k obj \<Rightarrow> k \<in> set ks \<longrightarrow> finalized st
       | SetFinalizer b \<Rightarrow> b \<or> (\<forall>k \<in> set ks. objects st k = None)
       | _ \<Rightarrow> True) \<and> guardedRun ks (execEffect e st) es)"

lemma guardedRun_append: "guardedRun ks st (es @ es') \<longleftrightarrow> guardedRun ks st es \<and> guardedRun ks (exec es st) es'"
  by (induction es arbitrary: st) auto

lemma guardedRun_guarded: "guardedRun ks st (es1 @ es2) \<Longrightarrow> guarded ks st \<Longrightarrow> guarded ks (exec es1 st)"
proof (induction es1 arbitrary: st)
  case Nil
  then show ?case by simp
next
  case (Cons e es1)
  have "guarded ks (execEffect e st)"
    using Cons.prems by (cases e) (auto simp: guarded_def)
  then show ?case using Cons by simp
qed

definition no_drop :: "effect \<Rightarrow> bool" where
  "no_drop e \<longleftrightarrow> e \<noteq> SetFinalizer False"

lemma guardedRun_no_drop: "list_all no_drop es \<Longrightarrow> finalized st \<Longrightarrow> guardedRun ks st es"
proof (induction es arbitrary: st)
  case Nil
  then show ?case by simp
next
  case (Cons e es)
  then have "finalized (execEffect e st)" by (cases e) (auto simp: no_drop_def)
  with Cons show ?case by (auto split: effect.splits)
qed

lemma no_drop_finalizer: "list_all no_drop es \<Longrightarrow> finalized st \<Longrightarrow> finalized (exec es st)"
proof (induction es arbitrary: st)
  case Nil
  then show ?case by simp
next
  case (Cons e es)
  then have "finalized (execEffect e st)" by (cases e) (auto simp: no_drop_def)
  with Cons show ?case by simp
qed

text \<open>Removing objects one after the other: when it succeeds they are all gone, and nothing else changed.\<close>

fun is_del :: "key set \<Rightarrow> effect \<Rightarrow> bool" where
  "is_del ks (Del k) = (k \<in> ks)"
| "is_del ks e = False"

lemma is_del_mono: "ks \<subseteq> ks' \<Longrightarrow> is_del ks e \<Longrightarrow> is_del ks' e"
  by (cases e) auto

lemma deleteAll_effects: "list_all (is_del (set ks)) (snd (deleteAll env ks))"
proof (induction ks)
  case Nil
  then show ?case by simp
next
  case (Cons k ks)
  then have "list_all (is_del (set (k # ks))) (snd (deleteAll env ks))"
    by (rule list.pred_mono_strong) (auto intro: is_del_mono [of "set ks"])
  then show ?case by (auto intro!: list_all_andThen delete_effects)
qed

lemma deletes_keep:
  "list_all (is_del ks) es \<Longrightarrow>
    (objects (exec es st) k = objects st k \<or> k \<in> ks \<and> objects (exec es st) k = None) \<and>
    finalized (exec es st) = finalized st"
proof (induction es arbitrary: st)
  case Nil
  then show ?case by simp
next
  case (Cons e es)
  then obtain k' where "e = Del k'" "k' \<in> ks" by (cases e) auto
  with Cons show ?case using Cons.IH [of "execEffect e st"] by (cases "k = k'") auto
qed

lemma deleteAll_clears:
  assumes "deleteAll env ks = (Inr u, es)" "truthful env s" "\<forall>k. objects st k = s k \<or> objects st k = None"
  shows "\<forall>k \<in> set ks. objects (exec es st) k = None"
  using assms
proof (induction ks arbitrary: es st)
  case Nil
  then show ?case by simp
next
  case (Cons k ks)
  then obtain es1 es2 where d: "deleteDesktopObject env '''' k = (Inr (), es1)"
      and rest: "deleteAll env ks = (Inr u, es2)" and es: "es = es1 @ es2"
    by (auto simp: thenDesk_Inr)
  have st': "exec es1 st = st\<lparr>objects := (objects st)(k := None)\<rparr>"
    using deleteDesktopObject_Inr [OF d Cons.prems(2)] Cons.prems(3) by blast
  have "\<forall>k' \<in> set ks. objects (exec es2 (exec es1 st)) k' = None"
    by (rule Cons.IH [OF rest Cons.prems(2)]) (use Cons.prems(3) st' in auto)
  moreover have "objects (exec es2 (exec es1 st)) k = None"
    using deletes_keep [of "set ks" es2 "exec es1 st" k] deleteAll_effects [of ks env] rest st' by auto
  ultimately show ?case using es by simp
qed

lemma cleanup_safe:
  assumes "desktopCleanup env inst retain = (r, es)"
  shows "guardedRun ks st es"
proof -
  have "list_all (is_del (set (cleanupKeys env inst retain))) es"
    using deleteAll_effects [of "cleanupKeys env inst retain" env] assms by (simp add: desktopCleanup_def)
  then show ?thesis
  proof (induction es arbitrary: st)
    case Nil
    then show ?case by simp
  next
    case (Cons e es)
    then show ?case by (cases e) auto
  qed
qed

lemma cleanup_then_drop_safe:
  assumes m: "thenDesk (desktopCleanup env inst retain) (\<lambda>_. thenDesk (dropDesktopFinalizer env inst) (\<lambda>_. done' y)) = (r, es)"
    and kv: "kubeVirtAvailable env" and t: "truthful env (objects st)"
  shows "guardedRun (removableKeys inst) st es"
proof -
  obtain r1 es1 where c: "desktopCleanup env inst retain = (r1, es1)" by fastforce
  show ?thesis
  proof (cases r1)
    case (Inl err)
    then show ?thesis using m c cleanup_safe [OF c] by (simp add: thenDesk_def)
  next
    case (Inr u)
    have gone: "\<forall>k \<in> set (removableKeys inst). objects (exec es1 st) k = None"
      using deleteAll_clears [OF _ t, of "cleanupKeys env inst retain" u es1 st] c Inr cleanup_covers [OF kv, of inst retain]
      by (auto simp: desktopCleanup_def)
    have "\<exists>es2. es = es1 @ es2 \<and> (es2 = [] \<or> es2 = [SetFinalizer False])"
    proof -
      obtain r2 es2 where d: "dropDesktopFinalizer env inst = (r2, es2)" by fastforce
      then have "es2 = [] \<or> es2 = [SetFinalizer False]"
        by (auto simp: dropDesktopFinalizer_def split: if_splits option.splits)
      moreover have "es = es1 @ es2"
        using m c Inr d by (cases r2) (auto simp: thenDesk_def done'_def)
      ultimately show ?thesis by blast
    qed
    then show ?thesis using cleanup_safe [OF c, of "removableKeys inst" st] gone
      by (auto simp: guardedRun_append)
  qed
qed

text \<open>
  Every effect of the enabled path, for a property that holds of the writes and removals of each
  object the path handles.
\<close>

lemma createOrUpdate_effects:
  "(\<And>obj live. mutate live = Inr obj \<Longrightarrow> P (Put k obj)) \<Longrightarrow> list_all P (snd (createOrUpdate env s what k mutate))"
  by (auto simp: createOrUpdate_def split: sum.splits option.splits)

lemma volume_effects:
  "(\<And>obj. readObject env s (KDataVolume, nsNamespace (Names inst), name) = Inr None \<Longrightarrow> \<not> stOwned obj \<Longrightarrow>
      P (Put (KDataVolume, nsNamespace (Names inst), name) obj)) \<Longrightarrow>
   list_all P (snd (ensureDataVolume env inst s what desired name))"
  by (auto simp: ensureDataVolume_def Let_def labelDesktopObject_def split: sum.splits option.splits)

definition enabledPath :: "'e desk_env \<Rightarrow> TypeClawInstance \<Rightarrow> desk_cluster \<Rightarrow> ('e, desktopOutcome) desk" where
  "enabledPath env inst s =
     thenDesk (applyDesktopCredentials env inst s) (\<lambda>tokens.
       if \<not> kubeVirtAvailable env
       then (let message = ''cluster has no KubeVirt VirtualMachine or CDI DataVolume API; install KubeVirt and CDI''
             in done' \<lparr>ocStatus = namedStatus inst ''Pending'' message, ocReady = False,
                  ocReason = ''KubeVirtUnavailable'', ocMessage = message\<rparr>)
       else applyDesktop env inst s tokens)"

lemma enabledPath_effects:
  assumes removable: "\<And>k obj live p what. k \<in> set (removableKeys inst) \<Longrightarrow>
        ownDesktopObject env inst what k live p = Inr obj \<Longrightarrow> (readObject env s k = Inr live) \<Longrightarrow> P (Put k obj)"
    and removes: "\<And>k. k \<in> set (removableKeys inst) \<Longrightarrow> P (Del k)"
    and volumes: "\<And>obj name. name \<in> {nsGoldenVolume (Names inst), nsRootVolume (Names inst)} \<Longrightarrow>
        readObject env s (KDataVolume, nsNamespace (Names inst), name) = Inr None \<Longrightarrow> \<not> stOwned obj \<Longrightarrow>
        P (Put (KDataVolume, nsNamespace (Names inst), name) obj)"
    and tokens: "\<And>live set. readObject env s (tokensKey inst) = Inr live \<Longrightarrow>
        NewTokenSet (randomBytes env) inst (Some (storedSecret inst live)) = Inr set \<Longrightarrow>
        P (Put (tokensKey inst) (labelDesktopObject inst live (OData (secData (TokensSecret inst set)))))"
  shows "list_all P (snd (enabledPath env inst s))"
proof -
  have put: "list_all P (snd (applyDesktopObject env inst s what k render))" if "k \<in> set (removableKeys inst)" for what k render
    using removable [OF that]
    by (auto simp: applyDesktopObject_def createOrUpdate_def split: sum.splits option.splits)
  have del: "list_all P (snd (deleteDesktopObject env what k))" if "k \<in> set (removableKeys inst)" for what k
    using removes [OF that] by (rule delete_effects)
  have tok: "list_all P (snd (applyTokens env inst s))"
    unfolding applyTokens_def createOrUpdate_def
    by (auto simp: thenDesk_def done'_def tokens split: sum.splits option.splits prod.splits if_splits)
  have vol: "list_all P (snd (ensureDataVolume env inst s what desired name))"
    if "name \<in> {nsGoldenVolume (Names inst), nsRootVolume (Names inst)}" for what desired name
    using volumes [OF that] by (rule volume_effects)
  note keys = removableKeys_def Let_def
  have creds: "list_all P (snd (applyDesktopCredentials env inst s))"
    unfolding applyDesktopCredentials_def Let_def
    by (intro list_all_andThen put tok) (auto simp: keys intro: put)
  have payload: "list_all P (snd (applyGuestPayload env inst s tokens))" for tokens
    unfolding applyGuestPayload_def Let_def
    by (auto simp: keys split: sum.splits intro!: list_all_andThen put del)
  have ingress: "list_all P (snd (applyConsoleIngress env inst s))"
    unfolding applyConsoleIngress_def Let_def
    by (auto simp: keys split: option.splits intro!: list_all_andThen put del)
  have gateway: "list_all P (snd (applyGateway env inst s url))" for url
    unfolding applyGateway_def applyStateClaim_def applyServeConfig_def Let_def
    by (intro list_all_andThen put) (auto simp: keys split: option.splits intro!: put del)
  have policy: "list_all P (snd (applyGatewayNetworkPolicy env inst s))"
    unfolding applyGatewayNetworkPolicy_def by (intro put) (simp add: keys)
  have desk: "list_all P (snd (applyDesktop env inst s tokens))" for tokens
    unfolding applyDesktop_def Let_def
    by (intro list_all_andThen vol payload put ingress gateway policy list_all_done') (auto simp: keys)
  show ?thesis
    unfolding enabledPath_def Let_def by (auto intro!: list_all_andThen creds desk)
qed

lemma convergeDesktop_enabled:
  "Enabled inst \<Longrightarrow> Validate inst = None \<Longrightarrow> RuntimeSupportsExtensions inst \<Longrightarrow>
   convergeDesktop env inst s =
     thenDesk (ensureDesktopFinalizer env inst) (\<lambda>_. observed env inst (enabledPath env inst s))"
  by (simp add: convergeDesktop_def enabledPath_def)

lemma observed_effects [simp]: "snd (observed env inst m) = snd m"
  by (auto simp: observed_def split: prod.splits sum.splits)

lemma snd_done' [simp]: "snd (done' x) = []"
  by (simp add: done'_def)

lemma publish_effects: "list_all no_drop (snd (publishDesktop env inst oc))"
  by (auto simp: publishDesktop_def no_drop_def split: option.splits)

lemma guardedRun_publish: "guardedRun ks st (snd (publishDesktop env inst oc))"
  by (auto simp: publishDesktop_def split: option.splits)

lemma published_effects:
  "snd (case publishDesktop env inst oc of (Some err, es) \<Rightarrow> (f err, es) | (None, es) \<Rightarrow> (y, es)) = snd (publishDesktop env inst oc)"
  by (auto split: prod.splits option.splits)

lemma guardedRun_andThen:
  assumes "guardedRun ks st (snd m)" "\<And>x. fst m = Inr x \<Longrightarrow> guardedRun ks (exec (snd m) st) (snd (f x))"
  shows "guardedRun ks st (snd (thenDesk m f))"
  using assms by (cases m; cases "fst m") (auto simp: thenDesk_def guardedRun_append split: prod.splits)

lemma ensureDesktopFinalizer_holds:
  "fst (ensureDesktopFinalizer env inst) = Inr u \<Longrightarrow> finalized st \<longleftrightarrow> desktopFinalizer \<in> set (instFinalizers inst) \<Longrightarrow>
     finalized (exec (snd (ensureDesktopFinalizer env inst)) st)"
  by (auto simp: ensureDesktopFinalizer_def done'_def split: if_splits option.splits)

lemma converge_safe:
  assumes kv: "kubeVirtAvailable env" and t: "truthful env (objects st)"
    and fin: "finalized st \<longleftrightarrow> desktopFinalizer \<in> set (instFinalizers inst)"
  shows "guardedRun (removableKeys inst) st (snd (convergeDesktop env inst (objects st)))"
proof (cases "Enabled inst")
  case False
  then show ?thesis using cleanup_then_drop_safe [OF prod.collapse [symmetric] kv t]
    by (simp add: convergeDesktop_def)
next
  case True
  show ?thesis
  proof (cases "Validate inst = None \<and> RuntimeSupportsExtensions inst")
    case False
    then show ?thesis using True by (auto simp: convergeDesktop_def done'_def split: option.splits)
  next
    case supported: True
    have "list_all no_drop (snd (enabledPath env inst (objects st)))"
      by (rule enabledPath_effects) (simp_all add: no_drop_def)
    then have "guardedRun (removableKeys inst) (exec (snd (ensureDesktopFinalizer env inst)) st) (snd (enabledPath env inst (objects st)))"
      if "fst (ensureDesktopFinalizer env inst) = Inr u" for u
      using ensureDesktopFinalizer_holds [OF that fin] by (rule guardedRun_no_drop)
    moreover have "guardedRun (removableKeys inst) st (snd (ensureDesktopFinalizer env inst))"
      by (auto simp: ensureDesktopFinalizer_def done'_def split: option.splits)
    ultimately show ?thesis
      using True supported by (auto simp: convergeDesktop_enabled intro!: guardedRun_andThen)
  qed
qed

lemma reconcile_safe:
  assumes kv: "kubeVirtAvailable env" and t: "truthful env (objects st)"
    and fin: "finalized st \<longleftrightarrow> desktopFinalizer \<in> set (instFinalizers inst)"
  shows "guardedRun (removableKeys inst) st (snd (desktopReconcile env (Inr inst) (objects st)))"
proof (cases "instDeleting inst")
  case True
  let ?pub = "snd (publishDesktop env inst (deletingDesktop inst))"
  have "exec ?pub st = st" by (auto simp: publishDesktop_def split: option.splits)
  then show ?thesis
    using True guardedRun_publish [of _ st env inst "deletingDesktop inst"]
    by (auto simp: desktopReconcile_def guardedRun_append split: prod.splits intro: cleanup_then_drop_safe [OF _ kv t])
next
  case False
  then show ?thesis
    using converge_safe [OF assms] by (auto simp: desktopReconcile_def published_effects guardedRun_publish intro!: guardedRun_andThen)
qed

lemma cleanup_covers_data:
  "\<not> retain \<Longrightarrow> tokensKey inst \<in> set (cleanupKeys env inst retain)"
  "\<not> retain \<Longrightarrow> kubeVirtAvailable env \<Longrightarrow> RootDataVolumeObject (quantityText env) inst \<noteq> None \<Longrightarrow>
     (KDataVolume, nsNamespace (Names inst), nsRootVolume (Names inst)) \<in> set (cleanupKeys env inst retain)"
  by (simp_all add: cleanupKeys_def tokensKey_def Let_def)

lemma reconcile_deleted:
  assumes r: "desktopReconcile env (Inr inst) (objects st) = (Inr q, es)"
    and t: "truthful env (objects st)" and deleting: "instDeleting inst" and fin: "desktopFinalizer \<in> set (instFinalizers inst)"
  shows "\<not> finalized (exec es st) \<and> (\<forall>k \<in> set (cleanupKeys env inst (desktopRetainsDisk inst)). objects (exec es st) k = None)"
proof -
  obtain x pub where p: "publishDesktop env inst (deletingDesktop inst) = (x, pub)" by fastforce
  then have "exec pub st = st" by (auto simp: publishDesktop_def split: option.splits)
  moreover obtain u es1 where "deleteAll env (cleanupKeys env inst (desktopRetainsDisk inst)) = (Inr u, es1)"
      and "es = pub @ es1 @ [SetFinalizer False]"
    using r deleting fin p
    by (auto simp: desktopReconcile_def desktopCleanup_def dropDesktopFinalizer_def thenDesk_Inr split: prod.splits option.splits)
  ultimately show ?thesis using deleteAll_clears [OF _ t, of _ u es1 st] by simp
qed


text \<open>An API server that answers every call, and an Instance that is being deleted.\<close>

definition quiet_env :: "unit desk_env" where
  "quiet_env = \<lparr>fails = (\<lambda>_. None), isNotFound = (\<lambda>_. False), isConflict = (\<lambda>_. False), isAlreadyExists = (\<lambda>_. False),
     errText = (\<lambda>_. ''error''), restMapping = (\<lambda>_. True), volumePhase = (\<lambda>_. ''Succeeded''), vmStatusText = ''Running'',
     agentIP = '''', ingressHosts = [], readyReplicas = 1, envNetwork = sample_network,
     randomBytes = (\<lambda>_. Inr (replicate 32 7)),
     guestAssets = \<lparr>DesktopAgentSource = '''', LinuxSessionScript = '''', WindowsSetupScript = '''', WindowsUnattend = []\<rparr>,
     pluginSource = '''', quantityText = (\<lambda>_. ''1Gi''), OperatorImage = '''', clock = 0\<rparr>"

definition leaving_inst :: TypeClawInstance where
  "leaving_inst = desktop_inst\<lparr>instDeleting := True, instFinalizers := [desktopFinalizer]\<rparr>"

definition running_vm :: desk_state where
  "running_vm = \<lparr>objects = [(KVirtualMachine, ''d'', ''i-desktop'') \<mapsto> \<lparr>stPayload = OSpec [], stOwned = False, stLabels = []\<rparr>],
     finalized = True\<rparr>"

lemma quiet_env_simps [simp]:
  "fails quiet_env op = None" "restMapping quiet_env kind" "isNotFound quiet_env err = False"
  "randomBytes quiet_env k = Inr (replicate 32 7)" "readyReplicas quiet_env = 1" "volumePhase quiet_env key = ''Succeeded''"
  by (simp_all add: quiet_env_def)

lemma quiet_truthful [simp]: "truthful quiet_env s" "kubeVirtAvailable quiet_env"
  by (simp_all add: truthful_def kubeVirtAvailable_def list_all_iff)

lemma leaving_inst_simps [simp]: "Namespace leaving_inst = ''d''" "instName leaving_inst = ''i''"
  by (simp_all add: leaving_inst_def Namespace_def sample_desktop_def)

lemma quiet_deleteAll: "fst (deleteAll quiet_env ks) = Inr ()"
  by (induction ks) (auto simp: deleteDesktopObject_def done'_def thenDesk_def split: prod.splits)

lemma leaving_deleted: "fst (desktopReconcile quiet_env (Inr leaving_inst) s) = Inr DeskDone"
  using quiet_deleteAll [of "cleanupKeys quiet_env leaving_inst (desktopRetainsDisk leaving_inst)"]
  by (auto simp: desktopReconcile_def leaving_inst_def desktopCleanup_def dropDesktopFinalizer_def thenDesk_def done'_def
      split: prod.splits sum.splits)


section \<open>The owner's data\<close>

text \<open>The data a reconciliation may remove: only with the Instance, when the Instance asks for it.\<close>

definition data_removed :: "'e desk_env \<Rightarrow> TypeClawInstance \<Rightarrow> key \<Rightarrow> bool" where
  "data_removed env inst k \<longleftrightarrow> instDeleting inst \<and> \<not> desktopRetainsDisk inst \<and>
     (k = tokensKey inst \<or>
      k = (KDataVolume, nsNamespace (Names inst), nsRootVolume (Names inst)) \<and> RootDataVolumeObject (quantityText env) inst \<noteq> None)"

definition owned :: "desk_object option \<Rightarrow> bool" where
  "owned o' \<longleftrightarrow> (case o' of Some obj \<Rightarrow> stOwned obj | None \<Rightarrow> False)"

definition tokenIn :: "TypeClawInstance \<Rightarrow> desk_object option \<Rightarrow> string \<Rightarrow> string" where
  "tokenIn inst o' name = existingToken (Some (storedSecret inst o')) name"

lemma owned_simps [simp]: "owned None = False" "owned (Some obj) = stOwned obj"
  by (simp_all add: owned_def)

definition kept :: "'e desk_env \<Rightarrow> TypeClawInstance \<Rightarrow> key \<Rightarrow> desk_object option \<Rightarrow> desk_object option \<Rightarrow> bool" where
  "kept env inst k was now \<longleftrightarrow>
     (fst k = KDataVolume \<and> was \<noteq> None \<longrightarrow> now = was \<or> data_removed env inst k) \<and>
     (k = tokensKey inst \<and> was \<noteq> None \<longrightarrow>
        now \<noteq> None \<and> owned now = owned was \<and>
          (\<forall>name \<in> {TokenKeyAgent, TokenKeyGuest, TokenKeyWindowsPassword}.
             tokenIn inst was name \<noteq> '''' \<longrightarrow> tokenIn inst now name = tokenIn inst was name)
        \<or> data_removed env inst k) \<and>
     (owned now \<and> \<not> owned was \<longrightarrow> fst (snd k) = instNamespace inst \<and> fst k \<noteq> KDataVolume \<and> k \<noteq> tokensKey inst)"

text \<open>An effect keeps the data when its write or removal does, whatever the objects were.\<close>

fun keeps :: "'e desk_env \<Rightarrow> TypeClawInstance \<Rightarrow> desk_cluster \<Rightarrow> effect \<Rightarrow> bool" where
  "keeps env inst s (Put k obj) = kept env inst k (s k) (Some obj)"
| "keeps env inst s (Del k) = kept env inst k (s k) None"
| "keeps env inst s e = True"

lemma kept_refl: "kept env inst k was was"
  by (simp add: kept_def)

lemma keeps_kept:
  "list_all (keeps env inst s) es \<Longrightarrow> kept env inst k (s k) (objects st k) \<Longrightarrow> kept env inst k (s k) (objects (exec es st) k)"
proof (induction es arbitrary: st)
  case Nil
  then show ?case by simp
next
  case (Cons e es)
  have "kept env inst k (s k) (objects (execEffect e st) k)"
    using Cons.prems by (cases e) auto
  then show ?case using Cons by simp
qed

lemma tokenIn_written:
  "tokenIn inst (Some (labelDesktopObject inst live (OData (secData (TokensSecret inst tokens))))) TokenKeyAgent = tokAgent tokens"
  "tokenIn inst (Some (labelDesktopObject inst live (OData (secData (TokensSecret inst tokens))))) TokenKeyGuest = tokGuest tokens"
  "tokenIn inst (Some (labelDesktopObject inst live (OData (secData (TokensSecret inst tokens))))) TokenKeyWindowsPassword =
     tokWindowsPassword tokens"
  by (simp_all add: tokenIn_def existingToken_def storedSecret_def labelDesktopObject_def TokensSecret_def)

lemma tokens_kept:
  assumes "NewTokenSet rnd inst (Some (storedSecret inst live)) = Inr tokens"
    and "name \<in> {TokenKeyAgent, TokenKeyGuest, TokenKeyWindowsPassword}" "tokenIn inst live name \<noteq> ''''"
  shows "tokenIn inst (Some (labelDesktopObject inst live (OData (secData (TokensSecret inst tokens))))) name = tokenIn inst live name"
proof -
  have same: "v = current" if "fillSlot rnd n needed (current, k) = Inr (v, k')" "current \<noteq> ''''" for n needed current k v k'
    using that by (simp add: fillSlot_keep)
  show ?thesis
    using NewTokenSet_Inr [OF assms(1)] assms(2,3) tokenIn_written [of inst live tokens]
    by (auto simp: tokenIn_def dest: same)
qed

lemma tokens_not_removable: "tokensKey inst \<notin> set (removableKeys inst)"
  by (auto simp: tokensKey_def removableKeys_def Names_def Let_def CrossNamespace_def)

lemma removable_no_volume: "k \<in> set (removableKeys inst) \<Longrightarrow> fst k \<noteq> KDataVolume"
  by (auto simp: removableKeys_def Let_def split: if_splits)

lemma removable_kept:
  assumes "k \<in> set (removableKeys inst)"
  shows "kept env inst k was None"
    and "ownDesktopObject env inst what k was p = Inr obj \<Longrightarrow> kept env inst k was (Some obj)"
proof -
  have k: "k \<noteq> tokensKey inst" "fst k \<noteq> KDataVolume"
    using assms tokens_not_removable removable_no_volume by auto
  then show "kept env inst k was None" by (simp add: kept_def)
  show "kept env inst k was (Some obj)" if "ownDesktopObject env inst what k was p = Inr obj"
    using k ownDesktopObject_Inr [OF that] by (auto simp: kept_def)
qed

lemma enabledPath_keeps:
  assumes t: "truthful env s"
  shows "list_all (keeps env inst s) (snd (enabledPath env inst s))"
proof (rule enabledPath_effects)
  fix k obj live p what
  assume "k \<in> set (removableKeys inst)" "ownDesktopObject env inst what k live p = Inr obj" "readObject env s k = Inr live"
  then show "keeps env inst s (Put k obj)" using removable_kept(2) readObject_live [OF t] by simp
next
  fix k assume "k \<in> set (removableKeys inst)"
  then show "keeps env inst s (Del k)" using removable_kept(1) by simp
next
  fix obj :: desk_object and name
  assume "readObject env s (KDataVolume, nsNamespace (Names inst), name) = Inr None" "\<not> stOwned obj"
  then show "keeps env inst s (Put (KDataVolume, nsNamespace (Names inst), name) obj)"
    using readObject_live [OF t, of "(KDataVolume, nsNamespace (Names inst), name)" None] by (simp add: kept_def tokensKey_def)
next
  fix live set
  assume "readObject env s (tokensKey inst) = Inr live" "NewTokenSet (randomBytes env) inst (Some (storedSecret inst live)) = Inr set"
  then show "keeps env inst s (Put (tokensKey inst) (labelDesktopObject inst live (OData (secData (TokensSecret inst set)))))"
    using readObject_live [OF t, of "tokensKey inst" live] tokens_kept [of "randomBytes env" inst live set]
    by (simp add: kept_def) (auto simp: tokensKey_def labelDesktopObject_def owned_def split: option.splits)
qed

lemma cleanup_keys_split:
  "\<exists>common cross. removableKeys inst = common @ cross @ [(KVirtualMachine, nsNamespace (Names inst), nsDesktop (Names inst))] \<and>
     cleanupKeys env inst retain = common @ cross @
       (if kubeVirtAvailable env then [(KVirtualMachine, nsNamespace (Names inst), nsDesktop (Names inst))] else []) @
       (if \<not> retain
        then tokensKey inst #
          (if kubeVirtAvailable env \<and> RootDataVolumeObject (quantityText env) inst \<noteq> None
           then [(KDataVolume, nsNamespace (Names inst), nsRootVolume (Names inst))] else [])
        else [])"
  unfolding removableKeys_def cleanupKeys_def Let_def tokensKey_def by (intro exI conjI) (rule refl)+

lemma cleanup_keys_bound:
  "set (cleanupKeys env inst retain) \<subseteq> set (removableKeys inst) \<union> {k. \<not> retain \<and>
     (k = tokensKey inst \<or>
      k = (KDataVolume, nsNamespace (Names inst), nsRootVolume (Names inst)) \<and> RootDataVolumeObject (quantityText env) inst \<noteq> None)}"
  using cleanup_keys_split [of inst env retain] by auto

lemma cleanup_key_kept:
  assumes "k \<in> set (cleanupKeys env inst retain)" "retain \<or> instDeleting inst \<and> \<not> desktopRetainsDisk inst"
  shows "kept env inst k was None"
proof (cases "k \<in> set (removableKeys inst)")
  case True
  then show ?thesis by (rule removable_kept)
next
  case False
  then have "data_removed env inst k"
    using assms cleanup_keys_bound [of env inst retain] unfolding data_removed_def by blast
  then show ?thesis by (auto simp: kept_def)
qed

lemma cleanup_keeps:
  assumes "retain \<or> instDeleting inst \<and> \<not> desktopRetainsDisk inst"
  shows "list_all (keeps env inst s) (snd (desktopCleanup env inst retain))"
proof -
  have "keeps env inst s e" if "is_del (set (cleanupKeys env inst retain)) e" for e
    using that cleanup_key_kept [OF _ assms] by (cases e) auto
  then show ?thesis
    using deleteAll_effects [of "cleanupKeys env inst retain" env] by (auto simp: desktopCleanup_def elim: list.pred_mono_strong)
qed

lemma finalizer_keeps:
  "list_all (keeps env inst s) (snd (ensureDesktopFinalizer env inst))"
  "list_all (keeps env inst s) (snd (dropDesktopFinalizer env inst))"
  "list_all (keeps env inst s) (snd (publishDesktop env inst oc))"
  by (auto simp: ensureDesktopFinalizer_def dropDesktopFinalizer_def publishDesktop_def split: option.splits)

lemma reconcile_keeps:
  assumes t: "truthful env s"
  shows "list_all (keeps env inst s) (snd (desktopReconcile env (Inr inst) s))"
proof (cases "instDeleting inst")
  case True
  then have "list_all (keeps env inst s) (snd (thenDesk (desktopCleanup env inst (desktopRetainsDisk inst)) (\<lambda>_.
      thenDesk (dropDesktopFinalizer env inst) (\<lambda>_. done' DeskDone))))"
    by (auto intro!: list_all_andThen cleanup_keeps finalizer_keeps)
  with True finalizer_keeps(3) [of env inst s "deletingDesktop inst"] show ?thesis
    by (auto simp: desktopReconcile_def split: prod.splits)
next
  case False
  have "list_all (keeps env inst s) (snd (convergeDesktop env inst s))"
    using enabledPath_keeps [OF t, of inst] cleanup_keeps [of True inst env s] finalizer_keeps(1,2) [of env inst s]
    by (auto simp: convergeDesktop_def enabledPath_def [symmetric] intro!: list_all_andThen split: option.splits)
  with False show ?thesis
    by (auto simp: desktopReconcile_def published_effects finalizer_keeps(3) intro!: list_all_andThen)
qed

text \<open>
  C6. The owner's data survives. Whatever a reconciliation does and wherever it is cut off, every
  DataVolume of the cluster, the golden image and an adopted disk included, is still there and
  unchanged, and the token Secret still holds every token it held, unless the Instance is being
  deleted and asks for its data to be deleted, and then only the token Secret and a root volume the
  operator created go. No object becomes owned by the Instance outside the Instance's namespace, and
  no DataVolume and no token Secret becomes owned at all, so that garbage collection never takes them.
\<close>

theorem desktop_data_retained:
  assumes "truthful env (objects st)" "desktopReconcile env (Inr inst) (objects st) = (r, es1 @ es2)"
    and "now = objects (exec es1 st)" "was = objects st"
    and "root = (KDataVolume, nsNamespace (Names inst), nsRootVolume (Names inst))"
    and "wiped \<longleftrightarrow> instDeleting inst \<and> (\<exists>spec. spPersonalDesktop (Spec inst) = Some spec \<and> rvOnInstanceDeletion (pdRootVolume spec) = ''Delete'')"
  shows "(fst k = KDataVolume \<and> was k \<noteq> None \<longrightarrow>
       now k = was k \<or> wiped \<and> k = root \<and> RootDataVolumeObject (quantityText env) inst \<noteq> None) \<and>
    (was (tokensKey inst) \<noteq> None \<and> \<not> wiped \<longrightarrow> now (tokensKey inst) \<noteq> None \<and>
       (\<forall>name \<in> {TokenKeyAgent, TokenKeyGuest, TokenKeyWindowsPassword}.
          tokenIn inst (was (tokensKey inst)) name \<noteq> '''' \<longrightarrow>
          tokenIn inst (now (tokensKey inst)) name = tokenIn inst (was (tokensKey inst)) name)) \<and>
    (owned (now k) \<and> \<not> owned (was k) \<longrightarrow> fst (snd k) = instNamespace inst \<and> fst k \<noteq> KDataVolume \<and> k \<noteq> tokensKey inst)"
proof -
  have wiped: "data_removed env inst k \<longleftrightarrow> wiped \<and> (k = tokensKey inst \<or> k = root \<and> RootDataVolumeObject (quantityText env) inst \<noteq> None)" for k
    by (auto simp: data_removed_def desktopRetainsDisk_def assms(5,6) split: option.splits)
  have kept: "kept env inst k (was k) (now k)" for k
    using keeps_kept [of env inst was es1 k st] reconcile_keeps [OF assms(1), of inst] assms(2)
    by (simp add: assms(3,4) kept_refl)
  have volume: "fst (tokensKey inst) \<noteq> KDataVolume" by (simp add: tokensKey_def)
  show ?thesis
  proof (intro conjI)
    show "fst k = KDataVolume \<and> was k \<noteq> None \<longrightarrow>
        now k = was k \<or> wiped \<and> k = root \<and> RootDataVolumeObject (quantityText env) inst \<noteq> None"
      using kept [of k] volume unfolding kept_def wiped by metis
    show "was (tokensKey inst) \<noteq> None \<and> \<not> wiped \<longrightarrow> now (tokensKey inst) \<noteq> None \<and>
       (\<forall>name \<in> {TokenKeyAgent, TokenKeyGuest, TokenKeyWindowsPassword}.
          tokenIn inst (was (tokensKey inst)) name \<noteq> '''' \<longrightarrow>
          tokenIn inst (now (tokensKey inst)) name = tokenIn inst (was (tokensKey inst)) name)"
      using kept [of "tokensKey inst"] unfolding kept_def wiped by argo
    show "owned (now k) \<and> \<not> owned (was k) \<longrightarrow> fst (snd k) = instNamespace inst \<and> fst k \<noteq> KDataVolume \<and> k \<noteq> tokensKey inst"
      using kept [of k] unfolding kept_def by argo
  qed
qed

text \<open>A retained disk and a token Secret, under an Instance that asks for its data to be kept.\<close>

definition desk_data :: desk_state where
  "desk_data = running_vm\<lparr>objects := (objects running_vm)
     ((KDataVolume, ''d'', ''i-desktop-root'') \<mapsto> \<lparr>stPayload = OSpec [], stOwned = False, stLabels = []\<rparr>,
      (KSecret, ''d'', ''i-desktop-tokens'') \<mapsto>
        \<lparr>stPayload = OData [(TokenKeyAgent, ''t'')], stOwned = False, stLabels = []\<rparr>)\<rparr>"

theorem desktop_data_retained_witness:
  "\<exists>es. desktopReconcile quiet_env (Inr leaving_inst) (objects desk_data) = (Inr DeskDone, es) \<and>
     objects (exec es desk_data) (KDataVolume, ''d'', ''i-desktop-root'') \<noteq> None \<and>
     tokenIn leaving_inst (objects (exec es desk_data) (tokensKey leaving_inst)) TokenKeyAgent = ''t''"
proof -
  obtain es where run: "desktopReconcile quiet_env (Inr leaving_inst) (objects desk_data) = (Inr DeskDone, es)"
    using leaving_deleted [of "objects desk_data"] by (metis prod.collapse)
  have spec: "spPersonalDesktop (Spec leaving_inst) = Some sample_desktop" "rvOnInstanceDeletion (pdRootVolume sample_desktop) = ''''"
    by (simp_all add: leaving_inst_def sample_desktop_def)
  have tokens: "tokensKey leaving_inst = (KSecret, ''d'', ''i-desktop-tokens'')"
    by (simp add: tokensKey_def Names_def Let_def)
  show ?thesis
    using desktop_data_retained [of quiet_env desk_data leaving_inst "Inr DeskDone" es "[]", OF _ _ refl refl refl refl,
        of "(KDataVolume, ''d'', ''i-desktop-root'')"] run
    unfolding tokens by (auto simp: desk_data_def spec tokenIn_def existingToken_def storedSecret_def)
qed

text \<open>
  Availability is asked of the discovery cache, and any failed lookup counts as an absent API. A
  deletion that runs while the lookup fails skips the virtual machine, drops the finalizer all the
  same and leaves the machine behind.
\<close>

lemma outage_strands_vm:
  assumes r: "desktopReconcile env (Inr inst) (objects st) = (Inr q, es)"
    and "\<not> kubeVirtAvailable env" "instDeleting inst" "desktopFinalizer \<in> set (instFinalizers inst)"
    and k: "k = (KVirtualMachine, nsNamespace (Names inst), nsDesktop (Names inst))"
  shows "\<not> finalized (exec es st) \<and> objects (exec es st) k = objects st k"
proof -
  obtain x pub where p: "publishDesktop env inst (deletingDesktop inst) = (x, pub)" by fastforce
  then have pub: "exec pub st = st" by (auto simp: publishDesktop_def split: option.splits)
  obtain u es1 where d: "deleteAll env (cleanupKeys env inst (desktopRetainsDisk inst)) = (Inr u, es1)"
      and es: "es = pub @ es1 @ [SetFinalizer False]"
    using assms(1,3,4) p
    by (auto simp: desktopReconcile_def desktopCleanup_def dropDesktopFinalizer_def thenDesk_Inr split: prod.splits option.splits)
  have "k \<notin> set (cleanupKeys env inst (desktopRetainsDisk inst))"
    using assms(2) by (auto simp: k cleanupKeys_def Let_def split: if_splits)
  then show ?thesis
    using deletes_keep [of "set (cleanupKeys env inst (desktopRetainsDisk inst))" es1 st k]
      deleteAll_effects [of "cleanupKeys env inst (desktopRetainsDisk inst)" env] d
    by (auto simp: es pub)
qed

end
