(* ===== verification/Desktop_Converge.thy ===== *)
theory Desktop_Converge
  imports Desktop_Control_Props
begin

text \<open>
  The objects a Personal Desktop consists of, as a specification of its controller: what the
  controller writes is what the specification lists, object by object, and a pass over a cluster
  that already is as specified changes nothing.
\<close>

section \<open>The specification\<close>

text \<open>An entry is an object that exists as given, or one that is absent.\<close>

type_synonym manifest = "(key \<times> desk_object option) list"

definition asOwned :: "TypeClawInstance \<Rightarrow> desk_cluster \<Rightarrow> key \<Rightarrow> desk_payload \<Rightarrow> key \<times> desk_object option" where
  "asOwned inst s k p =
     (k, Some \<lparr>stPayload = p, stOwned = (fst (snd k) = instNamespace inst \<or> owned (s k)), stLabels = DesktopLabels inst\<rparr>)"

definition asRetained :: "TypeClawInstance \<Rightarrow> desk_cluster \<Rightarrow> key \<Rightarrow> desk_payload \<Rightarrow> key \<times> desk_object option" where
  "asRetained inst s k p = (k, Some \<lparr>stPayload = p, stOwned = owned (s k), stLabels = DesktopLabels inst\<rparr>)"

definition credentialObjects :: "'e desk_env \<Rightarrow> TypeClawInstance \<Rightarrow> desk_cluster \<Rightarrow> TokenSet \<Rightarrow> manifest" where
  "credentialObjects env inst s tokens =
     (let n = Names inst in
      [asOwned inst s (KConfigMap, nsInstanceNamespace n, nsExtension n) (OData (cmData (ExtensionConfigMap (pluginSource env) inst)))] @
      [asRetained inst s (tokensKey inst) (OData (secData (TokensSecret inst tokens)))] @
      (if CrossNamespace inst
       then [asOwned inst s (KSecret, nsInstanceNamespace n, nsTokens n) (OData (secData (MirroredAgentTokenSecret inst (tokAgent tokens))))]
       else []))"

definition payloadObjects :: "'e desk_env \<Rightarrow> TypeClawInstance \<Rightarrow> desk_cluster \<Rightarrow> TokenSet \<Rightarrow> manifest" where
  "payloadObjects env inst s tokens =
     (let n = Names inst; ns = nsNamespace n in
      if OS (spPersonalDesktop (Spec inst)) = OSWindows
      then (case SysprepSecret (guestAssets env) inst (tokGuest tokens) (tokWindowsPassword tokens) of
          Inl err \<Rightarrow> []
        | Inr sec \<Rightarrow> [asOwned inst s (KSecret, ns, nsSysprep n) (OData (secData sec))] @ [((KSecret, ns, nsCloudInit n), None)])
      else [asOwned inst s (KSecret, ns, nsCloudInit n) (OData (secData (CloudInitSecret (guestAssets env) inst (tokGuest tokens))))] @
        [((KSecret, ns, nsSysprep n), None)])"

definition consoleObjects :: "TypeClawInstance \<Rightarrow> desk_cluster \<Rightarrow> manifest" where
  "consoleObjects inst s =
     (let k = (KIngress, nsNamespace (Names inst), nsConsoleIngress (Names inst)) in
      case ConsoleIngress inst of None \<Rightarrow> [(k, None)] | Some ing \<Rightarrow> [asOwned inst s k (OIngress ing)])"

definition gatewayObjects :: "'e desk_env \<Rightarrow> TypeClawInstance \<Rightarrow> desk_cluster \<Rightarrow> string \<Rightarrow> manifest" where
  "gatewayObjects env inst s url =
     (let n = Names inst; at = (\<lambda>kind. (kind, nsNamespace n, nsGateway n));
          claim = (KPersistentVolumeClaim, nsNamespace n, nsGatewayState n); serve = (KConfigMap, nsNamespace n, nsServeConfig n) in
      [asOwned inst s (at KServiceAccount) OAccount] @
      [asOwned inst s (at KRole) (ORole (GatewayRole inst))] @
      [asOwned inst s (at KRoleBinding) (OBinding (GatewayRoleBinding inst))] @
      [asOwned inst s (at KService) (OService (GatewayService inst))] @
      (case GatewayStateClaim inst of
         None \<Rightarrow> []
       | Some c \<Rightarrow> [asOwned inst s claim (case livePayload (s claim) of None \<Rightarrow> OClaim c | Some p \<Rightarrow> p)]) @
      (case GatewayServeConfig inst of None \<Rightarrow> [(serve, None)] | Some cm \<Rightarrow> [asOwned inst s serve (OData (cmData cm))]) @
      [asOwned inst s (at KDeployment)
         (keepSelector (livePayload (s (at KDeployment))) (GatewayDeployment inst (gatewayImage env) url))])"

definition consoleURLOf :: "'e desk_env \<Rightarrow> TypeClawInstance \<Rightarrow> string" where
  "consoleURLOf env inst = ConsoleURL inst (if ConsoleIngress inst = None then None else Some (ingressHosts env))"

definition desktopObjects :: "'e desk_env \<Rightarrow> TypeClawInstance \<Rightarrow> desk_cluster \<Rightarrow> TokenSet \<Rightarrow> manifest" where
  "desktopObjects env inst s tokens =
     (let n = Names inst; ns = nsNamespace n in
      payloadObjects env inst s tokens @
      [asOwned inst s (KVirtualMachine, ns, nsDesktop n) (OSpec (specOf (Some (VM (quantityText env) inst))))] @
      [asOwned inst s (KService, ns, nsAgentService n) (OService (AgentService inst))] @
      consoleObjects inst s @ gatewayObjects env inst s (consoleURLOf env inst) @
      [asOwned inst s (KNetworkPolicy, ns, nsGateway n)
         (OPolicy (GatewayNetworkPolicy inst (Labels inst) (discoverAPIServerIPs (envNetwork env)) (agentIP env)))])"

definition declared :: "'e desk_env \<Rightarrow> TypeClawInstance \<Rightarrow> desk_cluster \<Rightarrow> TokenSet \<Rightarrow> manifest" where
  "declared env inst s tokens = credentialObjects env inst s tokens @ desktopObjects env inst s tokens"

section \<open>Steps that implement a declaration\<close>

fun touches :: "key \<Rightarrow> effect \<Rightarrow> bool" where
  "touches k (Put k' obj) = (k = k')"
| "touches k (Del k') = (k = k')"
| "touches k e = False"

fun agrees :: "manifest \<Rightarrow> effect \<Rightarrow> bool" where
  "agrees D (Put k obj) = (fst k = KDataVolume \<or> (k, Some obj) \<in> set D)"
| "agrees D (Del k) = ((k, None) \<in> set D)"
| "agrees D e = True"

definition implements :: "desk_cluster \<Rightarrow> manifest \<Rightarrow> ('e, 'a) desk \<Rightarrow> bool" where
  "implements s D m \<longleftrightarrow> list_all (agrees D) (snd m) \<and>
     (\<forall>x. fst m = Inr x \<longrightarrow> list_all (\<lambda>(k, obj). s k = obj \<or> list_ex (touches k) (snd m)) D)"

lemma agrees_mono: "agrees D e \<Longrightarrow> set D \<subseteq> set D' \<Longrightarrow> agrees D' e"
  by (cases e) auto

lemma list_all_agrees_mono: "list_all (agrees D) es \<Longrightarrow> set D \<subseteq> set D' \<Longrightarrow> list_all (agrees D') es"
  by (auto elim!: list.pred_mono_strong agrees_mono)

lemma implements_andThen:
  assumes "implements s D m" "\<And>x. fst m = Inr x \<Longrightarrow> implements s D' (f x)"
  shows "implements s (D @ D') (thenDesk m f)"
proof (cases "fst m")
  case (Inl err)
  then show ?thesis using assms(1) list_all_agrees_mono [of D "snd m" "D @ D'"]
    by (cases m) (auto simp: implements_def thenDesk_def)
next
  case (Inr x)
  then have "implements s D' (f x)" by (rule assms(2))
  then show ?thesis
    using assms(1) Inr list_all_agrees_mono [of D "snd m" "D @ D'"] list_all_agrees_mono [of D' "snd (f x)" "D @ D'"]
    by (cases m; cases "f x") (fastforce simp: implements_def thenDesk_def list_all_iff)
qed

lemma implements_done [simp]: "implements s [] (done' x)"
  by (simp add: implements_def)

lemma implements_then_done: "implements s D m \<Longrightarrow> implements s D (thenDesk m (\<lambda>x. done' (f x)))"
  using implements_andThen [of s D m "[]" "\<lambda>x. done' (f x)"] by simp

lemma implements_apply:
  assumes "truthful env s"
  shows "implements s [asOwned inst s k (render (livePayload (s k)))] (applyDesktopObject env inst s what k render)"
proof -
  have "obj = the (snd (asOwned inst s k p))" if "ownDesktopObject env inst what k (s k) p = Inr obj" for obj p
    using ownDesktopObject_Inr [OF that] by (cases "s k") (auto simp: asOwned_def)
  then show ?thesis
    using readObject_live [OF assms, of k]
    by (auto simp: implements_def applyDesktopObject_def createOrUpdate_def asOwned_def split: sum.splits option.splits)
qed

lemma implements_delete: "truthful env s \<Longrightarrow> implements s [(k, None)] (deleteDesktopObject env what k)"
  by (auto simp: implements_def deleteDesktopObject_def truthfulD split: option.splits)

lemma fst_andThen: "fst (thenDesk m f) = Inr y \<longleftrightarrow> (\<exists>x. fst m = Inr x \<and> fst (f x) = Inr y)"
  by (cases m; cases "fst m") (auto simp: thenDesk_def split: prod.splits)

lemma fst_done' [simp]: "fst (done' x) = Inr y \<longleftrightarrow> x = y"
  by (simp add: done'_def)

lemma implements_tokens:
  assumes "truthful env s" "NewTokenSet (randomBytes env) inst (Some (storedSecret inst (s (tokensKey inst)))) = Inr tokens"
  shows "implements s [asRetained inst s (tokensKey inst) (OData (secData (TokensSecret inst tokens)))] (applyTokens env inst s)"
proof (cases "readObject env s (tokensKey inst)")
  case (Inl err)
  then show ?thesis by (simp add: implements_def applyTokens_def)
next
  case (Inr live)
  then have live: "live = s (tokensKey inst)" by (rule readObject_live [OF assms(1)])
  have "implements s [asRetained inst s (tokensKey inst) (OData (secData (TokensSecret inst tokens)))]
      (createOrUpdate env s ''apply token Secret'' (tokensKey inst)
         (\<lambda>live'. Inr (labelDesktopObject inst live' (OData (secData (TokensSecret inst tokens))))))"
    using Inr by (auto simp: implements_def createOrUpdate_def asRetained_def labelDesktopObject_def owned_def live split: option.splits)
  then show ?thesis
    using Inr assms(2) by (simp add: applyTokens_def live implements_then_done)
qed

lemma applyTokens_drawn:
  assumes "truthful env s" "fst (applyTokens env inst s) = Inr tokens"
  shows "NewTokenSet (randomBytes env) inst (Some (storedSecret inst (s (tokensKey inst)))) = Inr tokens"
  using assms readObject_live [OF assms(1), of "tokensKey inst"]
  by (auto simp: applyTokens_def fst_andThen split: sum.splits)

lemma implements_credentials:
  assumes t: "truthful env s" and "NewTokenSet (randomBytes env) inst (Some (storedSecret inst (s (tokensKey inst)))) = Inr tokens"
  shows "implements s (credentialObjects env inst s tokens) (applyDesktopCredentials env inst s)"
  unfolding credentialObjects_def applyDesktopCredentials_def Let_def
  by (intro implements_andThen implements_then_done implements_apply [OF t] implements_tokens [OF assms])
    (use applyTokens_drawn [OF t] assms(2) in \<open>auto intro: implements_apply [OF t]\<close>)

lemma implements_payload:
  assumes t: "truthful env s"
  shows "implements s (payloadObjects env inst s tokens) (applyGuestPayload env inst s tokens)"
  unfolding payloadObjects_def applyGuestPayload_def Let_def
  by (auto split: sum.splits simp: implements_def [of s "[]"]
      intro!: implements_andThen [of s "[_]" _ "[_]", simplified] implements_apply [OF t] implements_delete [OF t])

lemma implements_console:
  assumes t: "truthful env s"
  shows "implements s (consoleObjects inst s) (applyConsoleIngress env inst s)"
  unfolding consoleObjects_def applyConsoleIngress_def Let_def
  by (auto split: option.splits intro!: implements_then_done implements_apply [OF t] implements_delete [OF t])

lemma applyConsoleIngress_url: "fst (applyConsoleIngress env inst s) = Inr url \<Longrightarrow> url = consoleURLOf env inst"
  by (auto simp: applyConsoleIngress_def consoleURLOf_def Let_def fst_andThen split: option.splits)

lemma implements_stateClaim:
  assumes t: "truthful env s" and k: "k = (KPersistentVolumeClaim, nsNamespace (Names inst), nsGatewayState (Names inst))"
  shows "implements s (case GatewayStateClaim inst of
      None \<Rightarrow> [] | Some c \<Rightarrow> [asOwned inst s k (case livePayload (s k) of None \<Rightarrow> OClaim c | Some p \<Rightarrow> p)]) (applyStateClaim env inst s)"
  using implements_apply [OF t, where k = k and render = "\<lambda>live. case live of None \<Rightarrow> OClaim c | Some p \<Rightarrow> p" for c]
  by (auto simp: applyStateClaim_def k split: option.splits)

lemma implements_serveConfig:
  assumes t: "truthful env s" and k: "k = (KConfigMap, nsNamespace (Names inst), nsServeConfig (Names inst))"
  shows "implements s (case GatewayServeConfig inst of
      None \<Rightarrow> [(k, None)] | Some cm \<Rightarrow> [asOwned inst s k (OData (cmData cm))]) (applyServeConfig env inst s)"
  by (auto simp: applyServeConfig_def k split: option.splits intro!: implements_apply [OF t] implements_delete [OF t])

lemma implements_gateway:
  assumes t: "truthful env s"
  shows "implements s (gatewayObjects env inst s url) (applyGateway env inst s url)"
  unfolding gatewayObjects_def applyGateway_def Let_def
  by (intro implements_andThen implements_then_done implements_stateClaim [OF t refl] implements_serveConfig [OF t refl] 
      implements_apply [OF t])

lemma implements_volume: "implements s [] (ensureDataVolume env inst s what desired name)"
  by (auto simp: implements_def ensureDataVolume_def Let_def split: sum.splits option.splits)

lemma implements_desktop:
  assumes t: "truthful env s"
  shows "implements s (desktopObjects env inst s tokens) (applyDesktop env inst s tokens)"
proof -
  note step = implements_andThen [of s "[]", simplified]
  show ?thesis
    unfolding desktopObjects_def applyDesktop_def applyGatewayNetworkPolicy_def Let_def
    by (intro step implements_volume implements_andThen implements_then_done implements_payload [OF t] implements_apply [OF t]
        implements_console [OF t]) (auto dest: applyConsoleIngress_url intro: implements_gateway [OF t])
qed

lemma implements_enabledPath:
  assumes t: "truthful env s" and kv: "kubeVirtAvailable env"
    and tokens: "NewTokenSet (randomBytes env) inst (Some (storedSecret inst (s (tokensKey inst)))) = Inr tokens"
  shows "implements s (declared env inst s tokens) (enabledPath env inst s)"
proof -
  have "fst (applyDesktopCredentials env inst s) = Inr tokens' \<Longrightarrow> tokens' = tokens" for tokens'
    using applyTokens_drawn [OF t] tokens by (auto simp: applyDesktopCredentials_def Let_def fst_andThen)
  then show ?thesis
    unfolding declared_def enabledPath_def using kv
    by (auto intro!: implements_andThen implements_credentials [OF t tokens] implements_desktop [OF t])
qed

section \<open>What a pass leaves behind\<close>

lemma manifest_keys [simp]: "fst (asOwned inst s k p) = k" "fst (asRetained inst s k p) = k"
  by (simp_all add: asOwned_def asRetained_def)

lemma names_distinct [simp]:
  "nsCloudInit (Names inst) \<noteq> nsSysprep (Names inst)" "nsSysprep (Names inst) \<noteq> nsCloudInit (Names inst)"
  "nsCloudInit (Names inst) \<noteq> nsTokens (Names inst)" "nsTokens (Names inst) \<noteq> nsCloudInit (Names inst)"
  "nsSysprep (Names inst) \<noteq> nsTokens (Names inst)" "nsTokens (Names inst) \<noteq> nsSysprep (Names inst)"
  "nsAgentService (Names inst) \<noteq> nsGateway (Names inst)" "nsGateway (Names inst) \<noteq> nsAgentService (Names inst)"
  "nsExtension (Names inst) \<noteq> nsServeConfig (Names inst)" "nsServeConfig (Names inst) \<noteq> nsExtension (Names inst)"
  by (simp_all add: Names_def Let_def)

lemma declared_distinct: "distinct (map fst (declared env inst s tokens))"
proof -
  have "CrossNamespace inst \<Longrightarrow> nsInstanceNamespace (Names inst) \<noteq> nsNamespace (Names inst)"
    by (simp add: CrossNamespace_def Names_def Let_def)
  then show ?thesis
    by (auto simp: declared_def credentialObjects_def desktopObjects_def payloadObjects_def consoleObjects_def gatewayObjects_def
        tokensKey_def Let_def split: option.splits sum.splits)
qed

lemma declared_no_volume: "(k, obj) \<in> set (declared env inst s tokens) \<Longrightarrow> fst k \<noteq> KDataVolume"
  by (auto simp: declared_def credentialObjects_def desktopObjects_def payloadObjects_def consoleObjects_def gatewayObjects_def
      tokensKey_def asOwned_def asRetained_def Let_def split: option.splits sum.splits if_splits)

lemma agrees_settles:
  assumes "list_all (agrees D) es" "distinct (map fst D)" "(k, obj) \<in> set D" "fst k \<noteq> KDataVolume"
    and "objects st k = obj \<or> list_ex (touches k) es"
  shows "objects (exec es st) k = obj"
  using assms(1,5)
proof (induction es arbitrary: st)
  case Nil
  then show ?case by simp
next
  case (Cons e es)
  have "obj' = obj" if "(k, obj') \<in> set D" for obj'
    by (rule eq_key_imp_eq_value [OF assms(2) that assms(3)])
  then have "touches k e \<Longrightarrow> objects (execEffect e st) k = obj"
    using Cons.prems(1) assms(4) by (cases e) auto
  moreover have "\<not> touches k e \<Longrightarrow> objects (execEffect e st) k = objects st k" by (cases e) auto
  ultimately show ?case using Cons by (cases "touches k e") auto
qed

lemma agrees_elsewhere:
  "list_all (agrees D) es \<Longrightarrow> k \<notin> fst ` set D \<Longrightarrow> fst k \<noteq> KDataVolume \<Longrightarrow> objects (exec es st) k = objects st k"
proof (induction es arbitrary: st)
  case Nil
  then show ?case by simp
next
  case (Cons e es)
  then have "objects (execEffect e st) k = objects st k" by (cases e) (auto simp: rev_image_eqI)
  with Cons show ?case by simp
qed

lemma implements_result:
  assumes "implements s D m" "m = (Inr x, es)" "distinct (map fst D)" "(k, obj) \<in> set D" "fst k \<noteq> KDataVolume" "objects st = s"
  shows "objects (exec es st) k = obj"
  using agrees_settles [OF _ assms(3-5)] assms(1,2,4,6) by (auto simp: implements_def list_all_iff)

lemma asOwned_again: "s' k = snd (asOwned inst s k p) \<Longrightarrow> asOwned inst s' k p = asOwned inst s k p"
  by (auto simp: asOwned_def)

lemma asRetained_again: "s' k = snd (asRetained inst s k p) \<Longrightarrow> asRetained inst s' k p = asRetained inst s k p"
  by (auto simp: asRetained_def)

lemma livePayload_owned [simp]: "livePayload (snd (asOwned inst s k p)) = Some p"
  by (simp add: asOwned_def livePayload_def)

definition satisfied :: "desk_cluster \<Rightarrow> manifest \<Rightarrow> bool" where
  "satisfied s D \<longleftrightarrow> list_all (\<lambda>d. s (fst d) = snd d) D"

lemma satisfied_simps [simp]:
  "satisfied s []" "satisfied s (d # D) \<longleftrightarrow> s (fst d) = snd d \<and> satisfied s D" "satisfied s (D @ D') \<longleftrightarrow> satisfied s D \<and> satisfied s D'"
  by (auto simp: satisfied_def)

lemma keepSelector_again: "keepSelector (Some (keepSelector live d)) d = keepSelector live d"
  by (auto simp: keepSelector_def split: option.splits desk_payload.splits)

lemma credentialObjects_again:
  "satisfied s' (credentialObjects env inst s tokens) \<Longrightarrow> credentialObjects env inst s' tokens = credentialObjects env inst s tokens"
  by (auto simp: credentialObjects_def Let_def asOwned_again [where s = s] asRetained_again [where s = s])

lemma gatewayObjects_again:
  "satisfied s' (gatewayObjects env inst s url) \<Longrightarrow> gatewayObjects env inst s' url = gatewayObjects env inst s url"
  by (cases "GatewayStateClaim inst"; cases "GatewayServeConfig inst")
    (simp_all add: gatewayObjects_def Let_def asOwned_again [where s = s] keepSelector_again)

lemma payloadObjects_again:
  "satisfied s' (payloadObjects env inst s tokens) \<Longrightarrow> payloadObjects env inst s' tokens = payloadObjects env inst s tokens"
  by (auto simp: payloadObjects_def Let_def asOwned_again [where s = s] split: sum.splits if_splits)

lemma consoleObjects_again: "satisfied s' (consoleObjects inst s) \<Longrightarrow> consoleObjects inst s' = consoleObjects inst s"
  by (auto simp: consoleObjects_def Let_def asOwned_again [where s = s] split: option.splits)

lemma declared_again:
  "satisfied s' (declared env inst s tokens) \<Longrightarrow> declared env inst s' tokens = declared env inst s tokens"
  by (auto simp: declared_def desktopObjects_def Let_def asOwned_again [where s = s] credentialObjects_again payloadObjects_again
      consoleObjects_again gatewayObjects_again)

lemma enabledPath_tokens:
  assumes t: "truthful env s" and "fst (enabledPath env inst s) = Inr oc"
  shows "\<exists>tokens. NewTokenSet (randomBytes env) inst (Some (storedSecret inst (s (tokensKey inst)))) = Inr tokens"
  using assms(2) applyTokens_drawn [OF t] by (auto simp: enabledPath_def applyDesktopCredentials_def Let_def fst_andThen)

lemma ensureDataVolume_phase:
  assumes "truthful env s" "fst (ensureDataVolume env inst s what desired name) = Inr phase"
  shows "phase = (if name \<noteq> '''' \<and> s (KDataVolume, nsNamespace (Names inst), name) \<noteq> None
     then volumePhase env (KDataVolume, nsNamespace (Names inst), name) else '''')"
proof (cases "readObject env s (KDataVolume, nsNamespace (Names inst), name)")
  case (Inl err)
  then show ?thesis using assms(2) by (auto simp: ensureDataVolume_def Let_def split: if_splits)
next
  case (Inr live)
  then have "s (KDataVolume, nsNamespace (Names inst), name) = live" using readObject_live [OF assms(1)] by simp
  with Inr assms(2) show ?thesis
    by (cases live) (auto simp: ensureDataVolume_def Let_def split: if_splits option.splits)
qed

lemma nsRootVolume_nonempty: "nsRootVolume (Names inst) \<noteq> ''''"
  by (auto simp: Names_def Let_def split: option.splits)

lemma enabledPath_ready:
  assumes t: "truthful env s" and kv: "kubeVirtAvailable env" and r: "fst (enabledPath env inst s) = Inr oc"
    and root: "root = (KDataVolume, nsNamespace (Names inst), nsRootVolume (Names inst))"
  shows "ocReady oc \<longleftrightarrow> 0 < readyReplicas env \<and> s root \<noteq> None \<and> volumePhase env root = ''Succeeded''"
proof -
  obtain rootPhase where phase: "fst (ensureDataVolume env inst s ''root DataVolume'' (RootDataVolumeObject (quantityText env) inst)
      (nsRootVolume (Names inst))) = Inr rootPhase"
    and oc: "ocReady oc \<longleftrightarrow> 0 < readyReplicas env \<and> rootPhase = ''Succeeded''"
    using r kv by (auto simp: enabledPath_def applyDesktop_def applyGateway_def Let_def fst_andThen)
  show ?thesis using ensureDataVolume_phase [OF t phase] nsRootVolume_nonempty oc by (simp add: root)
qed

lemma convergeDesktop_succeeds:
  assumes "convergeDesktop env inst s = (Inr oc, es)" "ocReason oc \<noteq> ''Error''"
    and "Enabled inst" "Validate inst = None" "RuntimeSupportsExtensions inst"
  shows "\<exists>es1 es2. es = es1 @ es2 \<and> ensureDesktopFinalizer env inst = (Inr (), es1) \<and> enabledPath env inst s = (Inr oc, es2)"
  using assms(1,2) unfolding convergeDesktop_enabled [OF assms(3-5)]
  by (auto simp: thenDesk_Inr observed_def degradedDesktop_def split: prod.splits sum.splits)

lemma ensure_objects: "ensureDesktopFinalizer env inst = (r, es) \<Longrightarrow> objects (exec es st) = objects st"
  by (auto simp: ensureDesktopFinalizer_def split: if_splits option.splits)

lemma pass_satisfies:
  assumes "enabledPath env inst (objects st) = (Inr oc, es)" "truthful env (objects st)" "kubeVirtAvailable env"
    and tokens: "NewTokenSet (randomBytes env) inst (Some (storedSecret inst (objects st (tokensKey inst)))) = Inr tokens"
  shows "satisfied (objects (exec es st)) (declared env inst (objects st) tokens)"
proof -
  have "objects (exec es st) (fst d) = snd d" if "d \<in> set (declared env inst (objects st) tokens)" for d
    using implements_result [OF implements_enabledPath [OF assms(2,3) tokens] assms(1) declared_distinct, of "fst d" "snd d" st]
      declared_no_volume [of "fst d" "snd d" env inst "objects st" tokens] that by simp
  then show ?thesis by (simp add: satisfied_def list_all_iff)
qed


text \<open>
  A second pass: only the answers of the API server and the random source may differ. Its effects
  agree with the same declaration, so each of them writes what is there or removes what is absent.
\<close>

lemma declared_env: "declared (env\<lparr>fails := f, randomBytes := rnd\<rparr>) inst s tokens = declared env inst s tokens"
  by (simp add: declared_def credentialObjects_def desktopObjects_def payloadObjects_def gatewayObjects_def consoleURLOf_def
      gatewayImage_def Let_def)

lemma kubeVirtAvailable_env [simp]: "kubeVirtAvailable (env\<lparr>fails := f, randomBytes := rnd\<rparr>) = kubeVirtAvailable env"
  by (simp add: kubeVirtAvailable_def)

lemma agrees_satisfied:
  assumes "agrees D e" "satisfied (objects st) D"
  shows "execEffect e st = st \<or> (\<exists>k obj. e = Put k obj \<and> fst k = KDataVolume) \<or> (\<exists>b. e = SetFinalizer b)"
proof -
  have there: "objects st k = obj" if "(k, obj) \<in> set D" for k obj
    using assms(2) that by (auto simp: satisfied_def list_all_iff)
  show ?thesis
  proof (cases e)
    case (Put k obj)
    with assms(1) there [of k "Some obj"] show ?thesis by (cases "fst k = KDataVolume") (auto simp: fun_upd_idem)
  next
    case (Del k)
    with assms(1) there [of k None] show ?thesis by (auto simp: fun_upd_idem)
  qed auto
qed

lemma stored_tokens_again:
  assumes "NewTokenSet rnd inst existing = Inr tokens" "\<And>k bs. rnd k = Inr bs \<Longrightarrow> length bs = 32"
    and "satisfied s (declared env inst s' tokens)"
  shows "NewTokenSet rnd' inst (Some (storedSecret inst (s (tokensKey inst)))) = Inr tokens"
proof -
  have "s (tokensKey inst) = snd (asRetained inst s' (tokensKey inst) (OData (secData (TokensSecret inst tokens))))"
    using assms(3) by (simp add: declared_def credentialObjects_def Let_def)
  then have data: "existingToken (Some (storedSecret inst (s (tokensKey inst)))) = existingToken (Some (TokensSecret inst tokens))"
    by (auto simp: existingToken_def storedSecret_def asRetained_def)
  have "NewTokenSet rnd' inst (Some (TokensSecret inst tokens)) = Inr tokens"
  proof -
    have "tokWindowsPassword tokens \<noteq> ''''" if windows: "OS (spPersonalDesktop (Spec inst)) = OSWindows"
    proof -
      obtain k k' where "fillSlot rnd TokenKeyWindowsPassword True (existingToken existing TokenKeyWindowsPassword, k) =
          Inr (tokWindowsPassword tokens, k')"
        using NewTokenSet_Inr [OF assms(1)] windows by auto
      moreover have "length v = 64" if "randomToken (rnd k) = Inr v" for v
        using that assms(2) by (auto simp: randomToken_def hexEncode_length split: sum.splits)
      ultimately show ?thesis using fillSlot_Inr by fastforce
    qed
    then show ?thesis
      using tokens_made_once [OF assms(1), of inst rnd' inst] assms(2) by blast
  qed
  then show ?thesis unfolding NewTokenSet_def data .
qed

lemma enabledPath_shape:
  assumes t: "truthful env s"
  shows "list_all (\<lambda>e. (\<forall>k obj. e = Put k obj \<and> fst k = KDataVolume \<longrightarrow> s k = None) \<and> (\<forall>b. e \<noteq> SetFinalizer b))
    (snd (enabledPath env inst s))"
proof (rule enabledPath_effects)
  fix obj :: desk_object and name
  assume "readObject env s (KDataVolume, nsNamespace (Names inst), name) = Inr None"
  then show "(\<forall>k obj'. Put (KDataVolume, nsNamespace (Names inst), name) obj = Put k obj' \<and> fst k = KDataVolume \<longrightarrow> s k = None) \<and>
      (\<forall>b. Put (KDataVolume, nsNamespace (Names inst), name) obj \<noteq> SetFinalizer b)"
    using readObject_live [OF t] by fastforce
qed (auto simp: tokensKey_def dest: removable_no_volume)

text \<open>
  C8. A converged desktop is left alone. After a pass that did not report an error, a further pass,
  whatever calls of it fail, writes nothing but a DataVolume that is missing: every other effect
  leaves the cluster and the finalizer as they are. In particular the tokens, the Deployment's
  selector and the state claim are stable, and nothing the controller writes makes it write again.
\<close>

theorem desktop_settled:
  assumes "convergeDesktop env inst (objects st) = (Inr oc, es)" "ocReason oc \<noteq> ''Error''"
    and "Enabled inst" "Validate inst = None" "RuntimeSupportsExtensions inst" "kubeVirtAvailable env"
    and "truthful env (objects st)" "finalized st \<longleftrightarrow> desktopFinalizer \<in> set (instFinalizers inst)"
    and "\<And>k bs. randomBytes env k = Inr bs \<Longrightarrow> length bs = 32"
    and "st' = exec es st" "env' = env\<lparr>fails := f, randomBytes := rnd\<rparr>" "truthful env' (objects st')"
    and "e \<in> set (snd (convergeDesktop env' inst (objects st')))"
  shows "execEffect e st' = st' \<or> (\<exists>k obj. e = Put k obj \<and> fst k = KDataVolume \<and> objects st' k = None)"
proof -
  obtain es1 es2 where es: "es = es1 @ es2" and fin: "ensureDesktopFinalizer env inst = (Inr (), es1)"
    and path: "enabledPath env inst (objects st) = (Inr oc, es2)"
    using convergeDesktop_succeeds [OF assms(1-5)] by blast
  have same: "objects (exec es1 st) = objects st" by (rule ensure_objects [OF fin])
  obtain tokens where tokens: "NewTokenSet (randomBytes env) inst (Some (storedSecret inst (objects st (tokensKey inst)))) = Inr tokens"
    using enabledPath_tokens [OF assms(7)] path by fastforce
  define D where "D = declared env inst (objects st) tokens"
  have sat: "satisfied (objects st') D"
    using pass_satisfies [of env inst "exec es1 st" oc es2] path tokens assms(6,7) by (simp add: same D_def es assms(10))
  have "declared env' inst (objects st') tokens = D"
    using declared_again [of "objects st'" env inst "objects st" tokens] sat by (simp add: assms(11) declared_env D_def)
  moreover have "NewTokenSet (randomBytes env') inst (Some (storedSecret inst (objects st' (tokensKey inst)))) = Inr tokens"
    using stored_tokens_again [OF tokens assms(9)] sat by (simp add: D_def)
  ultimately have impl: "implements (objects st') D (enabledPath env' inst (objects st'))"
    using implements_enabledPath [OF assms(12), of inst tokens] assms(6) by (simp add: assms(11))
  have finalizer: "finalized st'"
    using enabledPath_effects [of inst env "objects st" no_drop] path fin assms(8) ensureDesktopFinalizer_holds [of env inst "()" st]
      no_drop_finalizer [of es2 "exec es1 st"] by (simp add: no_drop_def es assms(10))
  have shape: "(\<forall>k obj. e = Put k obj \<and> fst k = KDataVolume \<longrightarrow> objects st' k = None) \<and> (\<forall>b. e \<noteq> SetFinalizer b)"
    if "e \<in> set (snd (enabledPath env' inst (objects st')))" for e
    using enabledPath_shape [OF assms(12), of inst] that by (simp add: list_all_iff)
  have "e \<in> set (snd (ensureDesktopFinalizer env' inst)) \<or> e \<in> set (snd (enabledPath env' inst (objects st')))"
    using assms(13) unfolding convergeDesktop_enabled [OF assms(3-5)]
    by (auto simp: thenDesk_def observed_def split: prod.splits sum.splits)
  then show ?thesis
  proof
    assume "e \<in> set (snd (ensureDesktopFinalizer env' inst))"
    then have "e = SetFinalizer True" by (auto simp: ensureDesktopFinalizer_def split: if_splits option.splits)
    then show ?thesis using finalizer by simp
  next
    assume e: "e \<in> set (snd (enabledPath env' inst (objects st')))"
    then have "agrees D e" using impl by (simp add: implements_def list_all_iff)
    from agrees_satisfied [OF this sat] shape [OF e] show ?thesis by blast
  qed
qed

section \<open>An empty cluster\<close>

definition empty_cluster :: desk_state where
  "empty_cluster = \<lparr>objects = Map.empty, finalized = False\<rparr>"

definition fresh_inst :: TypeClawInstance where
  "fresh_inst = (sample_inst (sample_istatus None))\<lparr>Spec := sample_ispec\<lparr>spPersonalDesktop := Some sample_desktop,
     Runtime := \<lparr>rtVersion = '''', rtImage = ''img'', Timezone = ''''\<rparr>\<rparr>\<rparr>"

lemma fresh_inst_simps [simp]:
  "spPersonalDesktop (Spec fresh_inst) = Some sample_desktop" "Enabled fresh_inst" "Validate fresh_inst = None"
  "RuntimeSupportsExtensions fresh_inst" "OS (Some sample_desktop) = OSLinux" "instFinalizers fresh_inst = []"
  by (simp_all add: fresh_inst_def sample_inst_def Enabled_def Validate_def sample_desktop_def OS_def RuntimeSupportsExtensions_def)

lemma quiet_writes [simp]:
  "fst (applyDesktopObject quiet_env inst s what k render) = Inr ()" "fst (deleteDesktopObject quiet_env what k) = Inr ()"
  by (auto simp: applyDesktopObject_def createOrUpdate_def readObject_def ownDesktopObject_def deleteDesktopObject_def)

lemma quiet_volume: "\<exists>phase. fst (ensureDataVolume quiet_env inst s what desired name) = Inr phase"
  by (auto simp: ensureDataVolume_def readObject_def Let_def split: option.splits)

lemma quiet_tokens: "\<exists>tokens. fst (applyTokens quiet_env fresh_inst Map.empty) = Inr tokens"
  by (simp add: applyTokens_def readObject_def NewTokenSet_def fillSlot_def existingToken_def storedSecret_def randomToken_def
      createOrUpdate_def fst_andThen)

lemma quiet_gateway: "\<exists>ready. fst (applyGateway quiet_env inst s url) = Inr ready"
  by (auto simp: applyGateway_def applyStateClaim_def applyServeConfig_def Let_def fst_andThen split: option.splits)

lemma quiet_console: "\<exists>url. fst (applyConsoleIngress quiet_env inst s) = Inr url"
  by (auto simp: applyConsoleIngress_def Let_def fst_andThen split: option.splits)

lemma succeeds_andThen:
  "\<exists>x. fst m = Inr x \<Longrightarrow> (\<And>x. \<exists>y. fst (f x) = Inr y \<and> P y) \<Longrightarrow> \<exists>y. fst (thenDesk m f) = Inr y \<and> P y"
  by (fastforce simp: fst_andThen)

lemma quiet_pass:
  "\<exists>oc es. convergeDesktop quiet_env fresh_inst (objects empty_cluster) = (Inr oc, es) \<and> ocReason oc \<noteq> ''Error''"
proof -
  have "fst (applyGuestPayload quiet_env fresh_inst s tokens) = Inr ()" for s tokens
    by (simp add: applyGuestPayload_def Let_def fst_andThen)
  then have "\<exists>oc. fst (applyDesktop quiet_env fresh_inst s tokens) = Inr oc \<and> ocReason oc \<noteq> ''Error''" for s tokens
    unfolding applyDesktop_def applyGatewayNetworkPolicy_def Let_def
    by (intro succeeds_andThen quiet_volume quiet_console quiet_gateway) auto
  then have "\<exists>oc. fst (enabledPath quiet_env fresh_inst Map.empty) = Inr oc \<and> ocReason oc \<noteq> ''Error''"
    using quiet_tokens by (simp add: enabledPath_def applyDesktopCredentials_def Let_def fst_andThen) metis
  then obtain oc where "fst (enabledPath quiet_env fresh_inst Map.empty) = Inr oc" "ocReason oc \<noteq> ''Error''" by blast
  then show ?thesis
    by (cases "enabledPath quiet_env fresh_inst Map.empty")
      (auto simp: convergeDesktop_enabled empty_cluster_def thenDesk_def observed_def ensureDesktopFinalizer_def)
qed

lemma fresh_empty: "finalized empty_cluster \<longleftrightarrow> desktopFinalizer \<in> set (instFinalizers fresh_inst)"
  by (simp add: empty_cluster_def)


theorem desktop_settled_witness:
  "\<exists>oc es. convergeDesktop quiet_env fresh_inst (objects empty_cluster) = (Inr oc, es) \<and>
     list_all (\<lambda>e. execEffect e (exec es empty_cluster) = exec es empty_cluster \<or>
         (\<exists>k obj. e = Put k obj \<and> fst k = KDataVolume \<and> objects (exec es empty_cluster) k = None))
       (snd (convergeDesktop (quiet_env\<lparr>fails := \<lambda>_. None, randomBytes := \<lambda>_. Inl ''no entropy''\<rparr>) fresh_inst
          (objects (exec es empty_cluster))))"
proof -
  obtain oc es where run: "convergeDesktop quiet_env fresh_inst (objects empty_cluster) = (Inr oc, es)" "ocReason oc \<noteq> ''Error''"
    using quiet_pass by blast
  have "truthful (quiet_env\<lparr>fails := \<lambda>_. None, randomBytes := \<lambda>_. Inl ''no entropy''\<rparr>) s" for s
    by (simp add: truthful_def)
  then show ?thesis
    using desktop_settled [OF run _ _ _ _ _ fresh_empty _ refl refl] run(1) by (auto simp: list_all_iff)
qed

end
