(* ===== verification/Manager.thy ===== *)
theory Manager
  imports Desktop_Control_Props Broker
begin

text \<open>
  The processes around the controllers: the manager (\<^verbatim>\<open>cmd/manager/main.go\<close>) with the kinds each
  controller watches (the \<^verbatim>\<open>SetupWithManager\<close> methods of \<^verbatim>\<open>internal/controller\<close>), the mTLS server of
  the credential broker (\<^verbatim>\<open>credential_broker.go\<close>) and the metadata reader (\<^verbatim>\<open>secret_metadata.go\<close>).
\<close>

section \<open>What the controllers watch\<close>

record controller_setup =
  ctlName :: string
  forKind :: string
  owns :: "string list"

definition instanceSetup :: controller_setup where
  "instanceSetup = \<lparr>ctlName = ''typeclawinstance'', forKind = ''TypeClawInstance'', owns = [''StatefulSet'', ''Service'']\<rparr>"

definition credentialSetup :: controller_setup where
  "credentialSetup = \<lparr>ctlName = ''credentialrequest'', forKind = ''CredentialRequest'', owns = [''Job'']\<rparr>"

definition networkPolicySetup :: controller_setup where
  "networkPolicySetup = \<lparr>ctlName = ''networkpolicy'', forKind = ''TypeClawInstance'', owns = [''NetworkPolicy'']\<rparr>"

definition backupSetup :: controller_setup where
  "backupSetup = \<lparr>ctlName = ''typeclawinstance-backup'', forKind = ''TypeClawInstance'', owns = [''CronJob'', ''Job'']\<rparr>"

definition desktopSetup :: controller_setup where
  "desktopSetup = \<lparr>ctlName = ''typeclawinstance-personaldesktop'', forKind = ''TypeClawInstance'',
     owns = [''Deployment'', ''Service'', ''ServiceAccount'', ''Secret'', ''ConfigMap'', ''Role'', ''RoleBinding'',
             ''Ingress'', ''NetworkPolicy'']\<rparr>"

definition autoUpdateSetup :: controller_setup where
  "autoUpdateSetup = \<lparr>ctlName = ''typeclawinstance-autoupdate'', forKind = ''TypeClawInstance'', owns = [''StatefulSet'']\<rparr>"

fun kindName :: "desk_kind \<Rightarrow> string" where
  "kindName KConfigMap = ''ConfigMap''"
| "kindName KSecret = ''Secret''"
| "kindName KIngress = ''Ingress''"
| "kindName KNetworkPolicy = ''NetworkPolicy''"
| "kindName KDeployment = ''Deployment''"
| "kindName KService = ''Service''"
| "kindName KRoleBinding = ''RoleBinding''"
| "kindName KRole = ''Role''"
| "kindName KServiceAccount = ''ServiceAccount''"
| "kindName KPersistentVolumeClaim = ''PersistentVolumeClaim''"
| "kindName KVirtualMachine = ''VirtualMachine''"
| "kindName KDataVolume = ''DataVolume''"

section \<open>The broker's server\<close>

record 'b CredentialBrokerServer =
  bsHandler :: "'b option"
  bsAddress :: string
  bsCertificate :: string
  bsPrivateKey :: string
  bsClientCA :: string

definition NewCredentialBrokerServer :: "'b \<Rightarrow> string \<Rightarrow> string \<Rightarrow> string \<Rightarrow> string \<Rightarrow> 'b CredentialBrokerServer" where
  "NewCredentialBrokerServer handler address certificate privateKey clientCA =
     \<lparr>bsHandler = Some handler, bsAddress = address, bsCertificate = certificate, bsPrivateKey = privateKey, bsClientCA = clientCA\<rparr>"

definition NeedLeaderElection :: "'b CredentialBrokerServer \<Rightarrow> bool" where
  "NeedLeaderElection s = False"

datatype client_auth = NoClientCert | RequestClientCert | RequireAndVerifyClientCert

record 'c tls_config =
  MinVersion :: int
  ServerCertificate :: 'c
  ClientAuth :: client_auth
  ClientCAs :: string

abbreviation VersionTLS13 :: int where "VersionTLS13 \<equiv> 0x0304"

text \<open>The files, the certificate parser and the network; how the serving ends.\<close>

datatype 'e broker_end = BrokerCancelled "'e option" | BrokerReturned "'e option"

record ('c, 'e) broker_world =
  LoadX509KeyPair :: "string \<Rightarrow> string \<Rightarrow> 'e + 'c"
  readCAFile :: "string \<Rightarrow> 'e + string"
  appendsCert :: "string \<Rightarrow> bool"
  listenErr :: "string \<Rightarrow> 'e option"
  isServerClosed :: "'e \<Rightarrow> bool"
  brokerEnd :: "'e broker_end"

datatype 'e broker_start_error = SettingsMissing | NoCACertificate | StartFailed 'e

text \<open>The error \<open>Start\<close> returns, and the handler and TLS configuration it served with, if it did.\<close>

definition brokerStart ::
  "('c, 'e) broker_world \<Rightarrow> 'b CredentialBrokerServer \<Rightarrow> 'e broker_start_error option \<times> ('b \<times> 'c tls_config) option" where
  "brokerStart w s =
     (case bsHandler s of
        None \<Rightarrow> (Some SettingsMissing, None)
      | Some handler \<Rightarrow>
          if bsAddress s = '''' \<or> bsCertificate s = '''' \<or> bsPrivateKey s = '''' \<or> bsClientCA s = ''''
          then (Some SettingsMissing, None)
          else (case LoadX509KeyPair w (bsCertificate s) (bsPrivateKey s) of
              Inl err \<Rightarrow> (Some (StartFailed err), None)
            | Inr certificate \<Rightarrow>
               (case readCAFile w (bsClientCA s) of
                  Inl err \<Rightarrow> (Some (StartFailed err), None)
                | Inr caBytes \<Rightarrow>
                    if \<not> appendsCert w caBytes then (Some NoCACertificate, None)
                    else (case listenErr w (bsAddress s) of
                        Some err \<Rightarrow> (Some (StartFailed err), None)
                      | None \<Rightarrow>
                         (case brokerEnd w of
                            BrokerCancelled err \<Rightarrow> map_option StartFailed err
                          | BrokerReturned None \<Rightarrow> None
                          | BrokerReturned (Some err) \<Rightarrow> if isServerClosed w err then None else Some (StartFailed err),
                          Some (handler, \<lparr>MinVersion = VersionTLS13, ServerCertificate = certificate,
                            ClientAuth = RequireAndVerifyClientCert, ClientCAs = caBytes\<rparr>))))))"

section \<open>The metadata reader\<close>

record object_meta =
  metaUID :: string
  metaResourceVersion :: string

definition GetSecretMetadata ::
  "(string \<Rightarrow> string \<Rightarrow> 'e + object_meta) option \<Rightarrow> 'e \<Rightarrow> string \<Rightarrow> string \<Rightarrow> 'e + string \<times> string" where
  "GetSecretMetadata client unavailable namespace name =
     (case client of
        None \<Rightarrow> Inl unavailable
      | Some fetch \<Rightarrow>
         (case fetch namespace name of
            Inl err \<Rightarrow> Inl err
          | Inr object \<Rightarrow> Inr (metaUID object, metaResourceVersion object)))"

section \<open>The manager process\<close>

record manager_flags =
  metricsAddr :: string
  probeAddr :: string
  brokerAddr :: string
  brokerCertificate :: string
  brokerPrivateKey :: string
  brokerClientCA :: string
  brokerTrustDomain :: string
  desktopGatewayImage :: string

definition defaultFlags :: manager_flags where
  "defaultFlags = \<lparr>metricsAddr = '':8080'', probeAddr = '':8081'', brokerAddr = '''', brokerCertificate = '''',
     brokerPrivateKey = '''', brokerClientCA = '''', brokerTrustDomain = ''typeclaw.local'',
     desktopGatewayImage = DefaultOperatorImage\<rparr>"

text \<open>The steps of \<^verbatim>\<open>main\<close>; the first one that fails ends the process with status 1.\<close>

datatype manager_step =
    NewManager string string
  | NewMetadataClient
  | SetupController controller_setup
  | AddBroker "string CredentialBrokerServer"
  | AddHealthzCheck
  | AddReadyzCheck
  | StartManager

definition managerSteps :: "manager_flags \<Rightarrow> manager_step list" where
  "managerSteps f =
     [NewManager (metricsAddr f) (probeAddr f), NewMetadataClient, SetupController instanceSetup, SetupController credentialSetup,
      SetupController networkPolicySetup, SetupController backupSetup, SetupController desktopSetup] @
     (if brokerAddr f \<noteq> ''''
      then [AddBroker (NewCredentialBrokerServer (brokerTrustDomain f) (brokerAddr f) (brokerCertificate f)
              (brokerPrivateKey f) (brokerClientCA f))]
      else []) @
     [SetupController autoUpdateSetup, AddHealthzCheck, AddReadyzCheck, StartManager]"

fun runSteps :: "(manager_step \<Rightarrow> bool) \<Rightarrow> manager_step list \<Rightarrow> nat \<times> manager_step list" where
  "runSteps failing [] = (0, [])"
| "runSteps failing (x # xs) =
     (if failing x then (1, [x]) else (case runSteps failing xs of (code, tried) \<Rightarrow> (code, x # tried)))"

definition managerMain :: "(manager_step \<Rightarrow> bool) \<Rightarrow> manager_flags \<Rightarrow> nat \<times> manager_step list" where
  "managerMain failing f = runSteps failing (managerSteps f)"

section \<open>Properties\<close>

text \<open>
  The manager starts exactly when no step before it fails, and every controller is registered by
  then; a step after a failed one is never tried.
\<close>

lemma runSteps_tried:
  "runSteps failing xs = (code, tried) \<Longrightarrow>
     (code = 0 \<longleftrightarrow> list_all (\<lambda>x. \<not> failing x) xs) \<and> (code = 0 \<longrightarrow> tried = xs) \<and>
     (code \<noteq> 0 \<longrightarrow> code = 1 \<and> (\<exists>ys. tried @ ys = xs) \<and> tried \<noteq> [] \<and> failing (last tried) \<and>
        list_all (\<lambda>x. \<not> failing x) (butlast tried))"
proof (induction xs arbitrary: tried)
  case Nil
  then show ?case by simp
next
  case (Cons x xs)
  then show ?case by (cases "failing x") (auto split: prod.splits)
qed

lemma manager_starts_last:
  assumes "managerMain failing f = (code, tried)" "StartManager \<in> set tried"
  shows "set (butlast tried) = set (managerSteps f) - {StartManager} \<and>
    (code = 0 \<longleftrightarrow> \<not> failing StartManager) \<and>
    {SetupController instanceSetup, SetupController credentialSetup, SetupController networkPolicySetup, SetupController backupSetup,
     SetupController desktopSetup, SetupController autoUpdateSetup} \<subseteq> set tried"
proof -
  have "tried = managerSteps f"
  proof (cases "code = 0")
    case True
    then show ?thesis using runSteps_tried assms(1) unfolding managerMain_def by metis
  next
    case False
    then obtain ys where ys: "tried @ ys = managerSteps f"
      using runSteps_tried [of failing "managerSteps f" code tried] assms(1) by (auto simp: managerMain_def)
    have "ys = []"
    proof (rule ccontr)
      assume "ys \<noteq> []"
      then have "butlast (managerSteps f) = tried @ butlast ys" using ys by (metis butlast_append)
      moreover have "StartManager \<notin> set (butlast (managerSteps f))"
        by (auto simp: managerSteps_def butlast_append)
      ultimately show False using assms(2) by simp
    qed
    then show ?thesis using ys by simp
  qed
  moreover have "code = 0 \<longleftrightarrow> \<not> failing StartManager"
    using runSteps_tried [of failing "managerSteps f" code tried] assms(1) calculation
    by (auto simp: managerMain_def managerSteps_def list_all_iff butlast_append split: if_splits)
  ultimately show ?thesis by (auto simp: managerSteps_def butlast_append)
qed

text \<open>
  Whatever the broker serves, it serves with the handler's trust domain behind TLS 1.3 and verified
  client certificates; without all four settings it refuses to start.
\<close>

lemma broker_served_mutual_tls:
  assumes "brokerStart w s = (r, Some (handler, cfg))"
  shows "ClientAuth cfg = RequireAndVerifyClientCert \<and> MinVersion cfg = VersionTLS13 \<and> bsHandler s = Some handler \<and>
    '''' \<notin> {bsAddress s, bsCertificate s, bsPrivateKey s, bsClientCA s} \<and>
    readCAFile w (bsClientCA s) = Inr (ClientCAs cfg) \<and> appendsCert w (ClientCAs cfg)"
  using assms by (auto simp: brokerStart_def split: option.splits if_splits sum.splits)

text \<open>
  Every object the desktop controller makes the Instance own is of a kind whose changes bring the
  controller back, except the virtual machine and the state claim.
\<close>

lemma desktop_writes_watched:
  assumes "truthful env s" "Put k obj \<in> set (snd (desktopReconcile env (Inr inst) s))" "stOwned obj" "\<not> owned (s k)"
  shows "kindName (fst k) \<in> set (owns desktopSetup) \<or> fst k \<in> {KVirtualMachine, KPersistentVolumeClaim}"
proof -
  have "kept env inst k (s k) (Some obj)"
    using reconcile_keeps [OF assms(1), of inst] assms(2) by (auto simp: list_all_iff)
  then have "fst k \<noteq> KDataVolume" using assms(3,4) by (simp add: kept_def)
  then show ?thesis by (cases "fst k") (simp_all add: desktopSetup_def)
qed

end
