(* ===== verification/Relay_Process.thy ===== *)
theory Relay_Process
  imports Relay Workload
begin

text \<open>
  The relay as a process (\<^verbatim>\<open>run\<close> and \<^verbatim>\<open>main\<close> of \<^verbatim>\<open>cmd/relay/main.go\<close>, the loops \<^verbatim>\<open>Run\<close> of
  \<^verbatim>\<open>internal/relay/watch.go\<close> and \<^verbatim>\<open>internal/relay/config.go\<close>): its start, with each call that can fail,
  the goroutine of each watcher, the channel they report to, the signal that ends them, and the
  requests it sends to the API server. It is started with the environment the kubelet makes from the
  rendered sidecar.
\<close>

section \<open>Start\<close>

datatype relay_call =
    GetInstance string string
  | DeletePod string string
  | PatchInstanceStatus string string

datatype 'e run_result = StartFailed relay_start_error | SetupFailed 'e | RunEnded ctx_error

text \<open>The library at the start: the scheme registrations, the construction of the client, and its read of the Instance.\<close>

record 'e relay_setup =
  suAddKube :: "'e option"
  suAddTypeclaw :: "'e option"
  suNewClient :: "'e option"
  suGet :: "string \<Rightarrow> string \<Rightarrow> 'e + TypeClawInstance"

record 'e relay_process =
  rpWatcher :: Watcher
  rpInterval :: int
  rpFiles :: relay_state
  rpConfig :: "ConfigWatcher option"
  rpObservationFile :: string
  rpServer :: "SelfConfigStatus option"
  rpPatches :: "relay_call list"
  rpWatching :: bool
  rpObserving :: bool
  rpCancelled :: bool
  rpErrCh :: "'e run_result list"
  rpResult :: "'e run_result option"

text \<open>The connection to the API server: the projected token of the relay's own identity and the cluster's certificate.\<close>

record relay_rest_config =
  rrHost :: string
  rrBearerTokenFile :: string
  rrInsecure :: bool
  rrCAFile :: string

definition relayRestConfig :: relay_rest_config where
  "relayRestConfig = \<lparr>rrHost = ''https://kubernetes.default.svc'', rrBearerTokenFile = ''/var/run/secrets/typeclaw-relay/token'',
     rrInsecure = False, rrCAFile = ''/var/run/secrets/kubernetes.io/serviceaccount/ca.crt''\<rparr>"

definition startProcess :: "(string \<Rightarrow> string) \<Rightarrow> Watcher \<Rightarrow> int \<Rightarrow> TypeClawInstance \<Rightarrow> (string, string) gomap \<Rightarrow> 'e relay_process" where
  "startProcess env w interval inst files =
     (let selfConfig = spSelfConfig (Spec inst) \<noteq> None in
      \<lparr>rpWatcher = w, rpInterval = interval, rpFiles = \<lparr>rsFiles = files, rsLog = []\<rparr>,
       rpConfig = (if selfConfig then Some \<lparr>cwInstance = inst, lastDigest = '''', lastValues = []\<rparr> else None),
       rpObservationFile = envOr env ''TYPECLAW_SELF_CONFIG_OBSERVATION_FILE'' SelfConfigObservationFile,
       rpServer = stSelfConfig (Status inst), rpPatches = [], rpWatching = True, rpObserving = selfConfig,
       rpCancelled = False, rpErrCh = [], rpResult = None\<rparr>)"

definition relayRun ::
  "(string \<Rightarrow> string) \<Rightarrow> (string \<Rightarrow> int option) \<Rightarrow> 'e relay_setup \<Rightarrow> (string, string) gomap
     \<Rightarrow> ('e run_result + 'e relay_process) \<times> relay_call list" where
  "relayRun env durationOf setup files =
     (case relayStart env durationOf of
        Inl err \<Rightarrow> (Inl (StartFailed err), [])
      | Inr (w, interval, name) \<Rightarrow>
         (case suAddKube setup of
            Some err \<Rightarrow> (Inl (SetupFailed err), [])
          | None \<Rightarrow>
             (case suAddTypeclaw setup of
                Some err \<Rightarrow> (Inl (SetupFailed err), [])
              | None \<Rightarrow>
                 (case suNewClient setup of
                    Some err \<Rightarrow> (Inl (SetupFailed err), [])
                  | None \<Rightarrow>
                     (case suGet setup (wNamespace w) name of
                        Inl err \<Rightarrow> (Inl (SetupFailed err), [GetInstance (wNamespace w) name])
                      | Inr inst \<Rightarrow> (Inr (startProcess env w interval inst files), [GetInstance (wNamespace w) name]))))))"

text \<open>\<^verbatim>\<open>main\<close>: an error other than the cancellation of the context is the exit status 1.\<close>

definition exitStatus :: "('e \<Rightarrow> bool) \<Rightarrow> 'e run_result \<Rightarrow> nat" where
  "exitStatus isCanceled r =
     (case r of
        StartFailed err \<Rightarrow> 1
      | SetupFailed err \<Rightarrow> if isCanceled err then 0 else 1
      | RunEnded err \<Rightarrow> if err = Canceled then 0 else 1)"

section \<open>The goroutines\<close>

text \<open>The ticker's period in both loops.\<close>

definition tickerInterval :: "int \<Rightarrow> int" where
  "tickerInterval interval = (if interval \<le> 0 then DefaultInterval else interval)"

text \<open>The requests of one poll of the configuration watcher: a patch of the status when it has something to report.\<close>

definition patchCalls :: "'e observation_lib \<Rightarrow> ConfigWatcher \<Rightarrow> relay_call list" where
  "patchCalls lib w =
     (case readObservation lib of
        Inl err \<Rightarrow> []
      | Inr raw \<Rightarrow>
         (case decodeObservationDocument lib raw of
            Inl err \<Rightarrow> []
          | Inr doc \<Rightarrow>
              if docDigest doc = lastDigest w then []
              else [PatchInstanceStatus (instNamespace (cwInstance w)) (instName (cwInstance w))]))"

text \<open>A tick of that watcher's loop: its error is logged and the loop goes on.\<close>

definition configTick ::
  "'e observation_lib \<Rightarrow> ConfigWatcher \<Rightarrow> SelfConfigStatus option \<Rightarrow> ConfigWatcher \<times> SelfConfigStatus option \<times> relay_call list" where
  "configTick lib w server =
     (case configPoll lib w server of (err, w', server') \<Rightarrow> (w', server', patchCalls lib w))"

definition deleteCalls :: "relay_event list \<Rightarrow> relay_call list" where
  "deleteCalls log = concat (map (\<lambda>e. case e of RlDelete name ns req \<Rightarrow> [DeletePod ns name] | _ \<Rightarrow> []) log)"

datatype 'e process_action =
    PollTick
  | ObserveTick "'e observation_lib"
  | OthersWrite "(string, string) gomap"
  | Signal
  | WatcherStops
  | ObserverStops
  | RunReturns

text \<open>
  Until the process has returned: a watcher's tick polls (its error is logged), also when the context
  has ended at the same time, since the select picks either case; a watcher that sees the end of
  the context sends its error to the channel of capacity two; and the function returns the first error there.
\<close>

inductive relayStep :: "'e relay_lib \<Rightarrow> 'e relay_process \<Rightarrow> 'e process_action \<Rightarrow> 'e relay_process \<Rightarrow> bool" for lib where
  pollTick: "rpResult p = None \<Longrightarrow> rpWatching p \<Longrightarrow>
     relayStep lib p PollTick (p\<lparr>rpFiles := pollOnce lib (rpWatcher p) (rpFiles p)\<rparr>)"
| observeTick: "rpResult p = None \<Longrightarrow> rpObserving p \<Longrightarrow> rpConfig p = Some w \<Longrightarrow>
     configTick olib w (rpServer p) = (w', server', calls) \<Longrightarrow>
     relayStep lib p (ObserveTick olib)
       (p\<lparr>rpConfig := Some w', rpServer := server', rpPatches := rpPatches p @ calls\<rparr>)"
| othersWrite: "rpResult p = None \<Longrightarrow>
     (\<And>req. mget files (consumedPath (rpWatcher p) req) = mget (rsFiles (rpFiles p)) (consumedPath (rpWatcher p) req)) \<Longrightarrow>
     relayStep lib p (OthersWrite files) (p\<lparr>rpFiles := (rpFiles p)\<lparr>rsFiles := files\<rparr>\<rparr>)"
| signal: "rpResult p = None \<Longrightarrow> relayStep lib p Signal (p\<lparr>rpCancelled := True\<rparr>)"
| watcherStops: "rpResult p = None \<Longrightarrow> rpWatching p \<Longrightarrow> rpCancelled p \<Longrightarrow> length (rpErrCh p) < 2 \<Longrightarrow>
     relayStep lib p WatcherStops (p\<lparr>rpWatching := False, rpErrCh := rpErrCh p @ [RunEnded Canceled]\<rparr>)"
| observerStops: "rpResult p = None \<Longrightarrow> rpObserving p \<Longrightarrow> rpCancelled p \<Longrightarrow> length (rpErrCh p) < 2 \<Longrightarrow>
     relayStep lib p ObserverStops (p\<lparr>rpObserving := False, rpErrCh := rpErrCh p @ [RunEnded Canceled]\<rparr>)"
| runReturns: "rpResult p = None \<Longrightarrow> rpErrCh p = r # rest \<Longrightarrow>
     relayStep lib p RunReturns (p\<lparr>rpErrCh := rest, rpResult := Some r\<rparr>)"

inductive_cases relayStep_E: "relayStep lib p a p'"

text \<open>Everything the process has asked the API server for since its start.\<close>

definition relayCalls :: "'e relay_process \<Rightarrow> relay_call list" where
  "relayCalls p = deleteCalls (rsLog (rpFiles p)) @ rpPatches p"

section \<open>The environment of the sidecar\<close>

text \<open>The variables a Pod's own metadata gives.\<close>

definition pod_fields :: "string \<Rightarrow> string \<Rightarrow> env_var \<Rightarrow> (string \<times> string) option" where
  "pod_fields podName podNamespace v =
     (case v of
        EnvField name path \<Rightarrow>
          if path = ''metadata.name'' then Some (name, podName)
          else if path = ''metadata.namespace'' then Some (name, podNamespace) else None
      | _ \<Rightarrow> None)"

definition relay_environment ::
  "((string \<rightharpoonup> string) \<Rightarrow> string \<Rightarrow> string) \<Rightarrow> TypeClawInstance \<Rightarrow> string \<Rightarrow> string \<Rightarrow> string \<Rightarrow> string \<Rightarrow> string" where
  "relay_environment expand inst runtimeID controlDir img =
     getenv (container_env expand (pod_fields (instName inst @ ''-0'') (instNamespace inst))
       (ctEnv (RelaySidecar runtimeID controlDir img)) Map.empty)"

lemma relay_environment_values:
  "relay_environment expand inst runtimeID controlDir img ''POD_NAME'' = instName inst @ ''-0''"
  "relay_environment expand inst runtimeID controlDir img ''POD_NAMESPACE'' = instNamespace inst"
  "relay_environment expand inst runtimeID controlDir img ''TYPECLAW_RELAY_INTERVAL'' = ''''"
  by (simp_all add: relay_environment_def pod_fields_def getenv_def RelaySidecar_def)

lemma relay_environment_texts:
  assumes "expansion_law expand" "CHR ''$'' \<notin> set runtimeID" "CHR ''$'' \<notin> set controlDir"
  shows "relay_environment expand inst runtimeID controlDir img ''TYPECLAW_RUNTIME_ID'' = runtimeID"
    "relay_environment expand inst runtimeID controlDir img ''TYPECLAW_MANAGED_CONTROL_DIR'' = controlDir"
  using assms by (simp_all add: relay_environment_def pod_fields_def getenv_def RelaySidecar_def expansion_law_def)

lemma TrimSuffix_append [simp]: "TrimSuffix (s @ p) p = s"
  by (simp add: TrimSuffix_def HasSuffix_def)

text \<open>With that environment the relay starts for its own Pod and its own Instance, and polls every half second.\<close>

lemma relayStart_rendered:
  assumes "relayStart (relay_environment expand inst runtimeID controlDir img) durationOf = Inr (w, interval, name)"
  shows "wPodName w = instName inst @ ''-0'' \<and> wNamespace w = instNamespace inst \<and>
    name = instName inst \<and> interval = DefaultInterval"
  using assms by (auto simp: relayStart_def Let_def relay_environment_values intervalFromEnv_def split: if_splits sum.splits)

text \<open>Both files of its connection are files of volumes the rendered sidecar mounts.\<close>

lemma relay_credentials_mounted:
  "\<exists>m \<in> set (ctMounts (RelaySidecar runtimeID controlDir img)). mountName m = volName RelayTokenVolume \<and>
     (\<exists>file seconds. volSource RelayTokenVolume = ProjectedToken file seconds \<and>
        rrBearerTokenFile relayRestConfig = mountPath m @ ''/'' @ file)"
  "\<exists>m \<in> set (ctMounts (RelaySidecar runtimeID controlDir img)). mountName m = volName RelayCAVolume \<and>
     (\<exists>name key file opt. volSource RelayCAVolume = ConfigMapVolume name [(key, file)] opt \<and>
        rrCAFile relayRestConfig = mountPath m @ ''/'' @ file)"
  by (auto simp: RelaySidecar_def RelayTokenVolume_def RelayCAVolume_def relayRestConfig_def mount_def)

section \<open>What the process keeps\<close>

definition owns_deletes :: "Watcher \<Rightarrow> relay_event list \<Rightarrow> bool" where
  "owns_deletes w log \<longleftrightarrow> set (deleteCalls log) \<subseteq> {DeletePod (wNamespace w) (wPodName w)}"

lemma owns_deletes_simps [simp]:
  "owns_deletes w []" "owns_deletes w (l @ l') \<longleftrightarrow> owns_deletes w l \<and> owns_deletes w l'"
  "owns_deletes w (e # e' # l) \<longleftrightarrow> owns_deletes w [e] \<and> owns_deletes w (e' # l)"
  "owns_deletes w [RlRead p]" "owns_deletes w [RlRemove p]" "owns_deletes w [RlStat p]" "owns_deletes w [RlMkdir p]"
  "owns_deletes w [RlRename p q b]" "owns_deletes w [RlDelete (wPodName w) (wNamespace w) req]"
  by (auto simp: owns_deletes_def deleteCalls_def)

lemma consume_owns: "owns_deletes w (rsLog st) \<Longrightarrow> owns_deletes w (rsLog (consume lib w path st))"
  by (simp add: consume_def archive_def drop_file_def Let_def split: option.split)

lemma relay_reach_owns: "relay_reach lib w st \<Longrightarrow> owns_deletes w (rsLog st)"
proof (induction rule: relay_reach.induct)
  case (poll st)
  then show ?case
    unfolding pollOnce_def by (intro fold_inv [where P = "\<lambda>st. owns_deletes w (rsLog st)"] consume_owns) simp_all
qed simp_all

definition process_inv :: "'e relay_lib \<Rightarrow> 'e relay_process \<Rightarrow> bool" where
  "process_inv lib p \<longleftrightarrow>
     relay_reach lib (rpWatcher p) (rpFiles p) \<and> set (rpErrCh p) \<subseteq> {RunEnded Canceled} \<and> (rpObserving p \<longrightarrow> rpConfig p \<noteq> None) \<and>
     (case rpResult p of
        None \<Rightarrow> length (rpErrCh p) = of_bool (\<not> rpWatching p) + of_bool (rpConfig p \<noteq> None \<and> \<not> rpObserving p) \<and>
          (rpErrCh p \<noteq> [] \<longrightarrow> rpCancelled p)
      | Some r \<Rightarrow> r = RunEnded Canceled \<and> rpCancelled p)"

lemma process_inv_start: "process_inv lib (startProcess env w interval inst files)"
  by (simp add: process_inv_def startProcess_def Let_def relay_reach.start)

lemma process_inv_step: "relayStep lib p a p' \<Longrightarrow> process_inv lib p \<Longrightarrow> process_inv lib p'"
  by (erule relayStep_E) (auto simp: process_inv_def intro: relay_reach.poll relay_reach.others split: option.splits)

definition stopping :: "'e process_action \<Rightarrow> bool" where
  "stopping a = (case a of WatcherStops \<Rightarrow> True | ObserverStops \<Rightarrow> True | RunReturns \<Rightarrow> True | _ \<Rightarrow> False)"

definition process_left :: "'e relay_process \<Rightarrow> nat" where
  "process_left p = (if rpResult p = None then 1 + of_bool (rpWatching p) + of_bool (rpObserving p) else 0)"

lemma cancelled_step: "relayStep lib p a p' \<Longrightarrow> rpCancelled p \<Longrightarrow> rpCancelled p'"
  by (erule relayStep_E) simp_all

lemma stopping_step: "relayStep lib p a p' \<Longrightarrow> stopping a \<Longrightarrow> process_left p' < process_left p"
  by (erule relayStep_E) (simp_all add: stopping_def process_left_def)

lemma stopping_progress:
  assumes "process_inv lib p" "rpCancelled p" "0 < process_left p"
  shows "\<exists>a p'. relayStep lib p a p' \<and> stopping a"
proof -
  have none: "rpResult p = None" using assms(3) by (simp add: process_left_def split: if_splits)
  then have len: "length (rpErrCh p) = of_bool (\<not> rpWatching p) + of_bool (rpConfig p \<noteq> None \<and> \<not> rpObserving p)"
    using assms(1) by (simp add: process_inv_def)
  consider "rpWatching p" | "\<not> rpWatching p" "rpObserving p" | "\<not> rpWatching p" "\<not> rpObserving p" by blast
  then show ?thesis
  proof cases
    case 1
    have "length (rpErrCh p) < 2" using 1 len by simp
    from watcherStops [OF none 1 assms(2) this] show ?thesis by (fastforce simp: stopping_def)
  next
    case 2
    have "length (rpErrCh p) < 2" using 2 len by simp
    from observerStops [OF none 2(2) assms(2) this] show ?thesis by (fastforce simp: stopping_def)
  next
    case 3
    then obtain r rest where "rpErrCh p = r # rest" using len by (cases "rpErrCh p") simp_all
    from runReturns [OF none this] show ?thesis by (fastforce simp: stopping_def)
  qed
qed

interpretation relay_loops: event_progress "relayStep lib" "process_inv lib" stopping process_left rpCancelled for lib
  by unfold_locales (metis process_inv_step, metis cancelled_step, metis stopping_step, metis stopping_progress)

text \<open>
  The relay ends on a signal and only then: after the signal at most three more steps of its
  goroutines are left, and when they have none it has returned the cancellation.
\<close>

lemma relay_ends_on_signal:
  assumes "process_inv lib p" "rpCancelled p" "run (relayStep lib) p es p'" "list_all stopping es"
  shows "length es \<le> 3 \<and> ((\<nexists>a q. relayStep lib p' a q \<and> stopping a) \<longrightarrow> rpResult p' = Some (RunEnded Canceled))"
proof -
  have inv': "process_inv lib p'" by (rule relay_loops.run_inv [OF assms(3,1)])
  have "process_left p \<le> 3" by (simp add: process_left_def)
  with relay_loops.ends_run [OF assms(3,1,4)] have "length es \<le> 3" by linarith
  moreover have "rpResult p' = Some (RunEnded Canceled)" if "\<nexists>a q. relayStep lib p' a q \<and> stopping a"
    using relay_loops.stuck_ended [OF assms(3,1,2) that] inv'
    by (auto simp: process_left_def process_inv_def split: if_splits option.splits)
  ultimately show ?thesis by blast
qed

text \<open>
  The Instance the configuration watcher has in memory keeps the name it was read under, as long as
  the API server answers a patch with the object that was patched.
\<close>

definition answers_same :: "'e process_action \<Rightarrow> bool" where
  "answers_same a =
     (case a of
        ObserveTick lib \<Rightarrow> (\<forall>inst server. instName (olAnswer lib inst server) = instName inst \<and>
          instNamespace (olAnswer lib inst server) = instNamespace inst)
      | _ \<Rightarrow> True)"

definition observes :: "TypeClawInstance \<Rightarrow> 'e relay_process \<Rightarrow> bool" where
  "observes inst p \<longleftrightarrow> set (rpPatches p) \<subseteq> {PatchInstanceStatus (instNamespace inst) (instName inst)} \<and>
     (\<forall>w. rpConfig p = Some w \<longrightarrow> instName (cwInstance w) = instName inst \<and> instNamespace (cwInstance w) = instNamespace inst)"

lemma observes_start:
  "instName i = instName inst \<Longrightarrow> instNamespace i = instNamespace inst \<Longrightarrow> observes inst (startProcess env w interval i files)"
  by (simp add: observes_def startProcess_def Let_def)

lemma startProcess_watcher: "rpWatcher (startProcess env w interval i files) = w"
  by (simp add: startProcess_def Let_def)

lemma configTick_name:
  assumes "configTick lib w server = (w', server', calls)" "answers_same (ObserveTick lib)"
  shows "instName (cwInstance w') = instName (cwInstance w) \<and> instNamespace (cwInstance w') = instNamespace (cwInstance w) \<and>
    set calls \<subseteq> {PatchInstanceStatus (instNamespace (cwInstance w)) (instName (cwInstance w))}"
  using assms
  by (auto simp: configTick_def patchCalls_def configPoll_def Observe_def answers_same_def Let_def split: sum.splits option.splits if_splits observation_error.splits)

lemma observes_step: "relayStep lib p a p' \<Longrightarrow> observes inst p \<Longrightarrow> answers_same a \<Longrightarrow> observes inst p'"
  by (erule relayStep_E) (auto simp: observes_def dest!: configTick_name)

lemma relay_calls_own:
  assumes "run (relayStep lib) p es p'" "process_inv lib p" "observes inst p" "list_all answers_same es"
  shows "set (relayCalls p') \<subseteq> {DeletePod (wNamespace (rpWatcher p')) (wPodName (rpWatcher p')),
      PatchInstanceStatus (instNamespace inst) (instName inst)} \<and> rpWatcher p' = rpWatcher p"
proof -
  have "observes inst p' \<and> rpWatcher p' = rpWatcher p"
  proof (rule relay_loops.run_relates [OF assms(1,2), where R = "\<lambda>p q. observes inst q \<and> rpWatcher q = rpWatcher p"])
    show "observes inst p \<and> rpWatcher p = rpWatcher p" using assms(3) by simp
    show "observes inst v \<and> rpWatcher v = rpWatcher p"
      if "observes inst u \<and> rpWatcher u = rpWatcher p" "process_inv lib u" "e \<in> set es" "relayStep lib u e v" for u e v
    proof -
      have "rpWatcher v = rpWatcher u" using that(4) by (rule relayStep_E) simp_all
      then show ?thesis using that assms(4) observes_step [OF that(4)] by (simp add: list_all_iff)
    qed
  qed
  moreover have "owns_deletes (rpWatcher p') (rsLog (rpFiles p'))"
    using relay_loops.run_inv [OF assms(1,2)] relay_reach_owns by (auto simp: process_inv_def)
  ultimately show ?thesis by (auto simp: relayCalls_def observes_def owns_deletes_def)
qed

end
