(* ===== verification/Access.thy ===== *)
theory Access
  imports VNC_Stream Desktop_Objects Relay_Process Network
begin

text \<open>
  What the rendered Roles allow against what the programs behind them ask for: the HTTP requests of
  the gateway's KubeVirt client and of the relay, read as the API server reads them, and the rules of
  \<^verbatim>\<open>GatewayRole\<close> and \<^verbatim>\<open>RelayRole\<close> read as Kubernetes documents RBAC (rules are additive; a rule admits a
  request whose verb, group, resource and, when it names any, object name it lists).
\<close>

section \<open>Requests and rules\<close>

record api_request =
  arVerb :: string
  arGroup :: string
  arResource :: string
  arNamespace :: string
  arName :: string

definition lists :: "string list \<Rightarrow> string \<Rightarrow> bool" where
  "lists xs x \<longleftrightarrow> ''*'' \<in> set xs \<or> x \<in> set xs"

definition rule_admits :: "policy_rule \<Rightarrow> api_request \<Rightarrow> bool" where
  "rule_admits r q \<longleftrightarrow> lists (prVerbs r) (arVerb q) \<and> lists (prGroups r) (arGroup q) \<and>
     lists (prResources r) (arResource q) \<and> (prNames r = [] \<or> arName q \<in> set (prNames r))"

definition role_admits :: "role \<Rightarrow> api_request \<Rightarrow> bool" where
  "role_admits role q \<longleftrightarrow> arNamespace q = roleNamespace role \<and> list_ex (\<lambda>r. rule_admits r q) (roleRules role)"

text \<open>
  The attributes of a request for one object, from its method and path. A subresource of several
  segments is read in two ways: by its first segment, as the API server does, or as a whole, as the
  aggregated KubeVirt server may; \<open>whole\<close> chooses.
\<close>

definition verb_of :: "string \<Rightarrow> string" where
  "verb_of httpMethod =
     (if httpMethod = ''GET'' then ''get'' else if httpMethod = ''PUT'' then ''update''
      else if httpMethod = ''PATCH'' then ''patch'' else if httpMethod = ''DELETE'' then ''delete''
      else if httpMethod = ''POST'' then ''create'' else '''')"

definition namespacedInfo :: "bool \<Rightarrow> string \<Rightarrow> string \<Rightarrow> string list \<Rightarrow> api_request option" where
  "namespacedInfo whole httpMethod apiGroup segments =
     (case segments of
        scope # namespace # resource # name # sub \<Rightarrow>
          if scope \<noteq> ''namespaces'' then None
          else Some \<lparr>arVerb = verb_of httpMethod, arGroup = apiGroup,
                 arResource = resource @ (if sub = [] then ''''
                   else CHR ''/'' # (if whole then join_with (CHR ''/'') sub else hd sub)),
                 arNamespace = namespace, arName = name\<rparr>
      | _ \<Rightarrow> None)"

definition requestInfo :: "bool \<Rightarrow> string \<times> string \<Rightarrow> api_request option" where
  "requestInfo whole h =
     (case split_on (CHR ''/'') (snd h) of
        lead # root # apiGroup # rest \<Rightarrow>
          if lead \<noteq> '''' then None
          else if root = ''api'' then namespacedInfo whole (fst h) '''' rest
          else if root = ''apis'' then namespacedInfo whole (fst h) apiGroup (drop 1 rest)
          else None
      | _ \<Rightarrow> None)"

text \<open>The path of an object of a named group, and of the core group, below which its subresources are.\<close>

definition objectPath :: "string \<Rightarrow> string \<Rightarrow> string \<Rightarrow> string \<Rightarrow> string \<Rightarrow> string list \<Rightarrow> string" where
  "objectPath apiGroup version resource namespace name sub =
     join_with (CHR ''/'')
       ((if apiGroup = '''' then ['''', ''api'', version] else ['''', ''apis'', apiGroup, version]) @
        [''namespaces'', namespace, resource, name] @ sub)"

definition slash_free :: "string \<Rightarrow> bool" where
  "slash_free s \<longleftrightarrow> CHR ''/'' \<notin> set s"

lemma requestInfo_objectPath:
  assumes "list_all slash_free ([apiGroup, version, namespace, resource, name] @ sub)"
  shows "requestInfo whole (m, objectPath apiGroup version resource namespace name sub) =
    Some \<lparr>arVerb = verb_of m, arGroup = apiGroup,
      arResource = resource @ (if sub = [] then '''' else CHR ''/'' # (if whole then join_with (CHR ''/'') sub else hd sub)),
      arNamespace = namespace, arName = name\<rparr>"
proof -
  let ?ws = "(if apiGroup = '''' then ['''', ''api'', version] else ['''', ''apis'', apiGroup, version]) @
        [''namespaces'', namespace, resource, name] @ sub"
  have "split_on (CHR ''/'') (objectPath apiGroup version resource namespace name sub) = ?ws"
    unfolding objectPath_def using assms
    by (intro slash_path.decode_encode [unfolded option.inject]) (auto simp: slash_free_def list_all_iff)
  then show ?thesis by (simp add: requestInfo_def namespacedInfo_def)
qed

section \<open>Roles that fit\<close>

text \<open>
  A program and the Role it runs under: every request it sends is admitted, however the
  subresource is read; and, for a Role that grants nothing else, every admitted request is one the program sends.
  Both need that the names have no slash, which is the condition \<open>proper\<close>.
\<close>

locale sufficient_role =
  fixes role :: role
    and proper :: bool
    and asks :: "'c \<Rightarrow> string \<times> string \<Rightarrow> bool"
  assumes granted: "proper \<Longrightarrow> asks c h \<Longrightarrow> \<exists>q. requestInfo whole h = Some q \<and> role_admits role q"
begin

lemma stays_in_namespace: "proper \<Longrightarrow> asks c h \<Longrightarrow> requestInfo whole h = Some q \<Longrightarrow> arNamespace q = roleNamespace role"
  using granted [of c h whole] by (auto simp: role_admits_def)

end

locale exact_role = sufficient_role +
  assumes needed: "proper \<Longrightarrow> role_admits role q \<Longrightarrow> \<exists>c h whole. asks c h \<and> requestInfo whole h = Some q"
begin

lemma exact: "proper \<Longrightarrow> role_admits role q \<longleftrightarrow> (\<exists>c h whole. asks c h \<and> requestInfo whole h = Some q)"
  by (metis needed granted option.inject)

end

section \<open>The Desktop Gateway\<close>

text \<open>
  A KubeVirt client that keeps a record of its requests beside the state of the cluster, and the
  dial, whose request goes out when its preparation succeeds.
\<close>

definition recording :: "('w, 'm, 'e) kube_rest \<Rightarrow> ('w \<times> (string \<times> string) list, 'm, 'e) kube_rest" where
  "recording kube =
     \<lparr>DynamicGet = (\<lambda>r namespace name (w, log).
        case (gvrParts r, DynamicGet kube r namespace name w) of
          ((apiGroup, version, resource), (answer, w')) \<Rightarrow>
            (answer, w', log @ [(''GET'', objectPath apiGroup version resource namespace name [])])),
      VerbDo = (\<lambda>verb path (w, log). case VerbDo kube verb path w of (answer, w') \<Rightarrow> (answer, w', log @ [(verb, path)])),
      VerbStream = (\<lambda>verb path params (w, log).
        case VerbStream kube verb path params w of (answer, w') \<Rightarrow> (answer, w', log @ [(verb, path)])),
      DecodeFailed = kube_rest.DecodeFailed kube\<rparr>"

definition recordedDial ::
  "netlib \<Rightarrow> string option \<Rightarrow> 'x dial_setup \<Rightarrow> (string \<Rightarrow> string \<Rightarrow> 'w \<Rightarrow> 'e option \<times> 'w)
     \<Rightarrow> string \<Rightarrow> string \<Rightarrow> 'w \<times> (string \<times> string) list \<Rightarrow> 'e option \<times> 'w \<times> (string \<times> string) list" where
  "recordedDial lib host setup dial namespace name =
     (\<lambda>(w, log). case dial namespace name w of
        (answer, w') \<Rightarrow> (answer, w', log @ (case dialPrepare lib host setup namespace name of
            Inl err \<Rightarrow> [] | Inr target \<Rightarrow> [(''GET'', urlPath target)])))"

datatype kube_op = OpGetVM | OpGetVMI | OpStart | OpStop | OpScreenshot | OpDialVNC

text \<open>The operations can be enumerated, so a statement about some or all of them computes.\<close>

instantiation kube_op :: enum
begin

definition enum_kube_op :: "kube_op list" where
  "enum_kube_op = [OpGetVM, OpGetVMI, OpStart, OpStop, OpScreenshot, OpDialVNC]"

definition enum_all_kube_op :: "(kube_op \<Rightarrow> bool) \<Rightarrow> bool" where
  "enum_all_kube_op P \<longleftrightarrow> list_all P [OpGetVM, OpGetVMI, OpStart, OpStop, OpScreenshot, OpDialVNC]"

definition enum_ex_kube_op :: "(kube_op \<Rightarrow> bool) \<Rightarrow> bool" where
  "enum_ex_kube_op P \<longleftrightarrow> list_ex P [OpGetVM, OpGetVMI, OpStart, OpStop, OpScreenshot, OpDialVNC]"

instance
proof
  have univ: "(UNIV :: kube_op set) = set [OpGetVM, OpGetVMI, OpStart, OpStop, OpScreenshot, OpDialVNC]"
    using kube_op.exhaust by auto
  then show "(UNIV :: kube_op set) = set enum_class.enum" by (simp add: enum_kube_op_def)
  show "distinct (enum_class.enum :: kube_op list)" by (simp add: enum_kube_op_def)
  show "enum_class.enum_all P \<longleftrightarrow> Ball UNIV P" for P :: "kube_op \<Rightarrow> bool"
    unfolding univ enum_all_kube_op_def by simp
  show "enum_class.enum_ex P \<longleftrightarrow> Bex UNIV P" for P :: "kube_op \<Rightarrow> bool"
    unfolding univ enum_ex_kube_op_def by simp
qed

end

lemma ex_kube_op: "(\<exists>operation. P operation) \<longleftrightarrow> list_ex P (enum_class.enum :: kube_op list)"
  using enum_UNIV [where 'a = kube_op] by (auto simp: list_ex_iff)

definition op_requests ::
  "('w \<times> 'l list, 'e) KubeVirtClient \<Rightarrow> kube_op \<Rightarrow> string \<Rightarrow> string \<Rightarrow> 'w \<Rightarrow> 'l list" where
  "op_requests client operation namespace name w =
     (case operation of
        OpGetVM \<Rightarrow> snd (snd (GetVM client namespace name (w, [])))
      | OpGetVMI \<Rightarrow> snd (snd (GetVMI client namespace name (w, [])))
      | OpStart \<Rightarrow> snd (snd (StartVM client namespace name (w, [])))
      | OpStop \<Rightarrow> snd (snd (StopVM client namespace name (w, [])))
      | OpScreenshot \<Rightarrow> snd (snd (ScreenshotVM client namespace name (w, [])))
      | OpDialVNC \<Rightarrow> snd (snd (DialVNC client namespace name (w, []))))"

lemma getDecoded_world:
  "snd (getDecoded kube decode r namespace name w) = snd (DynamicGet kube r namespace name w)"
  by (simp add: getDecoded_def split: prod.split sum.split)

lemma rawScreenshot_world:
  "snd (rawScreenshot kube namespace name w) =
     snd (VerbStream kube ''GET'' (vmiSubresourcePath namespace name [''vnc'', ''screenshot'']) [(''moveCursor'', ''false'')] w)"
  by (simp add: rawScreenshot_def split: prod.split sum.split)

lemma subresourcePaths:
  "vmSubresourcePath namespace name sub = objectPath ''subresources.kubevirt.io'' ''v1'' ''virtualmachines'' namespace name sub"
  "vmiSubresourcePath namespace name sub =
     objectPath ''subresources.kubevirt.io'' ''v1'' ''virtualmachineinstances'' namespace name sub"
  by (simp_all add: vmSubresourcePath_def vmiSubresourcePath_def objectPath_def)

lemma dialPrepare_path: "dialPrepare lib host setup namespace name = Inr target \<Longrightarrow> urlPath target = vmiSubresourcePath namespace name [''vnc'']"
  by (auto simp: dialPrepare_def vncURL_def Let_def split: option.splits sum.splits if_splits)

text \<open>The one request each operation sends.\<close>

definition op_request :: "kube_op \<Rightarrow> string \<Rightarrow> string \<Rightarrow> string \<times> string" where
  "op_request operation namespace name =
     (let core = objectPath ''kubevirt.io'' ''v1''; sub = objectPath ''subresources.kubevirt.io'' ''v1'' in
      case operation of
        OpGetVM \<Rightarrow> (''GET'', core ''virtualmachines'' namespace name [])
      | OpGetVMI \<Rightarrow> (''GET'', core ''virtualmachineinstances'' namespace name [])
      | OpStart \<Rightarrow> (''PUT'', sub ''virtualmachines'' namespace name [''start''])
      | OpStop \<Rightarrow> (''PUT'', sub ''virtualmachines'' namespace name [''stop''])
      | OpScreenshot \<Rightarrow> (''GET'', sub ''virtualmachineinstances'' namespace name [''vnc'', ''screenshot''])
      | OpDialVNC \<Rightarrow> (''GET'', sub ''virtualmachineinstances'' namespace name [''vnc'']))"

lemma op_requests_cluster:
  assumes "dialPrepare lib host setup namespace name = Inr target"
  shows "op_requests (clusterKubeVirtClient (recording kube) ulib (recordedDial lib host setup dial)) operation namespace name w =
    [op_request operation namespace name]"
  using dialPrepare_path [OF assms] assms
  by (cases operation)
    (simp_all add: op_requests_def op_request_def clusterKubeVirtClient_def getDecoded_world rawScreenshot_world
      recording_def recordedDial_def gvrParts_def Let_def subresourcePaths split: prod.split)

definition op_attributes :: "bool \<Rightarrow> kube_op \<Rightarrow> string \<Rightarrow> string \<Rightarrow> api_request" where
  "op_attributes whole operation namespace name =
     (let attributes = (\<lambda>verb apiGroup resource. \<lparr>arVerb = verb, arGroup = apiGroup, arResource = resource,
            arNamespace = namespace, arName = name\<rparr>) in
      case operation of
        OpGetVM \<Rightarrow> attributes ''get'' ''kubevirt.io'' ''virtualmachines''
      | OpGetVMI \<Rightarrow> attributes ''get'' ''kubevirt.io'' ''virtualmachineinstances''
      | OpStart \<Rightarrow> attributes ''update'' ''subresources.kubevirt.io'' ''virtualmachines/start''
      | OpStop \<Rightarrow> attributes ''update'' ''subresources.kubevirt.io'' ''virtualmachines/stop''
      | OpScreenshot \<Rightarrow> attributes ''get'' ''subresources.kubevirt.io''
          (if whole then ''virtualmachineinstances/vnc/screenshot'' else ''virtualmachineinstances/vnc'')
      | OpDialVNC \<Rightarrow> attributes ''get'' ''subresources.kubevirt.io'' ''virtualmachineinstances/vnc'')"

lemma op_request_info:
  assumes "slash_free namespace" "slash_free name"
  shows "requestInfo whole (op_request operation namespace name) = Some (op_attributes whole operation namespace name)"
proof -
  note info = requestInfo_objectPath [of _ "''v1''" namespace _ name _ whole]
  show ?thesis
    using assms by (cases operation) (simp_all add: op_request_def op_attributes_def info verb_of_def slash_free_def)
qed

lemma GatewayRole_admits:
  "role_admits (GatewayRole inst) (op_attributes whole operation (nsNamespace (Names inst)) (nsDesktop (Names inst)))"
  by (cases operation)
    (simp_all add: op_attributes_def role_admits_def GatewayRole_def Let_def rule_admits_def lists_def)

lemma GatewayRole_only:
  "role_admits (GatewayRole inst) q \<Longrightarrow>
     \<exists>operation. q = op_attributes True operation (nsNamespace (Names inst)) (nsDesktop (Names inst))"
  by (cases q) (auto simp: ex_kube_op enum_kube_op_def op_attributes_def role_admits_def GatewayRole_def Let_def
      rule_admits_def lists_def)

interpretation gateway_access: exact_role "GatewayRole inst"
    "slash_free (nsNamespace (Names inst)) \<and> slash_free (nsDesktop (Names inst))"
    "\<lambda>operation h. h = op_request operation (nsNamespace (Names inst)) (nsDesktop (Names inst))" for inst
proof unfold_locales
  fix c h whole
  assume "slash_free (nsNamespace (Names inst)) \<and> slash_free (nsDesktop (Names inst))"
    "h = op_request c (nsNamespace (Names inst)) (nsDesktop (Names inst))"
  then show "\<exists>q. requestInfo whole h = Some q \<and> role_admits (GatewayRole inst) q"
    by (simp add: op_request_info GatewayRole_admits)
next
  fix q
  assume "slash_free (nsNamespace (Names inst)) \<and> slash_free (nsDesktop (Names inst))" "role_admits (GatewayRole inst) q"
  then show "\<exists>c h whole. h = op_request c (nsNamespace (Names inst)) (nsDesktop (Names inst)) \<and> requestInfo whole h = Some q"
    using GatewayRole_only op_request_info by metis
qed

text \<open>What the gateway sends for one operation on its own desktop.\<close>

definition gateway_sends ::
  "netlib \<Rightarrow> string option \<Rightarrow> 'x dial_setup \<Rightarrow> ('w, 'm, 'e) kube_rest \<Rightarrow> ('m, 'v, 'e) unstructured_lib
     \<Rightarrow> (string \<Rightarrow> string \<Rightarrow> 'w \<Rightarrow> 'e option \<times> 'w) \<Rightarrow> TypeClawInstance \<Rightarrow> 'w \<Rightarrow> kube_op \<Rightarrow> (string \<times> string) list" where
  "gateway_sends lib host setup kube ulib dial inst w operation =
     op_requests (clusterKubeVirtClient (recording kube) ulib (recordedDial lib host setup dial))
       operation (nsNamespace (Names inst)) (nsDesktop (Names inst)) w"

text \<open>
  C39. The gateway's Role is exactly what its client needs. For a desktop whose names have no slash: the
  rendered Role admits a request if and only if one of the six operations of the KubeVirt
  client (reading the machine and its instance, start, stop, screenshot, console stream), called for this
  desktop, sends it, under one of the two readings of a nested subresource; and every
  request of these operations is admitted under both readings. So the gateway can reach no other object,
  verb or namespace, and loses none of its functions. The identity bound to the Role is the one the gateway's Pod runs as.
\<close>

theorem gateway_role_exact:
  assumes "slash_free (nsNamespace (Names inst))" "slash_free (nsDesktop (Names inst))"
    and "dialPrepare lib host setup (nsNamespace (Names inst)) (nsDesktop (Names inst)) = Inr target"
  shows "(role_admits (GatewayRole inst) q \<longleftrightarrow>
      (\<exists>operation whole. \<exists>h \<in> set (gateway_sends lib host setup kube ulib dial inst w operation). requestInfo whole h = Some q)) \<and>
    (\<forall>operation whole. \<forall>h \<in> set (gateway_sends lib host setup kube ulib dial inst w operation). \<exists>q'. requestInfo whole h = Some q' \<and> role_admits (GatewayRole inst) q') \<and>
    rbRole (GatewayRoleBinding inst) = roleName (GatewayRole inst) \<and>
    rbSubject (GatewayRoleBinding inst) =
      (podServiceAccount (dpPod (GatewayDeployment inst img url)), dpNamespace (GatewayDeployment inst img url))"
proof -
  have proper: "slash_free (nsNamespace (Names inst)) \<and> slash_free (nsDesktop (Names inst))" using assms(1,2) by simp
  have sent: "gateway_sends lib host setup kube ulib dial inst w operation =
      [op_request operation (nsNamespace (Names inst)) (nsDesktop (Names inst))]" for operation
    unfolding gateway_sends_def by (rule op_requests_cluster [OF assms(3)])
  show ?thesis
    unfolding sent using gateway_access.exact [OF proper, of q] gateway_access.granted [OF proper]
    by (auto simp: GatewayRoleBinding_def GatewayRole_def GatewayDeployment_def Let_def)
qed

section \<open>The relay\<close>

text \<open>The HTTP request of each call of the relay.\<close>

definition relayRequest :: "relay_call \<Rightarrow> string \<times> string" where
  "relayRequest c =
     (case c of
        GetInstance namespace name \<Rightarrow>
          (''GET'', objectPath ''typeclaw.fml09.io'' ''v1alpha1'' ''typeclawinstances'' namespace name [])
      | DeletePod namespace name \<Rightarrow> (''DELETE'', objectPath '''' ''v1'' ''pods'' namespace name [])
      | PatchInstanceStatus namespace name \<Rightarrow>
          (''PATCH'', objectPath ''typeclaw.fml09.io'' ''v1alpha1'' ''typeclawinstances'' namespace name [''status'']))"

definition relay_own :: "TypeClawInstance \<Rightarrow> relay_call \<Rightarrow> bool" where
  "relay_own inst c \<longleftrightarrow>
     c \<in> {GetInstance (instNamespace inst) (instName inst), DeletePod (instNamespace inst) (instName inst @ ''-0''),
       PatchInstanceStatus (instNamespace inst) (instName inst)}"

lemma relayRequest_admitted:
  assumes "slash_free (instNamespace inst)" "slash_free (instName inst)" "relay_own inst c"
  shows "\<exists>q. requestInfo whole (relayRequest c) = Some q \<and> role_admits (RelayRole inst) q"
proof -
  have "slash_free (instName inst @ ''-0'')" using assms(2) by (simp add: slash_free_def)
  then show ?thesis
    using assms by (auto simp: relay_own_def relayRequest_def requestInfo_objectPath slash_free_def verb_of_def
        role_admits_def RelayRole_def rule_admits_def lists_def)
qed

interpretation relay_access: sufficient_role "RelayRole inst" "slash_free (instNamespace inst) \<and> slash_free (instName inst)"
    "\<lambda>c h. relay_own inst c \<and> h = relayRequest c" for inst
  by unfold_locales (metis relayRequest_admitted)

lemma relay_calls_rendered:
  assumes "relayRun (relay_environment expand inst runtimeID controlDir img) durationOf setup files = (started, calls)"
    and "\<forall>ns n i. suGet setup ns n = Inr i \<longrightarrow> instNamespace i = ns \<and> instName i = n"
  shows "list_all (relay_own inst) calls \<and>
    (\<forall>p. started = Inr p \<longrightarrow> process_inv lib p \<and> observes inst p \<and>
       wPodName (rpWatcher p) = instName inst @ ''-0'' \<and> wNamespace (rpWatcher p) = instNamespace inst)"
proof (cases "relayStart (relay_environment expand inst runtimeID controlDir img) durationOf")
  case (Inl err)
  then show ?thesis using assms(1) by (auto simp: relayRun_def)
next
  case (Inr b)
  obtain w interval name where b: "b = (w, interval, name)" by (cases b)
  note own = relayStart_rendered [OF Inr [unfolded b]]
  have "process_inv lib p \<and> observes inst p \<and> rpWatcher p = w"
    if "suGet setup (wNamespace w) name = Inr i" "p = startProcess env w interval i files" for i p and env
    unfolding that(2) using that(1) own assms(2) process_inv_start observes_start startProcess_watcher by metis
  then show ?thesis
    using assms(1) own Inr unfolding b relayRun_def relay_own_def by (auto split: option.splits sum.splits)
qed

text \<open>
  C40. The relay stays inside its Role and ends only when it is told to. Started with the environment of
  the rendered sidecar, in whatever order its two watchers poll, other containers write
  files, and the signal arrives: every request it ever sends is for its own Pod or its own Instance
  and is admitted by the rendered Role; a start that fails sends at most the read of that Instance;
  once started, it returns only after the signal, with exit status 0. The identity bound to
  the Role is the one the relay's token belongs to. (The hypotheses: names have no slash, and the API
  server answers with the object that was asked for.)
\<close>

theorem relay_confined:
  assumes "slash_free (instNamespace inst)" "slash_free (instName inst)"
    and "relayRun (relay_environment expand inst runtimeID controlDir img) durationOf setup files = (started, calls)"
    and "\<forall>ns n i. suGet setup ns n = Inr i \<longrightarrow> instNamespace i = ns \<and> instName i = n"
  shows "(\<forall>c \<in> set calls. \<exists>q. requestInfo whole (relayRequest c) = Some q \<and> role_admits (RelayRole inst) q) \<and>
    (\<forall>p es p'. started = Inr p \<longrightarrow> run (relayStep lib) p es p' \<longrightarrow> list_all answers_same es \<longrightarrow>
       (\<forall>c \<in> set (relayCalls p'). \<exists>q. requestInfo whole (relayRequest c) = Some q \<and> role_admits (RelayRole inst) q) \<and>
       (\<forall>r. rpResult p' = Some r \<longrightarrow> rpCancelled p' \<and> exitStatus isCanceled r = 0)) \<and>
    rbRole (RelayRoleBinding inst) = roleName (RelayRole inst) \<and>
    rbSubject (RelayRoleBinding inst) = (serviceAccountNameFor True inst, instNamespace inst)"
proof -
  note start = relay_calls_rendered [OF assms(3,4), of lib]
  note admitted = relayRequest_admitted [OF assms(1,2)]
  have running: "(\<forall>c \<in> set (relayCalls p'). relay_own inst c) \<and> (\<forall>r. rpResult p' = Some r \<longrightarrow> rpCancelled p' \<and> exitStatus isCanceled r = 0)"
    if "started = Inr p" "run (relayStep lib) p es p'" "list_all answers_same es" for p es p'
  proof -
    have p: "process_inv lib p" "observes inst p" "wPodName (rpWatcher p) = instName inst @ ''-0''"
      "wNamespace (rpWatcher p) = instNamespace inst"
      using start that(1) by simp_all
    have "relay_own inst c" if "c \<in> set (relayCalls p')" for c
      using relay_calls_own [OF \<open>run (relayStep lib) p es p'\<close> p(1,2) \<open>list_all answers_same es\<close>] that p(3,4)
      by (auto simp: relay_own_def)
    moreover have "rpCancelled p' \<and> exitStatus isCanceled r = 0" if "rpResult p' = Some r" for r
      using relay_loops.run_inv [OF \<open>run (relayStep lib) p es p'\<close> p(1)] that by (simp add: process_inv_def exitStatus_def)
    ultimately show ?thesis by blast
  qed
  show ?thesis
  proof (intro conjI ballI allI impI)
    show "\<exists>q. requestInfo whole (relayRequest c) = Some q \<and> role_admits (RelayRole inst) q" if "c \<in> set calls" for c
      using start that by (intro admitted) (simp add: list_all_iff)
  next
    fix p es p'
    assume run: "started = Inr p" "run (relayStep lib) p es p'" "list_all answers_same es"
    show "\<exists>q. requestInfo whole (relayRequest c) = Some q \<and> role_admits (RelayRole inst) q" if "c \<in> set (relayCalls p')" for c
      using running [OF run] that by (intro admitted) simp
    show "rpCancelled p'" "exitStatus isCanceled r = 0" if "rpResult p' = Some r" for r
      using running [OF run] that by simp_all
  qed (simp_all add: RelayRoleBinding_def RelayRole_def serviceAccountNameFor_def)
qed

section \<open>Witnesses\<close>

definition quiet_kube :: "(unit, unit, string) kube_rest" where
  "quiet_kube = \<lparr>DynamicGet = (\<lambda>_ _ _ w. (Inl ''timeout'', w)), VerbDo = (\<lambda>_ _ w. (None, w)),
     VerbStream = (\<lambda>_ _ _ w. (Inl ''timeout'', w)), DecodeFailed = (\<lambda>_. ''decode'')\<rparr>"

definition quiet_objects :: "(unit, unit, string) unstructured_lib" where
  "quiet_objects = \<lparr>GetUID = (\<lambda>_. ''u''), HasDeletionTimestamp = (\<lambda>_. False), NestedString = (\<lambda>_ _. Inr None),
     NestedSlice = (\<lambda>_ _. Inr None), AsMap = (\<lambda>_. None)\<rparr>"

definition api_net :: netlib where
  "api_net = \<lparr>urlParse = (\<lambda>s. Some \<lparr>Scheme = ''https'', urlHost = s, Hostname = s, hasUser = False, urlPath = '''',
       RawQuery = '''', Fragment = ''''\<rparr>), ipIsLoopback = (\<lambda>_. False), SplitHostPort = (\<lambda>s. Some s),
     timeParseDuration = (\<lambda>_. None)\<rparr>"

definition good_setup :: "string dial_setup" where
  "good_setup = \<lparr>tlsConfig = None, httpWrappers = None, newRequestErr = None\<rparr>"

abbreviation sample_sends :: "kube_op \<Rightarrow> (string \<times> string) list" where
  "sample_sends \<equiv> gateway_sends api_net (Some ''api'') good_setup quiet_kube quiet_objects (\<lambda>_ _ w. (None, w)) desktop_inst ()"

lemma sample_trims: "TrimSpace ''api'' = ''api''" "TrimSpace ''n'' = ''n''" "TrimSpace ''i-0'' = ''i-0''" "TrimSpace ''r'' = ''r''"
  by (simp_all add: TrimSpace_visible visible_def)

lemma sample_dial: "\<exists>target. dialPrepare api_net (Some ''api'') good_setup namespace name = Inr target"
  by (simp add: dialPrepare_def vncURL_def api_net_def good_setup_def Let_def sample_trims)

lemma desktop_names: "nsNamespace (Names desktop_inst) = ''d''" "nsDesktop (Names desktop_inst) = ''i-desktop''"
  by (simp_all add: Names_def Let_def)

theorem gateway_role_exact_witness:
  "\<not> role_admits (GatewayRole desktop_inst) (op_attributes True OpStop ''d'' ''other-desktop'') \<and>
   \<not> (\<exists>operation whole. \<exists>h \<in> set (sample_sends operation).
        requestInfo whole h = Some (op_attributes True OpStop ''d'' ''other-desktop''))"
proof -
  have slashes: "slash_free (nsNamespace (Names desktop_inst))" "slash_free (nsDesktop (Names desktop_inst))"
    by (simp_all add: desktop_names slash_free_def)
  obtain target where "dialPrepare api_net (Some ''api'') good_setup (nsNamespace (Names desktop_inst)) (nsDesktop (Names desktop_inst)) = Inr target"
    using sample_dial by blast
  note exact = gateway_role_exact [OF slashes this]
  have "\<not> role_admits (GatewayRole desktop_inst) (op_attributes True OpStop ''d'' ''other-desktop'')"
    by (simp add: role_admits_def GatewayRole_def rule_admits_def op_attributes_def desktop_names Let_def)
  with exact [of _ quiet_kube quiet_objects "\<lambda>_ _ w. (None, w)" "()"] show ?thesis by blast
qed

definition answering_setup :: "string relay_setup" where
  "answering_setup = \<lparr>suAddKube = None, suAddTypeclaw = None, suNewClient = None,
     suGet = (\<lambda>ns n. Inr ((sample_inst (sample_istatus None))\<lparr>instNamespace := ns, instName := n\<rparr>))\<rparr>"

definition string_relay :: "string relay_lib" where
  "string_relay = \<lparr>rlFails = (\<lambda>_ _. False), rlDeletePod = (\<lambda>_ _ _. None), rlIsNotFound = (\<lambda>_. False),
     rlDecode = (\<lambda>_. Some \<lparr>SchemaVersion = 1, rrKind = ''restart'', RequestID = ''a'', rrRuntimeID = ''r'', RequestedAt = ''''\<rparr>)\<rparr>"

abbreviation sample_relay_env :: "string \<Rightarrow> string" where
  "sample_relay_env \<equiv> relay_environment (\<lambda>_ x. x) desktop_inst ''r'' ''c'' ''img''"

lemma sample_relay_texts: "sample_relay_env ''TYPECLAW_RUNTIME_ID'' = ''r''" "sample_relay_env ''TYPECLAW_MANAGED_CONTROL_DIR'' = ''c''"
  by (simp_all add: relay_environment_def pod_fields_def getenv_def RelaySidecar_def)

lemma sample_relayRun:
  "relayRun sample_relay_env (\<lambda>_. None) answering_setup [(''c/restart-1.json'', ''x'')] =
     (Inr (startProcess sample_relay_env sample_watcher DefaultInterval
        ((sample_inst (sample_istatus None))\<lparr>instNamespace := ''n'', instName := ''i''\<rparr>) [(''c/restart-1.json'', ''x'')]),
      [GetInstance ''n'' ''i''])"
  by (simp add: relayRun_def relayStart_def Let_def relay_environment_values sample_relay_texts intervalFromEnv_def envOr_def
      answering_setup_def sample_watcher_def TrimSuffix_def HasSuffix_def sample_trims)

text \<open>A relay that serves one restart request, is signalled and returns.\<close>

definition served :: "string relay_process" where
  "served = (startProcess sample_relay_env sample_watcher DefaultInterval
      ((sample_inst (sample_istatus None))\<lparr>instNamespace := ''n'', instName := ''i''\<rparr>) [(''c/restart-1.json'', ''x'')])
    \<lparr>rpFiles := pollOnce string_relay sample_watcher \<lparr>rsFiles = [(''c/restart-1.json'', ''x'')], rsLog = []\<rparr>,
     rpCancelled := True, rpWatching := False, rpResult := Some (RunEnded Canceled)\<rparr>"

lemmas proc_Cons = run_Cons [where step = "relayStep lib" for lib]
lemmas proc_Nil = run_Nil [where step = "relayStep lib" for lib]

lemma served_run:
  "run (relayStep string_relay) (startProcess sample_relay_env sample_watcher DefaultInterval
      ((sample_inst (sample_istatus None))\<lparr>instNamespace := ''n'', instName := ''i''\<rparr>) [(''c/restart-1.json'', ''x'')])
    [PollTick, Signal, WatcherStops, RunReturns] served"
  using proc_Cons [OF pollTick proc_Cons [OF signal proc_Cons [OF watcherStops proc_Cons [OF runReturns proc_Nil]]],
      of "startProcess sample_relay_env sample_watcher DefaultInterval
        ((sample_inst (sample_istatus None))\<lparr>instNamespace := ''n'', instName := ''i''\<rparr>) [(''c/restart-1.json'', ''x'')]"
        string_relay "RunEnded Canceled" "[]"]
  by (simp add: startProcess_def served_def Let_def)

lemma served_calls: "relayCalls served = [DeletePod ''n'' ''i-0'']"
  by (simp add: relayCalls_def deleteCalls_def served_def startProcess_def Let_def pollOnce_def pollMatches_def isDrop_def
      string_relay_def sample_watcher_def HasSuffix_def consume_def readFile_def statFile_def restartAccepted_def
      ContainsAny_def consumedPath_def archive_def note_event_def)

theorem relay_confined_witness:
  "rpResult served = Some (RunEnded Canceled) \<and> exitStatus (\<lambda>_. False) (RunEnded Canceled :: string run_result) = 0 \<and>
   (\<exists>q. requestInfo False (relayRequest (DeletePod ''n'' ''i-0'')) = Some q \<and> role_admits (RelayRole desktop_inst) q)"
proof -
  have slashes: "slash_free (instNamespace desktop_inst)" "slash_free (instName desktop_inst)"
    by (simp_all add: slash_free_def)
  have answers: "\<forall>ns n i. suGet answering_setup ns n = Inr i \<longrightarrow> instNamespace i = ns \<and> instName i = n"
    by (auto simp: answering_setup_def)
  have steps: "list_all answers_same [PollTick, Signal, WatcherStops, RunReturns]" by (simp add: answers_same_def)
  have result: "rpResult served = Some (RunEnded Canceled)" by (simp add: served_def)
  show ?thesis
    using relay_confined [OF slashes sample_relayRun answers, of False string_relay "\<lambda>_. False"] served_run steps result
      served_calls by (metis list.set_intros(1))
qed

end
