(* ===== verification/Runner_Env.thy ===== *)
theory Runner_Env
  imports Credential_Props
begin

text \<open>
  The Job the controller renders for a request (\<^verbatim>\<open>internal/resources/credential.go\<close>) and the process that
  runs in it (\<^verbatim>\<open>cmd/credential-runner/main.go\<close>) put together: what the process is told to do by its
  environment, and which file it reads the credential from.
\<close>

section \<open>Environment and files of the Runner\<close>

definition runner_environment :: "((string \<rightharpoonup> string) \<Rightarrow> string \<Rightarrow> string) \<Rightarrow> job \<Rightarrow> string \<Rightarrow> string" where
  "runner_environment expand j =
     getenv (container_env expand (\<lambda>_. None) (concat (map ctEnv (podContainers (jobPod j)))) Map.empty)"

text \<open>The files of the Secret volumes a Pod's containers mount; \<open>secretData\<close> is the content of a key of a Secret.\<close>

definition secret_items :: "(string \<Rightarrow> string \<Rightarrow> string option) \<Rightarrow> string \<Rightarrow> volume \<Rightarrow> (string \<times> string option) list" where
  "secret_items secretData path v =
     (case volSource v of
        SecretVolume name items mode \<Rightarrow> map (\<lambda>(key, file). (path @ ''/'' @ file, secretData name key)) items
      | _ \<Rightarrow> [])"

definition secret_files :: "(string \<Rightarrow> string \<Rightarrow> string option) \<Rightarrow> job \<Rightarrow> string \<Rightarrow> string option" where
  "secret_files secretData j path =
     (case map_of (concat (map (\<lambda>m. concat (map (secret_items secretData (mountPath m))
             (filter (\<lambda>v. volName v = mountName m) (podVolumes (jobPod j)))))
          (concat (map ctMounts (podContainers (jobPod j)))))) path of
        None \<Rightarrow> None
      | Some content \<Rightarrow> content)"

text \<open>What performing one typed operation with a credential amounts to.\<close>

definition performed :: "github_lib \<Rightarrow> string option \<Rightarrow> string \<Rightarrow> string \<Rightarrow> string \<Rightarrow> RunnerResult" where
  "performed lib credential repository title issueText =
     (let failed = (\<lambda>c. \<lparr>rrResult = None, rrErrorCode = c\<rparr>) in
      case credential of
        None \<Rightarrow> failed ErrorCodeCredentialUnavailable
      | Some token \<Rightarrow>
         (case snd (CreateIssue lib '''' (TrimSpace token) repository title issueText) of
            Inl ErrUpstream \<Rightarrow> failed ErrorCodeNetworkUnavailable
          | Inl _ \<Rightarrow> failed ErrorCodeRunnerFailed
          | Inr issue \<Rightarrow> \<lparr>rrResult = Some issue, rrErrorCode = ''''\<rparr>))"

section \<open>The Runner performs the request\<close>

lemma repository_no_dollar:
  assumes "ValidateGitHubCreateIssue repository title issueText = None"
  shows "CHR ''$'' \<notin> set repository"
proof -
  obtain owner name where parts: "repository = owner @ ''/'' @ name" "validRepositoryPart owner" "validRepositoryPart name"
    using repository_parts [OF assms] by blast
  have "CHR ''$'' \<notin> set part" if "validRepositoryPart part" for part
    using that by (auto simp: validRepositoryPart_def list_all_iff repository_char_def split: if_splits)
  with parts show ?thesis by simp
qed

text \<open>The variables of the rendered Job, when the title has no dollar sign; the body is expanded as it is.\<close>

lemma runner_variables:
  assumes job: "CredentialRunnerJob inst request = Inr j" and law: "expansion_law expand"
    and title: "CHR ''$'' \<notin> set (specTitle (rqSpec request))"
  obtains env where
    "runner_environment expand j ''TYPECLAW_CREDENTIAL_OPERATION'' = CredentialOperationGitHubCreateIssue"
    "runner_environment expand j ''TYPECLAW_GITHUB_REPOSITORY'' = specRepository (rqSpec request)"
    "runner_environment expand j ''TYPECLAW_GITHUB_TITLE'' = specTitle (rqSpec request)"
    "runner_environment expand j ''TYPECLAW_GITHUB_BODY'' = expand env (specBody (rqSpec request))"
    "runner_environment expand j ''TYPECLAW_CREDENTIAL_FILE'' = ''/var/run/typeclaw/credential/token''"
proof -
  have plain: "\<And>env s. CHR ''$'' \<notin> set s \<Longrightarrow> expand env s = s" using law by (simp add: expansion_law_def)
  have containers: "podContainers (jobPod j) = [runnerContainer inst request]"
    and operation: "specOperation (rqSpec request) = CredentialOperationGitHubCreateIssue"
    using job by (auto simp: CredentialRunnerJob_def Let_def split: option.splits if_splits)
  note repo = repository_no_dollar [OF runner_job_facts(7) [OF job]]
  show thesis
    by (rule that) (simp_all add: runner_environment_def containers runnerContainer_def getenv_def operation plain repo title)
qed

lemma runner_credential:
  assumes "CredentialRunnerJob inst request = Inr j"
  shows "secret_files secretData j ''/var/run/typeclaw/credential/token'' =
    secretData (refName (specSecretBinding (rqSpec request))) (refKey (specSecretBinding (rqSpec request)))"
  using assms
  by (auto simp: CredentialRunnerJob_def Let_def secret_files_def secret_items_def runnerContainer_def
      split: option.splits if_splits)

lemma runner_outcome:
  assumes job: "CredentialRunnerJob inst request = Inr j" and law: "expansion_law expand"
    and title: "CHR ''$'' \<notin> set (specTitle (rqSpec request))"
    and expanded: "\<And>env. expand env (specBody (rqSpec request)) = issueText"
    and shorter: "length issueText \<le> length (specBody (rqSpec request))" "set issueText \<subseteq> set (specBody (rqSpec request))"
  shows "runnerOutcome lib (runner_environment expand j) (secret_files secretData j) =
    performed lib (secretData (refName (specSecretBinding (rqSpec request))) (refKey (specSecretBinding (rqSpec request))))
      (specRepository (rqSpec request)) (specTitle (rqSpec request)) issueText"
proof (rule runner_variables [OF job law title])
  fix env
  assume vars: "runner_environment expand j ''TYPECLAW_CREDENTIAL_OPERATION'' = CredentialOperationGitHubCreateIssue"
    "runner_environment expand j ''TYPECLAW_GITHUB_REPOSITORY'' = specRepository (rqSpec request)"
    "runner_environment expand j ''TYPECLAW_GITHUB_TITLE'' = specTitle (rqSpec request)"
    "runner_environment expand j ''TYPECLAW_GITHUB_BODY'' = expand env (specBody (rqSpec request))"
    "runner_environment expand j ''TYPECLAW_CREDENTIAL_FILE'' = ''/var/run/typeclaw/credential/token''"
  have "ValidateGitHubCreateIssue (specRepository (rqSpec request)) (specTitle (rqSpec request)) issueText = None"
    using runner_job_facts(7) [OF job] shorter by (auto simp: ValidateGitHubCreateIssue_def Let_def split: if_splits)
  then show ?thesis
    unfolding runnerOutcome_def vars expanded
    by (simp add: Let_def runner_credential [OF job] performed_def split: option.split)
qed

text \<open>
  C21. The Runner performs the request it was started for: the process in the rendered Job, with the
  environment the kubelet makes of it, does exactly what creating the issue of the request's
  repository, title and body with the credential under the policy's Secret binding amounts to, and
  reads no other Secret; this holds for texts without a dollar sign. A body in which two dollar
  signs follow each other is not performed as it was requested and approved: Kubernetes expands literal values, so
  the issue is created with one of them. (The hypothesis is the documented expansion.)
\<close>

theorem runner_performs_request:
  assumes "CredentialRunnerJob inst request = Inr j" and "expansion_law expand"
    and "CHR ''$'' \<notin> set (specTitle (rqSpec request))"
  shows "(CHR ''$'' \<notin> set (specBody (rqSpec request)) \<longrightarrow>
      runnerOutcome lib (runner_environment expand j) (secret_files secretData j) =
      performed lib (secretData (refName (specSecretBinding (rqSpec request))) (refKey (specSecretBinding (rqSpec request))))
        (specRepository (rqSpec request)) (specTitle (rqSpec request)) (specBody (rqSpec request))) \<and>
    (\<forall>a b. specBody (rqSpec request) = a @ ''$$'' @ b \<and> CHR ''$'' \<notin> set (a @ b) \<longrightarrow>
      runnerOutcome lib (runner_environment expand j) (secret_files secretData j) =
      performed lib (secretData (refName (specSecretBinding (rqSpec request))) (refKey (specSecretBinding (rqSpec request))))
        (specRepository (rqSpec request)) (specTitle (rqSpec request)) (a @ ''$'' @ b)) \<and>
    (\<exists>policy. ciPolicy inst = Some policy \<and> specSecretBinding (rqSpec request) = policySecret policy)"
proof (intro conjI impI allI)
  show "runnerOutcome lib (runner_environment expand j) (secret_files secretData j) =
      performed lib (secretData (refName (specSecretBinding (rqSpec request))) (refKey (specSecretBinding (rqSpec request))))
        (specRepository (rqSpec request)) (specTitle (rqSpec request)) (specBody (rqSpec request))"
    if "CHR ''$'' \<notin> set (specBody (rqSpec request))"
    using that assms(2) by (intro runner_outcome [OF assms]) (simp_all add: expansion_law_def)
  fix a b
  assume dollars: "specBody (rqSpec request) = a @ ''$$'' @ b \<and> CHR ''$'' \<notin> set (a @ b)"
  have "expand env (a @ ''$$'' @ b) = a @ ''$'' @ b" for env
    using dollars assms(2) unfolding expansion_law_def by (metis UnI1 UnI2 set_append)
  with dollars show "runnerOutcome lib (runner_environment expand j) (secret_files secretData j) =
      performed lib (secretData (refName (specSecretBinding (rqSpec request))) (refKey (specSecretBinding (rqSpec request))))
        (specRepository (rqSpec request)) (specTitle (rqSpec request)) (a @ ''$'' @ b)"
    by (intro runner_outcome [OF assms]) auto
qed (rule runner_job_facts(8) [OF assms(1)])

section \<open>Witness\<close>

definition dollar_rq :: CredentialRequest where
  "dollar_rq = (sample_rq unset_status)\<lparr>rqSpec := sample_spec\<lparr>specBody := ''a$$b''\<rparr>\<rparr>"

theorem runner_performs_request_witness:
  "\<exists>j. CredentialRunnerJob sample_instance dollar_rq = Inr j \<and>
     runnerOutcome sample_github (runner_environment expandRefs j) (secret_files (\<lambda>_ _. Some ''k'') j) =
       performed sample_github (Some ''k'') ''a/b'' ''t'' ''a$b''"
proof -
  have "ValidateGitHubCreateIssue ''a/b'' ''t'' ''a$$b'' = None"
    by (simp add: ValidateGitHubCreateIssue_def validRepositoryPart_def repository_char_def)
  then obtain j where j: "CredentialRunnerJob sample_instance dollar_rq = Inr j"
    by (simp add: CredentialRunnerJob_def dollar_rq_def sample_policy_def sample_ref_def ValidateSecretBinding_def)
  have "CHR ''$'' \<notin> set (specTitle (rqSpec dollar_rq))" by (simp add: dollar_rq_def)
  note two = runner_performs_request [OF j expandRefs_law this, THEN conjunct2, THEN conjunct1, rule_format, of "''a''" "''b''"]
  have "specBody (rqSpec dollar_rq) = ''a'' @ ''$$'' @ ''b'' \<and> CHR ''$'' \<notin> set (''a'' @ ''b'')"
    by (simp add: dollar_rq_def)
  with two [of sample_github "\<lambda>_ _. Some ''k''"] j show ?thesis by (auto simp: dollar_rq_def)
qed

end
