(* ===== verification/Spec2Isabelle.thy ===== *)
theory Spec2Isabelle
  imports Control_Props Gateway_Props Credential_Props AutoUpdate_Props Workload_Props Backup
    Network Instance_Control Relay
    VNC_Stream Gateway_Server Desktop_Config Desktop_Converge Manager Access Runner_Env
begin

text \<open>
  Verification development for \<^bold>\<open>typeclaw-operator\<close>, a Kubernetes operator that runs TypeClaw agent
  Instances, keeps backups and rollouts of them, brokers credentials for them, and gives each of them
  a Personal Desktop (a KubeVirt virtual machine behind a gateway process).

  \<^bold>\<open>The parts of the program and how they interact.\<close>

  \<^item> The API types (\<^verbatim>\<open>api/v1alpha1\<close>): TypeClawInstance, CredentialRequest and CredentialApproval.
    Every controller reads the Instance's spec and writes a part of its status.
  \<^item> The operator (\<^verbatim>\<open>internal/controller\<close>): controllers for the Instance, its backups, its automatic
    updates, its network policy, its desktop and its credential requests. They call the renderers of
    \<^verbatim>\<open>internal/resources\<close> and \<^verbatim>\<open>internal/desktop\<close>, which turn a spec into Kubernetes objects, and the
    registry client of \<^verbatim>\<open>internal/update\<close>.
  \<^item> The credential path (\<^verbatim>\<open>internal/credential\<close>, \<^verbatim>\<open>cmd/credential-runner\<close>): the broker accepts a
    typed request from a SPIFFE identity and stores it under the digest of a ticket; the controller
    checks policy and approval, consumes the ticket and starts one Runner Job; the Runner performs the
    GitHub call and reports through its termination message.
  \<^item> The Desktop Gateway (\<^verbatim>\<open>internal/desktopgateway\<close>, \<^verbatim>\<open>cmd/desktop-gateway\<close>): a separate process with one
    listener for the agent and one for humans; a registry decides who holds the input of the desktop
    and whether it may be powered; screenshots and console streams are proxied to KubeVirt.
  \<^item> The relay (\<^verbatim>\<open>internal/relay\<close>, \<^verbatim>\<open>cmd/relay\<close>): a sidecar of the runtime Pod that deletes its own Pod on
    request and reports changes of the agent's configuration into the Instance's status.
  \<^item> The manager (\<^verbatim>\<open>cmd/manager\<close>): the process that starts the controllers and the broker.

  \<^bold>\<open>Theories, and the code each models.\<close>

  \<^item> \<^verbatim>\<open>Prelude\<close>: Go's maps (locale \<^verbatim>\<open>map_interface\<close>, interpreted on the association lists used
    throughout), the functions of Go's \<^verbatim>\<open>strings\<close> and \<^verbatim>\<open>strconv\<close> that the code calls, 64-bit wrap-around,
    HTTP and JSON values, call logs; runs of step relations with the locales \<^verbatim>\<open>event_invariant\<close> (what
    every run keeps) and \<^verbatim>\<open>event_progress\<close> (a run that is bound to end); and the locales \<^verbatim>\<open>coding\<close> and
    \<^verbatim>\<open>coding_chain\<close> for encodings that a decoder undoes (slash-separated paths, tickets, the contents of guest files).
  \<^item> \<^verbatim>\<open>Control\<close>, \<^verbatim>\<open>Control_Steps\<close>, \<^verbatim>\<open>Control_Props\<close>: the registry of input leases and power
    operations (\<^verbatim>\<open>desktopgateway/control.go\<close>). Each critical section of a method is one function on
    the record \<^verbatim>\<open>controlRegistry\<close>; \<^verbatim>\<open>step\<close> interleaves the critical sections of all goroutines and
    the invariants hold in every reachable state.
  \<^item> \<^verbatim>\<open>Kube\<close>, \<^verbatim>\<open>Power_Dispatch\<close>: decoding of KubeVirt objects (\<^verbatim>\<open>kubevirt.go\<close>) and the outcome of
    power verbs (\<^verbatim>\<open>power.go\<close>), over a client that acts on an abstract world.
  \<^item> \<^verbatim>\<open>Auth\<close>: configuration and authentication (\<^verbatim>\<open>config.go\<close>, \<^verbatim>\<open>auth.go\<close>). \<^verbatim>\<open>Screenshot\<close>: the image
    pipeline (\<^verbatim>\<open>screenshot.go\<close>). \<^verbatim>\<open>Gateway\<close>, \<^verbatim>\<open>Gateway_Props\<close>: every handler and both routers
    (\<^verbatim>\<open>gateway.go\<close>, the handler of \<^verbatim>\<open>vnc.go\<close>, \<^verbatim>\<open>server.go\<close>), with the other goroutines as an argument
    that changes the registry between the critical sections of a handler.
  \<^item> \<^verbatim>\<open>Credential\<close>: types, validation, policy, tickets, result channel, GitHub client, Runner process.
    \<^verbatim>\<open>Broker\<close>: the HTTP broker. \<^verbatim>\<open>Credential_Runner\<close>: the Runner's manifests. \<^verbatim>\<open>Credential_Controller\<close>:
    the controller as a program over the log of its cluster calls. \<^verbatim>\<open>Credential_Steps\<close>: a logic for
    such programs when they may stop after any call. \<^verbatim>\<open>Credential_Props\<close>: the properties.
    \<^verbatim>\<open>Runner_Env\<close>: the rendered Job and the process that runs in it, put together.
  \<^item> \<^verbatim>\<open>Instance\<close>: the TypeClawInstance resource, status conditions, runtime image selection.
    \<^verbatim>\<open>Update\<close>: the registry client and both version comparators (locale \<^verbatim>\<open>version_order\<close>, interpreted
    for each; locale \<^verbatim>\<open>slice_sort\<close> for \<^verbatim>\<open>sort.Slice\<close>). \<^verbatim>\<open>AutoUpdate\<close>, \<^verbatim>\<open>AutoUpdate_Props\<close>: the
    rollout state machine of \<^verbatim>\<open>autoupdate_controller.go\<close>.
  \<^item> \<^verbatim>\<open>Desktop_Names\<close>: names, defaults, preconditions, console address and tokens of a desktop
    (\<^verbatim>\<open>internal/desktop/{names,defaults,preconditions,ingress,tokens}.go\<close>).
  \<^item> \<^verbatim>\<open>Pods\<close>: the Kubernetes object model and the environment a container gets. \<^verbatim>\<open>Workload\<close>, \<^verbatim>\<open>Workload_Props\<close>: StatefulSet, Service, relay
    attachment and backup workloads (\<^verbatim>\<open>internal/resources\<close>). \<^verbatim>\<open>Backup\<close>: \<^verbatim>\<open>backup_controller.go\<close>.
  \<^item> \<^verbatim>\<open>Network\<close>: the network policies of an Instance and of a gateway with the address blocks they carve
    out, and their controller (\<^verbatim>\<open>resources/networkpolicy.go\<close>, \<^verbatim>\<open>desktop/networkpolicy.go\<close>, \<^verbatim>\<open>netblocks.go\<close>,
    \<^verbatim>\<open>networkpolicy_controller.go\<close>). \<^verbatim>\<open>Instance_Control\<close>: \<^verbatim>\<open>typeclawinstance_controller.go\<close>.
  \<^item> \<^verbatim>\<open>Relay\<close>: the two watchers of the relay (\<^verbatim>\<open>watch.go\<close>, \<^verbatim>\<open>config.go\<close>) over a log of file and cluster
    operations. \<^verbatim>\<open>Relay_Process\<close>: \<^verbatim>\<open>cmd/relay/main.go\<close>, the loops around the watchers, the signal and the
    exit status as a step relation, started with the environment of the rendered sidecar.
  \<^item> \<^verbatim>\<open>VNC_Stream\<close>: the KubeVirt client (\<^verbatim>\<open>kubevirtclient.go\<close>), the websocket adapters and copy loops of
    the console, the goroutines of the dial and of the relay in \<^verbatim>\<open>vnc.go\<close> as step relations.
    \<^verbatim>\<open>Gateway_Server\<close>: binding, serving and shutting down (\<^verbatim>\<open>server.go\<close>, \<^verbatim>\<open>cmd/desktop-gateway/main.go\<close>).
  \<^item> \<^verbatim>\<open>Desktop_Objects\<close>: the virtual machine, its volumes and every object of the gateway
    (\<^verbatim>\<open>internal/desktop/{kubevirt,datavolume,vm,gateway,ingress,extension}.go\<close>). \<^verbatim>\<open>Guest_Payload\<close>: the
    cloud-init document and the Windows answer file (\<^verbatim>\<open>cloudinit.go\<close>, \<^verbatim>\<open>sysprep.go\<close>). \<^verbatim>\<open>Desktop_Config\<close>:
    the rendered environment read by the gateway's own loader.
  \<^item> \<^verbatim>\<open>Desktop_Control\<close>: \<^verbatim>\<open>personaldesktop_controller.go\<close> as a program of effects on the cluster, each
    of which may fail. \<^verbatim>\<open>Desktop_Control_Props\<close>: what every prefix of a reconciliation keeps.
    \<^verbatim>\<open>Desktop_Converge\<close>: the declared manifest of a desktop, which a pass refines.
  \<^item> \<^verbatim>\<open>Manager\<close>: \<^verbatim>\<open>cmd/manager/main.go\<close>, what each controller watches, and the TLS server of the broker.
  \<^item> \<^verbatim>\<open>Access\<close>: the rendered Roles against the requests of the programs that run under them (locales
    \<^verbatim>\<open>sufficient_role\<close> and \<^verbatim>\<open>exact_role\<close>, interpreted for the relay and for the gateway).

  \<^bold>\<open>Conventions.\<close> A Go struct is a record, an enumeration a datatype, a pointer an option, a Go
  map an association list, a string a list of bytes, a slice a list. A function that may fail returns a sum whose
  left side is the error; every early return of the source is a branch. Code outside the repository
  (the Kubernetes API, HTTP, JSON, SHA-256, image codecs, URL parsing, random numbers, clocks,
  \<^verbatim>\<open>sort.Slice\<close>) is an argument of the definitions that use it, and what is assumed of it is a named
  hypothesis of the theorem.

  \<^bold>\<open>Bounds and fuel.\<close> Loops of the code are structural recursion, functions with a termination proof
  (the quality and width loops of \<^verbatim>\<open>Screenshot\<close>, \<^verbatim>\<open>strings.ReplaceAll\<close> and the reading of runes), or, where ending depends on
  a peer, \<^verbatim>\<open>partial_function (option)\<close>: the read and copy loops of \<^verbatim>\<open>VNC_Stream\<close>, which C34 proves to return
  whenever the connection delivers finitely many messages. Two functions count down the length of their argument, which
  bounds their steps because each consumes a part of it: trimming of white space (\<^verbatim>\<open>Prelude\<close>) and the
  specification's reader of a cloud-init document (\<^verbatim>\<open>Guest_Payload\<close>). Goroutines that run until they are told to stop are
  step relations; that they end is proved by a measure (\<^verbatim>\<open>event_progress\<close>). Numbers are kept at their width where
  the code may leave it: lease generations are 64-bit words, durations of the rollout and revisions wrap at 64
  bits, and \<^verbatim>\<open>Atoi\<close> rejects what does not fit. Times are integers.

  \<^bold>\<open>What the properties show.\<close> C1 to C4: input leases are exclusive, excluded by power operations, and
  unavailable after an unknown power outcome or a drain. C5 to C8: a reconciliation of a desktop, stopped
  anywhere, leaves no orphan and loses no data; one that succeeds leaves exactly the declared manifest, and a
  further one changes nothing. C9 to C15: who may change anything through either listener, what a power
  request leaves behind, that console sessions return their lease and screenshots keep their limits. C16 to
  C21: at most one Runner per request in spite of crashes, a policy that fails closed, ticket and result
  round trips, the fixed GitHub endpoint, and that the Runner performs the request it was started for. C22 to C25: candidate
  selection, the rollout record, the guards of every image patch; the list of conditions refines a map.
  C26 to C28: every rendered Pod is confined, the restore argument stays one literal shell word, restores are
  guarded and happen once. C29 to C33: what a network policy admits, how the two policies fit, what a
  reconciliation of an Instance applies, that a restart happens once, and that a failed report is lost.
  C34 to C36: console bytes arrive complete and in order, a lost lease ends the relay and its
  goroutines, and no connection leaks. C37, C38: the gateway loads the environment the operator renders, and
  a cloud-init document reads back as what it was rendered from. C39, C40: the gateway's Role is exactly what
  its client needs, and the relay stays inside its Role and ends only on a signal.

  \<^bold>\<open>Limits of the model.\<close> Letter case is folded for ASCII only. Stored times keep their precision
  (the API server truncates to seconds). Contexts and timers are inputs that say whether they
  fired. Error values keep their identity and prefix, not the exact wrapped text. Resource
  quantities are integers. Formatted quotation (\<^verbatim>\<open>%q\<close>) is written for printable strings.

  \<^bold>\<open>Not modelled.\<close> Generated deep copies and scheme registration (no decisions); embedded files and the
  markers from which the operator's own cluster role is generated (comments); loggers, metrics and
  flag parsing; the unused function \<^verbatim>\<open>topLevelValueDigests\<close> of \<^verbatim>\<open>config.go\<close>. The embedded guest scripts and the
  parsed answer-file template are arguments of the definitions that render them.
\<close>

end
